(* ===== verification/Prelude.thy ===== *)
theory Prelude
  imports Main "HOL-Library.Word"
begin

text \<open>
  Shared vocabulary of the development.

  \<^item> Go strings and byte slices are both \<open>string\<close>: a \<open>char\<close> is one byte.
  \<^item> \<open>int64\<close> values (\<open>time.Duration\<close>, Unix seconds, generations) are \<open>int\<close> with the
    two's complement wrap-around \<open>wrap64\<close> and the saturation \<open>sat64\<close> written where the
    code or the Go library applies them.
  \<^item> A Go \<open>error\<close> is a \<open>go_error\<close>: a sentinel made by \<open>errors.New\<close>, an error that comes
    from a library (with a class name and its text), or the result of \<open>fmt.Errorf\<close>, kept as
    the list of the format's parts so that both \<open>errors.Is\<close> (which follows the \<open>%w\<close> parts) and
    the text can be computed from it.  A Go function that returns only an \<open>error\<close> returns
    \<open>go_error option\<close> here (\<open>None\<close> is \<open>nil\<close>); one that returns a value and an error
    returns \<open>go_error + 'a\<close>.
\<close>

named_theorems go_defs \<open>definitions of the Go library model, unfolded together\<close>
named_theorems err_simps \<open>how errors.Is sees the sentinels and the wrapped errors\<close>

type_synonym bytes = string

subsection \<open>Machine integers\<close>

definition int64_min :: int where "int64_min = - (2 ^ 63)"

definition int64_max :: int where "int64_max = 2 ^ 63 - 1"

definition in64 :: "int \<Rightarrow> bool" where
  "in64 x \<longleftrightarrow> int64_min \<le> x \<and> x \<le> int64_max"

text \<open>Go's \<open>int64\<close> arithmetic wraps around; \<open>time.Time.Sub\<close> saturates.\<close>

definition wrap64 :: "int \<Rightarrow> int" where
  "wrap64 x = (x + 2 ^ 63) mod 2 ^ 64 - 2 ^ 63"

definition sat64 :: "int \<Rightarrow> int" where
  "sat64 x = (if x < int64_min then int64_min else if int64_max < x then int64_max else x)"

lemmas int64_defs = int64_min_def int64_max_def in64_def wrap64_def sat64_def

lemma wrap64_in64 [simp]: "in64 x \<Longrightarrow> wrap64 x = x"
  by (simp add: int64_defs)

lemma in64_wrap64: "in64 (wrap64 x)"
  using pos_mod_bound [of "2 ^ 64" "x + 2 ^ 63"] pos_mod_sign [of "2 ^ 64" "x + 2 ^ 63"]
  by (simp add: int64_defs)

lemma in64_sat64: "in64 (sat64 x)"
  by (simp add: int64_defs)

lemma sat64_in64 [simp]: "in64 x \<Longrightarrow> sat64 x = x"
  by (auto simp: int64_defs)

text \<open>The one \<open>int64\<close> whose negation is not its opposite.\<close>

lemma wrap64_uminus_min: "wrap64 (- int64_min) = int64_min"
  by (simp add: int64_defs)

lemma wrap64_uminus: "in64 x \<Longrightarrow> x \<noteq> int64_min \<Longrightarrow> wrap64 (- x) = - x"
  by (simp add: int64_defs)

text \<open>
  The idiom \<open>d := t.Sub(u); if d < 0 { d = -d }\<close>: an absolute difference, except that a
  difference at or below the least \<open>int64\<close> stays negative.
\<close>

lemma abs_sat64:
  "(if sat64 x < 0 then wrap64 (- sat64 x) else sat64 x) =
   (if x \<le> int64_min then int64_min else if int64_max < x then int64_max else \<bar>x\<bar>)"
proof (cases "x \<le> int64_min")
  case True
  then have "sat64 x = int64_min" by (simp add: int64_defs)
  with True show ?thesis by (auto simp: wrap64_uminus_min)
next
  case False
  show ?thesis
  proof (cases "x < 0")
    case True
    with False have "in64 x" by (simp add: int64_defs)
    with True False show ?thesis by (simp add: wrap64_uminus) (simp add: int64_defs)
  next
    case nonneg: False
    with False show ?thesis by (simp add: int64_defs)
  qed
qed

subsection \<open>Errors\<close>

datatype go_error =
    New string                        \<comment> \<open>\<open>errors.New\<close>; the texts of the program are distinct\<close>
  | Ext string string                 \<comment> \<open>an error of a library: its class and its text\<close>
  | NumError string string string     \<comment> \<open>\<open>*strconv.NumError\<close>: Func, Num, text of Err\<close>
  | InvalidByteError char             \<comment> \<open>\<open>hex.InvalidByteError\<close>\<close>
  | Errorf "fmt_part list"            \<comment> \<open>\<open>fmt.Errorf\<close>\<close>
and fmt_part = Lit string | Q string | W go_error

text \<open>\<open>errors.Is\<close>: the error itself, or anything a \<open>%w\<close> wraps.\<close>

fun errors_Is :: "go_error \<Rightarrow> go_error \<Rightarrow> bool" and part_Is :: "fmt_part \<Rightarrow> go_error \<Rightarrow> bool" where
  "errors_Is (Errorf ps) t = (Errorf ps = t \<or> list_ex (\<lambda>p. part_Is p t) ps)"
| "errors_Is e t = (e = t)"
| "part_Is (W e) t = errors_Is e t"
| "part_Is _ t = False"

lemma errors_Is_refl [simp, err_simps]: "errors_Is e e"
  by (cases e) simp_all

lemma errors_Is_Errorf [simp, err_simps]:
  "errors_Is (Errorf ps) (New s) = list_ex (\<lambda>p. part_Is p (New s)) ps"
  by simp

text \<open>\<open>fmt.Errorf("%w: %w", a, b)\<close>, the wrapping used throughout.\<close>

definition wrap2 :: "go_error \<Rightarrow> go_error \<Rightarrow> go_error" where
  "wrap2 a b = Errorf [W a, Lit '': '', W b]"

lemma errors_Is_wrap2 [simp, err_simps]:
  "errors_Is (wrap2 a b) (New s) \<longleftrightarrow> errors_Is a (New s) \<or> errors_Is b (New s)"
  by (simp add: wrap2_def)

text \<open>Of the sentinels, the error is exactly \<open>k\<close>.\<close>

definition only_Is :: "go_error \<Rightarrow> go_error \<Rightarrow> bool" where
  "only_Is e k \<longleftrightarrow> (\<forall>s. errors_Is e (New s) \<longleftrightarrow> New s = k)"

lemma only_Is_New: "only_Is (New s) (New s)"
  by (auto simp: only_Is_def)

lemma only_IsD: "only_Is e k \<Longrightarrow> errors_Is e (New s) \<longleftrightarrow> New s = k"
  by (simp add: only_Is_def)

subsection \<open>Sequencing fallible calls\<close>

text \<open>\<open>x, err := f(); if err != nil { return err }\<close> is \<open>f () \<bind> \<dots>\<close> written as a function.\<close>

definition and_then :: "'e + 'a \<Rightarrow> ('a \<Rightarrow> 'e + 'b) \<Rightarrow> 'e + 'b" where
  "and_then r k = (case r of Inl e \<Rightarrow> Inl e | Inr x \<Rightarrow> k x)"

lemma and_then_simps [simp]:
  "and_then (Inl e) k = Inl e"
  "and_then (Inr x) k = k x"
  by (simp_all add: and_then_def)

lemma and_then_eq_Inr: "and_then r k = Inr y \<longleftrightarrow> (\<exists>x. r = Inr x \<and> k x = Inr y)"
  by (cases r) simp_all

lemma and_then_eq_Inl: "and_then r k = Inl e \<longleftrightarrow> r = Inl e \<or> (\<exists>x. r = Inr x \<and> k x = Inl e)"
  by (cases r) auto

subsection \<open>Association lists written left to right\<close>

text \<open>
  Go maps are \<open>'k \<rightharpoonup> 'v\<close>.  \<open>maps.Copy(dst, src)\<close> overwrites \<open>dst\<close> with every entry of
  \<open>src\<close>, which is \<open>dst ++ src\<close>.
\<close>

definition maps_Copy :: "('k \<rightharpoonup> 'v) \<Rightarrow> ('k \<rightharpoonup> 'v) \<Rightarrow> ('k \<rightharpoonup> 'v)" where
  "maps_Copy dst src = dst ++ src"

lemma maps_Copy_apply: "maps_Copy dst src k = (case src k of None \<Rightarrow> dst k | Some v \<Rightarrow> Some v)"
  by (simp add: maps_Copy_def map_add_def)

subsection \<open>Lists\<close>

lemma append_eq_conv_noteq:
  assumes "x \<notin> set xs" "x \<notin> set ys" "xs @ x # as = ys @ x # bs"
  shows "xs = ys \<and> as = bs"
  using assms by (induction xs arbitrary: ys) (auto simp: Cons_eq_append_conv append_eq_Cons_conv)

lemma list_ex_appendI2: "list_ex P ys \<Longrightarrow> list_ex P (xs @ ys)"
  by simp

end
