(* ===== verification/Wizapi.thy ===== *)
theory Wizapi
  imports Prelude
begin

text \<open>
  \<^verbatim>\<open>internal/webhook/wizapi\<close>: the custom-resource types.  Of the embedded Kubernetes metadata
  (\<open>metav1.TypeMeta\<close>, \<open>metav1.ObjectMeta\<close>, \<open>metav1.Condition\<close>) the records hold the fields the
  program reads or writes.  A \<open>client.Object\<close> is the sum of the kinds the program knows and
  one case for every other kind.
\<close>

type_synonym str_map = "string \<rightharpoonup> string"

record type_meta =
  APIVersion :: string
  TypeKind :: string

record object_meta =
  Name :: string
  Namespace :: string
  Labels :: str_map
  Annotations :: str_map
  Generation :: int

record condition =
  CondType :: string
  CondStatus :: string

definition ConditionTypeReady :: string where "ConditionTypeReady = ''Ready''"

definition ConditionTrue :: string where "ConditionTrue = ''True''"

record role_ref = RoleName :: string

record project_ref = ProjectName :: string

record saml_spec =
  IdentityProviderID :: string
  ProviderGroupID :: string
  Description :: string
  RoleRef :: role_ref
  ProjectRefs :: "project_ref list"

record cr_status =
  StatusObservedGeneration :: int
  Conditions :: "condition list"

record saml_group_mapping =
  TypeMeta :: type_meta
  ObjectMeta :: object_meta
  Spec :: saml_spec
  Status :: cr_status

record named_spec = SpecName :: string

record named_cr =
  CrTypeMeta :: type_meta
  CrObjectMeta :: object_meta
  CrSpec :: named_spec
  CrStatus :: cr_status

datatype client_object =
    SAMLGroupMapping saml_group_mapping
  | Project named_cr
  | UserRole named_cr
  | OtherObject object_meta

datatype list_object = SAMLGroupMappingList | ProjectList | UserRoleList | OtherList

text \<open>\<open>schema.GroupVersion\<close> and its \<open>String\<close>.\<close>

definition GroupVersion_Group :: string where "GroupVersion_Group = ''wiz.webhookd.io''"

definition GroupVersion_Version :: string where "GroupVersion_Version = ''v1alpha1''"

definition GroupVersion_String :: string where
  "GroupVersion_String = GroupVersion_Group @ ''/'' @ GroupVersion_Version"

fun obj_meta :: "client_object \<Rightarrow> object_meta" where
  "obj_meta (SAMLGroupMapping m) = ObjectMeta m"
| "obj_meta (Project p) = CrObjectMeta p"
| "obj_meta (UserRole r) = CrObjectMeta r"
| "obj_meta (OtherObject m) = m"

fun map_meta :: "(object_meta \<Rightarrow> object_meta) \<Rightarrow> client_object \<Rightarrow> client_object" where
  "map_meta f (SAMLGroupMapping m) = SAMLGroupMapping (m\<lparr>ObjectMeta := f (ObjectMeta m)\<rparr>)"
| "map_meta f (Project p) = Project (p\<lparr>CrObjectMeta := f (CrObjectMeta p)\<rparr>)"
| "map_meta f (UserRole r) = UserRole (r\<lparr>CrObjectMeta := f (CrObjectMeta r)\<rparr>)"
| "map_meta f (OtherObject m) = OtherObject (f m)"

text \<open>The accessors of \<open>metav1.Object\<close>.\<close>

definition GetName :: "client_object \<Rightarrow> string" where "GetName o1 = Name (obj_meta o1)"
definition GetNamespace :: "client_object \<Rightarrow> string" where "GetNamespace o1 = Namespace (obj_meta o1)"
definition GetLabels :: "client_object \<Rightarrow> str_map" where "GetLabels o1 = Labels (obj_meta o1)"
definition GetAnnotations :: "client_object \<Rightarrow> str_map" where
  "GetAnnotations o1 = Annotations (obj_meta o1)"
definition GetGeneration :: "client_object \<Rightarrow> int" where "GetGeneration o1 = Generation (obj_meta o1)"
definition SetLabels :: "str_map \<Rightarrow> client_object \<Rightarrow> client_object" where
  "SetLabels l = map_meta (\<lambda>m. m\<lparr>Labels := l\<rparr>)"
definition SetAnnotations :: "str_map \<Rightarrow> client_object \<Rightarrow> client_object" where
  "SetAnnotations a = map_meta (\<lambda>m. m\<lparr>Annotations := a\<rparr>)"

lemmas accessor_defs = GetName_def GetNamespace_def GetLabels_def GetAnnotations_def
  GetGeneration_def SetLabels_def SetAnnotations_def

lemma obj_meta_map_meta [simp]: "obj_meta (map_meta f x) = f (obj_meta x)"
  by (cases x) simp_all

lemma set_get [simp]:
  "GetName (SetLabels l x) = GetName x" "GetName (SetAnnotations l x) = GetName x"
  "GetNamespace (SetLabels l x) = GetNamespace x" "GetNamespace (SetAnnotations l x) = GetNamespace x"
  "GetLabels (SetLabels l x) = l" "GetLabels (SetAnnotations l x) = GetLabels x"
  "GetAnnotations (SetAnnotations l x) = l" "GetAnnotations (SetLabels l x) = GetAnnotations x"
  "GetGeneration (SetLabels l x) = GetGeneration x" "GetGeneration (SetAnnotations l x) = GetGeneration x"
  by (simp_all add: accessor_defs)

end
