(* ===== verification/Webhook_Types.thy ===== *)
theory Webhook_Types
  imports Wizapi
begin

text \<open>
  \<^verbatim>\<open>internal/webhook/result.go\<close> and \<^verbatim>\<open>action.go\<close>: what flows from a provider to the executor
  (\<open>action\<close>) and from the executor back to the dispatcher (\<open>exec_result\<close>), with the mapping of
  result kinds to HTTP status codes; and the request context (\<open>ctx\<close>): the request ID the
  middleware stores, the trace ID of a valid span, if there is one, and that span's ID.
\<close>

datatype result_kind =
    ResultNoop
  | ResultReady
  | ResultTransientFailure
  | ResultBadRequest
  | ResultUnprocessable
  | ResultInternalError
  | ResultTimeout

fun ResultKind_String :: "result_kind \<Rightarrow> string" where
  "ResultKind_String ResultNoop = ''noop''"
| "ResultKind_String ResultReady = ''ready''"
| "ResultKind_String ResultTransientFailure = ''transient_failure''"
| "ResultKind_String ResultBadRequest = ''bad_request''"
| "ResultKind_String ResultUnprocessable = ''unprocessable''"
| "ResultKind_String ResultInternalError = ''internal_error''"
| "ResultKind_String ResultTimeout = ''timeout''"

fun HTTPStatus :: "result_kind \<Rightarrow> int" where
  "HTTPStatus ResultNoop = 200"
| "HTTPStatus ResultReady = 200"
| "HTTPStatus ResultBadRequest = 400"
| "HTTPStatus ResultUnprocessable = 422"
| "HTTPStatus ResultTransientFailure = 503"
| "HTTPStatus ResultTimeout = 504"
| "HTTPStatus ResultInternalError = 500"

record exec_result =
  Kind :: result_kind
  Reason :: string
  ResCRName :: string
  ResNamespace :: string
  ObservedGeneration :: int

text \<open>A Go composite literal leaves the fields it does not name at their zero values.\<close>

definition exec_result0 :: "result_kind \<Rightarrow> exec_result" where
  "exec_result0 k = \<lparr>Kind = k, Reason = [], ResCRName = [], ResNamespace = [], ObservedGeneration = 0\<rparr>"

type_synonym ready_check = "client_object \<Rightarrow> int \<Rightarrow> bool \<times> int"

record apply_action =
  Object :: client_object
  ListObject :: list_object
  ReadyCheck :: ready_check
  ActAnnotations :: str_map
  ActKind :: string
  Source :: string

datatype action = NoopAction string | ApplyAction apply_action | NilAction

definition ErrBadRequest :: go_error where "ErrBadRequest = New ''bad request''"

definition ErrUnprocessable :: go_error where "ErrUnprocessable = New ''unprocessable''"

record ctx =
  ctx_reqid :: "string option"
  ctx_trace :: "string option"
  ctx_span :: string

text \<open>\<open>httpx.RequestIDFromContext\<close> and \<open>traceIDFromContext\<close>: the zero string when absent.\<close>

definition RequestIDFromContext :: "ctx \<Rightarrow> string" where
  "RequestIDFromContext c = (case ctx_reqid c of Some v \<Rightarrow> v | None \<Rightarrow> [])"

definition traceIDFromContext :: "ctx \<Rightarrow> string" where
  "traceIDFromContext c = (case ctx_trace c of Some t \<Rightarrow> t | None \<Rightarrow> [])"

subsection \<open>The response contract of a result\<close>

lemma HTTPStatus_200: "HTTPStatus k = 200 \<longleftrightarrow> k = ResultNoop \<or> k = ResultReady"
  by (cases k) simp_all

lemma HTTPStatus_range: "HTTPStatus k \<in> {200, 400, 422, 500, 503, 504}"
  by (cases k) simp_all

lemma ResultKind_String_inj: "ResultKind_String k = ResultKind_String k' \<longleftrightarrow> k = k'"
  by (cases k; cases k') simp_all

end
