(* ===== verification/Go_Text.thy ===== *)
theory Go_Text
  imports Prelude
begin

text \<open>
  The parts of Go's \<open>unicode/utf8\<close>, \<open>strings\<close>, \<open>strconv\<close> and \<open>encoding/hex\<close> that the program
  calls, on byte strings, and the text of an error.  Go's Unicode tables (\<open>unicode.ToLower\<close>,
  \<open>strconv.IsPrint\<close>) are the parameter \<open>unicode\<close>: they only matter for runes beyond ASCII.
\<close>

record unicode =
  uc_ToLower :: "nat \<Rightarrow> nat"
  uc_IsPrint :: "nat \<Rightarrow> bool"

abbreviation code :: "char \<Rightarrow> nat" where "code c \<equiv> of_char c"

subsection \<open>UTF-8\<close>

definition RuneError :: nat where "RuneError = 65533"

definition cont :: "nat \<Rightarrow> bool" where "cont b \<longleftrightarrow> 128 \<le> b \<and> b < 192"

text \<open>\<open>utf8.DecodeRune\<close>: the first rune and its width; \<open>(RuneError, 1)\<close> for an invalid byte.\<close>

fun DecodeRune :: "nat list \<Rightarrow> nat \<times> nat" where
  "DecodeRune [] = (RuneError, 0)"
| "DecodeRune (b0 # bs) =
    (if b0 < 128 then (b0, 1)
     else if 194 \<le> b0 \<and> b0 < 224 then
       (case bs of b1 # _ \<Rightarrow>
          if cont b1 then ((b0 - 192) * 64 + (b1 - 128), 2) else (RuneError, 1)
        | [] \<Rightarrow> (RuneError, 1))
     else if 224 \<le> b0 \<and> b0 < 240 then
       (case bs of b1 # b2 # _ \<Rightarrow>
          if cont b1 \<and> cont b2 \<and> (b0 = 224 \<longrightarrow> 160 \<le> b1) \<and> (b0 = 237 \<longrightarrow> b1 < 160)
          then ((b0 - 224) * 4096 + (b1 - 128) * 64 + (b2 - 128), 3) else (RuneError, 1)
        | _ \<Rightarrow> (RuneError, 1))
     else if 240 \<le> b0 \<and> b0 < 245 then
       (case bs of b1 # b2 # b3 # _ \<Rightarrow>
          if cont b1 \<and> cont b2 \<and> cont b3 \<and> (b0 = 240 \<longrightarrow> 144 \<le> b1) \<and> (b0 = 244 \<longrightarrow> b1 < 144)
          then ((b0 - 240) * 262144 + (b1 - 128) * 4096 + (b2 - 128) * 64 + (b3 - 128), 4)
          else (RuneError, 1)
        | _ \<Rightarrow> (RuneError, 1))
     else (RuneError, 1))"

definition valid_rune :: "nat \<Rightarrow> bool" where
  "valid_rune r \<longleftrightarrow> r < 55296 \<or> 57344 \<le> r \<and> r < 1114112"

text \<open>\<open>utf8.AppendRune\<close>: surrogates and values above \<open>MaxRune\<close> become \<open>RuneError\<close>.\<close>

definition EncodeRune :: "nat \<Rightarrow> nat list" where
  "EncodeRune r0 =
    (let r = (if valid_rune r0 then r0 else RuneError) in
     if r < 128 then [r]
     else if r < 2048 then [192 + r div 64, 128 + r mod 64]
     else if r < 65536 then [224 + r div 4096, 128 + (r div 64) mod 64, 128 + r mod 64]
     else [240 + r div 262144, 128 + (r div 4096) mod 64, 128 + (r div 64) mod 64, 128 + r mod 64])"

definition rune_str :: "nat \<Rightarrow> string" where
  "rune_str r = map char_of (EncodeRune r)"

text \<open>\<open>range\<close> over a string: each step consumes the width of the decoded rune.\<close>

function utf8_runes :: "nat list \<Rightarrow> (nat \<times> nat) list" where
  "utf8_runes bs = (if bs = [] then []
     else DecodeRune bs # utf8_runes (drop (snd (DecodeRune bs)) bs))"
  by pat_completeness auto

lemma DecodeRune_width: "bs \<noteq> [] \<Longrightarrow> 0 < snd (DecodeRune bs)"
  by (cases bs) (auto split: list.splits)

termination utf8_runes
  by (relation "measure length") (auto simp: DecodeRune_width)

declare utf8_runes.simps [simp del]

definition runes :: "string \<Rightarrow> nat list" where
  "runes s = map fst (utf8_runes (map of_char s))"

lemma base64_digits:
  fixes r :: nat
  obtains a b c d where "r = ((a * 64 + b) * 64 + c) * 64 + d" "b < 64" "c < 64" "d < 64"
    "r mod 64 = d" "r div 64 = (a * 64 + b) * 64 + c" "r div 64 mod 64 = c"
    "r div 4096 = a * 64 + b" "r div 4096 mod 64 = b" "r div 262144 = a"
proof
  have e: "r div 4096 = r div 64 div 64" "r div 262144 = r div 64 div 64 div 64"
    by (simp_all flip: div_mult2_eq)
  show "r div 4096 = r div 262144 * 64 + r div 4096 mod 64" by (simp add: e)
  then show "r div 64 = (r div 262144 * 64 + r div 4096 mod 64) * 64 + r div 64 mod 64"
    by (simp add: e)
  then show "r = ((r div 262144 * 64 + r div 4096 mod 64) * 64 + r div 64 mod 64) * 64 + r mod 64"
    by (metis div_mult_mod_eq)
qed simp_all

lemma DecodeRune_EncodeRune:
  assumes "valid_rune r"
  shows "DecodeRune (EncodeRune r @ bs) = (r, length (EncodeRune r))"
proof -
  obtain a b c d where r: "r = ((a * 64 + b) * 64 + c) * 64 + d" "b < 64" "c < 64" "d < 64"
    and ds: "r mod 64 = d" "r div 64 = (a * 64 + b) * 64 + c" "r div 64 mod 64 = c"
      "r div 4096 = a * 64 + b" "r div 4096 mod 64 = b" "r div 262144 = a"
    by (rule base64_digits)
  have r': "r = a * 262144 + b * 4096 + c * 64 + d" using r(1) by simp
  have lt: "r < 1114112" and sur: "r < 55296 \<or> 57344 \<le> r"
    using assms by (auto simp: valid_rune_def)
  then consider "r < 128" | "128 \<le> r" "r < 2048" | "2048 \<le> r" "r < 65536" | "65536 \<le> r"
    by linarith
  then show ?thesis
  proof cases
    case 1
    then show ?thesis using assms by (simp add: EncodeRune_def)
  next
    case 2
    then have ab: "a = 0" "b = 0" using r' r(2-4) by linarith+
    then have "2 \<le> c" "c < 32" using 2 r' r(2-4) by linarith+
    moreover have "EncodeRune r = [192 + c, 128 + d]"
      using 2 assms ds ab by (simp add: EncodeRune_def Let_def)
    ultimately show ?thesis using r' r(2-4) ab by (simp add: cont_def)
  next
    case 3
    then have a: "a = 0" using r' r(2-4) by linarith
    then have "b < 16" "b = 0 \<longrightarrow> 32 \<le> c" "b = 13 \<longrightarrow> c < 32" using 3 r' r(2-4) sur by linarith+
    moreover have "EncodeRune r = [224 + b, 128 + c, 128 + d]"
      using 3 assms ds a by (simp add: EncodeRune_def Let_def)
    ultimately show ?thesis using r' r(2-4) a by (simp add: cont_def)
  next
    case 4
    then have "a < 5" "a = 0 \<longrightarrow> 16 \<le> b" "a = 4 \<longrightarrow> b < 16" using r' r(2-4) lt by linarith+
    moreover have "EncodeRune r = [240 + a, 128 + b, 128 + c, 128 + d]"
      using 4 assms ds by (simp add: EncodeRune_def Let_def)
    ultimately show ?thesis using r' r(2-4) by (simp add: cont_def)
  qed
qed

lemma EncodeRune_bytes: "b \<in> set (EncodeRune r) \<Longrightarrow> b < 256"
proof -
  assume b: "b \<in> set (EncodeRune r)"
  define q where "q = (if valid_rune r then r else RuneError)"
  have "q < 1114112" by (auto simp: q_def valid_rune_def RuneError_def)
  then have "q div 262144 < 5" by simp
  then show ?thesis
    using b by (auto simp: EncodeRune_def Let_def q_def [symmetric] split: if_splits)
qed

lemma bytes_rune_str [simp]: "map of_char (rune_str r) = EncodeRune r"
  by (auto simp: rune_str_def o_def intro!: map_idI) (simp add: EncodeRune_bytes)

text \<open>Valid UTF-8 decodes to the runes it was made of.\<close>

lemma runes_concat: "list_all valid_rune rs \<Longrightarrow> runes (concat (map rune_str rs)) = rs"
proof (induction rs)
  case Nil
  then show ?case by (simp add: runes_def utf8_runes.simps)
next
  case (Cons r rs)
  then have r: "valid_rune r" by simp
  have ne: "EncodeRune r \<noteq> []" by (simp add: EncodeRune_def Let_def)
  let ?tl = "map of_char (concat (map rune_str rs)) :: nat list"
  have "utf8_runes (EncodeRune r @ ?tl) = (r, length (EncodeRune r)) # utf8_runes ?tl"
    using ne by (subst utf8_runes.simps) (simp add: DecodeRune_EncodeRune [OF r])
  then show ?case
    using Cons by (simp add: runes_def)
qed

subsection \<open>strings\<close>

definition CutPrefix :: "string \<Rightarrow> string \<Rightarrow> string option" where
  "CutPrefix s p = (if take (length p) s = p then Some (drop (length p) s) else None)"

lemma CutPrefix_Some [simp]: "CutPrefix s p = Some r \<longleftrightarrow> s = p @ r"
  by (auto simp: CutPrefix_def) (metis append_take_drop_id)

lemma CutPrefix_append [simp]: "CutPrefix (p @ r) p = Some r"
  by simp

definition ascii_lower :: "char \<Rightarrow> char" where
  "ascii_lower c = (if 65 \<le> code c \<and> code c \<le> 90 then char_of (code c + 32) else c)"

definition is_ascii :: "string \<Rightarrow> bool" where
  "is_ascii s = list_all (\<lambda>c. code c < 128) s"

text \<open>\<open>strings.ToLower\<close>: a byte loop on ASCII, \<open>strings.Map(unicode.ToLower, s)\<close> otherwise.\<close>

definition ToLower :: "unicode \<Rightarrow> string \<Rightarrow> string" where
  "ToLower u s = (if is_ascii s then map ascii_lower s
     else concat (map (\<lambda>r. rune_str (uc_ToLower u r)) (runes s)))"

text \<open>
  \<open>strings.TrimSpace\<close>: \<open>unicode.IsSpace\<close> is a fixed set, so the UTF-8 encodings of the space runes
  are listed (tab to carriage return, space, U+0085, U+00A0, U+1680, U+2000 to U+200A, U+2028,
  U+2029, U+202F, U+205F, U+3000).
\<close>

definition space_encs :: "string list" where
  "space_encs = [
    [CHR 0x09], [CHR 0x0A], [CHR 0x0B], [CHR 0x0C], [CHR 0x0D], [CHR 0x20], [CHR 0xC2, CHR 0x85],
    [CHR 0xC2, CHR 0xA0], [CHR 0xE1, CHR 0x9A, CHR 0x80], [CHR 0xE2, CHR 0x80, CHR 0x80],
    [CHR 0xE2, CHR 0x80, CHR 0x81], [CHR 0xE2, CHR 0x80, CHR 0x82], [CHR 0xE2, CHR 0x80, CHR 0x83],
    [CHR 0xE2, CHR 0x80, CHR 0x84], [CHR 0xE2, CHR 0x80, CHR 0x85], [CHR 0xE2, CHR 0x80, CHR 0x86],
    [CHR 0xE2, CHR 0x80, CHR 0x87], [CHR 0xE2, CHR 0x80, CHR 0x88], [CHR 0xE2, CHR 0x80, CHR 0x89],
    [CHR 0xE2, CHR 0x80, CHR 0x8A], [CHR 0xE2, CHR 0x80, CHR 0xA8], [CHR 0xE2, CHR 0x80, CHR 0xA9],
    [CHR 0xE2, CHR 0x80, CHR 0xAF], [CHR 0xE2, CHR 0x81, CHR 0x9F], [CHR 0xE3, CHR 0x80, CHR 0x80]]"

definition space_width :: "string \<Rightarrow> nat" where
  "space_width s = (case filter (\<lambda>e. take (length e) s = e) space_encs of
     [] \<Rightarrow> 0 | e # _ \<Rightarrow> length e)"

function trim_left :: "string \<Rightarrow> string" where
  "trim_left s = (if space_width s = 0 \<or> s = [] then s else trim_left (drop (space_width s) s))"
  by pat_completeness auto
termination
  by (relation "measure length") auto

definition space_width_end :: "string \<Rightarrow> nat" where
  "space_width_end s = (case filter (\<lambda>e. drop (length s - length e) s = e) space_encs of
     [] \<Rightarrow> 0 | e # _ \<Rightarrow> length e)"

function trim_right :: "string \<Rightarrow> string" where
  "trim_right s = (if space_width_end s = 0 \<or> s = [] then s
     else trim_right (take (length s - space_width_end s) s))"
  by pat_completeness auto
termination
  by (relation "measure length") auto

declare trim_left.simps [simp del] trim_right.simps [simp del]

definition TrimSpace :: "string \<Rightarrow> string" where
  "TrimSpace s = trim_right (trim_left s)"

text \<open>\<open>strings.SplitSeq(s, sep)\<close> for a one-byte separator.\<close>

fun SplitSeq :: "char \<Rightarrow> string \<Rightarrow> string list" where
  "SplitSeq sep [] = [[]]"
| "SplitSeq sep (c # cs) =
    (if c = sep then [] # SplitSeq sep cs
     else case SplitSeq sep cs of [] \<Rightarrow> [[c]] | f # fs \<Rightarrow> (c # f) # fs)"

lemma ToLower_ascii: "is_ascii s \<Longrightarrow> ToLower u s = map ascii_lower s"
  by (simp add: ToLower_def)

lemma trim_left_suffix: "\<exists>p. s = p @ trim_left s"
proof (induction s rule: trim_left.induct)
  case (1 s)
  show ?case
  proof (cases "space_width s = 0 \<or> s = []")
    case True
    then show ?thesis by (auto simp: trim_left.simps [of s])
  next
    case False
    then obtain p where "drop (space_width s) s = p @ trim_left (drop (space_width s) s)"
      using 1 by auto
    then have "s = (take (space_width s) s @ p) @ trim_left (drop (space_width s) s)"
      by (metis append_assoc append_take_drop_id)
    then show ?thesis using False by (metis trim_left.simps)
  qed
qed

lemma trim_left_done: "trim_left s = [] \<or> space_width (trim_left s) = 0"
proof (induction s rule: trim_left.induct)
  case (1 s)
  then show ?case
    by (cases "space_width s = 0 \<or> s = []") (auto simp: trim_left.simps [of s])
qed

lemma trim_right_done: "trim_right s = [] \<or> space_width_end (trim_right s) = 0"
proof (induction s rule: trim_right.induct)
  case (1 s)
  then show ?case
    by (cases "space_width_end s = 0 \<or> s = []") (auto simp: trim_right.simps [of s])
qed

subsection \<open>strconv\<close>

definition digit :: "nat \<Rightarrow> char" where "digit d = char_of (48 + d)"

definition is_digit :: "char \<Rightarrow> bool" where "is_digit c \<longleftrightarrow> 48 \<le> code c \<and> code c \<le> 57"

definition digit_val :: "char \<Rightarrow> nat" where "digit_val c = code c - 48"

fun dec_nat :: "nat \<Rightarrow> string" where
  "dec_nat n = (if n < 10 then [digit n] else dec_nat (n div 10) @ [digit (n mod 10)])"

declare dec_nat.simps [simp del]

definition Itoa :: "int \<Rightarrow> string" where
  "Itoa i = (if i < 0 then CHR ''-'' # dec_nat (nat (- i)) else dec_nat (nat i))"

text \<open>\<open>strconv.ParseUint(s, 10, 64)\<close> after the emptiness check; \<open>Inl True\<close> is \<open>ErrRange\<close>,
  \<open>Inl False\<close> is \<open>ErrSyntax\<close>.\<close>

fun parse_uint :: "nat \<Rightarrow> string \<Rightarrow> bool + nat" where
  "parse_uint n [] = Inr n"
| "parse_uint n (c # cs) =
    (if is_digit c then
       let n1 = n * 10 + digit_val c in if 2 ^ 64 \<le> n1 then Inl True else parse_uint n1 cs
     else Inl False)"

text \<open>\<open>strconv.ParseInt(s, 10, 64)\<close>.\<close>

definition ParseInt :: "string \<Rightarrow> go_error + int" where
  "ParseInt s =
    (let syntax_err = Inl (NumError ''ParseInt'' s ''invalid syntax'');
         range_err = Inl (NumError ''ParseInt'' s ''value out of range'');
         neg = (case s of c # _ \<Rightarrow> c = CHR ''-'' | [] \<Rightarrow> False);
         ds = (case s of c # cs \<Rightarrow> if c = CHR ''-'' \<or> c = CHR ''+'' then cs else s | [] \<Rightarrow> [])
     in if ds = [] then syntax_err
        else case parse_uint 0 ds of
          Inl r \<Rightarrow> if r then range_err else syntax_err
        | Inr un \<Rightarrow>
            if \<not> neg \<and> 2 ^ 63 \<le> un then range_err
            else if neg \<and> 2 ^ 63 < un then range_err
            else Inr (if neg then - int un else int un))"

definition ParseBool :: "string \<Rightarrow> go_error + bool" where
  "ParseBool s =
    (if s \<in> set [''1'', ''t'', ''T'', ''TRUE'', ''true'', ''True''] then Inr True
     else if s \<in> set [''0'', ''f'', ''F'', ''FALSE'', ''false'', ''False''] then Inr False
     else Inl (NumError ''ParseBool'' s ''invalid syntax''))"

subsection \<open>encoding/hex\<close>

definition lowerhex :: "nat \<Rightarrow> char" where
  "lowerhex d = (if d < 10 then char_of (48 + d) else char_of (87 + d))"

definition hexval :: "char \<Rightarrow> nat option" where
  "hexval c = (let n = code c in
     if 48 \<le> n \<and> n \<le> 57 then Some (n - 48)
     else if 97 \<le> n \<and> n \<le> 102 then Some (n - 87)
     else if 65 \<le> n \<and> n \<le> 70 then Some (n - 55) else None)"

fun hex_EncodeToString :: "bytes \<Rightarrow> string" where
  "hex_EncodeToString [] = []"
| "hex_EncodeToString (b # bs) = lowerhex (code b div 16) # lowerhex (code b mod 16) # hex_EncodeToString bs"

fun hex_DecodeString :: "string \<Rightarrow> go_error + bytes" where
  "hex_DecodeString [] = Inr []"
| "hex_DecodeString [p] = (case hexval p of None \<Rightarrow> Inl (InvalidByteError p)
     | Some _ \<Rightarrow> Inl (New ''encoding/hex: odd length hex string''))"
| "hex_DecodeString (p # q # src) =
    (case hexval p of None \<Rightarrow> Inl (InvalidByteError p) | Some a \<Rightarrow>
     (case hexval q of None \<Rightarrow> Inl (InvalidByteError q) | Some b \<Rightarrow>
      and_then (hex_DecodeString src) (\<lambda>bs. Inr (char_of (a * 16 + b) # bs))))"

text \<open>
  \<open>hmac.Equal\<close> is \<open>subtle.ConstantTimeCompare\<close>: the lengths are compared, then the XOR of
  every byte pair is accumulated without an early exit.
\<close>

unbundle bit_operations_syntax

definition ConstantTimeCompare :: "bytes \<Rightarrow> bytes \<Rightarrow> bool" where
  "ConstantTimeCompare x y \<longleftrightarrow> length x = length y \<and>
     fold (\<lambda>(a, b) v. v OR (of_char a XOR of_char b)) (zip x y) (0 :: 8 word) = 0"

subsection \<open>strconv.Quote and the text of an error\<close>

fun hexn :: "nat \<Rightarrow> nat \<Rightarrow> string" where
  "hexn 0 n = []"
| "hexn (Suc k) n = hexn k (n div 16) @ [lowerhex (n mod 16)]"

definition is_print :: "unicode \<Rightarrow> nat \<Rightarrow> bool" where
  "is_print u r = (if r < 128 then 32 \<le> r \<and> r < 127 else uc_IsPrint u r)"

definition escaped_rune :: "unicode \<Rightarrow> nat \<Rightarrow> string" where
  "escaped_rune u r =
    (if r = 34 \<or> r = 92 then [CHR 0x5C, char_of r]
     else if is_print u r then rune_str r
     else if r = 7 then CHR 0x5C # ''a'' else if r = 8 then CHR 0x5C # ''b''
     else if r = 12 then CHR 0x5C # ''f'' else if r = 10 then CHR 0x5C # ''n''
     else if r = 13 then CHR 0x5C # ''r'' else if r = 9 then CHR 0x5C # ''t''
     else if r = 11 then CHR 0x5C # ''v''
     else if r < 32 \<or> r = 127 then CHR 0x5C # ''x'' @ hexn 2 r
     else if r < 65536 then CHR 0x5C # ''u'' @ hexn 4 r
     else CHR 0x5C # ''U'' @ hexn 8 r)"

function quote_bytes :: "unicode \<Rightarrow> nat list \<Rightarrow> string" where
  "quote_bytes u bs = (if bs = [] then []
     else let (r, w) = DecodeRune bs in
       (if w = 1 \<and> r = RuneError then CHR 0x5C # ''x'' @ hexn 2 (hd bs) else escaped_rune u r)
       @ quote_bytes u (drop w bs))"
  by pat_completeness auto
termination
proof (relation "measure (length \<circ> snd)", goal_cases)
  case (2 u bs x r w)
  then have "0 < w" by (metis DecodeRune_width snd_conv)
  with 2 show ?case by simp
qed simp

declare quote_bytes.simps [simp del]

definition Quote :: "unicode \<Rightarrow> string \<Rightarrow> string" where
  "Quote u s = [CHR 0x22] @ quote_bytes u (map of_char s) @ [CHR 0x22]"

definition ascii_upper_hex :: "char \<Rightarrow> char" where
  "ascii_upper_hex c = (if 97 \<le> code c \<and> code c \<le> 102 then char_of (code c - 32) else c)"

text \<open>\<open>err.Error()\<close>.\<close>

fun Error :: "unicode \<Rightarrow> go_error \<Rightarrow> string" and part_text :: "unicode \<Rightarrow> fmt_part \<Rightarrow> string" where
  "Error u (New s) = s"
| "Error u (Ext _ s) = s"
| "Error u (NumError f n r) = ''strconv.'' @ f @ '': parsing '' @ Quote u n @ '': '' @ r"
| "Error u (InvalidByteError c) = ''encoding/hex: invalid byte: U+'' @ map ascii_upper_hex (hexn 4 (code c))
     @ (if is_print u (code c) then '' '' @ [CHR 0x27] @ rune_str (code c) @ [CHR 0x27] else [])"
| "Error u (Errorf ps) = concat (map (part_text u) ps)"
| "part_text u (Lit s) = s"
| "part_text u (Q s) = Quote u s"
| "part_text u (W e) = Error u e"

lemma Error_wrap2 [simp]: "Error u (wrap2 a b) = Error u a @ '': '' @ Error u b"
  by (simp add: wrap2_def)

subsection \<open>Facts about the conversions\<close>

lemma digit_simps [simp]:
  assumes "d < 10"
  shows "is_digit (digit d)" "digit_val (digit d) = d" "digit d \<noteq> CHR ''-''" "digit d \<noteq> CHR ''+''"
proof -
  have "code (digit d) = 48 + d" using assms by (simp add: digit_def)
  then show "is_digit (digit d)" "digit_val (digit d) = d" "digit d \<noteq> CHR ''-''" "digit d \<noteq> CHR ''+''"
    using assms by (auto simp: is_digit_def digit_val_def)
qed

lemma dec_nat_ne [simp]: "dec_nat n \<noteq> []"
  by (subst dec_nat.simps) simp

lemma parse_uint_append:
  "parse_uint n (xs @ ys) = and_then (parse_uint n xs) (\<lambda>m. parse_uint m ys)"
  by (induction xs arbitrary: n) (auto simp: Let_def)

lemma parse_uint_dec_nat: "n < 2 ^ 64 \<Longrightarrow> parse_uint 0 (dec_nat n) = Inr n"
proof (induction n rule: dec_nat.induct)
  case (1 n)
  show ?case
  proof (cases "n < 10")
    case True
    then show ?thesis by (subst dec_nat.simps) simp
  next
    case False
    then have "parse_uint 0 (dec_nat (n div 10)) = Inr (n div 10)" using 1 by simp
    moreover have "n div 10 * 10 + n mod 10 = n" by simp
    ultimately show ?thesis
      using False 1(2) by (subst dec_nat.simps) (simp add: parse_uint_append Let_def)
  qed
qed

lemma dec_nat_hd: "\<exists>d cs. d < 10 \<and> dec_nat n = digit d # cs"
proof (induction n rule: dec_nat.induct)
  case (1 n)
  then show ?case by (cases "n < 10") (auto simp: dec_nat.simps [of n])
qed

text \<open>\<open>ParseInt\<close> reads back what \<open>Itoa\<close> prints.\<close>

lemma ParseInt_Itoa: "in64 i \<Longrightarrow> ParseInt (Itoa i) = Inr i"
proof -
  assume i: "in64 i"
  obtain d cs where d: "d < 10" "dec_nat (nat i) = digit d # cs" using dec_nat_hd by blast
  have p: "parse_uint 0 (dec_nat (nat \<bar>i\<bar>)) = Inr (nat \<bar>i\<bar>)"
    using i by (intro parse_uint_dec_nat) (auto simp: int64_defs)
  show ?thesis
  proof (cases "i < 0")
    case True
    then show ?thesis using p i by (auto simp: ParseInt_def Itoa_def int64_defs Let_def)
  next
    case False
    then have "parse_uint 0 (digit d # cs) = Inr (nat i)" using p d by simp
    then show ?thesis
      using False i d by (auto simp: ParseInt_def Itoa_def int64_defs Let_def)
  qed
qed

lemma parse_uint_digits: "parse_uint n cs = Inr m \<Longrightarrow> list_all is_digit cs"
  by (induction cs arbitrary: n) (auto simp: Let_def split: if_splits)

lemma ParseInt_in64: "ParseInt s = Inr i \<Longrightarrow> in64 i"
  by (auto simp: ParseInt_def Let_def int64_defs split: sum.splits if_splits list.splits)

lemma ParseInt_chars:
  assumes "ParseInt s = Inr i" "c \<in> set s"
  shows "is_digit c \<or> c = CHR ''-'' \<or> c = CHR ''+''"
proof -
  have "s \<noteq> []" using assms(2) by auto
  then obtain x xs where s: "s = x # xs" by (cases s) auto
  have "list_all is_digit (if x = CHR ''-'' \<or> x = CHR ''+'' then xs else s)"
    using assms(1) unfolding s
    by (auto simp: ParseInt_def Let_def dest!: parse_uint_digits split: sum.splits if_splits)
  then show ?thesis
    using assms(2) s by (auto simp: list_all_iff split: if_splits)
qed

lemma ParseInt_no_colon: "ParseInt s = Inr i \<Longrightarrow> CHR '':'' \<notin> set s"
  using ParseInt_chars by (fastforce simp: is_digit_def)

lemma hexval_lowerhex [simp]: "d < 16 \<Longrightarrow> hexval (lowerhex d) = Some d"
  by (auto simp: hexval_def lowerhex_def Let_def)

lemma hex_roundtrip [simp]: "hex_DecodeString (hex_EncodeToString bs) = Inr bs"
proof (induction bs)
  case (Cons b bs)
  have "code b div 16 < 16" by (intro less_mult_imp_div_less) simp
  then show ?case using Cons by (simp add: mult.commute)
qed simp

lemma hex_EncodeToString_eq_Nil [simp]: "hex_EncodeToString bs = [] \<longleftrightarrow> bs = []"
  by (cases bs) simp_all

lemma of_char_word_inject: "of_char a = (of_char b :: 8 word) \<Longrightarrow> a = b"
proof -
  have u: "unat (of_char c :: 8 word) = code c" for c
    using nat_of_char_less_256 [of c] unat_of_nat [of "code c", where 'a = 8]
    by (simp add: of_nat_of_char)
  assume "of_char a = (of_char b :: 8 word)"
  then show "a = b" by (metis u of_char_eq_iff)
qed

lemma word_xor_eq_0: "(x XOR y :: 8 word) = 0 \<longleftrightarrow> x = y"
  by (auto simp: bit_eq_iff bit_xor_iff)

lemma fold_xor_zero:
  "fold (\<lambda>(a, b) v. v OR (of_char a XOR of_char b)) xs (v :: 8 word) = 0 \<longleftrightarrow>
   v = 0 \<and> (\<forall>(a, b) \<in> set xs. a = b)"
proof (induction xs arbitrary: v)
  case (Cons x xs)
  obtain a b where x: "x = (a, b)" by (cases x)
  have "(of_char a XOR of_char b :: 8 word) = 0 \<longleftrightarrow> a = b"
    by (auto simp: word_xor_eq_0 dest: of_char_word_inject)
  then show ?case by (auto simp: Cons x or_eq_0_iff)
qed simp

lemma ConstantTimeCompare_iff: "ConstantTimeCompare x y \<longleftrightarrow> x = y"
  by (auto simp: ConstantTimeCompare_def fold_xor_zero list_eq_iff_zip_eq)

end
