(* ===== verification/Http.thy ===== *)
theory Http
  imports Webhook_Types Go_Text
begin

text \<open>
  What the program uses of \<open>net/http\<close>, and the \<open>statusRecorder\<close> of
  \<^verbatim>\<open>internal/httpx/middleware.go\<close> that wraps its response writer.

  \<^item> A \<open>request\<close> holds the fields the program reads.  Its body is the bytes the client sends and
    the error, if any, with which reading them ends.
  \<^item> A \<open>writer\<close> is the server's response (the mutable header map, the status with the header
    snapshot that \<open>WriteHeader\<close> sent, the body bytes) under a stack of recorders, the one the
    handler holds first.  Writes to the connection succeed in the model: the program ignores
    or only logs their errors.
\<close>

subsection \<open>Headers\<close>

type_synonym header = "string \<rightharpoonup> string list"

definition is_alpha :: "char \<Rightarrow> bool" where
  "is_alpha c \<longleftrightarrow> 65 \<le> code c \<and> code c \<le> 90 \<or> 97 \<le> code c \<and> code c \<le> 122"

definition validHeaderFieldByte :: "char \<Rightarrow> bool" where
  "validHeaderFieldByte c \<longleftrightarrow> is_alpha c \<or> is_digit c \<or> c \<in> set ''!#$%&*+-.^_`|~'' \<or> c = CHR 0x27"

definition ascii_upper :: "char \<Rightarrow> char" where
  "ascii_upper c = (if 97 \<le> code c \<and> code c \<le> 122 then char_of (code c - 32) else c)"

fun canon_bytes :: "bool \<Rightarrow> string \<Rightarrow> string" where
  "canon_bytes up [] = []"
| "canon_bytes up (c # cs) =
    (if up then ascii_upper c else ascii_lower c) # canon_bytes (c = CHR ''-'') cs"

definition CanonicalMIMEHeaderKey :: "string \<Rightarrow> string" where
  "CanonicalMIMEHeaderKey s = (if list_all validHeaderFieldByte s then canon_bytes True s else s)"

definition Header_Get :: "header \<Rightarrow> string \<Rightarrow> string" where
  "Header_Get h key = (case h (CanonicalMIMEHeaderKey key) of Some (v # vs) \<Rightarrow> v | _ \<Rightarrow> [])"

definition Header_Set :: "string \<Rightarrow> string \<Rightarrow> header \<Rightarrow> header" where
  "Header_Set key v h = h(CanonicalMIMEHeaderKey key \<mapsto> [v])"

definition Header_Del :: "string \<Rightarrow> header \<Rightarrow> header" where
  "Header_Del key h = h(CanonicalMIMEHeaderKey key := None)"

lemma Header_Get_Set [simp]: "Header_Get (Header_Set k v h) k = v"
  by (simp add: Header_Get_def Header_Set_def)

lemma Header_Get_Set_other:
  "CanonicalMIMEHeaderKey k \<noteq> CanonicalMIMEHeaderKey k' \<Longrightarrow> Header_Get (Header_Set k v h) k' = Header_Get h k'"
  by (simp add: Header_Get_def Header_Set_def)

subsection \<open>Requests\<close>

record request =
  Method :: string
  URLPath :: string
  EscapedPath :: string
  Pattern :: string
  PathValue :: "string \<Rightarrow> string"
  ReqHeader :: header
  BodyData :: bytes
  BodyErr :: "go_error option"
  ContentLength :: int
  Ctx :: ctx

definition WithContext :: "ctx \<Rightarrow> request \<Rightarrow> request" where
  "WithContext c r = r\<lparr>Ctx := c\<rparr>"

text \<open>\<open>io.ReadAll(http.MaxBytesReader(w, r.Body, n))\<close>: reading one byte more than \<open>n\<close> (0 for a negative \<open>n\<close>) is a
  \<open>*http.MaxBytesError\<close>; up to there the reader passes the body and its final error on.\<close>

definition MaxBytesError :: go_error where
  "MaxBytesError = Ext ''*http.MaxBytesError'' ''http: request body too large''"

definition errors_As_MaxBytesError :: "go_error \<Rightarrow> bool" where
  "errors_As_MaxBytesError e = errors_Is e MaxBytesError"

definition ReadAll_MaxBytes :: "int \<Rightarrow> request \<Rightarrow> go_error + bytes" where
  "ReadAll_MaxBytes n r =
    (if max 0 n < int (length (BodyData r)) then Inl MaxBytesError
     else case BodyErr r of None \<Rightarrow> Inr (BodyData r) | Some e \<Rightarrow> Inl e)"

subsection \<open>The response writer\<close>

record recorder =
  rec_status :: int
  rec_bytes :: int
  rec_wroteHeader :: bool

record writer =
  w_header :: header
  w_sent :: "(int \<times> header) option"
  w_body :: bytes
  w_recs :: "recorder list"

definition newStatusRecorder :: "writer \<Rightarrow> writer" where
  "newStatusRecorder w =
     w\<lparr>w_recs := \<lparr>rec_status = 200, rec_bytes = 0, rec_wroteHeader = False\<rparr> # w_recs w\<rparr>"

text \<open>\<open>statusRecorder.WriteHeader\<close>, from the handler's recorder towards the server's response; the
  flag says whether the call got that far.\<close>

fun recs_WriteHeader :: "int \<Rightarrow> recorder list \<Rightarrow> recorder list \<times> bool" where
  "recs_WriteHeader status [] = ([], True)"
| "recs_WriteHeader status (s # ss) =
    (if rec_wroteHeader s then (s # ss, False)
     else let (ss', reached) = recs_WriteHeader status ss
          in (s\<lparr>rec_status := status, rec_wroteHeader := True\<rparr> # ss', reached))"

definition base_WriteHeader :: "int \<Rightarrow> writer \<Rightarrow> writer" where
  "base_WriteHeader status w =
    (case w_sent w of Some _ \<Rightarrow> w | None \<Rightarrow> w\<lparr>w_sent := Some (status, w_header w)\<rparr>)"

definition WriteHeader :: "int \<Rightarrow> writer \<Rightarrow> writer" where
  "WriteHeader status w =
    (let (rs, reached) = recs_WriteHeader status (w_recs w); w = w\<lparr>w_recs := rs\<rparr>
     in if reached then base_WriteHeader status w else w)"

text \<open>\<open>statusRecorder.Write\<close> marks the header as written and counts the bytes.\<close>

definition recs_Write :: "nat \<Rightarrow> recorder list \<Rightarrow> recorder list" where
  "recs_Write n = map (\<lambda>s. s\<lparr>rec_wroteHeader := True, rec_bytes := rec_bytes s + int n\<rparr>)"

definition Write :: "bytes \<Rightarrow> writer \<Rightarrow> writer" where
  "Write b w =
    (let w = base_WriteHeader 200 (w\<lparr>w_recs := recs_Write (length b) (w_recs w)\<rparr>)
     in w\<lparr>w_body := w_body w @ b\<rparr>)"

definition set_header :: "string \<Rightarrow> string \<Rightarrow> writer \<Rightarrow> writer" where
  "set_header k v w = w\<lparr>w_header := Header_Set k v (w_header w)\<rparr>"

text \<open>\<open>http.Error\<close>.\<close>

definition http_Error :: "string \<Rightarrow> int \<Rightarrow> writer \<Rightarrow> writer" where
  "http_Error msg status w =
    (let h = fold Header_Del [''Content-Length'', ''Content-Encoding'', ''Etag'', ''Last-Modified''] (w_header w);
         w = w\<lparr>w_header := h\<rparr>;
         w = set_header ''Content-Type'' ''text/plain; charset=utf-8'' w;
         w = set_header ''X-Content-Type-Options'' ''nosniff'' w
     in Write (msg @ [CHR 0x0A]) (WriteHeader status w))"

subsection \<open>A response that has not been started\<close>

text \<open>No header has been sent and no recorder has seen a write: the state in which a handler
  receives its writer.\<close>

definition fresh :: "writer \<Rightarrow> bool" where
  "fresh w \<longleftrightarrow> w_sent w = None \<and> w_body w = [] \<and>
     list_all (\<lambda>s. \<not> rec_wroteHeader s \<and> rec_status s = 200 \<and> rec_bytes s = 0) (w_recs w)"

text \<open>The response the client gets and what every recorder reports about it agree.\<close>

definition answered :: "int \<Rightarrow> bytes \<Rightarrow> writer \<Rightarrow> bool" where
  "answered status b w \<longleftrightarrow> map_option fst (w_sent w) = Some status \<and> w_body w = b \<and>
     list_all (\<lambda>s. rec_status s = status \<and> rec_bytes s = int (length b) \<and> rec_wroteHeader s) (w_recs w)"

lemma recs_WriteHeader_fresh:
  "list_all (\<lambda>s. \<not> rec_wroteHeader s) rs \<Longrightarrow>
   recs_WriteHeader status rs = (map (\<lambda>s. s\<lparr>rec_status := status, rec_wroteHeader := True\<rparr>) rs, True)"
  by (induction rs) auto

lemma fresh_not_wrote: "fresh w \<Longrightarrow> list_all (\<lambda>s. \<not> rec_wroteHeader s) (w_recs w)"
  by (auto simp: fresh_def list_all_iff)

lemma fresh_set_header [simp]: "fresh (set_header k v w) = fresh w"
  by (simp add: fresh_def set_header_def)

lemma fresh_w_header [simp]: "fresh (w\<lparr>w_header := h\<rparr>) = fresh w"
  by (simp add: fresh_def)

lemma fresh_newStatusRecorder [simp]: "fresh (newStatusRecorder w) = fresh w"
  by (simp add: fresh_def newStatusRecorder_def)

lemma WriteHeader_fresh:
  "fresh w \<Longrightarrow> WriteHeader status w =
     w\<lparr>w_recs := map (\<lambda>s. s\<lparr>rec_status := status, rec_wroteHeader := True\<rparr>) (w_recs w),
       w_sent := Some (status, w_header w)\<rparr>"
  by (simp add: WriteHeader_def recs_WriteHeader_fresh fresh_not_wrote base_WriteHeader_def fresh_def)

lemma WriteHeader_Write_fresh:
  assumes "fresh w"
  shows "answered status b (Write b (WriteHeader status w))"
    and "w_sent (Write b (WriteHeader status w)) = Some (status, w_header w)"
    and "length (w_recs (Write b (WriteHeader status w))) = length (w_recs w)"
  using assms
  by (auto simp: WriteHeader_fresh Write_def recs_Write_def base_WriteHeader_def answered_def fresh_def list_all_iff)

lemma http_Error_fresh:
  assumes "fresh w"
  shows "answered status (msg @ [CHR 0x0A]) (http_Error msg status w)"
    and "length (w_recs (http_Error msg status w)) = length (w_recs w)"
  using assms by (simp_all add: http_Error_def Let_def set_header_def WriteHeader_Write_fresh)

text \<open>The stack of recorders keeps its height.\<close>

lemma recs_WriteHeader_length: "length (fst (recs_WriteHeader status rs)) = length rs"
  by (induction rs) (auto split: prod.splits)

lemma length_recs [simp]:
  "length (w_recs (WriteHeader status w)) = length (w_recs w)"
  "length (w_recs (Write b w)) = length (w_recs w)"
  "length (w_recs (set_header k v w)) = length (w_recs w)"
  "length (w_recs (http_Error msg status w)) = length (w_recs w)"
proof -
  show wh: "length (w_recs (WriteHeader status w)) = length (w_recs w)" for status w
    using recs_WriteHeader_length [of status "w_recs w"]
    by (auto simp: WriteHeader_def base_WriteHeader_def Let_def split: prod.splits option.splits)
  show wr: "length (w_recs (Write b w)) = length (w_recs w)" for b w
    by (auto simp: Write_def base_WriteHeader_def recs_Write_def Let_def split: option.splits)
  show "length (w_recs (set_header k v w)) = length (w_recs w)" by (simp add: set_header_def)
  show "length (w_recs (http_Error msg status w)) = length (w_recs w)"
    by (simp add: http_Error_def Let_def wh wr set_header_def)
qed

subsection \<open>Started responses\<close>

text \<open>In every reachable writer a recorder that saw a write means that the response was started.\<close>

definition wf_writer :: "writer \<Rightarrow> bool" where
  "wf_writer w \<longleftrightarrow> (list_ex rec_wroteHeader (w_recs w) \<longrightarrow> w_sent w \<noteq> None)"

lemma recs_WriteHeader_reached:
  "\<not> list_ex rec_wroteHeader rs \<Longrightarrow> snd (recs_WriteHeader status rs)"
  by (induction rs) (auto split: prod.splits)

lemma WriteHeader_sent:
  assumes "wf_writer w"
  shows "w_sent (WriteHeader status w) = Some (case w_sent w of Some x \<Rightarrow> x | None \<Rightarrow> (status, w_header w))"
    and "w_header (WriteHeader status w) = w_header w"
proof -
  have "snd (recs_WriteHeader status (w_recs w))" if "w_sent w = None"
    using assms that by (auto simp: wf_writer_def intro: recs_WriteHeader_reached)
  then show "w_sent (WriteHeader status w) = Some (case w_sent w of Some x \<Rightarrow> x | None \<Rightarrow> (status, w_header w))"
    by (auto simp: WriteHeader_def base_WriteHeader_def Let_def split: prod.splits option.splits)
  show "w_header (WriteHeader status w) = w_header w"
    by (auto simp: WriteHeader_def base_WriteHeader_def Let_def split: prod.splits option.splits)
qed

lemma Write_sent:
  "w_sent (Write b w) = Some (case w_sent w of Some x \<Rightarrow> x | None \<Rightarrow> (200, w_header w))"
  "w_header (Write b w) = w_header w"
  by (auto simp: Write_def base_WriteHeader_def Let_def split: option.splits)

definition carries :: "string \<Rightarrow> string \<Rightarrow> writer \<Rightarrow> bool" where
  "carries k v w \<longleftrightarrow> wf_writer w \<and> Header_Get (w_header w) k = v \<and>
     (\<forall>status h. w_sent w = Some (status, h) \<longrightarrow> Header_Get h k = v)"

lemma carries_WriteHeader [intro]: "carries k v w \<Longrightarrow> carries k v (WriteHeader status w)"
  by (auto simp: carries_def WriteHeader_sent split: option.splits) (simp add: wf_writer_def WriteHeader_sent)+

lemma carries_sent: "carries k v w \<Longrightarrow> w_sent (WriteHeader status w) \<noteq> None"
  by (simp add: carries_def WriteHeader_sent)

lemma carries_Write [intro]: "carries k v w \<Longrightarrow> carries k v (Write b w)"
  by (auto simp: carries_def Write_sent wf_writer_def split: option.splits)

lemma carries_set_header [intro]:
  "carries k v w \<Longrightarrow> CanonicalMIMEHeaderKey k' \<noteq> CanonicalMIMEHeaderKey k \<Longrightarrow> carries k v (set_header k' v' w)"
  by (auto simp: carries_def set_header_def wf_writer_def Header_Get_Set_other)

lemma carries_w_header:
  "carries k v w \<Longrightarrow> Header_Get h k = v \<Longrightarrow> carries k v (w\<lparr>w_header := h\<rparr>)"
  by (simp add: carries_def wf_writer_def)

lemma carries_recorders [simp]:
  "carries k v (newStatusRecorder w) = carries k v w"
  by (simp add: carries_def newStatusRecorder_def wf_writer_def)

lemma Header_Get_Del_other:
  "CanonicalMIMEHeaderKey k \<noteq> CanonicalMIMEHeaderKey k' \<Longrightarrow> Header_Get (Header_Del k h) k' = Header_Get h k'"
  by (simp add: Header_Get_def Header_Del_def)

end
