(* ===== verification/Mux.thy ===== *)
theory Mux
  imports Http "HOL-Library.List_Lexorder" "HOL-Library.Char_ord"
begin

text \<open>
  What the program uses of \<open>net/http\<close>'s handlers and \<open>ServeMux\<close>.

  A handler maps the request, the response writer and the state to the panic value, if it
  panics, the request as it left it (a mux stores the matched pattern in it), the writer and the
  state; \<open>None\<close> while it has not returned.  A mux is the list of its registered routes.  The
  program registers patterns made of a method, literal segments, single-segment wildcards and,
  for a pattern that ends in a slash, everything below it.  The response of a redirect is a
  parameter, since nothing in the program depends on its text.
\<close>

type_synonym 's handler =
  "request \<Rightarrow> writer \<Rightarrow> 's \<Rightarrow> (string option \<times> request \<times> writer \<times> 's) option"

type_synonym 's middleware = "'s handler \<Rightarrow> 's handler"

text \<open>A \<open>http.HandlerFunc\<close> that only writes to its writer.\<close>

definition respond :: "(writer \<Rightarrow> writer) \<Rightarrow> 's handler" where
  "respond f r w s = Some (None, r, f w, s)"

subsection \<open>Paths\<close>

fun unescape_bytes :: "string \<Rightarrow> string option" where
  "unescape_bytes [] = Some []"
| "unescape_bytes (c # cs) =
    (if c = CHR ''%'' then
       (case cs of
          a # b # rest \<Rightarrow>
            (case (hexval a, hexval b) of
               (Some x, Some y) \<Rightarrow> map_option ((#) (char_of (16 * x + y))) (unescape_bytes rest)
             | _ \<Rightarrow> None)
        | _ \<Rightarrow> None)
     else map_option ((#) c) (unescape_bytes cs))"

text \<open>\<open>pathUnescape\<close> of the mux: a malformed escape leaves the text as it is.\<close>

definition pathUnescape :: "string \<Rightarrow> string" where
  "pathUnescape s = (case unescape_bytes s of Some t \<Rightarrow> t | None \<Rightarrow> s)"

text \<open>\<open>cleanPath\<close>, with \<open>path.Clean\<close> on a rooted path.\<close>

fun clean_segs :: "string list \<Rightarrow> string list \<Rightarrow> string list" where
  "clean_segs acc [] = rev acc"
| "clean_segs acc (s # ss) =
    (if s = [] \<or> s = ''.'' then clean_segs acc ss
     else if s = ''..'' then clean_segs (tl acc) ss
     else clean_segs (s # acc) ss)"

definition path_Clean :: "string \<Rightarrow> string" where
  "path_Clean p = (case clean_segs [] (SplitSeq CHR ''/'' p) of
     [] \<Rightarrow> ''/'' | segs \<Rightarrow> concat (map (\<lambda>s. CHR ''/'' # s) segs))"

definition cleanPath :: "string \<Rightarrow> string" where
  "cleanPath p =
    (if p = [] then ''/''
     else let p = (if hd p \<noteq> CHR ''/'' then CHR ''/'' # p else p); np = path_Clean p
          in if last p = CHR ''/'' \<and> np \<noteq> ''/'' then np @ ''/'' else np)"

text \<open>The segments that repeated \<open>firstSegment\<close> yields: unescaped, a trailing slash as \<open>/\<close>.\<close>

definition mux_segments :: "string \<Rightarrow> string list" where
  "mux_segments p =
    (let raws = SplitSeq CHR ''/'' (tl p)
     in map pathUnescape (butlast raws) @ [if last raws = [] then ''/'' else pathUnescape (last raws)])"

subsection \<open>Patterns and routes\<close>

datatype seg = Literal string | Wildcard string

record 's route =
  rt_method :: string
  rt_text :: string
  rt_segs :: "seg list"
  rt_subtree :: bool
  rt_handler :: "'s handler"

fun match_segs :: "bool \<Rightarrow> seg list \<Rightarrow> string list \<Rightarrow> (string \<times> string) list option" where
  "match_segs subtree [] ss = (if subtree = (ss \<noteq> []) then Some [] else None)"
| "match_segs subtree (Literal l # ps) (s # ss) = (if s = l then match_segs subtree ps ss else None)"
| "match_segs subtree (Wildcard n # ps) (s # ss) =
    (if s = ''/'' then None else map_option ((#) (n, s)) (match_segs subtree ps ss))"
| "match_segs subtree (p # ps) [] = None"

definition route_match :: "string \<Rightarrow> 's route \<Rightarrow> (string \<times> string) list option" where
  "route_match path rt = match_segs (rt_subtree rt) (rt_segs rt) (mux_segments path)"

text \<open>The first route among \<open>rts\<close> for a method and path.  A pattern that ends in a slash is less
  specific than the patterns below it, so it is tried after them.\<close>

fun first_match :: "string \<Rightarrow> 's route list \<Rightarrow> ('s route \<times> (string \<times> string) list) option" where
  "first_match path [] = None"
| "first_match path (rt # rts) =
    (case route_match path rt of Some ms \<Rightarrow> Some (rt, ms) | None \<Rightarrow> first_match path rts)"

definition match_path ::
  "'s route list \<Rightarrow> string \<Rightarrow> string \<Rightarrow> ('s route \<times> (string \<times> string) list) option" where
  "match_path rts meth path =
    (let rts = filter (\<lambda>rt. rt_method rt = meth) rts
     in first_match path (filter (\<lambda>rt. \<not> rt_subtree rt) rts @ filter rt_subtree rts))"

definition tree_match ::
  "'s route list \<Rightarrow> string \<Rightarrow> string \<Rightarrow> ('s route \<times> (string \<times> string) list) option" where
  "tree_match rts meth path =
    (case match_path rts meth path of
       Some x \<Rightarrow> Some x
     | None \<Rightarrow> if meth = ''HEAD'' then match_path rts ''GET'' path else None)"

definition exactMatch :: "('s route \<times> (string \<times> string) list) option \<Rightarrow> string \<Rightarrow> bool" where
  "exactMatch n path =
    (case n of None \<Rightarrow> False
     | Some (rt, _) \<Rightarrow>
         \<not> rt_subtree rt \<or>
         (path \<noteq> [] \<longrightarrow> last path = CHR ''/'') \<and> Suc (length (rt_segs rt)) = count_list path CHR ''/'')"

definition matchingMethods :: "'s route list \<Rightarrow> string \<Rightarrow> string list" where
  "matchingMethods rts path =
    (let paths = (if path \<noteq> [] \<and> last path = CHR ''/'' then [path] else [path, path @ ''/'']);
         ms = map rt_method (filter (\<lambda>rt. \<exists>p \<in> set paths. route_match p rt \<noteq> None) rts)
     in sort (remdups (if ''GET'' \<in> set ms then ''HEAD'' # ms else ms)))"

subsection \<open>Serving\<close>

datatype 's found =
    Found "'s route" "(string \<times> string) list"
  | Redirected string string     \<comment> \<open>the pattern the mux reports and the target path\<close>
  | NotAllowed "string list"
  | NoRoute

text \<open>\<open>CONNECT\<close> requests are not canonicalized; a path without a match gets a trailing slash if that
  makes it match exactly (\<open>matchOrRedirect\<close>).\<close>

definition mux_path :: "request \<Rightarrow> string" where
  "mux_path r = (if Method r = ''CONNECT'' then EscapedPath r else cleanPath (EscapedPath r))"

definition slash_redirect :: "'s route list \<Rightarrow> string \<Rightarrow> string \<Rightarrow> bool" where
  "slash_redirect rts meth path \<longleftrightarrow>
     \<not> exactMatch (tree_match rts meth path) path \<and> (path = [] \<or> last path \<noteq> CHR ''/'') \<and>
     exactMatch (tree_match rts meth (path @ ''/'')) (path @ ''/'')"

definition findHandler :: "'s route list \<Rightarrow> request \<Rightarrow> 's found" where
  "findHandler rts r =
    (let path = mux_path r; n = tree_match rts (Method r) path; target = cleanPath (URLPath r) @ ''/''
     in if slash_redirect rts (Method r) path then Redirected target target
        else if path \<noteq> EscapedPath r
        then Redirected (case n of Some (rt, _) \<Rightarrow> rt_text rt | None \<Rightarrow> []) path
        else case n of
          Some (rt, ms) \<Rightarrow> Found rt ms
        | None \<Rightarrow> (case matchingMethods rts path of [] \<Rightarrow> NoRoute | allowed \<Rightarrow> NotAllowed allowed))"

definition join :: "string \<Rightarrow> string list \<Rightarrow> string" where
  "join sep ss = (case ss of [] \<Rightarrow> [] | s # rest \<Rightarrow> s @ concat (map (\<lambda>t. sep @ t) rest))"

definition set_match :: "string \<Rightarrow> (string \<times> string) list \<Rightarrow> request \<Rightarrow> request" where
  "set_match pat ms r =
     r\<lparr>Pattern := pat, PathValue := (\<lambda>k. case map_of ms k of Some v \<Rightarrow> v | None \<Rightarrow> [])\<rparr>"

definition mux_ServeHTTP ::
  "(request \<Rightarrow> string \<Rightarrow> writer \<Rightarrow> writer) \<Rightarrow> 's route list \<Rightarrow> 's handler" where
  "mux_ServeHTTP redirect rts r w s =
    (case findHandler rts r of
       Found rt ms \<Rightarrow> rt_handler rt (set_match (rt_text rt) ms r) w s
     | Redirected pat target \<Rightarrow> Some (None, set_match pat [] r, redirect r target w, s)
     | NotAllowed allowed \<Rightarrow>
         Some (None, set_match [] [] r,
           http_Error ''Method Not Allowed'' 405 (set_header ''Allow'' (join '', '' allowed) w), s)
     | NoRoute \<Rightarrow> Some (None, set_match [] [] r, http_Error ''404 page not found'' 404 w, s))"

subsection \<open>Facts\<close>

lemma first_match_Some:
  "first_match path rts = Some (rt, ms) \<Longrightarrow> rt \<in> set rts \<and> route_match path rt = Some ms"
  by (induction rts) (auto split: option.splits)

lemma match_path_Some:
  "match_path rts meth path = Some (rt, ms) \<Longrightarrow>
     rt \<in> set rts \<and> rt_method rt = meth \<and> route_match path rt = Some ms"
  by (auto simp: match_path_def Let_def dest!: first_match_Some)

lemma tree_match_Some:
  "tree_match rts meth path = Some (rt, ms) \<Longrightarrow>
     rt \<in> set rts \<and> (rt_method rt = meth \<or> meth = ''HEAD'' \<and> rt_method rt = ''GET'') \<and>
     route_match path rt = Some ms"
  by (auto simp: tree_match_def split: option.splits if_splits dest: match_path_Some)

text \<open>A route is served only for its own method (\<open>HEAD\<close> counting as \<open>GET\<close>) and a path it matches.\<close>

lemma findHandler_Found:
  assumes "findHandler rts r = Found rt ms"
  shows "rt \<in> set rts" "rt_method rt = Method r \<or> Method r = ''HEAD'' \<and> rt_method rt = ''GET''"
    "route_match (EscapedPath r) rt = Some ms"
proof -
  have "mux_path r = EscapedPath r \<and> tree_match rts (Method r) (mux_path r) = Some (rt, ms)"
    using assms by (simp add: findHandler_def Let_def split: if_split_asm option.split_asm prod.split_asm list.split_asm)
  then have t: "tree_match rts (Method r) (EscapedPath r) = Some (rt, ms)" by metis
  from tree_match_Some [OF this]
  show "rt \<in> set rts" "rt_method rt = Method r \<or> Method r = ''HEAD'' \<and> rt_method rt = ''GET''"
    "route_match (EscapedPath r) rt = Some ms" by blast+
qed

lemma match_segs_single_wildcard:
  "match_segs False [Literal l, Wildcard n] ss = Some ms \<longleftrightarrow> (\<exists>v. ss = [l, v] \<and> v \<noteq> ''/'' \<and> ms = [(n, v)])"
  by (cases ss; cases "tl ss"; cases "tl (tl ss)") (auto split: if_splits)

lemma set_match_simps [simp]:
  "Pattern (set_match pat ms r) = pat" "Ctx (set_match pat ms r) = Ctx r"
  "BodyData (set_match pat ms r) = BodyData r" "BodyErr (set_match pat ms r) = BodyErr r"
  "ReqHeader (set_match pat ms r) = ReqHeader r" "Method (set_match pat ms r) = Method r"
  "ContentLength (set_match pat ms r) = ContentLength r" "EscapedPath (set_match pat ms r) = EscapedPath r"
  "URLPath (set_match pat ms r) = URLPath r"
  by (simp_all add: set_match_def)

end
