(* ===== verification/Metrics.thy ===== *)
theory Metrics
  imports Prelude "HOL-Library.Sublist"
begin

text \<open>
  \<^verbatim>\<open>internal/observability/metrics.go\<close>: the instruments, by name and label names, their
  registration, and the samples they hold.  A Prometheus vector panics when it is given a number of
  label values that differs from its label names; the model raises the flag \<open>bad\<close> there.
\<close>

record vec =
  vec_name :: string
  vec_labels :: "string list"

definition HTTPRequests :: vec where
  "HTTPRequests = \<lparr>vec_name = ''webhookd_http_requests_total'', vec_labels = [''method'', ''route'', ''status'']\<rparr>"
definition HTTPDuration :: vec where
  "HTTPDuration = \<lparr>vec_name = ''webhookd_http_request_duration_seconds'', vec_labels = [''method'', ''route'', ''status'']\<rparr>"
definition HTTPRequestSize :: vec where
  "HTTPRequestSize = \<lparr>vec_name = ''webhookd_http_request_size_bytes'', vec_labels = [''method'', ''route'']\<rparr>"
definition HTTPResponseSize :: vec where
  "HTTPResponseSize = \<lparr>vec_name = ''webhookd_http_response_size_bytes'', vec_labels = [''method'', ''route'']\<rparr>"
definition HTTPInflight :: vec where
  "HTTPInflight = \<lparr>vec_name = ''webhookd_http_inflight_requests'', vec_labels = []\<rparr>"
definition HTTPPanics :: vec where
  "HTTPPanics = \<lparr>vec_name = ''webhookd_http_panics_total'', vec_labels = []\<rparr>"
definition WebhookEvents :: vec where
  "WebhookEvents = \<lparr>vec_name = ''webhookd_webhook_events_total'', vec_labels = [''provider'', ''event_type'', ''outcome'']\<rparr>"
definition WebhookSigResults :: vec where
  "WebhookSigResults = \<lparr>vec_name = ''webhookd_webhook_signature_validation_total'', vec_labels = [''provider'', ''result'']\<rparr>"
definition WebhookProcessing :: vec where
  "WebhookProcessing = \<lparr>vec_name = ''webhookd_webhook_processing_duration_seconds'', vec_labels = [''provider'', ''event_type'']\<rparr>"
definition HTTPRateLimited :: vec where
  "HTTPRateLimited = \<lparr>vec_name = ''webhookd_http_rate_limited_total'', vec_labels = [''provider'']\<rparr>"
definition K8sApplyTotal :: vec where
  "K8sApplyTotal = \<lparr>vec_name = ''webhookd_k8s_apply_total'', vec_labels = [''kind'', ''outcome'']\<rparr>"
definition K8sSyncDuration :: vec where
  "K8sSyncDuration = \<lparr>vec_name = ''webhookd_k8s_sync_duration_seconds'', vec_labels = [''kind'', ''outcome'']\<rparr>"
definition JSMPayloadParseErrors :: vec where
  "JSMPayloadParseErrors = \<lparr>vec_name = ''webhookd_jsm_payload_parse_errors_total'', vec_labels = [''reason'']\<rparr>"
definition JSMNoopTotal :: vec where
  "JSMNoopTotal = \<lparr>vec_name = ''webhookd_jsm_noop_total'', vec_labels = []\<rparr>"
definition JSMResponseTotal :: vec where
  "JSMResponseTotal = \<lparr>vec_name = ''webhookd_jsm_response_total'', vec_labels = [''status_code'']\<rparr>"
definition BuildInfoVec :: vec where
  "BuildInfoVec = \<lparr>vec_name = ''webhookd_build_info'', vec_labels = [''version'', ''commit'', ''go_version'']\<rparr>"

lemmas vec_defs = HTTPRequests_def HTTPDuration_def HTTPRequestSize_def HTTPResponseSize_def
  HTTPInflight_def HTTPPanics_def WebhookEvents_def WebhookSigResults_def WebhookProcessing_def
  HTTPRateLimited_def K8sApplyTotal_def K8sSyncDuration_def JSMPayloadParseErrors_def
  JSMNoopTotal_def JSMResponseTotal_def BuildInfoVec_def

type_synonym series = "string \<times> string list"

record metrics =
  counts :: "series \<Rightarrow> nat"
  observed :: "series \<Rightarrow> int list"
  inflight :: int
  bad :: bool

text \<open>\<open>vec.WithLabelValues(ls...).Inc()\<close> and \<open>.Observe(x)\<close>.\<close>

definition Inc :: "vec \<Rightarrow> string list \<Rightarrow> metrics \<Rightarrow> metrics" where
  "Inc v ls m =
    (if length ls = length (vec_labels v)
     then m\<lparr>counts := (counts m)((vec_name v, ls) := Suc (counts m (vec_name v, ls)))\<rparr>
     else m\<lparr>bad := True\<rparr>)"

definition Observe :: "vec \<Rightarrow> string list \<Rightarrow> int \<Rightarrow> metrics \<Rightarrow> metrics" where
  "Observe v ls x m =
    (if length ls = length (vec_labels v)
     then m\<lparr>observed := (observed m)((vec_name v, ls) := observed m (vec_name v, ls) @ [x])\<rparr>
     else m\<lparr>bad := True\<rparr>)"

text \<open>\<open>m.HTTPInflight.Inc()\<close> and \<open>Dec()\<close>.\<close>

definition InflightInc :: "metrics \<Rightarrow> metrics" where "InflightInc m = m\<lparr>inflight := inflight m + 1\<rparr>"
definition InflightDec :: "metrics \<Rightarrow> metrics" where "InflightDec m = m\<lparr>inflight := inflight m - 1\<rparr>"

text \<open>\<open>reg.MustRegister\<close> panics (\<open>None\<close>) on a name that is already registered.\<close>

fun MustRegister :: "string list \<Rightarrow> string list \<Rightarrow> string list option" where
  "MustRegister reg [] = Some reg"
| "MustRegister reg (n # ns) = (if n \<in> set reg then None else MustRegister (reg @ [n]) ns)"

text \<open>\<open>NewMetrics\<close>: \<open>runtime_names\<close> are the metric names of the Go and process collectors.\<close>

definition NewMetrics :: "string list \<Rightarrow> (string list \<times> metrics) option" where
  "NewMetrics runtime_names =
    map_option (\<lambda>reg. (reg, \<lparr>counts = (\<lambda>_. 0), observed = (\<lambda>_. []), inflight = 0, bad = False\<rparr>))
      (MustRegister []
        (map vec_name [HTTPRequests, HTTPDuration, HTTPRequestSize, HTTPResponseSize, HTTPInflight,
           HTTPPanics, WebhookEvents, WebhookSigResults, WebhookProcessing, HTTPRateLimited,
           K8sApplyTotal, K8sSyncDuration, JSMPayloadParseErrors, JSMNoopTotal, JSMResponseTotal]
         @ runtime_names @ [vec_name BuildInfoVec]))"

lemma MustRegister_Some:
  "MustRegister reg ns = Some r \<longleftrightarrow> distinct ns \<and> set ns \<inter> set reg = {} \<and> r = reg @ ns"
  by (induction ns arbitrary: reg) auto

lemma Inc_ok [simp]: "length ls = length (vec_labels v) \<Longrightarrow> bad (Inc v ls m) = bad m"
  by (simp add: Inc_def)

lemma Observe_ok [simp]: "length ls = length (vec_labels v) \<Longrightarrow> bad (Observe v ls x m) = bad m"
  by (simp add: Observe_def)

lemma metrics_frame [simp]:
  "inflight (Inc v ls m) = inflight m" "inflight (Observe v ls x m) = inflight m"
  "observed (Inc v ls m) = observed m" "counts (Observe v ls x m) = counts m"
  "counts (InflightInc m) = counts m" "counts (InflightDec m) = counts m"
  "observed (InflightInc m) = observed m" "observed (InflightDec m) = observed m"
  "inflight (InflightInc m) = inflight m + 1" "inflight (InflightDec m) = inflight m - 1"
  "bad (InflightInc m) = bad m" "bad (InflightDec m) = bad m"
  by (simp_all add: Inc_def Observe_def InflightInc_def InflightDec_def)

text \<open>What only the HTTP middleware may change: the in-flight gauge and the request counter; and the
  wrong-label flag, which nothing may raise.\<close>

definition http_requests :: "metrics \<Rightarrow> string list \<Rightarrow> nat" where
  "http_requests m ls = counts m (vec_name HTTPRequests, ls)"

definition gauge :: "metrics option \<Rightarrow> (int \<times> bool \<times> (string list \<Rightarrow> nat)) option" where
  "gauge = map_option (\<lambda>m. (inflight m, bad m, http_requests m))"

lemma gauge_simps [simp]:
  "gauge None = None" "gauge (Some m) = Some (inflight m, bad m, http_requests m)"
  by (simp_all add: gauge_def)

lemma http_requests_frame [simp]:
  "vec_name v \<noteq> vec_name HTTPRequests \<Longrightarrow> http_requests (Inc v ls m) = http_requests m"
  "http_requests (Observe v ls x m) = http_requests m"
  "http_requests (InflightInc m) = http_requests m" "http_requests (InflightDec m) = http_requests m"
  by (auto simp: http_requests_def Inc_def fun_eq_iff)

lemma gauge_Inc [simp]:
  "length ls = length (vec_labels v) \<Longrightarrow> vec_name v \<noteq> vec_name HTTPRequests \<Longrightarrow>
   gauge (map_option (Inc v ls) m) = gauge m"
  by (cases m) simp_all

lemma gauge_Observe [simp]: "length ls = length (vec_labels v) \<Longrightarrow> gauge (map_option (Observe v ls x) m) = gauge m"
  by (cases m) simp_all

lemma gauge_None [simp]: "gauge m = None \<longleftrightarrow> m = None"
  by (simp add: gauge_def)

lemma counts_Inc: "length ls = length (vec_labels v) \<Longrightarrow>
  counts (Inc v ls m) s = counts m s + (if s = (vec_name v, ls) then 1 else 0)"
  by (simp add: Inc_def)

end
