(* ===== verification/Go_Time.thy ===== *)
theory Go_Time
  imports Go_Text Complex_Main
begin

text \<open>
  The parts of Go's \<open>time\<close> package the program uses.  A \<open>time.Time\<close> without a monotonic
  reading is its \<open>int64\<close> seconds since the year 1 and its nanoseconds; a \<open>time.Duration\<close> is an
  \<open>int64\<close> number of nanoseconds.
\<close>

type_synonym duration = int

abbreviation Millisecond :: duration where "Millisecond \<equiv> 1000000"
abbreviation Second :: duration where "Second \<equiv> 1000000000"
abbreviation Minute :: duration where "Minute \<equiv> 60 * Second"

record gotime =
  t_sec :: int
  t_nsec :: int

definition unixToInternal :: int where "unixToInternal = 62135596800"

text \<open>\<open>time.Unix(sec, 0)\<close>: the addition is \<open>int64\<close> and wraps.\<close>

definition time_Unix :: "int \<Rightarrow> gotime" where
  "time_Unix sec = \<lparr>t_sec = wrap64 (sec + unixToInternal), t_nsec = 0\<rparr>"

definition instant :: "gotime \<Rightarrow> int" where
  "instant t = t_sec t * Second + t_nsec t"

text \<open>\<open>t.Sub(u)\<close>: the difference in nanoseconds, saturated at the ends of \<open>Duration\<close>.\<close>

definition time_Sub :: "gotime \<Rightarrow> gotime \<Rightarrow> duration" where
  "time_Sub t u = sat64 (instant t - instant u)"

text \<open>\<open>Duration.String\<close>: \<open>fmtFrac\<close> prints the fraction without its trailing zeros.\<close>

fun pad_digits :: "nat \<Rightarrow> nat \<Rightarrow> string" where
  "pad_digits 0 v = []"
| "pad_digits (Suc k) v = pad_digits k (v div 10) @ [digit (v mod 10)]"

definition fmtFrac :: "nat \<Rightarrow> nat \<Rightarrow> string" where
  "fmtFrac prec v = (let ds = rev (dropWhile (\<lambda>c. c = CHR ''0'') (rev (pad_digits prec v)))
     in if ds = [] then [] else CHR ''.'' # ds)"

definition Duration_String :: "duration \<Rightarrow> string" where
  "Duration_String d =
    (let u = nat \<bar>d\<bar>;
         body =
           (if u = 0 then ''0s''
            else if u < 1000 then dec_nat u @ ''ns''
            else if u < 1000000 then dec_nat (u div 1000) @ fmtFrac 3 (u mod 1000) @ [CHR 0xC2, CHR 0xB5] @ ''s''
            else if u < 1000000000 then dec_nat (u div 1000000) @ fmtFrac 6 (u mod 1000000) @ ''ms''
            else let s = u div 1000000000; m = s div 60; h = m div 60 in
              (if h > 0 then dec_nat h @ ''h'' else []) @
              (if m > 0 then dec_nat (m mod 60) @ ''m'' else []) @
              dec_nat (s mod 60) @ fmtFrac 9 (u mod 1000000000) @ ''s'')
     in if d < 0 then CHR ''-'' # body else body)"

lemma in64_time_Sub: "in64 (time_Sub t u)"
  by (simp add: time_Sub_def in64_sat64)

lemma time_Unix_sec [simp]:
  "in64 (s + unixToInternal) \<Longrightarrow> time_Unix s = \<lparr>t_sec = s + unixToInternal, t_nsec = 0\<rparr>"
  by (simp add: time_Unix_def)

subsection \<open>float64\<close>

text \<open>
  A \<open>float64\<close> is its exact rational value, an infinity or NaN (the two zeros are identified:
  the program only compares).  \<open>fl\<close> is round-to-nearest-even to 53 bits, for the positive
  rationals in the normal range that \<open>ParseDuration\<close> meets.
\<close>

datatype float64 = Fin rat | PosInf | NegInf | NaN

fun flt_less :: "float64 \<Rightarrow> float64 \<Rightarrow> bool" where
  "flt_less (Fin x) (Fin y) = (x < y)"
| "flt_less (Fin x) PosInf = True"
| "flt_less NegInf (Fin y) = True"
| "flt_less NegInf PosInf = True"
| "flt_less _ _ = False"

fun flt_eq :: "float64 \<Rightarrow> float64 \<Rightarrow> bool" where
  "flt_eq NaN y = False"
| "flt_eq x NaN = False"
| "flt_eq x y = (x = y)"

definition flt_le :: "float64 \<Rightarrow> float64 \<Rightarrow> bool" where
  "flt_le x y \<longleftrightarrow> flt_less x y \<or> flt_eq x y"

fun bits :: "nat \<Rightarrow> nat" where
  "bits n = (if n = 0 then 0 else Suc (bits (n div 2)))"

declare bits.simps [simp del]

definition pow2 :: "int \<Rightarrow> rat" where
  "pow2 e = (if 0 \<le> e then 2 ^ nat e else 1 / 2 ^ nat (- e))"

definition round_even :: "rat \<Rightarrow> int" where
  "round_even x = (let f = \<lfloor>x\<rfloor>; d = x - of_int f in
     if d < 1 / 2 then f else if 1 / 2 < d then f + 1 else if even f then f else f + 1)"

definition fl :: "rat \<Rightarrow> rat" where
  "fl x = (if x = 0 then 0
     else let (p, q) = quotient_of x;
              e0 = int (bits (nat p)) - int (bits (nat q)) - 53;
              e = (if 2 ^ 53 \<le> x / pow2 e0 then e0 + 1 else e0)
          in of_int (round_even (x / pow2 e)) * pow2 e)"

subsection \<open>time.ParseDuration\<close>

text \<open>\<open>leadingInt\<close>: \<open>None\<close> is the overflow error.\<close>

fun leadingInt :: "nat \<Rightarrow> string \<Rightarrow> (nat \<times> string) option" where
  "leadingInt x [] = Some (x, [])"
| "leadingInt x (c # cs) =
    (if \<not> is_digit c then Some (x, c # cs)
     else if 2 ^ 63 div 10 < x then None
     else let y = x * 10 + digit_val c in if 2 ^ 63 < y then None else leadingInt y cs)"

text \<open>\<open>leadingFraction\<close>: the digits, the number of those kept, and the rest; digits after the first
  that would overflow are skipped.\<close>

fun leadingFraction :: "bool \<Rightarrow> nat \<Rightarrow> nat \<Rightarrow> string \<Rightarrow> nat \<times> nat \<times> string" where
  "leadingFraction ov x k [] = (x, k, [])"
| "leadingFraction ov x k (c # cs) =
    (if \<not> is_digit c then (x, k, c # cs)
     else if ov \<or> (2 ^ 63 - 1) div 10 < x then leadingFraction True x k cs
     else let y = x * 10 + digit_val c in
          if 2 ^ 63 < y then leadingFraction True x k cs else leadingFraction False y (Suc k) cs)"

definition unitMap :: "string \<Rightarrow> nat option" where
  "unitMap = map_of [(''ns'', 1), (''us'', 1000),
     ([CHR 0xC2, CHR 0xB5, CHR ''s''], 1000), ([CHR 0xCE, CHR 0xBC, CHR ''s''], 1000),
     (''ms'', 1000000), (''s'', 1000000000), (''m'', 60000000000), (''h'', 3600000000000)]"

text \<open>The \<open>time\<close> package's own \<open>quote\<close>: bytes outside printable ASCII as \<open>\x\<close> escapes.\<close>

definition time_quote :: "string \<Rightarrow> string" where
  "time_quote s = [CHR 0x22] @ concat (map (\<lambda>c.
     if 128 \<le> code c \<or> code c < 32 then CHR 0x5C # ''x'' @ hexn 2 (code c)
     else if c = CHR 0x22 \<or> c = CHR 0x5C then [CHR 0x5C, c] else [c]) s) @ [CHR 0x22]"

definition is_num_byte :: "char \<Rightarrow> bool" where
  "is_num_byte c \<longleftrightarrow> c = CHR ''.'' \<or> is_digit c"

lemma leadingInt_length: "leadingInt x s = Some (v, r) \<Longrightarrow> length r \<le> length s"
  by (induction x s arbitrary: v r rule: leadingInt.induct)
    (auto simp: Let_def split: if_splits, fastforce)

lemma leadingFraction_length: "leadingFraction ov x k s = (v, k', r) \<Longrightarrow> length r \<le> length s"
  by (induction ov x k s arbitrary: v k' r rule: leadingFraction.induct)
    (auto simp: Let_def split: if_splits, (fastforce dest: le_SucI)+)

text \<open>One \<open>number unit\<close> group: the nanoseconds and the rest, or the text of the error.\<close>

definition duration_group :: "string \<Rightarrow> string \<Rightarrow> string + nat \<times> string" where
  "duration_group orig s =
    (let invalid = Inl (''time: invalid duration '' @ time_quote orig) in
     if s = [] \<or> \<not> is_num_byte (hd s) then invalid
     else case leadingInt 0 s of None \<Rightarrow> invalid
     | Some (v, s1) \<Rightarrow>
       let pre = (length s1 \<noteq> length s);
           (f, k, s2, post) = (case s1 of
               c # cs \<Rightarrow> if c = CHR ''.'' then let (f, k, r) = leadingFraction False 0 0 cs
                                             in (f, k, r, length r \<noteq> length cs)
                         else (0, 0, s1, False)
             | [] \<Rightarrow> (0, 0, s1, False));
           un = takeWhile (\<lambda>c. \<not> is_num_byte c) s2;
           s3 = dropWhile (\<lambda>c. \<not> is_num_byte c) s2
       in if \<not> pre \<and> \<not> post then invalid
          else if un = [] then Inl (''time: missing unit in duration '' @ time_quote orig)
          else case unitMap un of
            None \<Rightarrow> Inl (''time: unknown unit '' @ time_quote un @ '' in duration '' @ time_quote orig)
          | Some unit \<Rightarrow>
              if 2 ^ 63 div unit < v then invalid
              else let v = v * unit;
                       v = (if 0 < f then v + nat \<lfloor>fl (fl (of_nat f) * fl (of_nat unit / 10 ^ k))\<rfloor> else v)
                   in if 0 < f \<and> 2 ^ 63 < v then invalid else Inr (v, s3))"

lemma duration_group_length: "duration_group orig s = Inr (v, r) \<Longrightarrow> length r < length s"
proof -
  assume g: "duration_group orig s = Inr (v, r)"
  obtain n s1 where 1: "leadingInt 0 s = Some (n, s1)"
    using g by (auto simp: duration_group_def Let_def split: if_splits option.splits)
  have "length r < length s1"
    using g 1 by (auto simp: duration_group_def Let_def less_Suc_eq_le dest!: leadingFraction_length
        intro: length_dropWhile_le le_trans [OF length_dropWhile_le]
        split: if_splits option.splits list.splits prod.splits)
  then show ?thesis using leadingInt_length [OF 1] by simp
qed

text \<open>The sum is a \<open>uint64\<close>: it can wrap before the range check.\<close>

function duration_groups :: "string \<Rightarrow> nat \<Rightarrow> string \<Rightarrow> string + nat" where
  "duration_groups orig d s =
    (if s = [] then Inr d
     else case duration_group orig s of Inl e \<Rightarrow> Inl e
     | Inr (v, r) \<Rightarrow>
         let d = (d + v) mod 2 ^ 64 in
         if 2 ^ 63 < d then Inl (''time: invalid duration '' @ time_quote orig)
         else duration_groups orig d r)"
  by pat_completeness auto
termination
  by (relation "measure (length \<circ> snd \<circ> snd)") (auto dest: duration_group_length)

declare duration_groups.simps [simp del]

definition ParseDuration :: "string \<Rightarrow> go_error + duration" where
  "ParseDuration orig =
    (let neg = (case orig of c # _ \<Rightarrow> c = CHR ''-'' | [] \<Rightarrow> False);
         s = (case orig of c # cs \<Rightarrow> if c = CHR ''-'' \<or> c = CHR ''+'' then cs else orig | [] \<Rightarrow> []);
         invalid = Inl (New (''time: invalid duration '' @ time_quote orig))
     in if s = ''0'' then Inr 0
        else if s = [] then invalid
        else case duration_groups orig 0 s of
          Inl e \<Rightarrow> Inl (New e)
        | Inr d \<Rightarrow> if neg then Inr (- int d) else if 2 ^ 63 - 1 < d then invalid else Inr (int d))"

lemma duration_groups_bound: "duration_groups orig d s = Inr n \<Longrightarrow> d \<le> 2 ^ 63 \<Longrightarrow> n \<le> 2 ^ 63"
proof (induction orig d s arbitrary: n rule: duration_groups.induct)
  case (1 orig d s)
  then show ?case
    by (subst (asm) (2) duration_groups.simps) (auto simp: Let_def split: if_splits sum.splits prod.splits)
qed

lemma ParseDuration_in64: "ParseDuration s = Inr d \<Longrightarrow> in64 d"
  by (auto simp: ParseDuration_def Let_def int64_defs dest!: duration_groups_bound split: if_splits sum.splits)

end
