(* ===== verification/Config.thy ===== *)
theory Config
  imports Go_Time "HOL-Library.State_Monad"
begin

text \<open>
  \<^verbatim>\<open>internal/config/config.go\<close>: the configuration read from environment variables.

  \<open>Load\<close> calls a \<open>loader\<close> that records the first parse error and turns every later lookup into its
  fallback; the loader is the state of a state monad.  The process environment and two pieces
  of \<open>strconv\<close> (\<open>ParseFloat\<close> and the \<open>%v\<close> text of a float) are parameters, in \<open>os_env\<close>;
  \<open>BuildInfo\<close> is set by \<open>main\<close>.
\<close>

datatype slog_level = LevelDebug | LevelInfo | LevelWarn | LevelError

record jsm_config =
  TriggerStatus :: string
  FieldProviderGroupID :: string
  FieldRole :: string
  FieldProject :: string
  JsmIdentityProviderID :: string

record cr_config =
  CRNamespace :: string
  APIGroup :: string
  CRAPIVersion :: string
  CRFieldManager :: string
  CRSyncTimeout :: duration

record config =
  Addr :: string
  AdminAddr :: string
  ReadTimeout :: duration
  ReadHeaderTimeout :: duration
  WriteTimeout :: duration
  IdleTimeout :: duration
  ShutdownTimeout :: duration
  CfgMaxBodyBytes :: int
  SigningSecret :: bytes
  SignatureHeader :: string
  TimestampHeader :: string
  TimestampSkew :: duration
  RateLimitRPS :: float64
  RateLimitBurst :: int
  LogLevel :: slog_level
  LogFormat :: string
  TracingEnabled :: bool
  TracingSampleRatio :: float64
  PProfEnabled :: bool
  ServiceName :: string
  ServiceVersion :: string
  EnabledProviders :: "string list"
  JSM :: jsm_config
  CR :: cr_config
  Kubeconfig :: string

record os_env =
  LookupEnv :: "string \<rightharpoonup> string"
  ParseFloat :: "string \<Rightarrow> go_error + float64"
  float_text :: "float64 \<Rightarrow> string"
  env_unicode :: unicode

definition ErrSigningSecretRequired :: go_error where
  "ErrSigningSecretRequired = New ''WEBHOOK_SIGNING_SECRET is required''"
definition ErrJSMFieldsRequired :: go_error where
  "ErrJSMFieldsRequired = New (''WEBHOOK_JSM_FIELD_PROVIDER_GROUP_ID, WEBHOOK_JSM_FIELD_ROLE, '' @
     ''and WEBHOOK_JSM_FIELD_PROJECT are required when JSM is enabled'')"
definition ErrIdentityProviderIDRequired :: go_error where
  "ErrIdentityProviderIDRequired = New ''WEBHOOK_JSM_IDENTITY_PROVIDER_ID is required when JSM is enabled''"
definition ErrSyncTimeoutTooLong :: go_error where
  "ErrSyncTimeoutTooLong = New ''WEBHOOK_CR_SYNC_TIMEOUT must be less than WEBHOOK_SHUTDOWN_TIMEOUT''"

lemmas config_errs = ErrSigningSecretRequired_def ErrJSMFieldsRequired_def
  ErrIdentityProviderIDRequired_def ErrSyncTimeoutTooLong_def

subsection \<open>The loader\<close>

type_synonym 'a loader = "(go_error option, 'a) state"

definition env_err :: "string \<Rightarrow> go_error \<Rightarrow> go_error" where
  "env_err name err = Errorf [Lit name, Lit '': '', W err]"

definition l_str :: "os_env \<Rightarrow> string \<Rightarrow> string \<Rightarrow> string loader" where
  "l_str env name fallback = State (\<lambda>err.
     if err \<noteq> None then (fallback, err)
     else case LookupEnv env name of None \<Rightarrow> (fallback, err) | Some v \<Rightarrow> (v, err))"

definition l_dur :: "os_env \<Rightarrow> string \<Rightarrow> duration \<Rightarrow> duration loader" where
  "l_dur env name fallback = State (\<lambda>err.
     if err \<noteq> None then (fallback, err)
     else case LookupEnv env name of None \<Rightarrow> (fallback, err)
     | Some v \<Rightarrow> (case ParseDuration v of Inl e \<Rightarrow> (fallback, Some (env_err name e)) | Inr d \<Rightarrow> (d, err)))"

definition l_i64 :: "os_env \<Rightarrow> string \<Rightarrow> int \<Rightarrow> int loader" where
  "l_i64 env name fallback = State (\<lambda>err.
     if err \<noteq> None then (fallback, err)
     else case LookupEnv env name of None \<Rightarrow> (fallback, err)
     | Some v \<Rightarrow> (case ParseInt v of Inl e \<Rightarrow> (fallback, Some (env_err name e)) | Inr n \<Rightarrow> (n, err)))"

definition l_f64 :: "os_env \<Rightarrow> string \<Rightarrow> float64 \<Rightarrow> float64 loader" where
  "l_f64 env name fallback = State (\<lambda>err.
     if err \<noteq> None then (fallback, err)
     else case LookupEnv env name of None \<Rightarrow> (fallback, err)
     | Some v \<Rightarrow> (case ParseFloat env v of Inl e \<Rightarrow> (fallback, Some (env_err name e)) | Inr f \<Rightarrow> (f, err)))"

text \<open>The loop of \<open>csv\<close>; \<open>out\<close> is also the set \<open>seen\<close>.\<close>

fun csv_loop :: "unicode \<Rightarrow> string list \<Rightarrow> string list \<Rightarrow> string list" where
  "csv_loop u out [] = out"
| "csv_loop u out (raw # rest) =
    (let entry = ToLower u (TrimSpace raw) in
     if entry = [] then csv_loop u out rest
     else if entry \<in> set out then csv_loop u out rest
     else csv_loop u (out @ [entry]) rest)"

definition l_csv :: "os_env \<Rightarrow> string \<Rightarrow> string list \<Rightarrow> string list loader" where
  "l_csv env name fallback = State (\<lambda>err.
     if err \<noteq> None then (fallback, err)
     else case LookupEnv env name of None \<Rightarrow> (fallback, err)
     | Some v \<Rightarrow> (csv_loop (env_unicode env) [] (SplitSeq (CHR '','') v), err))"

definition l_boolean :: "os_env \<Rightarrow> string \<Rightarrow> bool \<Rightarrow> bool loader" where
  "l_boolean env name fallback = State (\<lambda>err.
     if err \<noteq> None then (fallback, err)
     else case LookupEnv env name of None \<Rightarrow> (fallback, err)
     | Some v \<Rightarrow> (case ParseBool v of Inl e \<Rightarrow> (fallback, Some (env_err name e)) | Inr b \<Rightarrow> (b, err)))"

definition parse_level :: "unicode \<Rightarrow> string \<Rightarrow> slog_level option" where
  "parse_level u v = (let w = ToLower u v in
     if w = ''debug'' then Some LevelDebug
     else if w = ''info'' then Some LevelInfo
     else if w = ''warn'' \<or> w = ''warning'' then Some LevelWarn
     else if w = ''error'' then Some LevelError else None)"

definition l_level :: "os_env \<Rightarrow> string \<Rightarrow> slog_level \<Rightarrow> slog_level loader" where
  "l_level env name fallback = State (\<lambda>err.
     if err \<noteq> None then (fallback, err)
     else case LookupEnv env name of None \<Rightarrow> (fallback, err)
     | Some v \<Rightarrow> (case parse_level (env_unicode env) v of
          None \<Rightarrow> (fallback, Some (Errorf [Lit name, Lit '': unknown level '', Q v]))
        | Some lv \<Rightarrow> (lv, err)))"

subsection \<open>Load and validate\<close>

definition ProviderEnabled :: "config \<Rightarrow> string \<Rightarrow> bool" where
  "ProviderEnabled cfg name \<longleftrightarrow> name \<in> set (EnabledProviders cfg)"

definition validate :: "os_env \<Rightarrow> config \<Rightarrow> go_error option" where
  "validate env cfg =
    (if flt_less (TracingSampleRatio cfg) (Fin 0) \<or> flt_less (Fin 1) (TracingSampleRatio cfg)
     then Some (Errorf [Lit ''WEBHOOK_TRACING_SAMPLE_RATIO out of range [0,1]: '', Lit (float_text env (TracingSampleRatio cfg))])
     else if LogFormat cfg \<noteq> ''json'' \<and> LogFormat cfg \<noteq> ''text''
     then Some (Errorf [Lit ''WEBHOOK_LOG_FORMAT must be json or text: '', Q (LogFormat cfg)])
     else if CfgMaxBodyBytes cfg \<le> 0
     then Some (Errorf [Lit ''WEBHOOK_MAX_BODY_BYTES must be positive: '', Lit (Itoa (CfgMaxBodyBytes cfg))])
     else if flt_le (RateLimitRPS cfg) (Fin 0)
     then Some (Errorf [Lit ''WEBHOOK_RATE_LIMIT_RPS must be positive: '', Lit (float_text env (RateLimitRPS cfg))])
     else if RateLimitBurst cfg \<le> 0
     then Some (Errorf [Lit ''WEBHOOK_RATE_LIMIT_BURST must be positive: '', Lit (Itoa (RateLimitBurst cfg))])
     else if CRSyncTimeout (CR cfg) \<le> 0
     then Some (Errorf [Lit ''WEBHOOK_CR_SYNC_TIMEOUT must be positive: '', Lit (Duration_String (CRSyncTimeout (CR cfg)))])
     else if ShutdownTimeout cfg \<le> CRSyncTimeout (CR cfg)
     then Some (Errorf [W ErrSyncTimeoutTooLong, Lit '': sync='', Lit (Duration_String (CRSyncTimeout (CR cfg))),
                        Lit '' shutdown='', Lit (Duration_String (ShutdownTimeout cfg))])
     else if ProviderEnabled cfg ''jsm'' \<and>
       (FieldProviderGroupID (JSM cfg) = [] \<or> FieldRole (JSM cfg) = [] \<or> FieldProject (JSM cfg) = [])
     then Some ErrJSMFieldsRequired
     else if ProviderEnabled cfg ''jsm'' \<and> JsmIdentityProviderID (JSM cfg) = []
     then Some ErrIdentityProviderIDRequired
     else None)"

text \<open>The composite literal of \<open>Load\<close>: its calls run in source order.\<close>

definition load_fields :: "os_env \<Rightarrow> config loader" where
  "load_fields env = do {
     addr \<leftarrow> l_str env ''WEBHOOK_ADDR'' '':8080'';
     adminAddr \<leftarrow> l_str env ''WEBHOOK_ADMIN_ADDR'' '':9090'';
     readTimeout \<leftarrow> l_dur env ''WEBHOOK_READ_TIMEOUT'' (5 * Second);
     readHeaderTimeout \<leftarrow> l_dur env ''WEBHOOK_READ_HEADER_TIMEOUT'' (2 * Second);
     writeTimeout \<leftarrow> l_dur env ''WEBHOOK_WRITE_TIMEOUT'' (10 * Second);
     idleTimeout \<leftarrow> l_dur env ''WEBHOOK_IDLE_TIMEOUT'' (60 * Second);
     shutdownTimeout \<leftarrow> l_dur env ''WEBHOOK_SHUTDOWN_TIMEOUT'' (25 * Second);
     maxBody \<leftarrow> l_i64 env ''WEBHOOK_MAX_BODY_BYTES'' (2 ^ 20);
     sigHeader \<leftarrow> l_str env ''WEBHOOK_SIGNATURE_HEADER'' ''X-Webhook-Signature'';
     tsHeader \<leftarrow> l_str env ''WEBHOOK_TIMESTAMP_HEADER'' ''X-Webhook-Timestamp'';
     skew \<leftarrow> l_dur env ''WEBHOOK_TIMESTAMP_SKEW'' (5 * Minute);
     rps \<leftarrow> l_f64 env ''WEBHOOK_RATE_LIMIT_RPS'' (Fin 100);
     burst \<leftarrow> l_i64 env ''WEBHOOK_RATE_LIMIT_BURST'' 200;
     logFormat \<leftarrow> l_str env ''WEBHOOK_LOG_FORMAT'' ''json'';
     logLevel \<leftarrow> l_level env ''WEBHOOK_LOG_LEVEL'' LevelInfo;
     tracing \<leftarrow> l_boolean env ''WEBHOOK_TRACING_ENABLED'' True;
     ratio \<leftarrow> l_f64 env ''WEBHOOK_TRACING_SAMPLE_RATIO'' (Fin 1);
     pprof \<leftarrow> l_boolean env ''WEBHOOK_PPROF_ENABLED'' True;
     serviceName \<leftarrow> l_str env ''OTEL_SERVICE_NAME'' ''webhookd'';
     serviceVersion \<leftarrow> l_str env ''OTEL_SERVICE_VERSION'' [];
     enabled \<leftarrow> l_csv env ''WEBHOOK_PROVIDERS'' [''jsm''];
     trigger \<leftarrow> l_str env ''WEBHOOK_JSM_TRIGGER_STATUS'' ''Ready to Provision'';
     fieldGroup \<leftarrow> l_str env ''WEBHOOK_JSM_FIELD_PROVIDER_GROUP_ID'' [];
     fieldRole \<leftarrow> l_str env ''WEBHOOK_JSM_FIELD_ROLE'' [];
     fieldProject \<leftarrow> l_str env ''WEBHOOK_JSM_FIELD_PROJECT'' [];
     idp \<leftarrow> l_str env ''WEBHOOK_JSM_IDENTITY_PROVIDER_ID'' [];
     namespace \<leftarrow> l_str env ''WEBHOOK_CR_NAMESPACE'' ''wiz-operator'';
     apiGroup \<leftarrow> l_str env ''WEBHOOK_CR_API_GROUP'' ''wiz.webhookd.io'';
     apiVersion \<leftarrow> l_str env ''WEBHOOK_CR_API_VERSION'' ''v1alpha1'';
     fieldManager \<leftarrow> l_str env ''WEBHOOK_CR_FIELD_MANAGER'' ''webhookd'';
     syncTimeout \<leftarrow> l_dur env ''WEBHOOK_CR_SYNC_TIMEOUT'' (20 * Second);
     kubeconfig \<leftarrow> l_str env ''WEBHOOK_KUBECONFIG'' [];
     State_Monad.return
       \<lparr>Addr = addr, AdminAddr = adminAddr, ReadTimeout = readTimeout, ReadHeaderTimeout = readHeaderTimeout,
        WriteTimeout = writeTimeout, IdleTimeout = idleTimeout, ShutdownTimeout = shutdownTimeout,
        CfgMaxBodyBytes = maxBody, SigningSecret = [], SignatureHeader = sigHeader, TimestampHeader = tsHeader,
        TimestampSkew = skew, RateLimitRPS = rps, RateLimitBurst = burst, LogLevel = logLevel,
        LogFormat = logFormat, TracingEnabled = tracing, TracingSampleRatio = ratio, PProfEnabled = pprof,
        ServiceName = serviceName, ServiceVersion = serviceVersion, EnabledProviders = enabled,
        JSM = \<lparr>TriggerStatus = trigger, FieldProviderGroupID = fieldGroup, FieldRole = fieldRole,
               FieldProject = fieldProject, JsmIdentityProviderID = idp\<rparr>,
        CR = \<lparr>CRNamespace = namespace, APIGroup = apiGroup, CRAPIVersion = apiVersion,
              CRFieldManager = fieldManager, CRSyncTimeout = syncTimeout\<rparr>,
        Kubeconfig = kubeconfig\<rparr>
   }"

definition Getenv :: "os_env \<Rightarrow> string \<Rightarrow> string" where
  "Getenv env name = (case LookupEnv env name of Some v \<Rightarrow> v | None \<Rightarrow> [])"

definition Load :: "os_env \<Rightarrow> go_error + config" where
  "Load env =
    (case run_state (load_fields env) None of
       (cfg, Some err) \<Rightarrow> Inl err
     | (cfg, None) \<Rightarrow>
         let secret = Getenv env ''WEBHOOK_SIGNING_SECRET'' in
         if secret = [] then Inl ErrSigningSecretRequired
         else let cfg = cfg\<lparr>SigningSecret := secret\<rparr> in
              case validate env cfg of Some err \<Rightarrow> Inl err | None \<Rightarrow> Inr cfg)"

subsection \<open>The loader as early returns\<close>

text \<open>
  The specification of the loader: look a setting up, keep the fallback when it is unset, and stop
  at the first value that does not parse.
\<close>

definition setting :: "os_env \<Rightarrow> string \<Rightarrow> 'a \<Rightarrow> (string \<Rightarrow> go_error + 'a) \<Rightarrow> go_error + 'a" where
  "setting env name fallback parse =
    (case LookupEnv env name of None \<Rightarrow> Inr fallback | Some v \<Rightarrow> parse v)"

definition wrap_parse :: "string \<Rightarrow> (string \<Rightarrow> go_error + 'a) \<Rightarrow> string \<Rightarrow> go_error + 'a" where
  "wrap_parse name parse v = (case parse v of Inl e \<Rightarrow> Inl (env_err name e) | Inr x \<Rightarrow> Inr x)"

definition s_str :: "os_env \<Rightarrow> string \<Rightarrow> string \<Rightarrow> go_error + string" where
  "s_str env name fb = setting env name fb Inr"
definition s_dur :: "os_env \<Rightarrow> string \<Rightarrow> duration \<Rightarrow> go_error + duration" where
  "s_dur env name fb = setting env name fb (wrap_parse name ParseDuration)"
definition s_i64 :: "os_env \<Rightarrow> string \<Rightarrow> int \<Rightarrow> go_error + int" where
  "s_i64 env name fb = setting env name fb (wrap_parse name ParseInt)"
definition s_f64 :: "os_env \<Rightarrow> string \<Rightarrow> float64 \<Rightarrow> go_error + float64" where
  "s_f64 env name fb = setting env name fb (wrap_parse name (ParseFloat env))"
definition s_boolean :: "os_env \<Rightarrow> string \<Rightarrow> bool \<Rightarrow> go_error + bool" where
  "s_boolean env name fb = setting env name fb (wrap_parse name ParseBool)"
definition s_csv :: "os_env \<Rightarrow> string \<Rightarrow> string list \<Rightarrow> go_error + string list" where
  "s_csv env name fb = setting env name fb (\<lambda>v. Inr (csv_loop (env_unicode env) [] (SplitSeq (CHR '','') v)))"
definition s_level :: "os_env \<Rightarrow> string \<Rightarrow> slog_level \<Rightarrow> go_error + slog_level" where
  "s_level env name fb = setting env name fb (\<lambda>v. case parse_level (env_unicode env) v of
     None \<Rightarrow> Inl (Errorf [Lit name, Lit '': unknown level '', Q v]) | Some lv \<Rightarrow> Inr lv)"

definition load_spec :: "os_env \<Rightarrow> go_error + config" where
  "load_spec env =
     and_then (s_str env ''WEBHOOK_ADDR'' '':8080'') (\<lambda>addr.
     and_then (s_str env ''WEBHOOK_ADMIN_ADDR'' '':9090'') (\<lambda>adminAddr.
     and_then (s_dur env ''WEBHOOK_READ_TIMEOUT'' (5 * Second)) (\<lambda>readTimeout.
     and_then (s_dur env ''WEBHOOK_READ_HEADER_TIMEOUT'' (2 * Second)) (\<lambda>readHeaderTimeout.
     and_then (s_dur env ''WEBHOOK_WRITE_TIMEOUT'' (10 * Second)) (\<lambda>writeTimeout.
     and_then (s_dur env ''WEBHOOK_IDLE_TIMEOUT'' (60 * Second)) (\<lambda>idleTimeout.
     and_then (s_dur env ''WEBHOOK_SHUTDOWN_TIMEOUT'' (25 * Second)) (\<lambda>shutdownTimeout.
     and_then (s_i64 env ''WEBHOOK_MAX_BODY_BYTES'' (2 ^ 20)) (\<lambda>maxBody.
     and_then (s_str env ''WEBHOOK_SIGNATURE_HEADER'' ''X-Webhook-Signature'') (\<lambda>sigHeader.
     and_then (s_str env ''WEBHOOK_TIMESTAMP_HEADER'' ''X-Webhook-Timestamp'') (\<lambda>tsHeader.
     and_then (s_dur env ''WEBHOOK_TIMESTAMP_SKEW'' (5 * Minute)) (\<lambda>skew.
     and_then (s_f64 env ''WEBHOOK_RATE_LIMIT_RPS'' (Fin 100)) (\<lambda>rps.
     and_then (s_i64 env ''WEBHOOK_RATE_LIMIT_BURST'' 200) (\<lambda>burst.
     and_then (s_str env ''WEBHOOK_LOG_FORMAT'' ''json'') (\<lambda>logFormat.
     and_then (s_level env ''WEBHOOK_LOG_LEVEL'' LevelInfo) (\<lambda>logLevel.
     and_then (s_boolean env ''WEBHOOK_TRACING_ENABLED'' True) (\<lambda>tracing.
     and_then (s_f64 env ''WEBHOOK_TRACING_SAMPLE_RATIO'' (Fin 1)) (\<lambda>ratio.
     and_then (s_boolean env ''WEBHOOK_PPROF_ENABLED'' True) (\<lambda>pprof.
     and_then (s_str env ''OTEL_SERVICE_NAME'' ''webhookd'') (\<lambda>serviceName.
     and_then (s_str env ''OTEL_SERVICE_VERSION'' []) (\<lambda>serviceVersion.
     and_then (s_csv env ''WEBHOOK_PROVIDERS'' [''jsm'']) (\<lambda>enabled.
     and_then (s_str env ''WEBHOOK_JSM_TRIGGER_STATUS'' ''Ready to Provision'') (\<lambda>trigger.
     and_then (s_str env ''WEBHOOK_JSM_FIELD_PROVIDER_GROUP_ID'' []) (\<lambda>fieldGroup.
     and_then (s_str env ''WEBHOOK_JSM_FIELD_ROLE'' []) (\<lambda>fieldRole.
     and_then (s_str env ''WEBHOOK_JSM_FIELD_PROJECT'' []) (\<lambda>fieldProject.
     and_then (s_str env ''WEBHOOK_JSM_IDENTITY_PROVIDER_ID'' []) (\<lambda>idp.
     and_then (s_str env ''WEBHOOK_CR_NAMESPACE'' ''wiz-operator'') (\<lambda>namespace.
     and_then (s_str env ''WEBHOOK_CR_API_GROUP'' ''wiz.webhookd.io'') (\<lambda>apiGroup.
     and_then (s_str env ''WEBHOOK_CR_API_VERSION'' ''v1alpha1'') (\<lambda>apiVersion.
     and_then (s_str env ''WEBHOOK_CR_FIELD_MANAGER'' ''webhookd'') (\<lambda>fieldManager.
     and_then (s_dur env ''WEBHOOK_CR_SYNC_TIMEOUT'' (20 * Second)) (\<lambda>syncTimeout.
     and_then (s_str env ''WEBHOOK_KUBECONFIG'' []) (\<lambda>kubeconfig.
     Inr
       \<lparr>Addr = addr, AdminAddr = adminAddr, ReadTimeout = readTimeout, ReadHeaderTimeout = readHeaderTimeout,
        WriteTimeout = writeTimeout, IdleTimeout = idleTimeout, ShutdownTimeout = shutdownTimeout,
        CfgMaxBodyBytes = maxBody, SigningSecret = [], SignatureHeader = sigHeader, TimestampHeader = tsHeader,
        TimestampSkew = skew, RateLimitRPS = rps, RateLimitBurst = burst, LogLevel = logLevel,
        LogFormat = logFormat, TracingEnabled = tracing, TracingSampleRatio = ratio, PProfEnabled = pprof,
        ServiceName = serviceName, ServiceVersion = serviceVersion, EnabledProviders = enabled,
        JSM = \<lparr>TriggerStatus = trigger, FieldProviderGroupID = fieldGroup, FieldRole = fieldRole,
               FieldProject = fieldProject, JsmIdentityProviderID = idp\<rparr>,
        CR = \<lparr>CRNamespace = namespace, APIGroup = apiGroup, CRAPIVersion = apiVersion,
              CRFieldManager = fieldManager, CRSyncTimeout = syncTimeout\<rparr>,
        Kubeconfig = kubeconfig\<rparr>))))))))))))))))))))))))))))))))"

text \<open>A computation that keeps an error it starts with, and what a run without one ends with.\<close>

definition sticky :: "'a loader \<Rightarrow> bool" where
  "sticky m \<longleftrightarrow> (\<forall>e. snd (run_state m (Some e)) = Some e)"

definition outcome :: "'a loader \<Rightarrow> go_error + 'a" where
  "outcome m = (case run_state m None of (x, None) \<Rightarrow> Inr x | (x, Some e) \<Rightarrow> Inl e)"

lemma sticky_return: "sticky (State_Monad.return x)"
  by (simp add: sticky_def State_Monad.return_def)

lemma sticky_bind: "sticky m \<Longrightarrow> (\<And>x. sticky (k x)) \<Longrightarrow> sticky (State_Monad.bind m k)"
  by (auto simp: sticky_def State_Monad.bind_def split: prod.splits) (metis snd_conv)

lemma outcome_return: "outcome (State_Monad.return x) = Inr x"
  by (simp add: outcome_def State_Monad.return_def)

lemma outcome_bind:
  assumes "\<And>x. sticky (k x)"
  shows "outcome (State_Monad.bind m k) = and_then (outcome m) (\<lambda>x. outcome (k x))"
proof (cases "run_state m None")
  case (Pair x err)
  show ?thesis
  proof (cases err)
    case None
    then show ?thesis using Pair by (simp add: outcome_def State_Monad.bind_def)
  next
    case (Some e)
    obtain y where "run_state (k x) (Some e) = (y, Some e)"
      using assms [of x] by (metis sticky_def prod.collapse)
    then show ?thesis using Pair Some by (simp add: outcome_def State_Monad.bind_def)
  qed
qed

lemmas loader_defs = l_str_def l_dur_def l_i64_def l_f64_def l_csv_def l_boolean_def l_level_def

lemma sticky_lookups:
  "sticky (l_str env n a)" "sticky (l_dur env n d)" "sticky (l_i64 env n i)" "sticky (l_f64 env n f)"
  "sticky (l_csv env n c)" "sticky (l_boolean env n b)" "sticky (l_level env n lv)"
  by (simp_all add: sticky_def loader_defs)

lemma outcome_lookups:
  "outcome (l_str env n a) = s_str env n a" "outcome (l_dur env n d) = s_dur env n d"
  "outcome (l_i64 env n i) = s_i64 env n i" "outcome (l_f64 env n f) = s_f64 env n f"
  "outcome (l_csv env n c) = s_csv env n c" "outcome (l_boolean env n b) = s_boolean env n b"
  "outcome (l_level env n lv) = s_level env n lv"
  by (simp_all add: outcome_def loader_defs s_str_def s_dur_def s_i64_def s_f64_def s_csv_def s_boolean_def
      s_level_def setting_def wrap_parse_def split: option.split sum.split)

text \<open>A loader computation implements an early-return one.\<close>

definition implements :: "'a loader \<Rightarrow> go_error + 'a \<Rightarrow> bool" where
  "implements m r \<longleftrightarrow> sticky m \<and> outcome m = r"

lemma implements_return: "implements (State_Monad.return x) (Inr x)"
  by (simp add: implements_def sticky_return outcome_return)

lemma implements_bind:
  "implements m r \<Longrightarrow> (\<And>x. implements (k x) (q x)) \<Longrightarrow> implements (State_Monad.bind m k) (and_then r q)"
  by (simp add: implements_def sticky_bind outcome_bind)

lemma implements_lookups:
  "implements (l_str env n a) (s_str env n a)" "implements (l_dur env n d) (s_dur env n d)"
  "implements (l_i64 env n i) (s_i64 env n i)" "implements (l_f64 env n f) (s_f64 env n f)"
  "implements (l_csv env n c) (s_csv env n c)" "implements (l_boolean env n b) (s_boolean env n b)"
  "implements (l_level env n lv) (s_level env n lv)"
  by (simp_all add: implements_def sticky_lookups outcome_lookups)

lemma load_fields_implements: "implements (load_fields env) (load_spec env)"
  unfolding load_fields_def load_spec_def
  by (intro implements_bind implements_lookups implements_return)

lemma Load_early_return:
  "Load env = and_then (load_spec env) (\<lambda>cfg.
     let secret = Getenv env ''WEBHOOK_SIGNING_SECRET''; cfg = cfg\<lparr>SigningSecret := secret\<rparr> in
     if secret = [] then Inl ErrSigningSecretRequired
     else case validate env cfg of Some err \<Rightarrow> Inl err | None \<Rightarrow> Inr cfg)"
proof -
  have "load_spec env = outcome (load_fields env)"
    using load_fields_implements [of env] by (simp add: implements_def)
  then show ?thesis by (auto simp: Load_def outcome_def Let_def split: prod.split option.split)
qed

subsection \<open>What a loaded configuration satisfies\<close>

lemma load_spec_fields:
  assumes "load_spec env = Inr cfg"
  shows "s_csv env ''WEBHOOK_PROVIDERS'' [''jsm''] = Inr (EnabledProviders cfg)"
    and "s_dur env ''WEBHOOK_TIMESTAMP_SKEW'' (5 * Minute) = Inr (TimestampSkew cfg)"
    and "s_i64 env ''WEBHOOK_MAX_BODY_BYTES'' (2 ^ 20) = Inr (CfgMaxBodyBytes cfg)"
    and "s_dur env ''WEBHOOK_CR_SYNC_TIMEOUT'' (20 * Second) = Inr (CRSyncTimeout (CR cfg))"
  using assms by (auto simp: load_spec_def and_then_eq_Inr)

definition csv_entries :: "unicode \<Rightarrow> string list \<Rightarrow> string list" where
  "csv_entries u raws = filter (\<lambda>e. e \<noteq> []) (map (\<lambda>raw. ToLower u (TrimSpace raw)) raws)"

lemma csv_loop_fold: "csv_loop u out raws = rev (fold List.insert (csv_entries u raws) (rev out))"
  by (induction u out raws rule: csv_loop.induct) (auto simp: csv_entries_def Let_def List.insert_def)

lemma distinct_csv: "distinct out \<Longrightarrow> distinct (csv_loop u out raws)"
  by (induction u out raws rule: csv_loop.induct) (auto simp: Let_def)

lemma set_csv: "set (csv_loop u out raws) = set out \<union> set (csv_entries u raws)"
  by (induction u out raws rule: csv_loop.induct) (auto simp: Let_def csv_entries_def)

lemma s_csv_ok:
  assumes "s_csv env n fb = Inr es" "distinct fb" "[] \<notin> set fb"
  shows "distinct es \<and> [] \<notin> set es"
  using assms
  by (auto simp: s_csv_def setting_def distinct_csv set_csv csv_entries_def split: option.splits)

lemma validate_None:
  "validate env cfg = None \<longleftrightarrow>
     \<not> flt_less (TracingSampleRatio cfg) (Fin 0) \<and> \<not> flt_less (Fin 1) (TracingSampleRatio cfg) \<and>
     LogFormat cfg \<in> {''json'', ''text''} \<and> 0 < CfgMaxBodyBytes cfg \<and>
     \<not> flt_le (RateLimitRPS cfg) (Fin 0) \<and> 0 < RateLimitBurst cfg \<and>
     0 < CRSyncTimeout (CR cfg) \<and> CRSyncTimeout (CR cfg) < ShutdownTimeout cfg \<and>
     (ProviderEnabled cfg ''jsm'' \<longrightarrow>
        FieldProviderGroupID (JSM cfg) \<noteq> [] \<and> FieldRole (JSM cfg) \<noteq> [] \<and> FieldProject (JSM cfg) \<noteq> [] \<and>
        JsmIdentityProviderID (JSM cfg) \<noteq> [])"
  by (simp add: validate_def not_le not_less)

lemma Load_Inr:
  "Load env = Inr cfg \<longleftrightarrow>
     (\<exists>cfg0. load_spec env = Inr cfg0 \<and> cfg = cfg0\<lparr>SigningSecret := Getenv env ''WEBHOOK_SIGNING_SECRET''\<rparr> \<and>
        Getenv env ''WEBHOOK_SIGNING_SECRET'' \<noteq> [] \<and> validate env cfg = None)"
  by (auto simp: Load_early_return and_then_eq_Inr Let_def split: if_splits option.splits)

lemma fallback_or_parsed64:
  "s_dur env n fb = Inr d \<Longrightarrow> in64 fb \<Longrightarrow> in64 d"
  "s_i64 env n fb = Inr d \<Longrightarrow> in64 fb \<Longrightarrow> in64 d"
  by (auto simp: s_dur_def s_i64_def setting_def wrap_parse_def dest: ParseDuration_in64 ParseInt_in64
      split: option.splits sum.splits)

subsection \<open>Properties\<close>

definition ex_setenv :: "string \<rightharpoonup> string" where
  "ex_setenv = [''WEBHOOK_SIGNING_SECRET'' \<mapsto> ''s3cret'', ''WEBHOOK_JSM_FIELD_PROVIDER_GROUP_ID'' \<mapsto> ''customfield_1'',
     ''WEBHOOK_JSM_FIELD_ROLE'' \<mapsto> ''customfield_2'', ''WEBHOOK_JSM_FIELD_PROJECT'' \<mapsto> ''customfield_3'',
     ''WEBHOOK_JSM_IDENTITY_PROVIDER_ID'' \<mapsto> ''idp'']"

definition ex_os :: os_env where
  "ex_os = \<lparr>LookupEnv = ex_setenv, ParseFloat = (\<lambda>s. Inl (NumError ''ParseFloat'' s ''invalid syntax'')),
     float_text = (\<lambda>_. []), env_unicode = \<lparr>uc_ToLower = (\<lambda>r. r), uc_IsPrint = (\<lambda>_. True)\<rparr>\<rparr>"

definition default_config :: config where
  "default_config =
     \<lparr>Addr = '':8080'', AdminAddr = '':9090'', ReadTimeout = 5 * Second, ReadHeaderTimeout = 2 * Second,
      WriteTimeout = 10 * Second, IdleTimeout = 60 * Second, ShutdownTimeout = 25 * Second,
      CfgMaxBodyBytes = 1048576, SigningSecret = ''s3cret'', SignatureHeader = ''X-Webhook-Signature'',
      TimestampHeader = ''X-Webhook-Timestamp'', TimestampSkew = 300 * Second, RateLimitRPS = Fin 100,
      RateLimitBurst = 200, LogLevel = LevelInfo, LogFormat = ''json'', TracingEnabled = True,
      TracingSampleRatio = Fin 1, PProfEnabled = True, ServiceName = ''webhookd'', ServiceVersion = [],
      EnabledProviders = [''jsm''],
      JSM = \<lparr>TriggerStatus = ''Ready to Provision'', FieldProviderGroupID = ''customfield_1'',
             FieldRole = ''customfield_2'', FieldProject = ''customfield_3'', JsmIdentityProviderID = ''idp''\<rparr>,
      CR = \<lparr>CRNamespace = ''wiz-operator'', APIGroup = ''wiz.webhookd.io'', CRAPIVersion = ''v1alpha1'',
            CRFieldManager = ''webhookd'', CRSyncTimeout = 20 * Second\<rparr>,
      Kubeconfig = []\<rparr>"

lemmas s_defs = s_str_def s_dur_def s_i64_def s_f64_def s_csv_def s_boolean_def s_level_def setting_def

lemma ex_load_spec: "load_spec ex_os = Inr (default_config\<lparr>SigningSecret := []\<rparr>)"
  by (simp add: load_spec_def s_defs ex_os_def ex_setenv_def default_config_def)

lemma ex_Load: "Load ex_os = Inr default_config"
proof -
  have g: "Getenv ex_os ''WEBHOOK_SIGNING_SECRET'' = ''s3cret''"
    by (simp add: Getenv_def ex_os_def ex_setenv_def)
  have d: "default_config\<lparr>SigningSecret := ''s3cret''\<rparr> = default_config"
    by (simp add: default_config_def)
  have "validate ex_os default_config = None"
    unfolding validate_None by (simp add: default_config_def flt_le_def ProviderEnabled_def)
  then show ?thesis unfolding Load_Inr using ex_load_spec g d by fastforce
qed

text \<open>C11. The sticky-error loader of \<open>Load\<close> behaves as a sequence of lookups that returns at the first
  setting that does not parse: \<open>Load\<close> returns the first error in source order, otherwise the
  missing secret, otherwise the first failed validation, otherwise the configuration.\<close>

theorem Load_first_error:
  "Load env = and_then (load_spec env) (\<lambda>cfg.
     if Getenv env ''WEBHOOK_SIGNING_SECRET'' = [] then Inl ErrSigningSecretRequired
     else case validate env (cfg\<lparr>SigningSecret := Getenv env ''WEBHOOK_SIGNING_SECRET''\<rparr>) of
       Some err \<Rightarrow> Inl err
     | None \<Rightarrow> Inr (cfg\<lparr>SigningSecret := Getenv env ''WEBHOOK_SIGNING_SECRET''\<rparr>))"
  by (simp add: Load_early_return Let_def)

text \<open>C12. Every configuration that \<open>Load\<close> returns has a non-empty signing secret, a positive body limit
  and burst, a sampling ratio in \<open>[0,1]\<close> and a positive rate (or NaN, which passes both comparisons), a
  sync timeout that is positive and below the shutdown timeout, durations in the range of \<open>int64\<close>, a
  known log format, a list of distinct non-empty provider names, and, when JSM is enabled, all of its
  field ids and the identity provider id.\<close>

theorem Load_valid:
  assumes "Load env = Inr cfg"
  shows "SigningSecret cfg \<noteq> [] \<and> 0 < CfgMaxBodyBytes cfg \<and> 0 < RateLimitBurst cfg \<and>
    TracingSampleRatio cfg \<in> {NaN} \<union> Fin ` {0..1} \<and> RateLimitRPS cfg \<in> {NaN, PosInf} \<union> Fin ` {0<..} \<and>
    0 < CRSyncTimeout (CR cfg) \<and> CRSyncTimeout (CR cfg) < ShutdownTimeout cfg \<and>
    in64 (TimestampSkew cfg) \<and> in64 (CfgMaxBodyBytes cfg) \<and>
    LogFormat cfg \<in> {''json'', ''text''} \<and>
    distinct (EnabledProviders cfg) \<and> [] \<notin> set (EnabledProviders cfg) \<and>
    (ProviderEnabled cfg ''jsm'' \<longrightarrow>
       FieldProviderGroupID (JSM cfg) \<noteq> [] \<and> FieldRole (JSM cfg) \<noteq> [] \<and> FieldProject (JSM cfg) \<noteq> [] \<and>
       JsmIdentityProviderID (JSM cfg) \<noteq> [])"
proof -
  obtain cfg0 where l: "load_spec env = Inr cfg0"
    and cfg: "cfg = cfg0\<lparr>SigningSecret := Getenv env ''WEBHOOK_SIGNING_SECRET''\<rparr>"
    and s: "Getenv env ''WEBHOOK_SIGNING_SECRET'' \<noteq> []" and v: "validate env cfg = None"
    using assms by (auto simp: Load_Inr)
  note f = load_spec_fields [OF l]
  have "in64 (TimestampSkew cfg)" "in64 (CfgMaxBodyBytes cfg)"
    using fallback_or_parsed64(1) [OF f(2)] fallback_or_parsed64(2) [OF f(3)] cfg by (simp_all add: int64_defs)
  moreover have "distinct (EnabledProviders cfg) \<and> [] \<notin> set (EnabledProviders cfg)"
    using s_csv_ok [OF f(1)] cfg by simp
  moreover have "TracingSampleRatio cfg \<in> {NaN} \<union> Fin ` {0..1}" "RateLimitRPS cfg \<in> {NaN, PosInf} \<union> Fin ` {0<..}"
    using v unfolding validate_None by (cases "TracingSampleRatio cfg"; cases "RateLimitRPS cfg"; simp add: flt_le_def)+
  ultimately show ?thesis using v s cfg unfolding validate_None by simp
qed

theorem Load_valid_witness:
  "Load ex_os = Inr default_config \<and> TracingSampleRatio default_config \<in> {NaN} \<union> Fin ` {0..1} \<and>
   RateLimitRPS default_config \<in> {NaN, PosInf} \<union> Fin ` {0<..} \<and> CRSyncTimeout (CR default_config) < ShutdownTimeout default_config \<and>
   distinct (EnabledProviders default_config)"
  using Load_valid [OF ex_Load] ex_Load by simp

text \<open>The \<open>WEBHOOK_PROVIDERS\<close> list: the entries are trimmed and lower-cased, empty ones dropped, and
  of equal ones the first is kept.\<close>

theorem csv_loop_first_occurrences:
  "csv_loop u [] raws = rev (fold List.insert (csv_entries u raws) []) \<and>
   distinct (csv_loop u [] raws) \<and> set (csv_loop u [] raws) = set (csv_entries u raws)"
  by (simp add: distinct_csv set_csv) (simp add: csv_loop_fold)

text \<open>C40. \<open>validate\<close> lets NaN through: a configuration that it accepts is still accepted with NaN for the
  sampling ratio and for the rate limit, although neither is in the range the messages name.\<close>

theorem validate_accepts_NaN:
  "validate env cfg = None \<Longrightarrow>
     validate env (cfg\<lparr>TracingSampleRatio := NaN, RateLimitRPS := NaN\<rparr>) = None"
  unfolding validate_None by (simp add: flt_le_def ProviderEnabled_def)

theorem validate_accepts_NaN_witness:
  "validate ex_os (default_config\<lparr>TracingSampleRatio := NaN, RateLimitRPS := NaN\<rparr>) = None"
  using validate_accepts_NaN [of ex_os default_config] ex_Load by (auto simp: Load_Inr)

lemma defaults_load_spec:
  assumes "LookupEnv env = [''WEBHOOK_SIGNING_SECRET'' \<mapsto> s]"
  shows "load_spec env = Inr (default_config\<lparr>SigningSecret := [],
    JSM := \<lparr>TriggerStatus = ''Ready to Provision'', FieldProviderGroupID = [], FieldRole = [], FieldProject = [], JsmIdentityProviderID = []\<rparr>\<rparr>)"
  by (simp add: load_spec_def s_defs assms default_config_def)

text \<open>C39. The signing secret alone does not start the program: with nothing else in the environment \<open>Load\<close>
  fails, because JSM is enabled by default and its field ids have no defaults.\<close>

theorem Load_secret_not_enough:
  assumes "LookupEnv env = [''WEBHOOK_SIGNING_SECRET'' \<mapsto> s]" "s \<noteq> []"
  shows "Load env = Inl ErrJSMFieldsRequired"
proof -
  have "Getenv env ''WEBHOOK_SIGNING_SECRET'' = s" using assms(1) by (simp add: Getenv_def)
  then show ?thesis using assms(2)
    by (simp add: Load_early_return defaults_load_spec [OF assms(1)] validate_def ProviderEnabled_def default_config_def flt_le_def)
qed

theorem Load_secret_not_enough_witness:
  "Load (ex_os\<lparr>LookupEnv := [''WEBHOOK_SIGNING_SECRET'' \<mapsto> ''s3cret'']\<rparr>) = Inl ErrJSMFieldsRequired"
  using Load_secret_not_enough [of "ex_os\<lparr>LookupEnv := [''WEBHOOK_SIGNING_SECRET'' \<mapsto> ''s3cret'']\<rparr>" "''s3cret''"] by simp

end
