(* ===== verification/Logging.thy ===== *)
theory Logging
  imports Config Webhook_Types
begin

text \<open>
  \<^verbatim>\<open>internal/observability/logging.go\<close>: the logger and the handler wrapper that stamps trace and
  span IDs on every line, over what it uses of \<open>log/slog\<close>.

  A base handler (text or JSON) keeps its level, the attributes preset by \<open>WithAttrs\<close>, each under
  the groups open at that time, and the open groups.  A line is its level, message and fields; the
  rendering as text or JSON is left to the standard library (\<open>ln_text\<close> says which).
\<close>

subsection \<open>slog\<close>

instantiation slog_level :: linorder
begin

fun level_num :: "slog_level \<Rightarrow> int" where
  "level_num LevelDebug = - 4"
| "level_num LevelInfo = 0"
| "level_num LevelWarn = 4"
| "level_num LevelError = 8"

definition less_eq_slog_level :: "slog_level \<Rightarrow> slog_level \<Rightarrow> bool" where
  "less_eq_slog_level a b \<longleftrightarrow> level_num a \<le> level_num b"

definition less_slog_level :: "slog_level \<Rightarrow> slog_level \<Rightarrow> bool" where
  "less_slog_level a b \<longleftrightarrow> level_num a < level_num b"

instance
proof
  fix x y z :: slog_level
  show "x < y \<longleftrightarrow> x \<le> y \<and> \<not> y \<le> x" by (auto simp: less_eq_slog_level_def less_slog_level_def)
  show "x \<le> x" "x \<le> y \<or> y \<le> x" by (auto simp: less_eq_slog_level_def)
  show "x \<le> y \<Longrightarrow> y \<le> z \<Longrightarrow> x \<le> z" by (simp add: less_eq_slog_level_def)
  show "x \<le> y \<Longrightarrow> y \<le> x \<Longrightarrow> x = y" by (cases x; cases y) (simp_all add: less_eq_slog_level_def)
qed

end

datatype log_value = LStr string | LInt int

type_synonym log_attr = "string \<times> log_value"

record base_handler =
  bh_text :: bool
  bh_level :: slog_level
  bh_attrs :: "(string list \<times> log_attr) list"
  bh_groups :: "string list"

record log_line =
  ln_text :: bool
  ln_level :: slog_level
  ln_msg :: string
  ln_fields :: "(string list \<times> log_attr) list"

record log_record =
  lr_level :: slog_level
  lr_msg :: string
  lr_attrs :: "log_attr list"

definition AddAttrs :: "log_attr list \<Rightarrow> log_record \<Rightarrow> log_record" where
  "AddAttrs as r = r\<lparr>lr_attrs := lr_attrs r @ as\<rparr>"

definition base_Handle :: "base_handler \<Rightarrow> log_record \<Rightarrow> log_line" where
  "base_Handle h r = \<lparr>ln_text = bh_text h, ln_level = lr_level r, ln_msg = lr_msg r,
     ln_fields = bh_attrs h @ map (\<lambda>a. (bh_groups h, a)) (lr_attrs r)\<rparr>"

definition base_WithAttrs :: "log_attr list \<Rightarrow> base_handler \<Rightarrow> base_handler" where
  "base_WithAttrs as h = h\<lparr>bh_attrs := bh_attrs h @ map (\<lambda>a. (bh_groups h, a)) as\<rparr>"

definition base_WithGroup :: "string \<Rightarrow> base_handler \<Rightarrow> base_handler" where
  "base_WithGroup name h = (if name = [] then h else h\<lparr>bh_groups := bh_groups h @ [name]\<rparr>)"

subsection \<open>logging.go\<close>

text \<open>A \<open>slog.Handler\<close> of the program: a base handler, or a \<open>traceHandler\<close> around a handler.\<close>

datatype slog_handler = Base base_handler | TraceHandler slog_handler

fun Handler_Handle :: "slog_handler \<Rightarrow> ctx \<Rightarrow> log_record \<Rightarrow> log_line" where
  "Handler_Handle (Base h) c r = base_Handle h r"
| "Handler_Handle (TraceHandler h) c r =
     (let r = (case ctx_trace c of
                 Some t \<Rightarrow> AddAttrs [(''trace_id'', LStr t), (''span_id'', LStr (ctx_span c))] r
               | None \<Rightarrow> r)
      in Handler_Handle h c r)"

fun WithAttrs :: "log_attr list \<Rightarrow> slog_handler \<Rightarrow> slog_handler" where
  "WithAttrs as (Base h) = Base (base_WithAttrs as h)"
| "WithAttrs as (TraceHandler h) = TraceHandler (WithAttrs as h)"

fun WithGroup :: "string \<Rightarrow> slog_handler \<Rightarrow> slog_handler" where
  "WithGroup name (Base h) = Base (base_WithGroup name h)"
| "WithGroup name (TraceHandler h) = TraceHandler (WithGroup name h)"

fun Enabled :: "slog_level \<Rightarrow> slog_handler \<Rightarrow> bool" where
  "Enabled l (Base h) = (bh_level h \<le> l)"
| "Enabled l (TraceHandler h) = Enabled l h"

definition NewLogger :: "slog_level \<Rightarrow> string \<Rightarrow> slog_handler" where
  "NewLogger level format =
    (let base = (if format = ''text''
                 then \<lparr>bh_text = True, bh_level = level, bh_attrs = [], bh_groups = []\<rparr>
                 else \<lparr>bh_text = False, bh_level = level, bh_attrs = [], bh_groups = []\<rparr>)
     in TraceHandler (Base base))"

text \<open>\<open>logger.InfoContext\<close> and its kin: nothing below the handler's level, else one line.\<close>

definition log_at ::
  "slog_handler \<Rightarrow> ctx \<Rightarrow> slog_level \<Rightarrow> string \<Rightarrow> log_attr list \<Rightarrow> log_line list \<Rightarrow> log_line list" where
  "log_at h c l msg as out =
    (if Enabled l h
     then out @ [Handler_Handle h c \<lparr>lr_level = l, lr_msg = msg, lr_attrs = as\<rparr>]
     else out)"

subsection \<open>Derived loggers\<close>

inductive derived :: "slog_handler \<Rightarrow> slog_handler \<Rightarrow> bool" for h where
  itself: "derived h h"
| with_attrs: "derived h h' \<Longrightarrow> derived h (WithAttrs as h')"
| with_group: "derived h h' \<Longrightarrow> derived h (WithGroup name h')"

lemma derived_NewLogger:
  assumes "derived (NewLogger level format) h"
  obtains b where "h = TraceHandler (Base b)" "bh_level b = level" "bh_text b = (format = ''text'')"
proof -
  have "\<exists>b. h = TraceHandler (Base b) \<and> bh_level b = level \<and> bh_text b = (format = ''text'')"
    using assms
  proof (induction rule: derived.induct)
    case itself
    show ?case by (simp add: NewLogger_def Let_def)
  qed (auto simp: base_WithAttrs_def base_WithGroup_def)
  then show ?thesis using that by blast
qed

definition trace_fields :: "ctx \<Rightarrow> log_attr list" where
  "trace_fields c = (case ctx_trace c of Some t \<Rightarrow> [(''trace_id'', LStr t), (''span_id'', LStr (ctx_span c))] | None \<Rightarrow> [])"

text \<open>C29. Every logger derived from \<open>NewLogger\<close> by \<open>With\<close> and \<open>WithGroup\<close>, in any order, stays
  correlated and keeps level and format: it writes nothing below its level, and at or above it one
  line in the configured format with the given message that ends with the given attributes followed
  by the trace and span IDs, when the context has a valid span, all under the groups open by then.\<close>

theorem derived_loggers_correlate:
  assumes "derived (NewLogger level format) h"
  shows "(l < level \<longrightarrow> log_at h c l msg as out = out) \<and>
    (level \<le> l \<longrightarrow> (\<exists>ln pre gs. log_at h c l msg as out = out @ [ln] \<and>
       ln_text ln = (format = ''text'') \<and> ln_level ln = l \<and> ln_msg ln = msg \<and>
       ln_fields ln = pre @ map (\<lambda>a. (gs, a)) (as @ trace_fields c)))"
proof -
  obtain b where b: "h = TraceHandler (Base b)" "bh_level b = level" "bh_text b = (format = ''text'')"
    using assms by (rule derived_NewLogger)
  then show ?thesis
    by (auto simp: log_at_def base_Handle_def AddAttrs_def trace_fields_def split: option.splits)
qed

theorem derived_loggers_correlate_witness:
  "log_at (WithGroup ''http'' (WithAttrs [(''svc'', LStr ''webhookd'')] (NewLogger LevelInfo ''json'')))
     \<lparr>ctx_reqid = None, ctx_trace = Some ''t1'', ctx_span = ''s1''\<rparr> LevelDebug ''m'' [] [] = [] \<and>
   (\<exists>ln pre gs. log_at (WithGroup ''http'' (WithAttrs [(''svc'', LStr ''webhookd'')] (NewLogger LevelInfo ''json'')))
     \<lparr>ctx_reqid = None, ctx_trace = Some ''t1'', ctx_span = ''s1''\<rparr> LevelWarn ''m'' [] [] = [ln] \<and>
     ln_fields ln = pre @ map (\<lambda>a. (gs, a)) [(''trace_id'', LStr ''t1''), (''span_id'', LStr ''s1'')])"
proof -
  let ?h = "WithGroup ''http'' (WithAttrs [(''svc'', LStr ''webhookd'')] (NewLogger LevelInfo ''json''))"
  let ?c = "\<lparr>ctx_reqid = None, ctx_trace = Some ''t1'', ctx_span = ''s1''\<rparr>"
  have d: "derived (NewLogger LevelInfo ''json'') ?h" by (intro derived.intros)
  have "LevelDebug < LevelInfo" "LevelInfo \<le> LevelWarn"
    by (simp_all add: less_slog_level_def less_eq_slog_level_def)
  then show ?thesis
    using derived_loggers_correlate [OF d, of LevelDebug ?c "''m''" "[]" "[]"]
      derived_loggers_correlate [OF d, of LevelWarn ?c "''m''" "[]" "[]"]
    by (auto simp: trace_fields_def)
qed

end
