(* ===== verification/Executor.thy ===== *)
theory Executor
  imports Webhook_Types Metrics Go_Time Logging
begin

text \<open>
  \<^verbatim>\<open>internal/webhook/executor.go\<close>: applying a custom resource and waiting for the operator.

  Code outside the repository is a parameter, gathered in \<open>exec_env\<close>: the controller-runtime
  client (\<open>Patch\<close>, \<open>Get\<close>, \<open>Watch\<close> over a cluster state \<open>'k\<close>; \<open>Patch\<close> and \<open>Get\<close> return the
  object they overwrite), the \<open>apierrors.Is*\<close> predicates, the OpenTelemetry span that
  \<open>Tracer.Start\<close> puts on the context, the clock's readings and the Unicode tables.

  A watch yields the outcomes of the loop's successive \<open>select\<close>s: the context is done, the
  channel is closed, or an event arrives.  The list is what has been observed so far, so
  \<open>None\<close> as the result of a run means that the loop is still waiting.
\<close>

definition LabelManagedBy :: string where "LabelManagedBy = ''webhookd.io/managed-by''"
definition LabelSource :: string where "LabelSource = ''webhookd.io/source''"
definition AnnotationTraceID :: string where "AnnotationTraceID = ''webhookd.io/trace-id''"
definition AnnotationReqID :: string where "AnnotationReqID = ''webhookd.io/request-id''"
definition AnnotationApplied :: string where "AnnotationApplied = ''webhookd.io/applied-at''"

lemmas key_defs = LabelManagedBy_def LabelSource_def AnnotationTraceID_def AnnotationReqID_def
  AnnotationApplied_def

subsection \<open>The environment\<close>

datatype runtime_object = ClientObj client_object | NonClientObj

datatype tick = CtxDone | Closed | Event string runtime_object

record patch_opts =
  FieldOwner :: string
  ForceOwnership :: bool

record 'k client =
  Patch :: "ctx \<Rightarrow> patch_opts \<Rightarrow> client_object \<Rightarrow> 'k \<Rightarrow> go_error option \<times> client_object \<times> 'k"
  Get :: "ctx \<Rightarrow> string \<Rightarrow> string \<Rightarrow> client_object \<Rightarrow> 'k \<Rightarrow> go_error option \<times> client_object \<times> 'k"
  Watch :: "ctx \<Rightarrow> list_object \<Rightarrow> string \<Rightarrow> 'k \<Rightarrow> (go_error + tick list) \<times> 'k"

record api_preds =
  IsForbidden :: "go_error \<Rightarrow> bool"
  IsInvalid :: "go_error \<Rightarrow> bool"
  IsServerTimeout :: "go_error \<Rightarrow> bool"
  IsServiceUnavailable :: "go_error \<Rightarrow> bool"
  IsTooManyRequests :: "go_error \<Rightarrow> bool"
  IsConflict :: "go_error \<Rightarrow> bool"

record 'k exec_env =
  ee_client :: "'k client"
  ee_preds :: api_preds
  ee_span :: "ctx \<Rightarrow> string \<Rightarrow> ctx"
  ee_elapsed :: duration
  ee_unicode :: unicode
  ee_logger :: "slog_handler option"

text \<open>\<open>ExecutorConfig\<close>; \<open>Now\<close> is the text the injected clock gives for \<open>applied-at\<close>
  (\<open>None\<close> is a nil \<open>Now\<close>).\<close>

record executor_config =
  FieldManager :: string
  SyncTimeout :: duration
  Now :: "string option"

record 'k exec_state =
  cluster :: 'k
  mets :: "metrics option"
  elog :: "log_line list"

subsection \<open>Operations\<close>

definition NewExecutor :: "string \<Rightarrow> executor_config \<Rightarrow> executor_config" where
  "NewExecutor wall cfg =
    (let cfg = (if Now cfg = None then cfg\<lparr>Now := Some wall\<rparr> else cfg)
     in if FieldManager cfg = [] then cfg\<lparr>FieldManager := ''webhookd''\<rparr> else cfg)"

definition systemLabels :: "string \<Rightarrow> str_map" where
  "systemLabels source = [LabelManagedBy \<mapsto> ''webhookd'', LabelSource \<mapsto> source]"

definition systemAnnotations :: "executor_config \<Rightarrow> ctx \<Rightarrow> str_map" where
  "systemAnnotations cfg c =
    (let out = [AnnotationApplied \<mapsto> (case Now cfg of Some t \<Rightarrow> t | None \<Rightarrow> [])];
         out = (if RequestIDFromContext c \<noteq> [] then out(AnnotationReqID \<mapsto> RequestIDFromContext c) else out)
     in if traceIDFromContext c \<noteq> [] then out(AnnotationTraceID \<mapsto> traceIDFromContext c) else out)"

definition mergeLabels :: "str_map \<Rightarrow> str_map \<Rightarrow> str_map" where
  "mergeLabels provider executor = maps_Copy (maps_Copy Map.empty provider) executor"

definition mergeAnnotations :: "str_map \<Rightarrow> str_map \<Rightarrow> str_map \<Rightarrow> str_map" where
  "mergeAnnotations provider providerExtra executor =
     maps_Copy (maps_Copy (maps_Copy Map.empty provider) providerExtra) executor"

fun syncOutcome :: "result_kind \<Rightarrow> string" where
  "syncOutcome ResultReady = ''ready''"
| "syncOutcome ResultTimeout = ''timeout''"
| "syncOutcome _ = ''transient''"

definition observeApply :: "string \<Rightarrow> string \<Rightarrow> 'k exec_state \<Rightarrow> 'k exec_state" where
  "observeApply kind oc st = st\<lparr>mets := map_option (Inc K8sApplyTotal [kind, oc]) (mets st)\<rparr>"

definition observeSync :: "string \<Rightarrow> string \<Rightarrow> duration \<Rightarrow> 'k exec_state \<Rightarrow> 'k exec_state" where
  "observeSync kind oc d st =
     st\<lparr>mets := map_option (Observe K8sSyncDuration [kind, oc] d) (mets st)\<rparr>"

definition applyOutcome :: "client_object \<Rightarrow> string" where
  "applyOutcome obj =
    (if GetGeneration obj = 0 then ''error''
     else if GetGeneration obj = 1 then ''created'' else ''updated'')"

definition classifyK8sErr :: "unicode \<Rightarrow> api_preds \<Rightarrow> go_error \<Rightarrow> string \<Rightarrow> string \<Rightarrow> exec_result" where
  "classifyK8sErr u p err namespace name =
    (let res = (\<lambda>k r. \<lparr>Kind = k, Reason = r, ResCRName = name, ResNamespace = namespace, ObservedGeneration = 0\<rparr>)
     in if IsForbidden p err then res ResultInternalError (''forbidden: '' @ Error u err)
        else if IsInvalid p err then res ResultUnprocessable (''invalid spec: '' @ Error u err)
        else if IsServerTimeout p err \<or> IsServiceUnavailable p err \<or> IsTooManyRequests p err \<or> IsConflict p err
          then res ResultTransientFailure (Error u err)
        else res ResultInternalError (Error u err))"

text \<open>The labels and annotations \<open>apply\<close> puts on the provider's object before the patch.\<close>

definition stamp :: "executor_config \<Rightarrow> ctx \<Rightarrow> apply_action \<Rightarrow> client_object" where
  "stamp cfg c act =
    (let obj = Object act;
         obj = SetLabels (mergeLabels (GetLabels obj) (systemLabels (Source act))) obj
     in SetAnnotations (mergeAnnotations (GetAnnotations obj) (ActAnnotations act) (systemAnnotations cfg c)) obj)"

text \<open>\<open>apply\<close>: the error (if any), the object as the calls left it, and the state.\<close>

definition apply_cr ::
  "'k exec_env \<Rightarrow> executor_config \<Rightarrow> ctx \<Rightarrow> apply_action \<Rightarrow> 'k exec_state \<Rightarrow>
   go_error option \<times> client_object \<times> 'k exec_state" where
  "apply_cr env cfg c act st =
    (let c = ee_span env c ''k8s.apply'';
         obj = stamp cfg c act;
         (err, obj, k) = Patch (ee_client env) c
           \<lparr>FieldOwner = FieldManager cfg, ForceOwnership = True\<rparr> obj (cluster st)
     in case err of
          Some e \<Rightarrow> (Some (Errorf [Lit ''ssa patch: '', W e]), obj, st\<lparr>cluster := k\<rparr>)
        | None \<Rightarrow>
            let (err, obj, k) = Get (ee_client env) c (GetNamespace obj) (GetName obj) obj k
            in case err of
                 Some e \<Rightarrow> (Some (Errorf [Lit ''post-apply get: '', W e]), obj, st\<lparr>cluster := k\<rparr>)
               | None \<Rightarrow> (None, obj, st\<lparr>cluster := k\<rparr>))"

text \<open>The \<open>for { select { ... } }\<close> loop of \<open>waitForSync\<close>: the result and the log lines written; \<open>warn\<close> is the
  line for a closed watch.\<close>

fun watch_loop ::
  "executor_config \<Rightarrow> log_line list \<Rightarrow> ready_check \<Rightarrow> int \<Rightarrow> string \<Rightarrow> exec_result \<Rightarrow> tick list \<Rightarrow>
   (exec_result \<times> log_line list) option" where
  "watch_loop cfg warn rc gen name base [] = None"
| "watch_loop cfg warn rc gen name base (CtxDone # ts) =
     Some (base\<lparr>Kind := ResultTimeout,
       Reason := ''operator did not mark Ready=True within '' @ Duration_String (SyncTimeout cfg)\<rparr>, [])"
| "watch_loop cfg warn rc gen name base (Closed # ts) =
     Some (base\<lparr>Kind := ResultTransientFailure, Reason := ''watch channel closed before sync''\<rparr>, warn)"
| "watch_loop cfg warn rc gen name base (Event ty NonClientObj # ts) = watch_loop cfg warn rc gen name base ts"
| "watch_loop cfg warn rc gen name base (Event ty (ClientObj obj) # ts) =
    (if GetName obj \<noteq> name then watch_loop cfg warn rc gen name base ts
     else let (ready, og) = rc obj gen in
       if ready then Some (base\<lparr>Kind := ResultReady, ObservedGeneration := og\<rparr>, [])
       else watch_loop cfg warn rc gen name base ts)"

definition watch_closed_line :: "'k exec_env \<Rightarrow> ctx \<Rightarrow> string \<Rightarrow> log_line list" where
  "watch_closed_line env parent name =
    (case ee_logger env of
       None \<Rightarrow> []
     | Some lg \<Rightarrow> log_at lg parent LevelWarn ''watch closed'' [(''cr'', LStr name)] [])"

definition waitForSync_body ::
  "'k exec_env \<Rightarrow> executor_config \<Rightarrow> ctx \<Rightarrow> ctx \<Rightarrow> apply_action \<Rightarrow> client_object \<Rightarrow> 'k \<Rightarrow>
   (exec_result \<times> log_line list) option \<times> 'k" where
  "waitForSync_body env cfg parent c act applied k =
    (let gen = GetGeneration applied;
         ns = GetNamespace applied; name = GetName applied;
         base = (exec_result0 ResultNoop)\<lparr>ResCRName := name, ResNamespace := ns\<rparr>;
         (err, cur, k) = Get (ee_client env) c ns name applied k;
         (ready, og) = (if err = None then ReadyCheck act cur gen else (False, 0))
     in if ready then (Some (base\<lparr>Kind := ResultReady, ObservedGeneration := og\<rparr>, []), k)
        else case Watch (ee_client env) c (ListObject act) ns k of
          (Inl e, k) \<Rightarrow>
            (Some (base\<lparr>Kind := ResultTransientFailure, Reason := ''watch: '' @ Error (ee_unicode env) e\<rparr>, []), k)
        | (Inr ticks, k) \<Rightarrow>
            (watch_loop cfg (watch_closed_line env parent name) (ReadyCheck act) gen name base ticks, k))"

text \<open>\<open>waitForSync\<close> with its deferred metric observation.\<close>

definition waitForSync ::
  "'k exec_env \<Rightarrow> executor_config \<Rightarrow> ctx \<Rightarrow> apply_action \<Rightarrow> client_object \<Rightarrow> 'k exec_state \<Rightarrow>
   (exec_result \<times> 'k exec_state) option" where
  "waitForSync env cfg parent act applied st =
    (case waitForSync_body env cfg parent (ee_span env parent ''k8s.watch_cr'') act applied (cluster st) of
       (None, k) \<Rightarrow> None
     | (Some (res, lines), k) \<Rightarrow>
         Some (res, observeSync (ActKind act) (syncOutcome (Kind res)) (ee_elapsed env)
           (st\<lparr>cluster := k, elog := elog st @ lines\<rparr>)))"

fun Execute ::
  "'k exec_env \<Rightarrow> executor_config \<Rightarrow> ctx \<Rightarrow> action \<Rightarrow> 'k exec_state \<Rightarrow> (exec_result \<times> 'k exec_state) option" where
  "Execute env cfg c (NoopAction reason) st = Some ((exec_result0 ResultNoop)\<lparr>Reason := reason\<rparr>, st)"
| "Execute env cfg c (ApplyAction act) st =
    (case apply_cr env cfg c act st of
       (Some err, obj, st) \<Rightarrow>
         Some (classifyK8sErr (ee_unicode env) (ee_preds env) err (GetNamespace obj) (GetName obj),
               observeApply (ActKind act) ''error'' st)
     | (None, applied, st) \<Rightarrow>
         waitForSync env cfg c act applied (observeApply (ActKind act) (applyOutcome applied) st))"
| "Execute env cfg c NilAction st =
    Some ((exec_result0 ResultInternalError)\<lparr>Reason := ''unknown action <nil>''\<rparr>, st)"

subsection \<open>The watch loop\<close>

lemma watch_loop_SomeD:
  assumes "watch_loop cfg warn rc gen name base ts = Some (r, l)"
  shows "Kind r \<in> {ResultReady, ResultTimeout, ResultTransientFailure} \<and>
     ResCRName r = ResCRName base \<and> ResNamespace r = ResNamespace base \<and>
     (Kind r = ResultReady \<longrightarrow> Reason r = Reason base \<and>
        (\<exists>ty obj. Event ty (ClientObj obj) \<in> set ts \<and> GetName obj = name \<and>
           rc obj gen = (True, ObservedGeneration r)))"
  using assms
  by (induction cfg warn rc gen name base ts rule: watch_loop.induct) (auto split: if_splits prod.splits, blast+)

lemma watch_loop_returns:
  "CtxDone \<in> set ts \<or> Closed \<in> set ts \<Longrightarrow> \<exists>r l. watch_loop cfg warn rc gen name base ts = Some (r, l)"
  by (induction cfg warn rc gen name base ts rule: watch_loop.induct) (auto split: prod.splits)

text \<open>Before a deadline or a close, the loop passes over what is not ready and stops at the first ready object.\<close>

lemma watch_loop_finds_ready:
  assumes "CtxDone \<notin> set pre" "Closed \<notin> set pre" "GetName obj = name" "rc obj gen = (True, og)"
  shows "\<exists>r. watch_loop cfg warn rc gen name base (pre @ Event ty (ClientObj obj) # post) = Some (r, []) \<and> Kind r = ResultReady"
  using assms
proof (induction pre)
  case (Cons t pre)
  then show ?case
  proof (cases t)
    case (Event ty ro)
    then show ?thesis using Cons by (cases ro) (auto split: prod.split)
  qed simp_all
qed simp

subsection \<open>Results of a wait and of an execution\<close>

lemma waitForSync_bodyD:
  assumes "waitForSync_body env cfg parent c act applied k = (Some (r, lines), k')"
  shows "Kind r \<in> {ResultReady, ResultTimeout, ResultTransientFailure} \<and>
    ResCRName r = GetName applied \<and> ResNamespace r = GetNamespace applied \<and>
    (Kind r = ResultReady \<longrightarrow> Reason r = [])"
  using assms
  by (auto simp: waitForSync_body_def Let_def exec_result0_def split: prod.splits if_splits sum.splits
      dest!: watch_loop_SomeD)

text \<open>An object the wait has looked at: the initial \<open>Get\<close>'s, or a watch event's with the right name.\<close>

definition seen_by_wait ::
  "'k exec_env \<Rightarrow> ctx \<Rightarrow> apply_action \<Rightarrow> client_object \<Rightarrow> 'k \<Rightarrow> client_object \<Rightarrow> bool" where
  "seen_by_wait env c act applied k obj \<longleftrightarrow>
    (let ns = GetNamespace applied; name = GetName applied;
         (err, cur, k1) = Get (ee_client env) c ns name applied k
     in err = None \<and> obj = cur \<or>
        GetName obj = name \<and>
        (\<exists>ticks k2 ty. Watch (ee_client env) c (ListObject act) ns k1 = (Inr ticks, k2) \<and>
           Event ty (ClientObj obj) \<in> set ticks))"

lemma waitForSync_body_ready:
  assumes "waitForSync_body env cfg parent c act applied k = (Some (r, lines), k')" "Kind r = ResultReady"
  shows "\<exists>obj. seen_by_wait env c act applied k obj \<and>
    ReadyCheck act obj (GetGeneration applied) = (True, ObservedGeneration r)"
  using assms
  by (auto simp: waitForSync_body_def seen_by_wait_def Let_def split: prod.splits if_splits sum.splits
      dest!: watch_loop_SomeD)

lemma observe_frame [simp]:
  "cluster (observeApply kd oc st) = cluster st" "cluster (observeSync kd oc d st) = cluster st"
  "mets (observeApply kd oc st) = map_option (Inc K8sApplyTotal [kd, oc]) (mets st)"
  "mets (observeSync kd oc d st) = map_option (Observe K8sSyncDuration [kd, oc] d) (mets st)"
  "elog (observeApply kd oc st) = elog st" "elog (observeSync kd oc d st) = elog st"
  by (simp_all add: observeApply_def observeSync_def)

lemma apply_cr_mets [simp]: "apply_cr env cfg c act st = (e, obj, st') \<Longrightarrow> mets st' = mets st"
  by (auto simp: apply_cr_def Let_def split: prod.splits option.splits)

lemma Execute_ApplyE:
  assumes "Execute env cfg c (ApplyAction act) st = Some (res, st')"
  obtains (failed) err obj st1 where "apply_cr env cfg c act st = (Some err, obj, st1)"
      "res = classifyK8sErr (ee_unicode env) (ee_preds env) err (GetNamespace obj) (GetName obj)"
      "st' = observeApply (ActKind act) ''error'' st1"
  | (applied) applied st1 k lines where "apply_cr env cfg c act st = (None, applied, st1)"
      "waitForSync_body env cfg c (ee_span env c ''k8s.watch_cr'') act applied (cluster st1) = (Some (res, lines), k)"
      "st' = observeSync (ActKind act) (syncOutcome (Kind res)) (ee_elapsed env)
               ((observeApply (ActKind act) (applyOutcome applied) st1)\<lparr>cluster := k, elog := elog st1 @ lines\<rparr>)"
proof (cases "apply_cr env cfg c act st")
  case (fields e obj st1)
  show thesis
  proof (cases e)
    case None
    then show thesis
      using assms fields that(2) by (auto simp: waitForSync_def split: prod.splits option.splits)
  next
    case (Some err)
    then show thesis using assms fields that(1) by simp
  qed
qed

declare Execute.simps(2) [simp del]

lemma classifyK8sErr_kind:
  "Kind (classifyK8sErr u p e ns n) \<in> {ResultInternalError, ResultUnprocessable, ResultTransientFailure}"
  "ResCRName (classifyK8sErr u p e ns n) = n" "ResNamespace (classifyK8sErr u p e ns n) = ns"
  "ObservedGeneration (classifyK8sErr u p e ns n) = 0"
  by (simp_all add: classifyK8sErr_def Let_def)

lemma classifyK8sErr_not [simp]:
  "Kind (classifyK8sErr u p e ns n) \<noteq> ResultReady" "Kind (classifyK8sErr u p e ns n) \<noteq> ResultNoop"
  "Kind (classifyK8sErr u p e ns n) \<noteq> ResultBadRequest" "Kind (classifyK8sErr u p e ns n) \<noteq> ResultTimeout"
  by (simp_all add: classifyK8sErr_def Let_def)

lemma Execute_apply_kind:
  assumes "Execute env cfg c (ApplyAction act) st = Some (res, st')"
  shows "Kind res \<notin> {ResultNoop, ResultBadRequest} \<and> (Kind res = ResultReady \<longrightarrow> Reason res = [])"
  using assms
proof (cases rule: Execute_ApplyE)
  case (failed err obj st1)
  then show ?thesis by simp
next
  case (applied applied st1 k lines)
  then show ?thesis by (auto dest: waitForSync_bodyD)
qed

subsection \<open>Interfaces\<close>

text \<open>What the executor relies on in a provider's \<open>ReadyCheck\<close>: it never accepts an object whose
  operator has not caught up with the applied generation.\<close>

locale readiness =
  fixes rc :: ready_check
  assumes ready_generation: "rc obj gen = (True, og) \<Longrightarrow> gen \<le> og"
begin

lemma ready_result_generation:
  assumes "Execute env cfg c (ApplyAction act) st = Some (res, st')"
    and "ReadyCheck act = rc" "Kind res = ResultReady"
  shows "\<exists>applied st1. apply_cr env cfg c act st = (None, applied, st1) \<and>
    GetGeneration applied \<le> ObservedGeneration res"
  using assms(1)
proof (cases rule: Execute_ApplyE)
  case (failed err obj st1)
  then show ?thesis using assms(3) by simp
next
  case (applied applied st1 k lines)
  then obtain obj where "rc obj (GetGeneration applied) = (True, ObservedGeneration res)"
    using waitForSync_body_ready [OF applied(2)] assms(2,3) by auto
  then show ?thesis using applied(1) ready_generation by blast
qed

end

lemma Execute_gauge: "Execute env cfg c a st = Some (res, st') \<Longrightarrow> gauge (mets st') = gauge (mets st)"
proof (cases a)
  case (ApplyAction act)
  assume "Execute env cfg c a st = Some (res, st')"
  then have "Execute env cfg c (ApplyAction act) st = Some (res, st')" using ApplyAction by simp
  then show ?thesis
    by (cases rule: Execute_ApplyE)
      (simp_all add: observeApply_def observeSync_def K8sApplyTotal_def K8sSyncDuration_def HTTPRequests_def)
qed simp_all

text \<open>What the dispatcher relies on in its executor (\<open>executorIface\<close>).\<close>

locale executor_contract =
  fixes execute :: "ctx \<Rightarrow> action \<Rightarrow> 's \<Rightarrow> (exec_result \<times> 's) option"
  assumes execute_noop:
      "execute c (NoopAction r) s = Some ((exec_result0 ResultNoop)\<lparr>Reason := r\<rparr>, s)"
    and execute_nil:
      "execute c NilAction s = Some ((exec_result0 ResultInternalError)\<lparr>Reason := ''unknown action <nil>''\<rparr>, s)"
    and execute_apply_kind:
      "execute c (ApplyAction act) s = Some (res, s') \<Longrightarrow>
         Kind res \<notin> {ResultNoop, ResultBadRequest} \<and> (Kind res = ResultReady \<longrightarrow> Reason res = [])"
begin

lemma ready_from_apply:
  "execute c a s = Some (res, s') \<Longrightarrow> Kind res = ResultReady \<Longrightarrow> \<exists>act. a = ApplyAction act"
  by (cases a) (auto simp: execute_noop execute_nil exec_result0_def)

lemma noop_from_noop:
  "execute c a s = Some (res, s') \<Longrightarrow> Kind res = ResultNoop \<Longrightarrow>
     (\<exists>r. a = NoopAction r \<and> Reason res = r) \<and> s' = s"
  by (cases a) (auto simp: execute_noop execute_nil exec_result0_def dest: execute_apply_kind)

lemma never_bad_request: "execute c a s = Some (res, s') \<Longrightarrow> Kind res \<noteq> ResultBadRequest"
  by (cases a) (auto simp: execute_noop execute_nil exec_result0_def dest: execute_apply_kind)

end

interpretation ex: executor_contract "Execute env cfg" for env :: "'k exec_env" and cfg
  by unfold_locales (simp, simp, rule Execute_apply_kind)

subsection \<open>Properties\<close>

text \<open>An environment for the examples: the cluster is the stored object; the operator marks it ready in
  the first watch event.\<close>

definition ex_ready :: ready_check where
  "ex_ready obj gen = (gen \<le> GetGeneration obj \<and> GetLabels obj (''ready'') = Some ''yes'', GetGeneration obj)"

definition ex_client :: "client_object option client" where
  "ex_client =
    \<lparr>Patch = (\<lambda>c po obj k. let x = map_meta (\<lambda>m. m\<lparr>Generation := 1\<rparr>) obj in (None, x, Some x)),
     Get = (\<lambda>c ns n obj k. case k of None \<Rightarrow> (Some (Ext ''NotFound'' ''not found''), obj, k)
              | Some x \<Rightarrow> (None, x, k)),
     Watch = (\<lambda>c l ns k. (Inr (case k of None \<Rightarrow> [CtxDone]
        | Some x \<Rightarrow> [Event ''MODIFIED'' (ClientObj (SetLabels [''ready'' \<mapsto> ''yes''] x)), CtxDone]), k))\<rparr>"

definition ex_preds :: api_preds where
  "ex_preds = \<lparr>IsForbidden = (\<lambda>e. errors_Is e (Ext ''Forbidden'' ''no'')), IsInvalid = (\<lambda>e. False),
     IsServerTimeout = (\<lambda>e. False), IsServiceUnavailable = (\<lambda>e. False), IsTooManyRequests = (\<lambda>e. False),
     IsConflict = (\<lambda>e. errors_Is e (Ext ''Conflict'' ''conflict''))\<rparr>"

definition ex_env :: "client_object option exec_env" where
  "ex_env = \<lparr>ee_client = ex_client, ee_preds = ex_preds, ee_span = (\<lambda>c _. c), ee_elapsed = Second,
     ee_unicode = \<lparr>uc_ToLower = (\<lambda>r. r), uc_IsPrint = (\<lambda>_. True)\<rparr>, ee_logger = Some (NewLogger LevelInfo ''json'')\<rparr>"

definition ex_cfg :: executor_config where
  "ex_cfg = \<lparr>FieldManager = ''webhookd'', SyncTimeout = 20 * Second, Now = Some ''2026-01-01T00:00:00Z''\<rparr>"

definition ex_act :: apply_action where
  "ex_act = \<lparr>Object = OtherObject \<lparr>Name = ''a'', Namespace = ''n'', Labels = Map.empty,
       Annotations = Map.empty, Generation = 0\<rparr>,
     ListObject = OtherList, ReadyCheck = ex_ready, ActAnnotations = Map.empty,
     ActKind = ''K'', Source = ''jsm''\<rparr>"

definition ex_ctx :: ctx where "ex_ctx = \<lparr>ctx_reqid = Some ''r1'', ctx_trace = None, ctx_span = []\<rparr>"

definition ex_metrics :: metrics where
  "ex_metrics = \<lparr>counts = (\<lambda>_. 0), observed = (\<lambda>_. []), inflight = 0, bad = False\<rparr>"

definition ex_state :: "client_object option exec_state" where
  "ex_state = \<lparr>cluster = None, mets = Some ex_metrics, elog = []\<rparr>"

lemmas ex_defs = ex_env_def ex_client_def ex_preds_def ex_cfg_def ex_act_def ex_ctx_def ex_state_def
  ex_ready_def ex_metrics_def

definition ex_result :: exec_result where
  "ex_result = \<lparr>Kind = ResultReady, Reason = [], ResCRName = ''a'', ResNamespace = ''n'', ObservedGeneration = 1\<rparr>"

lemma ex_apply_cr: "apply_cr ex_env ex_cfg ex_ctx ex_act ex_state =
  (None, map_meta (\<lambda>m. m\<lparr>Generation := 1\<rparr>) (stamp ex_cfg ex_ctx ex_act),
   ex_state\<lparr>cluster := Some (map_meta (\<lambda>m. m\<lparr>Generation := 1\<rparr>) (stamp ex_cfg ex_ctx ex_act))\<rparr>)"
  by (simp add: apply_cr_def ex_env_def ex_client_def Let_def)

definition ex_state' :: "client_object option exec_state" where
  "ex_state' = \<lparr>cluster = Some (map_meta (\<lambda>m. m\<lparr>Generation := 1\<rparr>) (stamp ex_cfg ex_ctx ex_act)),
      mets = Some (Observe K8sSyncDuration [''K'', ''ready''] Second (Inc K8sApplyTotal [''K'', ''created''] ex_metrics)), elog = []\<rparr>"

lemma ex_Execute: "Execute ex_env ex_cfg ex_ctx (ApplyAction ex_act) ex_state = Some (ex_result, ex_state')"
  by (simp add: Execute.simps(2) ex_apply_cr ex_state'_def waitForSync_def waitForSync_body_def Let_def)
    (simp add: ex_defs ex_result_def stamp_def accessor_defs mergeLabels_def systemLabels_def maps_Copy_def
      applyOutcome_def exec_result0_def observeApply_def observeSync_def key_defs)

text \<open>C8. A success is never reported without evidence: when \<open>Execute\<close> reports \<open>ResultReady\<close>, the
  object was applied and re-read, and the provider's \<open>ReadyCheck\<close> accepted, at the applied
  generation, an object read by the initial \<open>Get\<close> or delivered by the watch under the applied
  name; its observed generation is the one reported.\<close>

theorem Execute_ready_sound:
  assumes "Execute env cfg c (ApplyAction act) st = Some (res, st')" "Kind res = ResultReady"
  shows "\<exists>applied st1 obj. apply_cr env cfg c act st = (None, applied, st1) \<and>
    seen_by_wait env (ee_span env c ''k8s.watch_cr'') act applied (cluster st1) obj \<and>
    ReadyCheck act obj (GetGeneration applied) = (True, ObservedGeneration res) \<and>
    ResCRName res = GetName applied \<and> ResNamespace res = GetNamespace applied"
  using assms(1)
proof (cases rule: Execute_ApplyE)
  case (failed err obj st1)
  then show ?thesis using assms(2) by simp
next
  case (applied applied st1 k lines)
  then show ?thesis
    using waitForSync_body_ready [OF applied(2) assms(2)] waitForSync_bodyD [OF applied(2)] by blast
qed

theorem Execute_ready_sound_witness:
  "\<exists>applied st1 obj. apply_cr ex_env ex_cfg ex_ctx ex_act ex_state = (None, applied, st1) \<and>
    seen_by_wait ex_env (ee_span ex_env ex_ctx ''k8s.watch_cr'') ex_act applied (cluster st1) obj \<and>
    ReadyCheck ex_act obj (GetGeneration applied) = (True, ObservedGeneration ex_result) \<and>
    ResCRName ex_result = GetName applied \<and> ResNamespace ex_result = GetNamespace applied"
  by (rule Execute_ready_sound [OF ex_Execute]) (simp add: ex_result_def)

text \<open>C9. The executor always answers: if the deadline or the end of the watch shows up among the
  \<open>select\<close> outcomes of every established watch (which \<open>context.WithTimeout\<close> guarantees), then
  \<open>Execute\<close> returns a result for every action, in every state.\<close>

theorem Execute_returns:
  assumes "\<And>c l ns k ticks k'. Watch (ee_client env) c l ns k = (Inr ticks, k') \<Longrightarrow>
    CtxDone \<in> set ticks \<or> Closed \<in> set ticks"
  shows "\<exists>res st'. Execute env cfg c a st = Some (res, st')"
proof (cases a)
  case (ApplyAction act)
  have "\<exists>r lines k'. waitForSync_body env cfg parent c act applied k = (Some (r, lines), k')" for parent c applied k
    using assms watch_loop_returns
    by (fastforce simp: waitForSync_body_def Let_def split: prod.splits sum.splits)
  then have "\<exists>r st'. waitForSync env cfg c act applied st = Some (r, st')" for applied st
    by (auto simp: waitForSync_def split: prod.splits option.splits) (metis option.distinct(1) prod.inject)
  then show ?thesis
    using ApplyAction by (auto simp: Execute.simps(2) split: prod.splits option.splits)
qed simp_all

theorem Execute_returns_witness:
  "\<exists>res st'. Execute ex_env ex_cfg ex_ctx (ApplyAction ex_act) ex_state = Some (res, st')"
  by (rule Execute_returns) (auto simp: ex_env_def ex_client_def split: option.splits)

text \<open>C10. Readiness is not missed: once the object is applied, if the watch delivers an object under the applied
  name that the provider's \<open>ReadyCheck\<close> accepts before the deadline or the end of the watch, then \<open>Execute\<close>
  returns \<open>ResultReady\<close> (answered 200) for the applied object, whatever the initial \<open>Get\<close> returned,
  whatever other objects and notices came first, and whatever follows.\<close>

theorem Execute_ready_complete:
  assumes "apply_cr env cfg c act st = (None, applied, st1)"
    and "Get (ee_client env) (ee_span env c ''k8s.watch_cr'') (GetNamespace applied) (GetName applied) applied (cluster st1) =
      (err, cur, k1)"
    and "Watch (ee_client env) (ee_span env c ''k8s.watch_cr'') (ListObject act) (GetNamespace applied) k1 =
      (Inr (pre @ Event ty (ClientObj obj) # post), k2)"
    and "CtxDone \<notin> set pre" "Closed \<notin> set pre"
    and "GetName obj = GetName applied" "ReadyCheck act obj (GetGeneration applied) = (True, og)"
  shows "\<exists>res st'. Execute env cfg c (ApplyAction act) st = Some (res, st') \<and> Kind res = ResultReady \<and>
    HTTPStatus (Kind res) = 200 \<and> ResCRName res = GetName applied \<and> ResNamespace res = GetNamespace applied"
proof -
  have loop: "\<exists>r. (\<exists>lines. watch_loop cfg warn (ReadyCheck act) (GetGeneration applied) (GetName applied) base
      (pre @ Event ty (ClientObj obj) # post) = Some (r, lines)) \<and> Kind r = ResultReady" for warn base
    using watch_loop_finds_ready [of pre obj "GetName applied" "ReadyCheck act" "GetGeneration applied", OF assms(4-7)] by blast
  have "\<exists>r lines k. waitForSync_body env cfg c (ee_span env c ''k8s.watch_cr'') act applied (cluster st1) =
      (Some (r, lines), k) \<and> Kind r = ResultReady"
    using assms(2,3) by (auto simp: waitForSync_body_def Let_def loop split: prod.split)
  then obtain r lines k where w: "waitForSync_body env cfg c (ee_span env c ''k8s.watch_cr'') act applied (cluster st1) =
      (Some (r, lines), k)" "Kind r = ResultReady" by blast
  then show ?thesis
    using waitForSync_bodyD [OF w(1)] assms(1) by (simp add: Execute.simps(2) waitForSync_def)
qed

text \<open>In the example the operator's first watch event marks the object ready.\<close>

theorem Execute_ready_complete_witness:
  "\<exists>res st'. Execute ex_env ex_cfg ex_ctx (ApplyAction ex_act) ex_state = Some (res, st') \<and> Kind res = ResultReady"
proof -
  let ?x = "map_meta (\<lambda>m. m\<lparr>Generation := 1\<rparr>) (stamp ex_cfg ex_ctx ex_act)"
  let ?y = "SetLabels [''ready'' \<mapsto> ''yes''] ?x"
  have g: "Get (ee_client ex_env) (ee_span ex_env ex_ctx ''k8s.watch_cr'') (GetNamespace ?x) (GetName ?x) ?x
      (cluster (ex_state\<lparr>cluster := Some ?x\<rparr>)) = (None, ?x, Some ?x)"
    by (simp add: ex_env_def ex_client_def)
  have w: "Watch (ee_client ex_env) (ee_span ex_env ex_ctx ''k8s.watch_cr'') (ListObject ex_act) (GetNamespace ?x) (Some ?x) =
      (Inr ([] @ Event ''MODIFIED'' (ClientObj ?y) # [CtxDone]), Some ?x)"
    by (simp add: ex_env_def ex_client_def)
  have n: "GetName ?y = GetName ?x" "ReadyCheck ex_act ?y (GetGeneration ?x) = (True, 1)"
    by (simp_all add: ex_act_def ex_ready_def stamp_def accessor_defs)
  show ?thesis using Execute_ready_complete [OF ex_apply_cr g w _ _ n] by auto
qed

text \<open>C31. Metric accounting of an apply: with metrics wired, executing an \<open>ApplyAction\<close> to a result adds exactly
  one \<open>webhookd_k8s_apply_total\<close> sample for the action's kind: under \<open>error\<close> when the apply failed or the
  object came back without a generation, under \<open>created\<close> for generation 1 and under \<open>updated\<close> above it
  (never under \<open>unchanged\<close>); and a sync duration exactly when the apply succeeded, under
  \<open>ready\<close>, \<open>timeout\<close> or \<open>transient\<close> by the result; no vector is given a wrong number of labels.\<close>

theorem Execute_metrics:
  assumes "Execute env cfg c (ApplyAction act) st = Some (res, st')" "mets st = Some m"
    and "apply_cr env cfg c act st = (err, obj, st1)"
    and "applied_key = (''webhookd_k8s_apply_total'', [ActKind act,
        if err \<noteq> None \<or> GetGeneration obj = 0 then ''error'' else if GetGeneration obj = 1 then ''created'' else ''updated''])"
    and "sync_key = (''webhookd_k8s_sync_duration_seconds'', [ActKind act,
        if Kind res = ResultReady then ''ready'' else if Kind res = ResultTimeout then ''timeout'' else ''transient''])"
  shows "\<exists>m'. mets st' = Some m' \<and> bad m' = bad m \<and>
    counts m' = (counts m)(applied_key := Suc (counts m applied_key)) \<and>
    observed m' = (if err = None then (observed m)(sync_key := observed m sync_key @ [ee_elapsed env]) else observed m)"
  using assms(1)
proof (cases rule: Execute_ApplyE)
  case (failed err obj st1)
  then show ?thesis using assms(2-5) by (simp add: Inc_def vec_defs)
next
  case (applied applied st1 k lines)
  have "syncOutcome (Kind res) =
      (if Kind res = ResultReady then ''ready'' else if Kind res = ResultTimeout then ''timeout'' else ''transient'')"
    by (cases "Kind res") simp_all
  then show ?thesis
    using assms(2-5) applied by (simp add: Inc_def Observe_def vec_defs applyOutcome_def)
qed

theorem Execute_metrics_witness:
  "\<exists>m'. mets ex_state' = Some m' \<and> counts m' (''webhookd_k8s_apply_total'', [''K'', ''created'']) = 1 \<and>
     counts m' (''webhookd_k8s_apply_total'', [''K'', ''updated'']) = 0 \<and>
     observed m' (''webhookd_k8s_sync_duration_seconds'', [''K'', ''ready'']) = [Second]"
proof -
  have m: "mets ex_state = Some ex_metrics" by (simp add: ex_state_def)
  have g: "GetGeneration (map_meta (\<lambda>m. m\<lparr>Generation := 1\<rparr>) (stamp ex_cfg ex_ctx ex_act)) = 1" "ActKind ex_act = ''K''"
    "Kind ex_result = ResultReady" "ee_elapsed ex_env = Second"
    by (simp_all add: stamp_def ex_act_def accessor_defs ex_result_def ex_env_def)
  from Execute_metrics [OF ex_Execute m ex_apply_cr refl refl] show ?thesis
    by (auto simp: g) (simp_all add: ex_metrics_def)
qed

text \<open>C33. What the executor stamps on an object before the patch: the two system labels win over the
  provider's, every other label of the provider is kept; an annotation is the executor's if it
  sets that key, else the action's, else the object's own; \<open>applied-at\<close> is always set,
  \<open>request-id\<close> and \<open>trace-id\<close> exactly when the context carries them; the identity is unchanged.\<close>

theorem stamp_labels_annotations:
  "GetLabels (stamp cfg c act) k =
     (if k = LabelManagedBy then Some ''webhookd''
      else if k = LabelSource then Some (Source act) else GetLabels (Object act) k) \<and>
   GetAnnotations (stamp cfg c act) k =
     (if k = AnnotationApplied then Some (case Now cfg of Some t \<Rightarrow> t | None \<Rightarrow> [])
      else if k = AnnotationReqID \<and> RequestIDFromContext c \<noteq> [] then Some (RequestIDFromContext c)
      else if k = AnnotationTraceID \<and> traceIDFromContext c \<noteq> [] then Some (traceIDFromContext c)
      else case ActAnnotations act k of Some v \<Rightarrow> Some v | None \<Rightarrow> GetAnnotations (Object act) k) \<and>
   GetName (stamp cfg c act) = GetName (Object act) \<and>
   GetNamespace (stamp cfg c act) = GetNamespace (Object act) \<and>
   GetGeneration (stamp cfg c act) = GetGeneration (Object act)"
  by (intro conjI) (simp_all add: stamp_def mergeLabels_def systemLabels_def key_defs mergeAnnotations_def
      systemAnnotations_def maps_Copy_apply Let_def split: option.splits)

text \<open>The documented behaviour of the \<open>apierrors\<close> predicates on wrapped errors.\<close>

definition sees_wrapped :: "api_preds \<Rightarrow> bool" where
  "sees_wrapped p \<longleftrightarrow> (\<forall>s e. \<forall>q \<in> {IsForbidden p, IsInvalid p, IsServerTimeout p,
     IsServiceUnavailable p, IsTooManyRequests p, IsConflict p}. q (Errorf [Lit s, W e]) = q e)"

text \<open>C32. A failed patch is answered by its class: 500 for a forbidden request, else 422 for an invalid
  object, else 503 for a server timeout, an unavailable or throttling server or a conflict, else
  500; the result names the targeted object and the wait never starts (no sync duration).\<close>

theorem Execute_patch_error_status:
  assumes "sees_wrapped (ee_preds env)"
    and "Patch (ee_client env) (ee_span env c ''k8s.apply'')
      \<lparr>FieldOwner = FieldManager cfg, ForceOwnership = True\<rparr>
      (stamp cfg (ee_span env c ''k8s.apply'') act) (cluster st) = (Some e, obj, k)"
  shows "\<exists>res. Execute env cfg c (ApplyAction act) st =
      Some (res, observeApply (ActKind act) ''error'' (st\<lparr>cluster := k\<rparr>)) \<and>
    HTTPStatus (Kind res) =
      (if IsForbidden (ee_preds env) e then 500
       else if IsInvalid (ee_preds env) e then 422
       else if IsServerTimeout (ee_preds env) e \<or> IsServiceUnavailable (ee_preds env) e \<or>
         IsTooManyRequests (ee_preds env) e \<or> IsConflict (ee_preds env) e then 503
       else 500) \<and>
    ResCRName res = GetName obj \<and> ResNamespace res = GetNamespace obj"
  using assms by (simp add: Execute.simps(2) apply_cr_def Let_def classifyK8sErr_def sees_wrapped_def)

definition ex_conflict_env :: "client_object option exec_env" where
  "ex_conflict_env = ex_env\<lparr>ee_client := ex_client\<lparr>Patch := (\<lambda>c po obj k. (Some (Ext ''Conflict'' ''conflict''), obj, k))\<rparr>\<rparr>"

theorem Execute_patch_error_status_witness:
  "\<exists>res. Execute ex_conflict_env ex_cfg ex_ctx (ApplyAction ex_act) ex_state =
      Some (res, observeApply (ActKind ex_act) ''error'' (ex_state\<lparr>cluster := None\<rparr>)) \<and>
    HTTPStatus (Kind res) = 503 \<and> ResCRName res = ''a'' \<and> ResNamespace res = ''n''"
proof -
  have sw: "sees_wrapped (ee_preds ex_conflict_env)"
    by (simp add: sees_wrapped_def ex_conflict_env_def ex_env_def ex_preds_def)
  have pf: "Patch (ee_client ex_conflict_env) (ee_span ex_conflict_env ex_ctx ''k8s.apply'')
      \<lparr>FieldOwner = FieldManager ex_cfg, ForceOwnership = True\<rparr>
      (stamp ex_cfg (ee_span ex_conflict_env ex_ctx ''k8s.apply'') ex_act) (cluster ex_state) =
      (Some (Ext ''Conflict'' ''conflict''), stamp ex_cfg ex_ctx ex_act, None)"
    by (simp add: ex_conflict_env_def ex_env_def ex_state_def)
  show ?thesis
    using Execute_patch_error_status [OF sw pf]
    by (simp add: ex_conflict_env_def ex_env_def ex_preds_def stamp_def ex_act_def accessor_defs)
qed

end
