(* ===== verification/Json.thy ===== *)
theory Json
  imports Go_Text
begin

text \<open>
  \<open>encoding/json\<close> as the program uses it: the scanner's grammar (white space, literals, numbers,
  strings with escapes, nesting limited to 10000), Go's unquoting of strings (surrogate pairs,
  replacement of invalid UTF-8), and the encoder's string escaping.  A \<open>json.RawMessage\<close> is
  represented by the value it denotes.

  The parser takes fuel.  A value costs one unit and everything inside it is shorter, the element
  of an array costs one more for the list it starts; so twice the length of the input plus one is
  enough, and any larger amount gives the same result (\<open>parse_fuel\<close>, \<open>json_parse_fuel\<close>).
\<close>

datatype json =
    JNull
  | JBool bool
  | JNum string
  | JStr string
  | JArr "json list"
  | JObj "(string \<times> json) list"

subsection \<open>Scanning\<close>

definition is_ws :: "char \<Rightarrow> bool" where
  "is_ws c \<longleftrightarrow> c = CHR 0x20 \<or> c = CHR 0x09 \<or> c = CHR 0x0D \<or> c = CHR 0x0A"

definition skip_ws :: "string \<Rightarrow> string" where "skip_ws = dropWhile is_ws"

definition is_hex :: "char \<Rightarrow> bool" where "is_hex c \<longleftrightarrow> hexval c \<noteq> None"

definition simple_escapes :: "(char \<times> char) list" where
  "simple_escapes = [(CHR ''b'', CHR 0x08), (CHR ''f'', CHR 0x0C), (CHR ''n'', CHR 0x0A),
     (CHR ''r'', CHR 0x0D), (CHR ''t'', CHR 0x09), (CHR 0x5C, CHR 0x5C), (CHR ''/'', CHR ''/''),
     (CHR 0x22, CHR 0x22)]"

text \<open>After the opening quote: the raw contents and what follows the closing quote.\<close>

fun scan_string :: "string \<Rightarrow> (string \<times> string) option" where
  "scan_string [] = None"
| "scan_string (c # cs) =
    (if c = CHR 0x22 then Some ([], cs)
     else if c = CHR 0x5C then
       (case cs of [] \<Rightarrow> None
        | e # cs1 \<Rightarrow>
            if map_of simple_escapes e \<noteq> None
            then map_option (\<lambda>(raw, r). (c # e # raw, r)) (scan_string cs1)
            else if e = CHR ''u'' \<and> 4 \<le> length cs1 \<and> list_all is_hex (take 4 cs1)
            then map_option (\<lambda>(raw, r). (c # e # take 4 cs1 @ raw, r)) (scan_string (drop 4 cs1))
            else None)
     else if code c < 32 then None
     else map_option (\<lambda>(raw, r). (c # raw, r)) (scan_string cs))"

definition take_digits :: "string \<Rightarrow> string \<times> string" where
  "take_digits s = (takeWhile is_digit s, dropWhile is_digit s)"

definition scan_int :: "string \<Rightarrow> (string \<times> string) option" where
  "scan_int s = (case s of [] \<Rightarrow> None
     | c # cs \<Rightarrow> if c = CHR ''0'' then Some ([c], cs)
                else if is_digit c then Some (take_digits s) else None)"

definition scan_frac :: "string \<Rightarrow> (string \<times> string) option" where
  "scan_frac s = (case s of [] \<Rightarrow> Some ([], s)
     | c # cs \<Rightarrow> if c \<noteq> CHR ''.'' then Some ([], s)
        else let (ds, r) = take_digits cs in if ds = [] then None else Some (c # ds, r))"

definition scan_exp :: "string \<Rightarrow> (string \<times> string) option" where
  "scan_exp s = (case s of [] \<Rightarrow> Some ([], s)
     | c # cs \<Rightarrow> if c \<noteq> CHR ''e'' \<and> c \<noteq> CHR ''E'' then Some ([], s)
        else let (sg, cs1) = (case cs of x # xs \<Rightarrow> if x = CHR ''+'' \<or> x = CHR ''-'' then ([x], xs) else ([], cs)
                             | [] \<Rightarrow> ([], cs));
                 (ds, r) = take_digits cs1
             in if ds = [] then None else Some (c # sg @ ds, r))"

definition scan_number :: "string \<Rightarrow> (string \<times> string) option" where
  "scan_number s =
    (let (sg, s1) = (case s of c # cs \<Rightarrow> if c = CHR ''-'' then ([c], cs) else ([], s) | [] \<Rightarrow> ([], s))
     in case scan_int s1 of None \<Rightarrow> None | Some (i, s2) \<Rightarrow>
       case scan_frac s2 of None \<Rightarrow> None | Some (f, s3) \<Rightarrow>
       case scan_exp s3 of None \<Rightarrow> None | Some (e, s4) \<Rightarrow> Some (sg @ i @ f @ e, s4))"

subsection \<open>Unquoting\<close>

definition hex4 :: "string \<Rightarrow> nat" where
  "hex4 s = foldl (\<lambda>n c. n * 16 + (case hexval c of Some d \<Rightarrow> d | None \<Rightarrow> 0)) 0 (take 4 s)"

definition is_surrogate :: "nat \<Rightarrow> bool" where "is_surrogate r \<longleftrightarrow> 55296 \<le> r \<and> r < 57344"

text \<open>\<open>utf16.DecodeRune\<close> of a high and a low surrogate.\<close>

definition decode_pair :: "nat \<Rightarrow> nat \<Rightarrow> nat option" where
  "decode_pair r1 r2 =
    (if 55296 \<le> r1 \<and> r1 < 56320 \<and> 56320 \<le> r2 \<and> r2 < 57344
     then Some ((r1 - 55296) * 1024 + (r2 - 56320) + 65536) else None)"

definition second_half :: "string \<Rightarrow> nat option" where
  "second_half s =
    (if take 2 s = [CHR 0x5C, CHR ''u''] \<and> 6 \<le> length s \<and> list_all is_hex (take 4 (drop 2 s))
     then Some (hex4 (drop 2 s)) else None)"

function unquote :: "string \<Rightarrow> string" where
  "unquote s = (case s of [] \<Rightarrow> []
     | c # cs \<Rightarrow>
       if c = CHR 0x5C then
         (case cs of [] \<Rightarrow> []
          | e # cs1 \<Rightarrow>
            if e = CHR ''u'' then
              let rr = hex4 cs1; rest = drop 4 cs1 in
              if \<not> is_surrogate rr then rune_str rr @ unquote rest
              else (case Option.bind (second_half rest) (decode_pair rr) of
                      Some dec \<Rightarrow> rune_str dec @ unquote (drop 6 rest)
                    | None \<Rightarrow> rune_str RuneError @ unquote rest)
            else (case map_of simple_escapes e of Some x \<Rightarrow> x # unquote cs1 | None \<Rightarrow> unquote cs1))
       else if code c < 128 then c # unquote cs
       else let (r, w) = DecodeRune (map of_char s) in rune_str r @ unquote (drop w s))"
  by pat_completeness auto
termination
proof (relation "measure length", goal_cases)
  case (8 s c cs x r w)
  then have "0 < snd (DecodeRune (map of_char s))" by (intro DecodeRune_width) simp
  with 8 show ?case by (cases "DecodeRune (map of_char s)") simp
qed auto

declare unquote.simps [simp del]

subsection \<open>Values\<close>

definition max_depth :: nat where "max_depth = 10000"

fun parse_value :: "nat \<Rightarrow> nat \<Rightarrow> string \<Rightarrow> (json \<times> string) option"
and parse_members :: "nat \<Rightarrow> nat \<Rightarrow> string \<Rightarrow> ((string \<times> json) list \<times> string) option"
and parse_elems :: "nat \<Rightarrow> nat \<Rightarrow> string \<Rightarrow> (json list \<times> string) option" where
  "parse_value 0 d s = None"
| "parse_value (Suc f) d s =
    (case skip_ws s of [] \<Rightarrow> None
     | c # cs \<Rightarrow>
       if c = CHR ''{'' then
         (if max_depth \<le> d then None
          else case skip_ws cs of [] \<Rightarrow> None
            | c2 # cs2 \<Rightarrow> if c2 = CHR ''}'' then Some (JObj [], cs2)
                else map_option (\<lambda>(kvs, r). (JObj kvs, r)) (parse_members f (Suc d) cs))
       else if c = CHR ''['' then
         (if max_depth \<le> d then None
          else case skip_ws cs of [] \<Rightarrow> None
            | c2 # cs2 \<Rightarrow> if c2 = CHR '']'' then Some (JArr [], cs2)
                else map_option (\<lambda>(vs, r). (JArr vs, r)) (parse_elems f (Suc d) cs))
       else if c = CHR 0x22 then
         map_option (\<lambda>(raw, r). (JStr (unquote raw), r)) (scan_string cs)
       else if c = CHR ''-'' \<or> is_digit c then map_option (\<lambda>(n, r). (JNum n, r)) (scan_number (c # cs))
       else case CutPrefix (c # cs) ''true'' of Some r \<Rightarrow> Some (JBool True, r)
         | None \<Rightarrow> case CutPrefix (c # cs) ''false'' of Some r \<Rightarrow> Some (JBool False, r)
         | None \<Rightarrow> map_option (\<lambda>r. (JNull, r)) (CutPrefix (c # cs) ''null''))"
| "parse_members 0 d s = None"
| "parse_members (Suc f) d s =
    (case skip_ws s of [] \<Rightarrow> None
     | q # cs \<Rightarrow> if q \<noteq> CHR 0x22 then None
       else case scan_string cs of None \<Rightarrow> None
       | Some (raw, s1) \<Rightarrow>
         (case skip_ws s1 of [] \<Rightarrow> None
          | col # s2 \<Rightarrow> if col \<noteq> CHR '':'' then None
            else case parse_value f d s2 of None \<Rightarrow> None
            | Some (v, s3) \<Rightarrow>
              (case skip_ws s3 of [] \<Rightarrow> None
               | e # s4 \<Rightarrow> if e = CHR ''}'' then Some ([(unquote raw, v)], s4)
                   else if e = CHR '','' then
                     map_option (\<lambda>(kvs, r). ((unquote raw, v) # kvs, r)) (parse_members f d s4)
                   else None)))"
| "parse_elems 0 d s = None"
| "parse_elems (Suc f) d s =
    (case parse_value f d s of None \<Rightarrow> None
     | Some (v, s3) \<Rightarrow>
       (case skip_ws s3 of [] \<Rightarrow> None
        | e # s4 \<Rightarrow> if e = CHR '']'' then Some ([v], s4)
            else if e = CHR '','' then map_option (\<lambda>(vs, r). (v # vs, r)) (parse_elems f d s4)
            else None))"

text \<open>\<open>checkValid\<close> and the value: one value, then only white space; \<open>None\<close> is a syntax error.\<close>

definition json_parse :: "string \<Rightarrow> json option" where
  "json_parse s = (case parse_value (2 * length s + 1) 0 s of None \<Rightarrow> None
     | Some (v, r) \<Rightarrow> if skip_ws r = [] then Some v else None)"

subsection \<open>The fuel is enough\<close>

lemma skip_ws_length: "length (skip_ws s) \<le> length s"
  by (simp add: skip_ws_def length_dropWhile_le)

lemma skip_ws_Cons: "skip_ws s = c # cs \<Longrightarrow> length cs < length s"
  using skip_ws_length [of s] by simp

lemma scan_string_length: "scan_string s = Some (raw, r) \<Longrightarrow> length r < length s"
proof (induction s arbitrary: raw r rule: scan_string.induct)
  case (2 c cs)
  then show ?case by (fastforce split: if_splits list.splits)
qed simp

lemma take_digits_length: "take_digits s = (ds, r) \<Longrightarrow> length r \<le> length s"
  by (auto simp: take_digits_def length_dropWhile_le)

lemma scan_int_length: "scan_int s = Some (i, r) \<Longrightarrow> length r \<le> length s"
  by (auto simp: scan_int_def dest: take_digits_length split: list.splits if_splits)

lemma scan_frac_length: "scan_frac s = Some (i, r) \<Longrightarrow> length r \<le> length s"
  by (auto simp: scan_frac_def dest!: take_digits_length split: list.splits if_splits prod.splits)

lemma scan_exp_length: "scan_exp s = Some (i, r) \<Longrightarrow> length r \<le> length s"
  by (auto simp: scan_exp_def Let_def dest!: take_digits_length split: list.splits if_splits prod.splits)

lemma scan_number_length: "scan_number s = Some (n, r) \<Longrightarrow> length r \<le> length s"
  by (auto simp: scan_number_def Let_def dest!: scan_int_length scan_frac_length scan_exp_length
      split: list.splits if_splits option.splits)

lemma CutPrefix_length: "CutPrefix s p = Some r \<Longrightarrow> length r \<le> length s"
  by (auto simp: CutPrefix_def split: if_splits)

lemmas scan_lengths = skip_ws_Cons scan_string_length scan_number_length CutPrefix_length

lemma parse_length:
  "(parse_value f d s = Some (v, r) \<longrightarrow> length r \<le> length s) \<and>
   (parse_members f d s = Some (kvs, r) \<longrightarrow> length r \<le> length s) \<and>
   (parse_elems f d s = Some (vs, r) \<longrightarrow> length r \<le> length s)"
proof (induction f arbitrary: d s v kvs vs r)
  case (Suc f)
  note v = Suc [THEN conjunct1, rule_format] and m = Suc [THEN conjunct2, THEN conjunct1, rule_format]
    and e = Suc [THEN conjunct2, THEN conjunct2, rule_format]
  have "length r \<le> length s" if "parse_value (Suc f) d s = Some (v, r)"
    using that by (auto dest!: m e scan_lengths split: list.splits if_splits option.splits)
  moreover have "length r \<le> length s" if "parse_members (Suc f) d s = Some (kvs, r)"
    using that by (auto dest!: v m scan_lengths split: list.splits if_splits option.splits)
  moreover have "length r \<le> length s" if "parse_elems (Suc f) d s = Some (vs, r)"
    using that by (auto dest!: v e scan_lengths split: list.splits if_splits option.splits)
  ultimately show ?case by blast
qed simp

lemmas parse_value_length = parse_length [THEN conjunct1, rule_format]

lemma parse_fuel:
  "(2 * length s < f \<and> 2 * length s < g \<longrightarrow> parse_value f d s = parse_value g d s) \<and>
   (2 * length s < f \<and> 2 * length s < g \<longrightarrow> parse_members f d s = parse_members g d s) \<and>
   (2 * length s + 1 < f \<and> 2 * length s + 1 < g \<longrightarrow> parse_elems f d s = parse_elems g d s)"
proof (induction f arbitrary: g d s)
  case (Suc f)
  note v = Suc [THEN conjunct1, rule_format] and m = Suc [THEN conjunct2, THEN conjunct1, rule_format]
    and e = Suc [THEN conjunct2, THEN conjunct2, rule_format]
  have v': "parse_value (Suc f) d s = parse_value g d s" if b: "2 * length s < Suc f" "2 * length s < g"
  proof -
    obtain g' where g: "g = Suc g'" using b by (cases g) auto
    have "parse_members f d' cs = parse_members g' d' cs" "parse_elems f d' cs = parse_elems g' d' cs"
      if "skip_ws s = c # cs" for c cs d'
      using skip_ws_Cons [OF that] b g
      by (auto intro!: m e)
    then show ?thesis unfolding g parse_value.simps by (auto split: list.split)
  qed
  have m': "parse_members (Suc f) d s = parse_members g d s" if b: "2 * length s < Suc f" "2 * length s < g"
  proof -
    obtain g' where g: "g = Suc g'" using b by (cases g) auto
    have pv: "parse_value f d s2 = parse_value g' d s2" "parse_members f d s2 = parse_members g' d s2"
      if "length s2 < length s" for s2
      using that b g by (auto intro!: v m)
    show ?thesis unfolding g parse_members.simps
      by (intro list.case_cong option.case_cong prod.case_cong if_cong refl arg_cong [where f = "map_option _"] pv)
        (auto dest!: skip_ws_Cons scan_string_length parse_value_length)
  qed
  have "parse_elems (Suc f) d s = parse_elems g d s" if b: "2 * length s + 1 < Suc f" "2 * length s + 1 < g"
  proof -
    obtain g' where g: "g = Suc g'" using b by (cases g) auto
    have pv: "parse_value f d s = parse_value g' d s" using b g by (auto intro!: v)
    have pe: "parse_elems f d s2 = parse_elems g' d s2" if "length s2 < length s" for s2
      using that b g by (auto intro!: e)
    show ?thesis unfolding g parse_elems.simps pv
      by (intro list.case_cong option.case_cong prod.case_cong if_cong refl arg_cong [where f = "map_option _"] pe)
        (auto dest!: skip_ws_Cons parse_value_length)
  qed
  with v' m' show ?case by blast
qed simp

lemma json_parse_fuel:
  "2 * length s < f \<Longrightarrow>
   json_parse s = (case parse_value f 0 s of None \<Rightarrow> None | Some (v, r) \<Rightarrow> if skip_ws r = [] then Some v else None)"
  using parse_fuel [of s f "2 * length s + 1"] by (simp add: json_parse_def)

subsection \<open>Encoding\<close>

text \<open>
  The encoder's string escaping, with HTML escaping on (the default of \<open>NewEncoder\<close>): one rune,
  given with its width, at a time.  An invalid byte (\<open>RuneError\<close> of width 1) becomes an escaped
  U+FFFD; U+2028 and U+2029 are escaped.
\<close>

definition u_escape :: "nat \<Rightarrow> string" where
  "u_escape r = CHR 0x5C # CHR ''u'' # hexn 4 r"

definition escape_rune :: "nat \<times> nat \<Rightarrow> string" where
  "escape_rune = (\<lambda>(r, w).
    if r = RuneError \<and> w = 1 then u_escape RuneError
    else if r = 34 \<or> r = 92 then [CHR 0x5C, char_of r]
    else if r = 8 then CHR 0x5C # ''b'' else if r = 12 then CHR 0x5C # ''f''
    else if r = 10 then CHR 0x5C # ''n'' else if r = 13 then CHR 0x5C # ''r''
    else if r = 9 then CHR 0x5C # ''t''
    else if r < 32 \<or> r = 60 \<or> r = 62 \<or> r = 38 \<or> r = 8232 \<or> r = 8233 then u_escape r
    else rune_str r)"

definition escape_string :: "string \<Rightarrow> string" where
  "escape_string s = concat (map escape_rune (utf8_runes (map of_char s)))"

definition encode_string :: "string \<Rightarrow> string" where
  "encode_string s = CHR 0x22 # escape_string s @ [CHR 0x22]"

text \<open>The values of the struct fields that the program encodes: strings and \<open>int64\<close>s.\<close>

datatype json_field = FStr string | FInt int

fun encode_field :: "json_field \<Rightarrow> string" where
  "encode_field (FStr s) = encode_string s"
| "encode_field (FInt i) = Itoa i"

fun encode_members :: "(string \<times> json_field) list \<Rightarrow> string" where
  "encode_members [] = []"
| "encode_members [(k, v)] = encode_string k @ '':'' @ encode_field v"
| "encode_members ((k, v) # m # ms) = encode_string k @ '':'' @ encode_field v @ '','' @ encode_members (m # ms)"

text \<open>\<open>json.NewEncoder(w).Encode\<close> of a struct ends with a newline.\<close>

definition Encode :: "(string \<times> json_field) list \<Rightarrow> string" where
  "Encode ms = ''{'' @ encode_members ms @ ''}'' @ [CHR 0x0A]"

subsection \<open>What is encoded is read back\<close>

text \<open>Invalid UTF-8 is replaced by U+FFFD on the way; valid UTF-8 is kept.\<close>

definition to_valid :: "string \<Rightarrow> string" where
  "to_valid s = concat (map rune_str (runes s))"

lemma valid_rune_3: "(x = 13 \<longrightarrow> y < 32) \<Longrightarrow> x < 16 \<Longrightarrow> y < 64 \<Longrightarrow> z < 64 \<Longrightarrow> valid_rune (x * 4096 + y * 64 + z)"
  unfolding valid_rune_def by (cases "x < 13"; cases "x = 13") linarith+

lemma valid_rune_4:
  "(x = 0 \<longrightarrow> 16 \<le> y) \<Longrightarrow> (x = 4 \<longrightarrow> y < 16) \<Longrightarrow> x < 5 \<Longrightarrow> y < 64 \<Longrightarrow> z < 64 \<Longrightarrow> t < 64 \<Longrightarrow>
   valid_rune (x * 262144 + y * 4096 + z * 64 + t)"
  unfolding valid_rune_def by linarith

lemma DecodeRune_valid: "valid_rune (fst (DecodeRune bs))"
proof (cases bs)
  case (Cons b0 b)
  have R: "valid_rune RuneError" by (simp add: valid_rune_def RuneError_def)
  have 1: "valid_rune b0" if "b0 < 128" using that by (simp add: valid_rune_def)
  have 2: "valid_rune ((b0 - 192) * 64 + (b1 - 128))" if "194 \<le> b0" "b0 < 224" "cont b1" for b1
  proof -
    have "(b0 - 192) * 64 \<le> 31 * 64" using that by (intro mult_right_mono) simp_all
    moreover have "b1 - 128 < 64" using that by (auto simp: cont_def)
    ultimately have "(b0 - 192) * 64 + (b1 - 128) < 55296" by linarith
    then show ?thesis by (simp add: valid_rune_def)
  qed
  have 3: "valid_rune ((b0 - 224) * 4096 + (b1 - 128) * 64 + (b2 - 128))"
    if "224 \<le> b0" "b0 < 240" "cont b1" "cont b2" "b0 = 237 \<longrightarrow> b1 < 160" for b1 b2
    using that by (intro valid_rune_3) (auto simp: cont_def)
  have 4: "valid_rune ((b0 - 240) * 262144 + (b1 - 128) * 4096 + (b2 - 128) * 64 + (b3 - 128))"
    if "240 \<le> b0" "b0 < 245" "cont b1" "cont b2" "cont b3" "b0 = 240 \<longrightarrow> 144 \<le> b1" "b0 = 244 \<longrightarrow> b1 < 144" for b1 b2 b3
    using that by (intro valid_rune_4) (auto simp: cont_def)
  show ?thesis unfolding Cons DecodeRune.simps
    using R 1 2 3 4 by (simp split: list.split)
qed (simp add: valid_rune_def RuneError_def)

lemma utf8_runes_valid: "(r, w) \<in> set (utf8_runes bs) \<Longrightarrow> valid_rune r"
proof (induction bs rule: utf8_runes.induct)
  case (1 bs)
  have "fst (DecodeRune bs) = r" if "(r, w) = DecodeRune bs" using that by (metis fst_conv)
  with 1 show ?case
    using DecodeRune_valid [of bs] by (subst (asm) (2) utf8_runes.simps) (auto split: if_splits)
qed

lemma hexn_length [simp]: "length (hexn k n) = k"
  by (induction k arbitrary: n) simp_all

lemma hexn_hex: "list_all is_hex (hexn k n)"
  by (induction k arbitrary: n) (simp_all add: is_hex_def)

lemma hex4_hexn: "r < 65536 \<Longrightarrow> hex4 (hexn 4 r @ t) = r"
proof -
  assume r: "r < 65536"
  have "foldl (\<lambda>n c. n * 16 + (case hexval c of Some d \<Rightarrow> d | None \<Rightarrow> 0)) 0 (hexn k n) = n mod 16 ^ k" for k n
  proof (induction k arbitrary: n)
    case (Suc k)
    then show ?case by (simp add: mod_mult2_eq mult.commute)
  qed simp
  then show ?thesis using r by (simp add: hex4_def)
qed

lemma rune_str_high: "\<not> r < 128 \<Longrightarrow> c \<in> set (rune_str r) \<Longrightarrow> 128 \<le> code c"
proof -
  assume r: "\<not> r < 128" and c: "c \<in> set (rune_str r)"
  have "code c \<in> set (EncodeRune r)" using c by (metis bytes_rune_str image_eqI list.set_map)
  then show ?thesis using r by (auto simp: EncodeRune_def Let_def RuneError_def split: if_splits)
qed

lemma scan_string_plain:
  assumes "\<And>c. c \<in> set p \<Longrightarrow> c \<noteq> CHR 0x22 \<and> c \<noteq> CHR 0x5C \<and> 32 \<le> code c"
  shows "scan_string (p @ t) = map_option (\<lambda>(raw, r). (p @ raw, r)) (scan_string t)"
  using assms
proof (induction p)
  case (Cons c p)
  then show ?case by (cases "scan_string t") (auto simp: not_less)
qed (simp add: option.map_id0 case_prod_eta)

lemma rune_str_ascii: "r < 128 \<Longrightarrow> rune_str r = [char_of r]"
  by (simp add: rune_str_def EncodeRune_def valid_rune_def Let_def)

lemma scan_u_escape: "scan_string (u_escape r @ t) = map_option (\<lambda>(raw, x). (u_escape r @ raw, x)) (scan_string t)"
  using hexn_hex [of 4 r] by (cases "scan_string t") (auto simp: u_escape_def simple_escapes_def)

lemma escaped_chars:
  "char_of (34 :: nat) = CHR 0x22" "char_of (92 :: nat) = CHR 0x5C" "char_of (8 :: nat) = CHR 0x08"
  "char_of (12 :: nat) = CHR 0x0C" "char_of (10 :: nat) = CHR 0x0A" "char_of (13 :: nat) = CHR 0x0D"
  "char_of (9 :: nat) = CHR 0x09"
  by code_simp+

lemma escape_rune_cases:
  obtains (bad) "escape_rune (r, w) = u_escape RuneError" "r = RuneError"
  | (short) e where "escape_rune (r, w) = [CHR 0x5C, e]" "map_of simple_escapes e = Some (char_of r)"
      "r < 128" "e \<noteq> CHR ''u''"
  | (u) "escape_rune (r, w) = u_escape r" "r < 65536" "\<not> is_surrogate r"
  | (plain) "escape_rune (r, w) = rune_str r" "32 \<le> r" "r \<noteq> 34" "r \<noteq> 92"
proof -
  have R: "RuneError = 65533" by (fact RuneError_def)
  consider "r = RuneError" "w = 1" | "r \<in> {34, 92, 8, 12, 10, 13, 9}"
    | "r < 32 \<or> r = 60 \<or> r = 62 \<or> r = 38 \<or> r = 8232 \<or> r = 8233" "r \<notin> {8, 9, 10, 12, 13}"
    | "\<not> (r = RuneError \<and> w = 1)" "\<not> r < 32" "r \<notin> {34, 92, 60, 62, 38, 8232, 8233}"
    by auto
  then show thesis
  proof cases
    case 1
    then show thesis using bad by (simp add: escape_rune_def)
  next
    case 2
    then have "\<exists>e. escape_rune (r, w) = [CHR 0x5C, e] \<and> map_of simple_escapes e = Some (char_of r) \<and>
        r < 128 \<and> e \<noteq> CHR ''u''"
      by (elim insertE emptyE) (simp_all add: escape_rune_def simple_escapes_def escaped_chars R)
    then show thesis using short by blast
  next
    case 3
    then have "escape_rune (r, w) = u_escape r" "r < 65536" "\<not> is_surrogate r"
      by (auto simp: escape_rune_def is_surrogate_def R)
    then show thesis by (rule u)
  next
    case 4
    then have "escape_rune (r, w) = rune_str r" "32 \<le> r" "r \<noteq> 34" "r \<noteq> 92"
      by (auto simp: escape_rune_def)
    then show thesis by (rule plain)
  qed
qed

lemma scan_escape_rune:
  "scan_string (escape_rune (r, w) @ t) = map_option (\<lambda>(raw, x). (escape_rune (r, w) @ raw, x)) (scan_string t)"
proof -
  show ?thesis
  proof (cases rule: escape_rune_cases [of r w])
    case (short e)
    then show ?thesis by (cases "scan_string t") auto
  next
    case plain
    have "c \<noteq> CHR 0x22 \<and> c \<noteq> CHR 0x5C \<and> 32 \<le> code c" if "c \<in> set (rune_str r)" for c
    proof (cases "r < 128")
      case True
      then have "code c = r" using that by (simp add: rune_str_ascii)
      then show ?thesis using plain by auto
    next
      case False
      from rune_str_high [OF this that] show ?thesis by auto
    qed
    then show ?thesis unfolding plain(1) by (rule scan_string_plain)
  qed (simp_all add: scan_u_escape)
qed

lemma scan_escape_string: "scan_string (escape_string s @ CHR 0x22 # t) = Some (escape_string s, t)"
proof -
  have "scan_string (concat (map escape_rune ps) @ CHR 0x22 # t) = Some (concat (map escape_rune ps), t)" for ps
    by (induction ps) (auto simp: scan_escape_rune)
  then show ?thesis by (simp add: escape_string_def)
qed

lemma unquote_u_escape:
  "r < 65536 \<Longrightarrow> \<not> is_surrogate r \<Longrightarrow> unquote (u_escape r @ t) = rune_str r @ unquote t"
  by (subst unquote.simps) (simp add: u_escape_def hex4_hexn)

lemma unquote_escape_rune:
  assumes "valid_rune r"
  shows "unquote (escape_rune (r, w) @ t) = rune_str r @ unquote t"
proof -
  show ?thesis
  proof (cases rule: escape_rune_cases [of r w])
    case bad
    then show ?thesis by (simp add: unquote_u_escape RuneError_def is_surrogate_def)
  next
    case (short e)
    then show ?thesis by (subst unquote.simps) (simp add: rune_str_ascii)
  next
    case plain
    show ?thesis
    proof (cases "r < 128")
      case True
      then have "code (char_of r :: char) = r" by simp
      moreover have "code (CHR 0x5C) = 92" by simp
      ultimately have "char_of r \<noteq> CHR 0x5C" "code (char_of r :: char) < 128" using plain True by metis+
      then show ?thesis unfolding plain(1) rune_str_ascii [OF True] by (subst unquote.simps) simp
    next
      case False
      have ne: "rune_str r \<noteq> []" by (simp add: rune_str_def EncodeRune_def Let_def)
      then obtain c cs where c: "rune_str r = c # cs" by (cases "rune_str r") auto
      then have hi: "128 \<le> code c" using rune_str_high [OF False] by auto
      have d: "DecodeRune (map of_char (rune_str r @ t)) = (r, length (rune_str r))"
        using DecodeRune_EncodeRune [OF assms, of "map of_char t"] by (simp flip: bytes_rune_str)
      have "unquote (rune_str r @ t) = (let (q, w) = DecodeRune (map of_char (rune_str r @ t))
              in rune_str q @ unquote (drop w (rune_str r @ t)))"
        using hi by (subst unquote.simps) (auto simp: c)
      then show ?thesis unfolding plain(1) d by simp
    qed
  qed (simp add: unquote_u_escape)
qed

lemma unquote_escape_string: "unquote (escape_string s) = to_valid s"
proof -
  have "unquote (concat (map escape_rune ps)) = concat (map (rune_str \<circ> fst) ps)"
    if "\<forall>(r, w) \<in> set ps. valid_rune r" for ps
    using that
  proof (induction ps)
    case Nil
    then show ?case by (simp add: unquote.simps)
  qed (auto simp: unquote_escape_rune)
  then show ?thesis
    using utf8_runes_valid by (fastforce simp: escape_string_def to_valid_def runes_def)
qed

lemma to_valid_concat: "list_all valid_rune rs \<Longrightarrow> to_valid (concat (map rune_str rs)) = concat (map rune_str rs)"
  by (simp add: to_valid_def runes_concat)

lemma utf8_runes_ascii: "list_all (\<lambda>b. b < 128) bs \<Longrightarrow> utf8_runes bs = map (\<lambda>b. (b, 1)) bs"
proof (induction bs)
  case (Cons b bs)
  then show ?case by (subst utf8_runes.simps) simp
qed (simp add: utf8_runes.simps)

lemma to_valid_ascii: "is_ascii s \<Longrightarrow> to_valid s = s"
proof (induction s)
  case (Cons c s)
  then have "utf8_runes (map of_char (c # s)) = map (\<lambda>b. (b, 1)) (map of_char (c # s))"
    by (intro utf8_runes_ascii) (simp add: is_ascii_def list.pred_map comp_def)
  moreover have "concat (map rune_str (map of_char (c # s))) = c # s"
    using Cons(2) by (induction s) (simp_all add: is_ascii_def rune_str_ascii)
  ultimately show ?case by (simp add: to_valid_def runes_def comp_def)
qed (simp add: to_valid_def runes_def utf8_runes.simps)

text \<open>Numbers: \<open>Itoa\<close> prints no leading zero, so the scanner takes all of it.\<close>

lemma dec_nat_digits: "list_all is_digit (dec_nat n)"
proof (induction n rule: dec_nat.induct)
  case (1 n)
  then show ?case by (subst dec_nat.simps) auto
qed

lemma dec_nat_zero_hd: "dec_nat n = CHR ''0'' # cs \<Longrightarrow> n = 0 \<and> cs = []"
proof (induction n arbitrary: cs rule: dec_nat.induct)
  case (1 n)
  have z: "d = 0" if "digit d = CHR ''0''" "d < 10" for d
  proof -
    have "digit_val CHR ''0'' = d" using that digit_simps(2) by metis
    then show "d = 0" by (simp add: digit_val_def)
  qed
  show ?case
  proof (cases "n < 10")
    case True
    then show ?thesis using 1(2) z by (subst (asm) dec_nat.simps) auto
  next
    case False
    then obtain cs' where "dec_nat (n div 10) = CHR ''0'' # cs'"
      using 1(2) by (subst (asm) dec_nat.simps) (cases "dec_nat (n div 10)", auto)
    then have "n div 10 = 0" using 1(1) False by blast
    then show ?thesis using False by simp
  qed
qed

lemma scan_int_dec_nat:
  assumes "\<not> is_digit c"
  shows "scan_int (dec_nat n @ c # r) = Some (dec_nat n, c # r)"
proof -
  obtain d ds where d: "dec_nat n = d # ds" by (cases "dec_nat n") auto
  have all: "list_all is_digit (d # ds)" using dec_nat_digits [of n] d by simp
  have t: "take_digits ((d # ds) @ c # r) = (d # ds, c # r)"
    using all assms by (auto simp: take_digits_def list_all_iff takeWhile_append2 dropWhile_append2)
  show ?thesis
  proof (cases "d = CHR ''0''")
    case True
    then show ?thesis using d dec_nat_zero_hd [of n ds] by (simp add: scan_int_def)
  next
    case False
    then show ?thesis using d all t by (simp add: scan_int_def)
  qed
qed

lemma scan_number_Itoa:
  assumes "c \<in> {CHR '','', CHR ''}''}"
  shows "scan_number (Itoa i @ c # r) = Some (Itoa i, c # r)"
proof -
  have c: "\<not> is_digit c" "c \<noteq> CHR ''.''" "c \<noteq> CHR ''e''" "c \<noteq> CHR ''E''"
    using assms by (auto simp: is_digit_def)
  note i = scan_int_dec_nat [OF c(1)]
  have m: "dec_nat n \<noteq> CHR ''-'' # xs" for n xs
    using dec_nat_hd [of n] digit_simps(3) by (metis list.inject)
  have tail: "scan_frac (c # r) = Some ([], c # r)" "scan_exp (c # r) = Some ([], c # r)"
    using c by (simp_all add: scan_frac_def scan_exp_def)
  show ?thesis
  proof (cases "i < 0")
    case True
    then show ?thesis using i tail by (simp add: scan_number_def Itoa_def Let_def)
  next
    case False
    obtain d ds where d: "dec_nat (nat i) = d # ds" "d \<noteq> CHR ''-''"
      using m by (cases "dec_nat (nat i)") auto
    then show ?thesis using i [of "nat i"] tail False by (simp add: scan_number_def Itoa_def Let_def)
  qed
qed

fun field_json :: "json_field \<Rightarrow> json" where
  "field_json (FStr s) = JStr (to_valid s)"
| "field_json (FInt i) = JNum (Itoa i)"

lemma skip_ws_id: "\<not> is_ws c \<Longrightarrow> skip_ws (c # cs) = c # cs"
  by (simp add: skip_ws_def)

lemmas punct_ws = skip_ws_id is_ws_def

lemma parse_field:
  assumes "c \<in> {CHR '','', CHR ''}''}"
  shows "parse_value (Suc f) d (encode_field v @ c # r) = Some (field_json v, c # r)"
proof (cases v)
  case (FStr s)
  then show ?thesis
    by (simp add: encode_string_def punct_ws scan_escape_string unquote_escape_string)
next
  case (FInt i)
  obtain x xs where x: "Itoa i = x # xs" "x = CHR ''-'' \<or> is_digit x"
    using dec_nat_hd [of "nat i"] by (cases "i < 0") (auto simp: Itoa_def)
  have nx: "\<not> is_ws x" "x \<noteq> CHR ''{''" "x \<noteq> CHR ''[''" "x \<noteq> CHR 0x22"
    using x(2) by (auto simp: is_ws_def is_digit_def)
  show ?thesis
    using scan_number_Itoa [OF assms, of i r] x nx FInt by (simp add: skip_ws_id)
qed

lemma parse_encode_members:
  assumes "ms \<noteq> []" "length ms < f"
  shows "parse_members f d (encode_members ms @ CHR ''}'' # r) =
    Some (map (\<lambda>(k, v). (to_valid k, field_json v)) ms, r)"
  using assms
proof (induction ms arbitrary: f rule: encode_members.induct)
  case (2 k v)
  then obtain g where f: "f = Suc (Suc g)" by (metis Suc_less_eq2 length_Cons list.size(3) less_imp_Suc_add)
  show ?case
    by (simp add: f encode_string_def punct_ws scan_escape_string unquote_escape_string parse_field del: parse_value.simps)
next
  case (3 k v m ms)
  then obtain g where f: "f = Suc (Suc g)" "length (m # ms) < Suc g"
    by (metis Suc_less_eq2 length_Cons less_imp_Suc_add)
  show ?case
    using 3(1) [OF _ f(2)]
    by (simp add: f(1) encode_string_def punct_ws scan_escape_string unquote_escape_string parse_field del: parse_value.simps)
qed simp

lemma encode_members_length: "2 * length ms \<le> length (encode_members ms) + 1"
  by (induction ms rule: encode_members.induct) (auto simp: encode_string_def)

lemma json_parse_Encode:
  "json_parse (Encode ms) = Some (JObj (map (\<lambda>(k, v). (to_valid k, field_json v)) ms))"
proof (cases "ms = []")
  case True
  have "parse_value (Suc 6) 0 (''{}'' @ [CHR 0x0A]) = Some (JObj [], [CHR 0x0A])"
    by (subst parse_value.simps) (simp add: punct_ws max_depth_def)
  then show ?thesis using True by (simp add: Encode_def json_parse_def skip_ws_def is_ws_def)
next
  case False
  let ?f = "2 * length (Encode ms) + 1"
  obtain k v ms' where ms: "ms = (k, v) # ms'" using False by (cases ms) auto
  then obtain es where es: "encode_members ms = CHR 0x22 # es"
    by (cases ms') (auto simp: encode_string_def)
  obtain g where f: "?f = Suc g" "length ms < g"
    using encode_members_length [of ms] by (auto simp: Encode_def)
  have "parse_members g (Suc 0) (encode_members ms @ ''}'' @ [CHR 0x0A]) =
      Some (map (\<lambda>(k, v). (to_valid k, field_json v)) ms, [CHR 0x0A])"
    using parse_encode_members [OF False f(2), of "Suc 0" "[CHR 0x0A]"] by simp
  then have "parse_value ?f 0 (Encode ms) =
      Some (JObj (map (\<lambda>(k, v). (to_valid k, field_json v)) ms), [CHR 0x0A])"
    unfolding f(1) by (simp add: Encode_def es punct_ws max_depth_def)
  then show ?thesis by (simp add: json_parse_def skip_ws_def is_ws_def)
qed

end
