(* ===== verification/Httpx.thy ===== *)
theory Httpx
  imports Mux Metrics Logging Executor Json
begin

text \<open>
  \<^verbatim>\<open>internal/httpx/middleware.go\<close> and \<^verbatim>\<open>ratelimit.go\<close>: the middleware of both listeners.

  The state a request runs in (\<open>world\<close>) is the cluster, the metrics, the limiter map of
  \<open>RateLimit\<close> and the log.  What one request draws from outside is in \<open>mw_env\<close>: the clock, the
  time the inner handler takes, the UUID library, the stack text, the token buckets of
  \<open>golang.org/x/time/rate\<close>, and the check that the metrics library makes on label values (a label
  value that fails it makes \<open>WithLabelValues\<close> panic).  \<open>otelhttp\<close> is a parameter, a middleware.
\<close>

record ('l, 'r) rate_lib =
  NewLimiter :: "float64 \<Rightarrow> int \<Rightarrow> 'l"
  Allow :: "gotime \<Rightarrow> 'l \<Rightarrow> bool \<times> 'l"
  Reserve :: "gotime \<Rightarrow> 'l \<Rightarrow> 'r \<times> 'l"
  Delay :: "gotime \<Rightarrow> 'r \<Rightarrow> duration"
  Cancel :: "gotime \<Rightarrow> 'r \<Rightarrow> 'l \<Rightarrow> 'l"

record ('l, 'r) mw_env =
  me_rate :: "('l, 'r) rate_lib"
  me_now :: gotime
  me_elapsed :: duration
  me_NewV7 :: "go_error + string"
  me_NewV4 :: string
  me_stack :: string
  me_label_ok :: "string \<Rightarrow> bool"

record ('k, 'l) world =
  wd_cluster :: 'k
  wd_metrics :: metrics
  wd_limiters :: "string \<rightharpoonup> 'l"
  wd_log :: "log_line list"

definition on_metrics :: "(metrics \<Rightarrow> metrics) \<Rightarrow> ('k, 'l) world \<Rightarrow> ('k, 'l) world" where
  "on_metrics f s = s\<lparr>wd_metrics := f (wd_metrics s)\<rparr>"

definition on_log :: "(log_line list \<Rightarrow> log_line list) \<Rightarrow> ('k, 'l) world \<Rightarrow> ('k, 'l) world" where
  "on_log f s = s\<lparr>wd_log := f (wd_log s)\<rparr>"

subsection \<open>middleware.go\<close>

definition requestIDHeader :: string where "requestIDHeader = ''X-Request-ID''"

definition routeOf :: "request \<Rightarrow> string" where
  "routeOf r = (if Pattern r \<noteq> [] then Pattern r else ''__unmatched__'')"

definition Chain :: "'s handler \<Rightarrow> 's middleware list \<Rightarrow> 's handler" where
  "Chain h mws = foldr (\<lambda>mw h. mw h) mws h"

definition Recover :: "slog_handler \<Rightarrow> ('l, 'r) mw_env \<Rightarrow> ('k, 'l) world middleware" where
  "Recover logger env nxt r w s =
    (case nxt r w s of
       None \<Rightarrow> None
     | Some (None, r', w', s') \<Rightarrow> Some (None, r', w', s')
     | Some (Some v, r', w', s') \<Rightarrow>
         let s' = on_metrics (Inc HTTPPanics []) s';
             s' = on_log (log_at logger (Ctx r) LevelError ''http handler panic''
                    [(''panic'', LStr v), (''stack'', LStr (me_stack env)),
                     (''method'', LStr (Method r')), (''route'', LStr (routeOf r'))]) s'
         in Some (None, r', WriteHeader 500 w', s'))"

definition RequestID :: "('l, 'r) mw_env \<Rightarrow> ('k, 'l) world middleware" where
  "RequestID env nxt r w s =
    (let id = Header_Get (ReqHeader r) requestIDHeader;
         id = (if id = [] then (case me_NewV7 env of Inr v7 \<Rightarrow> v7 | Inl _ \<Rightarrow> me_NewV4 env) else id);
         w = set_header requestIDHeader id w
     in case nxt (WithContext ((Ctx r)\<lparr>ctx_reqid := Some id\<rparr>) r) w s of
          None \<Rightarrow> None
        | Some (p, _, w', s') \<Rightarrow> Some (p, r, w', s'))"

text \<open>The recorder that \<open>SLog\<close> and \<open>Metrics\<close> put around the writer for the inner handler.\<close>

definition pop_recorder :: "writer \<Rightarrow> writer" where
  "pop_recorder w = w\<lparr>w_recs := tl (w_recs w)\<rparr>"

definition SLog :: "slog_handler \<Rightarrow> ('l, 'r) mw_env \<Rightarrow> ('k, 'l) world middleware" where
  "SLog logger env nxt r w s =
    (case nxt r (newStatusRecorder w) s of
       None \<Rightarrow> None
     | Some (Some v, r', w', s') \<Rightarrow> Some (Some v, r', pop_recorder w', s')
     | Some (None, r', w', s') \<Rightarrow>
         let rc = hd (w_recs w')
         in Some (None, r', pop_recorder w',
              on_log (log_at logger (Ctx r') LevelInfo ''http request''
                [(''method'', LStr (Method r')), (''route'', LStr (routeOf r')),
                 (''status'', LInt (rec_status rc)), (''bytes_in'', LInt (ContentLength r')),
                 (''bytes_out'', LInt (rec_bytes rc)), (''duration_ms'', LInt (me_elapsed env div Millisecond)),
                 (''request_id'', LStr (RequestIDFromContext (Ctx r')))]) s'))"

text \<open>What \<open>Metrics\<close> records once the inner handler has returned.\<close>

definition record_request :: "duration \<Rightarrow> request \<Rightarrow> recorder \<Rightarrow> metrics \<Rightarrow> metrics" where
  "record_request elapsed r rc m =
    (let meth = Method r; route = routeOf r; status = Itoa (rec_status rc);
         m = Inc HTTPRequests [meth, route, status] m;
         m = Observe HTTPDuration [meth, route, status] elapsed m;
         m = (if 0 < ContentLength r then Observe HTTPRequestSize [meth, route] (ContentLength r) m else m)
     in Observe HTTPResponseSize [meth, route] (rec_bytes rc) m)"

definition label_panic :: string where "label_panic = ''label value is not valid''"

definition Metrics_mw :: "('l, 'r) mw_env \<Rightarrow> ('k, 'l) world middleware" where
  "Metrics_mw env nxt r w s =
    (case nxt r (newStatusRecorder w) (on_metrics InflightInc s) of
       None \<Rightarrow> None
     | Some (Some v, r', w', s') \<Rightarrow> Some (Some v, r', pop_recorder w', on_metrics InflightDec s')
     | Some (None, r', w', s') \<Rightarrow>
         let rc = hd (w_recs w')
         in if list_all (me_label_ok env) [Method r', routeOf r', Itoa (rec_status rc)]
            then Some (None, r', pop_recorder w',
                   on_metrics InflightDec (on_metrics (record_request (me_elapsed env) r' rc) s'))
            else Some (Some label_panic, r', pop_recorder w', on_metrics InflightDec s'))"

subsection \<open>ratelimit.go\<close>

definition webhookPathPrefix :: string where "webhookPathPrefix = ''/webhook/''"

record rate_limit_config =
  RPS :: float64
  Burst :: int

definition providerFromPath :: "string \<Rightarrow> string" where
  "providerFromPath p =
    (case CutPrefix p webhookPathPrefix of
       None \<Rightarrow> []
     | Some rest \<Rightarrow> takeWhile (\<lambda>c. c \<noteq> CHR ''/'') rest)"

definition retry_secs :: "duration \<Rightarrow> int" where
  "retry_secs d =
    (if d \<le> 0 then 1
     else let secs = d div Second; secs = (if 0 < d mod Second then secs + 1 else secs)
          in if secs < 1 then 1 else secs)"

definition retryAfter :: "('l, 'r) rate_lib \<Rightarrow> gotime \<Rightarrow> 'l \<Rightarrow> int \<times> 'l" where
  "retryAfter lib now lm =
    (let (r, lm) = Reserve lib now lm in (retry_secs (Delay lib now r), Cancel lib now r lm))"

definition getLimiter ::
  "('l, 'r) rate_lib \<Rightarrow> rate_limit_config \<Rightarrow> string \<Rightarrow> (string \<rightharpoonup> 'l) \<Rightarrow> 'l \<times> (string \<rightharpoonup> 'l)" where
  "getLimiter lib cfg provider lims =
    (case lims provider of
       Some lm \<Rightarrow> (lm, lims)
     | None \<Rightarrow> let lm = NewLimiter lib (RPS cfg) (Burst cfg) in (lm, lims(provider \<mapsto> lm)))"

definition RateLimit ::
  "rate_limit_config \<Rightarrow> ('l, 'r) mw_env \<Rightarrow> ('k, 'l) world middleware" where
  "RateLimit cfg env nxt r w s =
    (let provider = providerFromPath (URLPath r); lib = me_rate env; now = me_now env in
     if provider = [] then nxt r w s
     else
       let (lm, lims) = getLimiter lib cfg provider (wd_limiters s);
           (ok, lm) = Allow lib now lm;
           s = s\<lparr>wd_limiters := lims(provider \<mapsto> lm)\<rparr>
       in if ok then nxt r w s
          else if \<not> me_label_ok env provider then Some (Some label_panic, r, w, s)
          else
            let s = on_metrics (Inc HTTPRateLimited [provider]) s;
                (retry, lm) = retryAfter lib now lm;
                s = s\<lparr>wd_limiters := (wd_limiters s)(provider \<mapsto> lm)\<rparr>
            in Some (None, r, WriteHeader 429 (set_header ''Retry-After'' (Itoa retry) w), s))"

subsection \<open>Basic facts\<close>

lemma Chain_simps [simp]: "Chain h [] = h" "Chain h (mw # mws) = mw (Chain h mws)"
  by (simp_all add: Chain_def)

lemma on_metrics_simps [simp]:
  "wd_metrics (on_metrics f s) = f (wd_metrics s)" "wd_cluster (on_metrics f s) = wd_cluster s"
  "wd_limiters (on_metrics f s) = wd_limiters s" "wd_log (on_metrics f s) = wd_log s"
  "wd_metrics (on_log g s) = wd_metrics s" "wd_cluster (on_log g s) = wd_cluster s"
  "wd_limiters (on_log g s) = wd_limiters s" "wd_log (on_log g s) = g (wd_log s)"
  by (simp_all add: on_metrics_def on_log_def)

lemma pop_recorder_simps [simp]:
  "w_recs (pop_recorder w) = tl (w_recs w)" "w_sent (pop_recorder w) = w_sent w"
  "w_header (pop_recorder w) = w_header w" "w_body (pop_recorder w) = w_body w"
  by (simp_all add: pop_recorder_def)

lemma record_request_gauge [simp]:
  "inflight (record_request d r rc m) = inflight m" "bad (record_request d r rc m) = bad m"
  by (simp_all add: record_request_def Let_def HTTPRequests_def HTTPDuration_def HTTPRequestSize_def HTTPResponseSize_def)

lemma Recover_no_panic: "Recover lg env nxt r w s = Some (p, r', w', s') \<Longrightarrow> p = None"
  by (auto simp: Recover_def Let_def split: option.splits)

subsection \<open>Label values\<close>

text \<open>What the metrics library documents of label values: valid UTF-8 is accepted (\<open>to_valid\<close> of \<open>Json\<close> leaves
  exactly that unchanged).\<close>

definition utf8_labels :: "('l, 'r) mw_env \<Rightarrow> bool" where
  "utf8_labels env \<longleftrightarrow> (\<forall>l. to_valid l = l \<longrightarrow> me_label_ok env l)"

lemma ascii_label: "utf8_labels env \<Longrightarrow> is_ascii l \<Longrightarrow> me_label_ok env l"
  by (simp add: utf8_labels_def to_valid_ascii)

lemma is_ascii_dec_nat: "is_ascii (dec_nat n)"
  by (induction n rule: dec_nat.induct)
    (subst dec_nat.simps, auto simp: is_ascii_def digit_def)

lemma is_ascii_Itoa: "is_ascii (Itoa i)"
  using is_ascii_dec_nat by (simp add: Itoa_def is_ascii_def)

subsection \<open>Handlers that leave the shared counters balanced\<close>

text \<open>
  The middleware relies on this of the handler it wraps: every recorder pushed on the writer is popped
  again and the in-flight gauge is back to what it was, also when the handler panics.
\<close>

locale balanced_handler =
  fixes h :: "('k, 'l) world handler"
  assumes balanced: "h r w s = Some (p, r', w', s') \<Longrightarrow>
    length (w_recs w') = length (w_recs w) \<and> inflight (wd_metrics s') = inflight (wd_metrics s) \<and> bad (wd_metrics s') = bad (wd_metrics s)"
begin

lemma Recover_balanced: "balanced_handler (Recover lg env h)"
  by unfold_locales (auto simp: Recover_def Let_def HTTPPanics_def split: option.splits dest!: balanced)

lemma RequestID_balanced: "balanced_handler (RequestID env h)"
  by unfold_locales (auto simp: RequestID_def Let_def split: option.splits dest!: balanced)

lemma SLog_balanced: "balanced_handler (SLog lg env h)"
  by unfold_locales (auto simp: SLog_def Let_def newStatusRecorder_def split: option.splits dest!: balanced)

lemma Metrics_balanced: "balanced_handler (Metrics_mw env h)"
  by unfold_locales
    (auto simp: Metrics_mw_def Let_def newStatusRecorder_def split: option.splits if_splits dest!: balanced)

lemma RateLimit_balanced: "balanced_handler (RateLimit cfg env h)"
  by unfold_locales
    (auto simp: RateLimit_def Let_def HTTPRateLimited_def split: prod.splits if_splits dest!: balanced)

end

end
