(* ===== verification/Rate_Limiting.thy ===== *)
theory Rate_Limiting
  imports Httpx
begin

text \<open>
  What the limiter map of \<^verbatim>\<open>internal/httpx/ratelimit.go\<close> guarantees: one independent bucket per
  provider, for sequences of requests and for concurrent calls of \<open>getLimiter\<close>; and the value of
  \<open>Retry-After\<close>.
\<close>

subsection \<open>One bucket per provider\<close>

text \<open>An inner handler that shows it was reached.\<close>

definition probe :: "'s handler" where
  "probe r w s = Some (Some ''reached'', r, w, s)"

definition blank :: writer where
  "blank = \<lparr>w_header = Map.empty, w_sent = None, w_body = [], w_recs = []\<rparr>"

text \<open>A sequence of requests through \<open>RateLimit\<close>: for each the provider and whether the inner handler
  was reached, and the final state.\<close>

fun run_limited ::
  "rate_limit_config \<Rightarrow> (('l, 'r) mw_env \<times> request) list \<Rightarrow> ('k, 'l) world \<Rightarrow> (string \<times> bool) list \<times> ('k, 'l) world" where
  "run_limited cfg [] s = ([], s)"
| "run_limited cfg ((env, r) # rest) s =
    (case RateLimit cfg env probe r blank s of
       None \<Rightarrow> ([], s)
     | Some (p, _, _, s') \<Rightarrow>
         let (ds, s') = run_limited cfg rest s'
         in ((providerFromPath (URLPath r), p = Some ''reached'') # ds, s'))"

text \<open>One decision of one bucket (a refusal also reserves and cancels a token for \<open>Retry-After\<close>), the
  admission of a request, with the buckets afterwards, and the decisions of a bucket of its own.\<close>

definition admit :: "('l, 'r) mw_env \<Rightarrow> string \<Rightarrow> 'l \<Rightarrow> bool \<times> 'l" where
  "admit env p lm =
    (let (ok, lm) = Allow (me_rate env) (me_now env) lm
     in if ok \<or> \<not> me_label_ok env p then (ok, lm)
        else (False, snd (retryAfter (me_rate env) (me_now env) lm)))"

definition admission ::
  "rate_limit_config \<Rightarrow> ('l, 'r) mw_env \<Rightarrow> request \<Rightarrow> (string \<rightharpoonup> 'l) \<Rightarrow> bool \<times> (string \<rightharpoonup> 'l)" where
  "admission cfg env r lims =
    (let p = providerFromPath (URLPath r) in
     if p = [] then (True, lims)
     else let (ok, lm) = admit env p (case lims p of Some lm \<Rightarrow> lm | None \<Rightarrow> NewLimiter (me_rate env) (RPS cfg) (Burst cfg))
          in (ok, lims(p \<mapsto> lm)))"

fun bucket_run ::
  "rate_limit_config \<Rightarrow> string \<Rightarrow> ('l, 'r) mw_env list \<Rightarrow> 'l option \<Rightarrow> bool list" where
  "bucket_run cfg q [] b = []"
| "bucket_run cfg q (env # envs) b =
    (let lm = (case b of Some lm \<Rightarrow> lm | None \<Rightarrow> NewLimiter (me_rate env) (RPS cfg) (Burst cfg));
         (ok, lm) = admit env q lm
     in ok # bucket_run cfg q envs (Some lm))"

lemma label_panic_probe: "label_panic \<noteq> ''reached''"
  by (simp add: label_panic_def)

text \<open>\<open>RateLimit\<close> lets exactly the admitted requests through; of the others it answers 429, unless the provider's
  name is no label, which makes it panic.\<close>

lemma RateLimit_cases:
  obtains (passed) "fst (admission cfg env r (wd_limiters s))"
      "RateLimit cfg env h r w s = h r w (s\<lparr>wd_limiters := snd (admission cfg env r (wd_limiters s))\<rparr>)"
  | (panicked) "\<not> fst (admission cfg env r (wd_limiters s))" "\<not> me_label_ok env (providerFromPath (URLPath r))"
      "RateLimit cfg env h r w s = Some (Some label_panic, r, w, s\<lparr>wd_limiters := snd (admission cfg env r (wd_limiters s))\<rparr>)"
  | (refused) n where "\<not> fst (admission cfg env r (wd_limiters s))" "me_label_ok env (providerFromPath (URLPath r))"
      "RateLimit cfg env h r w s = Some (None, r, WriteHeader 429 (set_header ''Retry-After'' (Itoa n) w),
         (on_metrics (Inc HTTPRateLimited [providerFromPath (URLPath r)]) s)\<lparr>wd_limiters := snd (admission cfg env r (wd_limiters s))\<rparr>)"
proof -
  let ?p = "providerFromPath (URLPath r)" and ?lib = "me_rate env" and ?now = "me_now env"
  define lm0 where "lm0 = (case wd_limiters s ?p of Some lm \<Rightarrow> lm | None \<Rightarrow> NewLimiter ?lib (RPS cfg) (Burst cfg))"
  obtain lims where g: "getLimiter ?lib cfg ?p (wd_limiters s) = (lm0, lims)"
    and l: "lims(?p \<mapsto> x) = (wd_limiters s)(?p \<mapsto> x)" for x
    by (cases "wd_limiters s ?p") (auto simp: getLimiter_def lm0_def Let_def)
  obtain ok lm1 where a: "Allow ?lib ?now lm0 = (ok, lm1)" by fastforce
  obtain n lm2 where ra: "retryAfter ?lib ?now lm1 = (n, lm2)" by fastforce
  show thesis
  proof (cases "?p = []")
    case True
    then show thesis using passed by (simp add: admission_def RateLimit_def)
  next
    case False
    then have ad: "admission cfg env r (wd_limiters s) =
        (ok, (wd_limiters s)(?p \<mapsto> if ok \<or> \<not> me_label_ok env ?p then lm1 else lm2))"
      by (simp add: admission_def admit_def a ra lm0_def [symmetric])
    show thesis
      using False passed panicked refused [of n]
      by (cases ok; cases "me_label_ok env ?p") (simp_all add: ad RateLimit_def Let_def g a l ra on_metrics_def)
  qed
qed

lemma RateLimit_probe:
  "\<exists>v r' w' s'. RateLimit cfg env probe r w s = Some (v, r', w', s') \<and>
    (v = Some ''reached'' \<longleftrightarrow> fst (admission cfg env r (wd_limiters s))) \<and>
    wd_limiters s' = snd (admission cfg env r (wd_limiters s))"
  by (cases rule: RateLimit_cases [of cfg env r s probe w]) (simp_all add: probe_def label_panic_probe)


text \<open>A token bucket without refill, for the examples.\<close>

definition ex_rate :: "(nat, unit) rate_lib" where
  "ex_rate = \<lparr>NewLimiter = (\<lambda>_ b. nat b), Allow = (\<lambda>_ n. (0 < n, n - 1)), Reserve = (\<lambda>_ n. ((), n)),
     Delay = (\<lambda>_ _. 1500000000), Cancel = (\<lambda>_ _ n. n)\<rparr>"

definition ex_mw :: "(nat, unit) mw_env" where
  "ex_mw = \<lparr>me_rate = ex_rate, me_now = time_Unix 1767225600, me_elapsed = 3000000, me_NewV7 = Inr ''id7'', me_NewV4 = ''id4'',
     me_stack = ''stack'', me_label_ok = (\<lambda>l. to_valid l = l)\<rparr>"

lemma ex_mw_utf8: "utf8_labels ex_mw"
  by (simp add: utf8_labels_def ex_mw_def)

definition ex_path_request :: "string \<Rightarrow> request" where
  "ex_path_request p = \<lparr>Method = ''POST'', URLPath = p, EscapedPath = p, Pattern = [], PathValue = (\<lambda>_. []),
     ReqHeader = Map.empty, BodyData = [], BodyErr = None, ContentLength = 0,
     Ctx = \<lparr>ctx_reqid = None, ctx_trace = None, ctx_span = []\<rparr>\<rparr>"

definition ex_world :: "(unit, nat) world" where
  "ex_world = \<lparr>wd_cluster = (), wd_metrics = ex_metrics, wd_limiters = Map.empty, wd_log = []\<rparr>"

lemma round_up:
  fixes d k :: int
  assumes "0 < k" "0 < d" "q = (if 0 < d mod k then d div k + 1 else d div k)"
  shows "1 \<le> q \<and> d \<le> q * k \<and> (q - 1) * k < d"
proof -
  have main: "1 \<le> q \<and> d \<le> q * k \<and> (q - 1) * k < d"
    if "d = a * k + b" "0 \<le> b" "b < k" "q = (if 0 < b then a + 1 else a)" for a b
  proof -
    have "0 \<le> a" using that assms(1,2) mult_right_mono [of a "- 1" k] by (cases "a \<le> - 1") auto
    moreover have "a \<noteq> 0" if "b = 0" using \<open>d = a * k + b\<close> that assms(2) by auto
    ultimately show ?thesis using that assms(1) by (auto simp: algebra_simps)
  qed
  show ?thesis using assms by (intro main [of "d div k" "d mod k"]) simp_all
qed

text \<open>\<open>Retry-After\<close> is the delay rounded up to whole seconds: at least one second, never shorter than the
  limiter's delay, never a whole second longer, and it fits for every delay, the infinite one included.\<close>

theorem retryAfter_bounds:
  "1 \<le> retry_secs d \<and> d \<le> retry_secs d * Second \<and> (1 < retry_secs d \<longrightarrow> (retry_secs d - 1) * Second < d) \<and>
   (in64 d \<longrightarrow> retry_secs d \<le> 9223372037)"
proof (cases "d \<le> 0")
  case False
  define q where "q = (if 0 < d mod Second then d div Second + 1 else d div Second)"
  have q: "1 \<le> q" "d \<le> q * Second" "(q - 1) * Second < d" using round_up [of Second d q] False by (simp_all add: q_def)
  have "q \<le> 9223372037" if "d \<le> 9223372036854775807" using q(3) that by simp
  moreover have "retry_secs d = q" using False q(1) by (simp add: retry_secs_def Let_def q_def)
  ultimately show ?thesis using q by (auto simp: in64_def int64_max_def)
qed (simp add: retry_secs_def)

theorem retryAfter_bounds_witness: "retry_secs 1500000000 = 2 \<and> retry_secs 1500000000 \<le> 9223372037"
proof -
  have "retry_secs 1500000000 = 2" by (simp add: retry_secs_def)
  moreover have "in64 1500000000" by (simp add: int64_defs)
  ultimately show ?thesis using retryAfter_bounds [of 1500000000] by simp
qed

subsection \<open>Concurrent calls of getLimiter\<close>

text \<open>
  \<open>getLimiter\<close> runs in many goroutines over one \<open>sync.Map\<close>.  Its atomic steps are the \<open>Load\<close>, the
  allocation of a limiter (the next address) and the \<open>LoadOrStore\<close>; \<open>calls\<close> is where each
  goroutine stands.
\<close>

datatype call = Idle | Entered string | Missed string | Made string nat | Got string nat

record pool =
  limiter_map :: "string \<rightharpoonup> nat"
  next_limiter :: nat
  calls :: "nat \<Rightarrow> call"

inductive get_step :: "pool \<Rightarrow> pool \<Rightarrow> bool" where
  enter: "calls s t = Idle \<Longrightarrow> get_step s (s\<lparr>calls := (calls s)(t := Entered p)\<rparr>)"
| load_hit: "calls s t = Entered p \<Longrightarrow> limiter_map s p = Some l \<Longrightarrow>
    get_step s (s\<lparr>calls := (calls s)(t := Got p l)\<rparr>)"
| load_miss: "calls s t = Entered p \<Longrightarrow> limiter_map s p = None \<Longrightarrow>
    get_step s (s\<lparr>calls := (calls s)(t := Missed p)\<rparr>)"
| make: "calls s t = Missed p \<Longrightarrow>
    get_step s (s\<lparr>next_limiter := Suc (next_limiter s), calls := (calls s)(t := Made p (next_limiter s))\<rparr>)"
| loaded: "calls s t = Made p n \<Longrightarrow> limiter_map s p = Some l \<Longrightarrow>
    get_step s (s\<lparr>calls := (calls s)(t := Got p l)\<rparr>)"
| stored: "calls s t = Made p n \<Longrightarrow> limiter_map s p = None \<Longrightarrow>
    get_step s (s\<lparr>limiter_map := (limiter_map s)(p \<mapsto> n), calls := (calls s)(t := Got p n)\<rparr>)"
| leave: "calls s t = Got p l \<Longrightarrow> get_step s (s\<lparr>calls := (calls s)(t := Idle)\<rparr>)"

definition pool0 :: pool where
  "pool0 = \<lparr>limiter_map = Map.empty, next_limiter = 0, calls = (\<lambda>_. Idle)\<rparr>"

definition pool_inv :: "pool \<Rightarrow> bool" where
  "pool_inv s \<longleftrightarrow>
     (\<forall>t p l. calls s t = Got p l \<longrightarrow> limiter_map s p = Some l) \<and>
     (\<forall>p l. limiter_map s p = Some l \<longrightarrow> l < next_limiter s) \<and>
     (\<forall>t p n. calls s t = Made p n \<longrightarrow> n < next_limiter s \<and> n \<notin> ran (limiter_map s)) \<and>
     (\<forall>t t' p p' n. calls s t = Made p n \<longrightarrow> calls s t' = Made p' n \<longrightarrow> t = t') \<and>
     (\<forall>p p' l. limiter_map s p = Some l \<longrightarrow> limiter_map s p' = Some l \<longrightarrow> p = p')"

lemma pool_inv_step: "get_step s s' \<Longrightarrow> pool_inv s \<Longrightarrow> pool_inv s'"
proof (induction rule: get_step.induct)
  case (make s t p)
  then show ?case unfolding pool_inv_def
    by (auto simp: ran_def less_Suc_eq) (metis less_irrefl)+
next
  case (stored s t p n)
  then show ?case unfolding pool_inv_def
    by (auto simp: ran_def split: if_splits)
qed (auto simp: pool_inv_def)

lemma pool_inv_reach: "get_step\<^sup>*\<^sup>* s s' \<Longrightarrow> pool_inv s \<Longrightarrow> pool_inv s'"
  by (induction rule: rtranclp_induct) (auto dest: pool_inv_step)

lemma limiter_stable_step: "get_step s s' \<Longrightarrow> limiter_map s p = Some l \<Longrightarrow> limiter_map s' p = Some l"
  by (induction rule: get_step.induct) auto

text \<open>C24. Concurrent requests share buckets: in every interleaving, two calls of \<open>getLimiter\<close>, at the same or
  at different times, got the same limiter exactly when they asked for the same provider; a limiter
  lost to a racing \<open>LoadOrStore\<close> is never handed out.\<close>

theorem getLimiter_shared:
  assumes "get_step\<^sup>*\<^sup>* pool0 s" "calls s t = Got p l" "get_step\<^sup>*\<^sup>* s s'" "calls s' t' = Got p' l'"
  shows "l = l' \<longleftrightarrow> p = p'"
proof -
  have inv: "pool_inv s" "pool_inv s'"
    using assms(1,3) pool_inv_reach [of pool0] by (auto simp: pool_inv_def pool0_def dest: rtranclp_trans)
  have "limiter_map s' p = Some l"
    using assms(3) inv(1) assms(2)
    by (induction rule: rtranclp_induct) (auto simp: pool_inv_def dest: limiter_stable_step)
  moreover have "limiter_map s' p' = Some l'" using inv(2) assms(4) by (simp add: pool_inv_def)
  ultimately show ?thesis using inv(2) unfolding pool_inv_def by (metis option.inject)
qed

text \<open>A race: both goroutines miss and allocate, the second one loads what the first one stored.\<close>

theorem getLimiter_shared_witness:
  "\<exists>s l l'. get_step\<^sup>*\<^sup>* pool0 s \<and> calls s 0 = Got ''jsm'' l \<and> calls s 1 = Got ''jsm'' l' \<and> l = l'"
proof -
  define s1 where "s1 = pool0\<lparr>calls := (calls pool0)(0 := Entered ''jsm'')\<rparr>"
  define s2 where "s2 = s1\<lparr>calls := (calls s1)(1 := Entered ''jsm'')\<rparr>"
  define s3 where "s3 = s2\<lparr>calls := (calls s2)(0 := Missed ''jsm'')\<rparr>"
  define s4 where "s4 = s3\<lparr>calls := (calls s3)(1 := Missed ''jsm'')\<rparr>"
  define s5 where "s5 = s4\<lparr>next_limiter := Suc (next_limiter s4), calls := (calls s4)(0 := Made ''jsm'' (next_limiter s4))\<rparr>"
  define s6 where "s6 = s5\<lparr>next_limiter := Suc (next_limiter s5), calls := (calls s5)(1 := Made ''jsm'' (next_limiter s5))\<rparr>"
  define s7 where "s7 = s6\<lparr>limiter_map := (limiter_map s6)(''jsm'' \<mapsto> 0), calls := (calls s6)(0 := Got ''jsm'' 0)\<rparr>"
  define s8 where "s8 = s7\<lparr>calls := (calls s7)(1 := Got ''jsm'' 0)\<rparr>"
  have g1: "get_step pool0 s1" unfolding s1_def by (rule enter) (simp_all add: pool0_def )
  have g2: "get_step s1 s2" unfolding s2_def by (rule enter) (simp_all add: pool0_def s1_def)
  have g3: "get_step s2 s3" unfolding s3_def by (rule load_miss) (simp_all add: pool0_def s1_def s2_def)
  have g4: "get_step s3 s4" unfolding s4_def by (rule load_miss) (simp_all add: pool0_def s1_def s2_def s3_def)
  have g5: "get_step s4 s5" unfolding s5_def by (rule make) (simp_all add: pool0_def s1_def s2_def s3_def s4_def)
  have g6: "get_step s5 s6" unfolding s6_def by (rule make) (simp_all add: pool0_def s1_def s2_def s3_def s4_def s5_def)
  have g7: "get_step s6 s7" unfolding s7_def by (rule stored [where p = "''jsm''" and n = 0 and t = 0]) (simp_all add: pool0_def s1_def s2_def s3_def s4_def s5_def s6_def)
  have g8: "get_step s7 s8" unfolding s8_def by (rule loaded [where p = "''jsm''" and t = 1 and n = 1]) (simp_all add: pool0_def s1_def s2_def s3_def s4_def s5_def s6_def s7_def)
  have "get_step\<^sup>*\<^sup>* pool0 s8"
    using g1 g2 g3 g4 g5 g6 g7 g8 by (meson converse_rtranclp_into_rtranclp rtranclp.rtrancl_refl)
  moreover have "calls s8 0 = Got ''jsm'' 0" "calls s8 1 = Got ''jsm'' 0" by (simp_all add: s8_def s7_def)
  ultimately show ?thesis
    using getLimiter_shared [of s8 0 "''jsm''" 0 s8 1 "''jsm''" 0] by blast
qed

end
