(* ===== verification/Jsm_Payload.thy ===== *)
theory Jsm_Payload
  imports Json
begin

text \<open>
  \<^verbatim>\<open>internal/webhook/jsm/payload.go\<close> and \<^verbatim>\<open>extract.go\<close>: decoding a JSM webhook body.

  \<open>json.Unmarshal\<close> into the structs is modelled on the parsed value: object members are matched to
  struct fields without regard to case, members are processed in order (so a later duplicate
  merges into or overwrites an earlier one), \<open>null\<close> leaves a field alone, a value of the wrong type
  is remembered while decoding goes on, and an error of \<open>IssueFields.UnmarshalJSON\<close> stops it.
  The texts of the errors of \<open>encoding/json\<close> are the parameter \<open>json_text\<close> (of the body and the
  place): they only reach the \<open>reason\<close> shown to the caller.
\<close>

type_synonym json_text = "bytes \<Rightarrow> string \<Rightarrow> string"

definition ErrInvalidJSON :: go_error where "ErrInvalidJSON = New ''invalid json''"
definition ErrMissingIssue :: go_error where "ErrMissingIssue = New ''missing issue object''"
definition ErrMissingIssueKey :: go_error where "ErrMissingIssueKey = New ''missing issue key''"
definition ErrMissingStatus :: go_error where "ErrMissingStatus = New ''missing issue status''"
definition ErrFieldMissing :: go_error where "ErrFieldMissing = New ''custom field missing''"
definition ErrFieldEmpty :: go_error where "ErrFieldEmpty = New ''custom field empty''"
definition ErrFieldType :: go_error where "ErrFieldType = New ''custom field is not a string''"

lemmas jsm_errs = ErrInvalidJSON_def ErrMissingIssue_def ErrMissingIssueKey_def ErrMissingStatus_def
  ErrFieldMissing_def ErrFieldEmpty_def ErrFieldType_def

record status_block = StatusName :: string

record issue_fields =
  IssueStatus :: status_block
  CustomFields :: "string \<rightharpoonup> json"

record issue =
  Key :: string
  Fields :: issue_fields

record payload = Issue :: issue

definition payload0 :: payload where
  "payload0 = \<lparr>Issue = \<lparr>Key = [], Fields = \<lparr>IssueStatus = \<lparr>StatusName = []\<rparr>, CustomFields = Map.empty\<rparr>\<rparr>\<rparr>"

subsection \<open>Matching members to struct fields\<close>

text \<open>\<open>foldName\<close> of \<open>encoding/json\<close>.  Of the runes beyond ASCII only U+017F and U+212A fold into
  ASCII, so only they can make a member match one of the (ASCII) field names.\<close>

definition fold_rune :: "nat \<Rightarrow> nat" where
  "fold_rune r = (if 97 \<le> r \<and> r \<le> 122 then r - 32 else if r = 383 then 83 else if r = 8490 then 75 else r)"

definition field_match :: "string \<Rightarrow> string \<Rightarrow> bool" where
  "field_match name k \<longleftrightarrow> k = name \<or> map fold_rune (runes k) = map fold_rune (runes name)"

definition raw_map :: "(string \<times> json) list \<Rightarrow> string \<rightharpoonup> json" where
  "raw_map kvs = map_of (rev kvs)"

subsection \<open>Unmarshalling\<close>

fun status_members :: "(string \<times> json) list \<Rightarrow> status_block \<Rightarrow> bool \<Rightarrow> status_block \<times> bool" where
  "status_members [] s bad = (s, bad)"
| "status_members ((k, v) # rest) s bad =
    (if field_match ''name'' k then
       (case v of JStr x \<Rightarrow> status_members rest (s\<lparr>StatusName := x\<rparr>) bad
        | JNull \<Rightarrow> status_members rest s bad
        | _ \<Rightarrow> status_members rest s True)
     else status_members rest s bad)"

definition unmarshal_status :: "json \<Rightarrow> status_block \<Rightarrow> status_block \<times> bool" where
  "unmarshal_status v s = (case v of JObj kvs \<Rightarrow> status_members kvs s False | JNull \<Rightarrow> (s, False) | _ \<Rightarrow> (s, True))"

text \<open>\<open>IssueFields.UnmarshalJSON\<close>.\<close>

definition UnmarshalJSON :: "(string \<Rightarrow> string) \<Rightarrow> json \<Rightarrow> issue_fields \<Rightarrow> go_error + issue_fields" where
  "UnmarshalJSON txt v f =
    and_then (case v of JObj kvs \<Rightarrow> Inr (raw_map kvs) | JNull \<Rightarrow> Inr Map.empty
        | _ \<Rightarrow> Inl (Errorf [W ErrInvalidJSON, Lit '': fields: '', W (Ext ''json'' (txt ''fields''))]))
      (\<lambda>raw. case raw ''status'' of
         None \<Rightarrow> Inr (f\<lparr>CustomFields := raw\<rparr>)
       | Some rawStatus \<Rightarrow>
           let (s, bad) = unmarshal_status rawStatus (IssueStatus f) in
           if bad then Inl (Errorf [W ErrInvalidJSON, Lit '': status: '', W (Ext ''json'' (txt ''status''))])
           else Inr \<lparr>IssueStatus = s, CustomFields = raw(''status'' := None)\<rparr>)"

fun issue_members ::
  "(string \<Rightarrow> string) \<Rightarrow> (string \<times> json) list \<Rightarrow> issue \<Rightarrow> bool \<Rightarrow> go_error + issue \<times> bool" where
  "issue_members txt [] i bad = Inr (i, bad)"
| "issue_members txt ((k, v) # rest) i bad =
    (if field_match ''key'' k then
       (case v of JStr x \<Rightarrow> issue_members txt rest (i\<lparr>Key := x\<rparr>) bad
        | JNull \<Rightarrow> issue_members txt rest i bad
        | _ \<Rightarrow> issue_members txt rest i True)
     else if field_match ''fields'' k then
       and_then (UnmarshalJSON txt v (Fields i)) (\<lambda>f. issue_members txt rest (i\<lparr>Fields := f\<rparr>) bad)
     else issue_members txt rest i bad)"

fun payload_members ::
  "(string \<Rightarrow> string) \<Rightarrow> (string \<times> json) list \<Rightarrow> payload \<Rightarrow> bool \<Rightarrow> go_error + payload \<times> bool" where
  "payload_members txt [] p bad = Inr (p, bad)"
| "payload_members txt ((k, v) # rest) p bad =
    (if field_match ''issue'' k then
       (case v of
          JObj kvs \<Rightarrow> and_then (issue_members txt kvs (Issue p) bad)
            (\<lambda>(i, bad). payload_members txt rest (p\<lparr>Issue := i\<rparr>) bad)
        | JNull \<Rightarrow> payload_members txt rest p bad
        | _ \<Rightarrow> payload_members txt rest p True)
     else payload_members txt rest p bad)"

text \<open>The members of a value decoded into a map: \<open>null\<close> gives the nil map.\<close>

definition object_members :: "json \<Rightarrow> (string \<times> json) list option" where
  "object_members v = (case v of JObj kvs \<Rightarrow> Some kvs | JNull \<Rightarrow> Some [] | _ \<Rightarrow> None)"

text \<open>\<open>Decode\<close> after the probe: the checks on \<open>issue\<close>, the typed decoding, the required fields.\<close>

definition decode_members :: "json_text \<Rightarrow> bytes \<Rightarrow> (string \<times> json) list \<Rightarrow> go_error + payload" where
  "decode_members jt body kvs =
    (case raw_map kvs ''issue'' of
       None \<Rightarrow> Inl ErrMissingIssue
     | Some raw \<Rightarrow>
         if raw = JNull then Inl ErrMissingIssue
         else case payload_members (jt body) kvs payload0 False of
           Inl err \<Rightarrow> Inl (wrap2 ErrInvalidJSON err)
         | Inr (p, bad) \<Rightarrow>
             if bad then Inl (wrap2 ErrInvalidJSON (Ext ''json'' (jt body ''payload'')))
             else if Key (Issue p) = [] then Inl ErrMissingIssueKey
             else if StatusName (IssueStatus (Fields (Issue p))) = [] then Inl ErrMissingStatus
             else Inr p)"

definition Decode :: "json_text \<Rightarrow> bytes \<Rightarrow> go_error + payload" where
  "Decode jt body =
    (if body = [] then Inl (Errorf [W ErrInvalidJSON, Lit '': empty body''])
     else case json_parse body of
       None \<Rightarrow> Inl (wrap2 ErrInvalidJSON (Ext ''json'' (jt body ''syntax'')))
     | Some v \<Rightarrow>
         (case object_members v of
            None \<Rightarrow> Inl (wrap2 ErrInvalidJSON (Ext ''json'' (jt body ''probe'')))
          | Some kvs \<Rightarrow> decode_members jt body kvs))"

definition payload_Status :: "payload \<Rightarrow> string" where
  "payload_Status p = StatusName (IssueStatus (Fields (Issue p)))"

definition IssueKey :: "payload \<Rightarrow> string" where "IssueKey p = Key (Issue p)"

definition ExtractString :: "json_text \<Rightarrow> bytes \<Rightarrow> payload \<Rightarrow> string \<Rightarrow> go_error + string" where
  "ExtractString jt body p fieldID =
    (case CustomFields (Fields (Issue p)) fieldID of
       None \<Rightarrow> Inl (Errorf [W ErrFieldMissing, Lit '': '', Lit fieldID])
     | Some raw \<Rightarrow>
         if raw = JNull then Inl (Errorf [W ErrFieldMissing, Lit '': '', Lit fieldID, Lit '' (null)''])
         else case raw of
           JStr s \<Rightarrow>
             let trimmed = TrimSpace s in
             if trimmed = [] then Inl (Errorf [W ErrFieldEmpty, Lit '': '', Lit fieldID]) else Inr trimmed
         | _ \<Rightarrow> Inl (Errorf [W ErrFieldType, Lit '': '', Lit fieldID, Lit '': '', W (Ext ''json'' (jt body fieldID))]))"

subsection \<open>The errors of decoding\<close>

lemma only_InvalidJSON:
  "only_Is (wrap2 ErrInvalidJSON (Ext c t)) ErrInvalidJSON"
  "only_Is (Errorf [W ErrInvalidJSON, Lit t]) ErrInvalidJSON"
  "only_Is (Errorf [W ErrInvalidJSON, Lit t, W (Ext c t')]) ErrInvalidJSON"
  "only_Is e ErrInvalidJSON \<Longrightarrow> only_Is (wrap2 ErrInvalidJSON e) ErrInvalidJSON"
  by (auto simp: only_Is_def jsm_errs)

lemma only_sentinel:
  "only_Is ErrMissingIssue ErrMissingIssue" "only_Is ErrMissingIssueKey ErrMissingIssueKey"
  "only_Is ErrMissingStatus ErrMissingStatus"
  "only_Is (Errorf [W ErrFieldMissing, Lit a, Lit b]) ErrFieldMissing"
  "only_Is (Errorf [W ErrFieldMissing, Lit a, Lit b, Lit c]) ErrFieldMissing"
  "only_Is (Errorf [W ErrFieldEmpty, Lit a, Lit b]) ErrFieldEmpty"
  "only_Is (Errorf [W ErrFieldType, Lit a, Lit b, Lit c, W (Ext l t)]) ErrFieldType"
  by (auto simp: only_Is_def jsm_errs)

lemma UnmarshalJSON_Is: "UnmarshalJSON tx v f = Inl e \<Longrightarrow> only_Is e ErrInvalidJSON"
  by (auto simp: UnmarshalJSON_def and_then_eq_Inl Let_def only_InvalidJSON
      split: json.splits option.splits prod.splits if_splits)

lemma issue_members_Is: "issue_members tx kvs i bad = Inl e \<Longrightarrow> only_Is e ErrInvalidJSON"
proof (induction kvs arbitrary: i bad)
  case (Cons kv kvs)
  then show ?case
    by (cases kv) (auto simp: and_then_eq_Inl UnmarshalJSON_Is split: if_splits json.splits)
qed simp

lemma payload_members_Is: "payload_members tx kvs p bad = Inl e \<Longrightarrow> only_Is e ErrInvalidJSON"
proof (induction kvs arbitrary: p bad)
  case (Cons kv kvs)
  then show ?case
    by (cases kv) (auto simp: and_then_eq_Inl issue_members_Is split: if_splits json.splits prod.splits)
qed simp

text \<open>A decoding error is one of the four sentinels and wraps nothing else of the program.\<close>

lemma decode_members_err:
  "decode_members jt body kvs = Inl e \<Longrightarrow>
     only_Is e ErrInvalidJSON \<or> e \<in> {ErrMissingIssue, ErrMissingIssueKey, ErrMissingStatus}"
  by (auto simp: decode_members_def only_InvalidJSON payload_members_Is
      split: if_splits option.splits sum.splits prod.splits)

lemma Decode_err:
  "Decode jt body = Inl e \<Longrightarrow>
     only_Is e ErrInvalidJSON \<or> e \<in> {ErrMissingIssue, ErrMissingIssueKey, ErrMissingStatus}"
  by (auto simp: Decode_def only_InvalidJSON dest!: decode_members_err split: if_splits option.splits)

lemma Decode_err_only:
  assumes "Decode jt body = Inl e"
  obtains k where "k \<in> {ErrInvalidJSON, ErrMissingIssue, ErrMissingIssueKey, ErrMissingStatus}" "only_Is e k"
  using Decode_err [OF assms] that only_sentinel(1-3) by blast

lemma Decode_Inr:
  "Decode jt body = Inr p \<longleftrightarrow>
     (\<exists>v kvs. body \<noteq> [] \<and> json_parse body = Some v \<and> object_members v = Some kvs \<and>
        decode_members jt body kvs = Inr p)"
  by (auto simp: Decode_def split: option.splits)

lemma decode_members_Inr:
  "decode_members jt body kvs = Inr p \<longleftrightarrow>
     (\<exists>raw. raw_map kvs ''issue'' = Some raw \<and> raw \<noteq> JNull) \<and>
     payload_members (jt body) kvs payload0 False = Inr (p, False) \<and>
     IssueKey p \<noteq> [] \<and> payload_Status p \<noteq> []"
  by (auto simp: decode_members_def IssueKey_def payload_Status_def
      split: if_splits option.splits sum.splits prod.splits)

lemma Decode_ok: "Decode jt body = Inr p \<Longrightarrow> IssueKey p \<noteq> [] \<and> payload_Status p \<noteq> []"
  by (auto simp: Decode_Inr decode_members_Inr)

lemma ExtractString_err:
  assumes "ExtractString jt body p f = Inl e"
  obtains (missing) "only_Is e ErrFieldMissing" "CustomFields (Fields (Issue p)) f \<in> {None, Some JNull}"
  | (blank) x where "only_Is e ErrFieldEmpty" "CustomFields (Fields (Issue p)) f = Some (JStr x)" "TrimSpace x = []"
  | (wrong_type) v where "only_Is e ErrFieldType" "CustomFields (Fields (Issue p)) f = Some v" "v \<noteq> JNull" "\<And>x. v \<noteq> JStr x"
proof (cases "CustomFields (Fields (Issue p)) f")
  case None
  then show thesis using assms missing by (auto simp: ExtractString_def only_sentinel)
next
  case (Some v)
  show thesis
  proof (cases "v = JNull \<or> (\<exists>x. v = JStr x)")
    case True
    then show thesis
      using assms Some missing blank
      by (auto simp: ExtractString_def Let_def only_sentinel split: if_splits)
  next
    case False
    then have "only_Is e ErrFieldType"
      using assms Some by (cases v) (auto simp: ExtractString_def only_sentinel)
    then show thesis using wrong_type Some False by blast
  qed
qed

lemma ExtractString_ok:
  "ExtractString jt body p f = Inr x \<longleftrightarrow>
     (\<exists>s. CustomFields (Fields (Issue p)) f = Some (JStr s) \<and> x = TrimSpace s \<and> x \<noteq> [])"
  by (auto simp: ExtractString_def Let_def split: option.splits if_splits json.splits)

subsection \<open>Decoding a payload of the expected shape\<close>

text \<open>Only the members that match a field matter.\<close>

lemma status_members_filter:
  "status_members kvs s bad = status_members (filter (\<lambda>(k, v). field_match ''name'' k) kvs) s bad"
proof (induction kvs arbitrary: s bad)
  case (Cons kv kvs)
  obtain k v where kv: "kv = (k, v)" by (cases kv)
  show ?case
  proof (cases "field_match ''name'' k")
    case True
    then show ?thesis unfolding kv by (cases v) (simp_all add: Cons [symmetric])
  next
    case False
    then show ?thesis using Cons by (simp add: kv)
  qed
qed simp

lemma issue_members_filter:
  "issue_members tx kvs i bad =
     issue_members tx (filter (\<lambda>(k, v). field_match ''key'' k \<or> field_match ''fields'' k) kvs) i bad"
proof (induction kvs arbitrary: i bad)
  case (Cons kv kvs)
  obtain k v where kv: "kv = (k, v)" by (cases kv)
  show ?case
  proof (cases "field_match ''key'' k \<or> field_match ''fields'' k")
    case True
    then show ?thesis unfolding kv
      by (cases v) (simp_all add: Cons [symmetric])
  next
    case False
    then show ?thesis using Cons by (simp add: kv)
  qed
qed simp

lemma payload_members_filter:
  "payload_members tx kvs p bad = payload_members tx (filter (\<lambda>(k, v). field_match ''issue'' k) kvs) p bad"
proof (induction kvs arbitrary: p bad)
  case (Cons kv kvs)
  obtain k v where kv: "kv = (k, v)" by (cases kv)
  show ?case
  proof (cases "field_match ''issue'' k")
    case True
    have "payload_members tx (filter (\<lambda>(k, v). field_match ''issue'' k) kvs) = payload_members tx kvs"
      using Cons by (intro ext) simp
    with True show ?thesis unfolding kv by (cases v) simp_all
  next
    case False
    then show ?thesis using Cons by (simp add: kv)
  qed
qed simp

text \<open>
  What JSM sends: one \<open>issue\<close> object with one \<open>key\<close> string and one \<open>fields\<close> object, in either
  order, whose \<open>status\<close> is an object with one \<open>name\<close> string.
\<close>

definition jsm_shape :: "(string \<times> json) list \<Rightarrow> string \<Rightarrow> string \<Rightarrow> (string \<times> json) list \<Rightarrow> bool" where
  "jsm_shape kvs key status fs \<longleftrightarrow>
    (\<exists>iks sks.
       filter (\<lambda>(k, v). field_match ''issue'' k) kvs = [(''issue'', JObj iks)] \<and>
       filter (\<lambda>(k, v). field_match ''key'' k \<or> field_match ''fields'' k) iks \<in>
         {[(''key'', JStr key), (''fields'', JObj fs)], [(''fields'', JObj fs), (''key'', JStr key)]} \<and>
       raw_map fs ''status'' = Some (JObj sks) \<and>
       filter (\<lambda>(k, v). field_match ''name'' k) sks = [(''name'', JStr status)])"

lemma field_match_simps [simp]:
  "field_match n n" "\<not> field_match ''key'' ''fields''"
  by (simp_all add: field_match_def) code_simp

lemma map_of_rev_filter:
  "P x \<Longrightarrow> map_of (rev kvs) x = map_of (rev (filter (\<lambda>(k, v). P k) kvs)) x"
proof -
  assume "P x"
  then have "map_of ys x = map_of (filter (\<lambda>(k, v). P k) ys) x" for ys :: "('a \<times> 'b) list"
    by (induction ys) auto
  then show ?thesis by (simp add: rev_filter)
qed

lemma payload_members_shape:
  assumes "jsm_shape kvs key status fs"
  shows "payload_members tx kvs payload0 False =
      Inr (\<lparr>Issue = \<lparr>Key = key, Fields = \<lparr>IssueStatus = \<lparr>StatusName = status\<rparr>,
             CustomFields = (raw_map fs)(''status'' := None)\<rparr>\<rparr>\<rparr>, False)"
    and "\<exists>iks. raw_map kvs ''issue'' = Some (JObj iks)"
proof -
  obtain iks sks where f: "filter (\<lambda>(k, v). field_match ''issue'' k) kvs = [(''issue'', JObj iks)]"
    "filter (\<lambda>(k, v). field_match ''key'' k \<or> field_match ''fields'' k) iks \<in>
         {[(''key'', JStr key), (''fields'', JObj fs)], [(''fields'', JObj fs), (''key'', JStr key)]}"
    "raw_map fs ''status'' = Some (JObj sks)" "filter (\<lambda>(k, v). field_match ''name'' k) sks = [(''name'', JStr status)]"
    using assms unfolding jsm_shape_def by blast
  have st: "unmarshal_status (JObj sks) s = (\<lparr>StatusName = status\<rparr>, False)" for s
    by (simp add: unmarshal_status_def status_members_filter [of sks] f(4))
  have im: "issue_members tx iks (Issue payload0) False =
      Inr (\<lparr>Key = key, Fields = \<lparr>IssueStatus = \<lparr>StatusName = status\<rparr>,
             CustomFields = (raw_map fs)(''status'' := None)\<rparr>\<rparr>, False)"
    using f(2) by (auto simp: issue_members_filter [of tx iks] UnmarshalJSON_def f(3) st payload0_def)
  show "payload_members tx kvs payload0 False =
      Inr (\<lparr>Issue = \<lparr>Key = key, Fields = \<lparr>IssueStatus = \<lparr>StatusName = status\<rparr>,
             CustomFields = (raw_map fs)(''status'' := None)\<rparr>\<rparr>\<rparr>, False)"
    by (simp add: payload_members_filter [of tx kvs] f(1) im)
  show "\<exists>iks. raw_map kvs ''issue'' = Some (JObj iks)"
    using map_of_rev_filter [of "field_match ''issue''" "''issue''" kvs] f(1) by (simp add: raw_map_def)
qed

lemma Decode_shape:
  assumes "json_parse body = Some (JObj kvs)" "jsm_shape kvs key status fs" "key \<noteq> []" "status \<noteq> []" "body \<noteq> []"
  shows "Decode jt body = Inr \<lparr>Issue = \<lparr>Key = key, Fields = \<lparr>IssueStatus = \<lparr>StatusName = status\<rparr>,
             CustomFields = (raw_map fs)(''status'' := None)\<rparr>\<rparr>\<rparr>"
  using assms payload_members_shape(1) [OF assms(2), of "jt body"] payload_members_shape(2) [OF assms(2)]
  by (auto simp: Decode_Inr decode_members_Inr object_members_def IssueKey_def payload_Status_def)

end
