(* ===== verification/Dispatcher.thy ===== *)
theory Dispatcher
  imports Http Json Executor
begin

text \<open>
  \<^verbatim>\<open>internal/webhook/provider.go\<close> and \<^verbatim>\<open>dispatcher.go\<close>: the HTTP entry point that ties
  providers, signature verification and the executor together.

  A provider is the record of its methods.  The provider, the executor and the dispatcher hold
  the same \<open>*observability.Metrics\<close>, so the metrics are part of the state that a request threads
  through them (\<open>None\<close> is the nil pointer).  \<open>BuildResponse\<close> returns the struct as the list of the
  members the encoder prints.  The clock's reading is an argument.  Log lines go to the \<open>elog\<close> of
  the state.  (The encoder writes to a connection that takes every byte, so its error branch is
  not reached.)
\<close>

record provider =
  prov_Name :: string
  prov_VerifySignature :: "gotime \<Rightarrow> request \<Rightarrow> bytes \<Rightarrow> go_error option"
  prov_Handle :: "ctx \<Rightarrow> bytes \<Rightarrow> metrics option \<Rightarrow> (go_error + action) \<times> metrics option"
  prov_BuildResponse :: "exec_result \<Rightarrow> string \<Rightarrow> string \<Rightarrow> (string \<times> json_field) list"

type_synonym 'k execute = "ctx \<Rightarrow> action \<Rightarrow> 'k exec_state \<Rightarrow> (exec_result \<times> 'k exec_state) option"

record 'k dispatcher_config =
  Providers :: "provider list"
  CfgExecutor :: "'k execute"
  Logger :: "slog_handler option"
  MaxBodyBytes :: int

record 'k dispatcher =
  providers :: "string \<rightharpoonup> provider"
  executor :: "'k execute"
  dlogger :: slog_handler
  maxBodyBytes :: int

text \<open>\<open>slog.Default()\<close>: lines of level \<open>Info\<close> and above, as text.\<close>

definition slog_Default :: slog_handler where
  "slog_Default = Base \<lparr>bh_text = True, bh_level = LevelInfo, bh_attrs = [], bh_groups = []\<rparr>"

text \<open>The registration loop of \<open>NewDispatcher\<close>; a duplicate name panics with its text.\<close>

fun add_providers :: "unicode \<Rightarrow> provider list \<Rightarrow> (string \<rightharpoonup> provider) \<Rightarrow> string + (string \<rightharpoonup> provider)" where
  "add_providers u [] ps = Inr ps"
| "add_providers u (p # rest) ps =
    (case ps (prov_Name p) of
       Some _ \<Rightarrow> Inl (''webhook.NewDispatcher: duplicate provider '' @ Quote u (prov_Name p))
     | None \<Rightarrow> add_providers u rest (ps(prov_Name p \<mapsto> p)))"

definition NewDispatcher :: "unicode \<Rightarrow> 'k dispatcher_config \<Rightarrow> string + 'k dispatcher" where
  "NewDispatcher u cfg =
    (let lg = (case Logger cfg of None \<Rightarrow> slog_Default | Some l \<Rightarrow> l);
         maxb = (if MaxBodyBytes cfg \<le> 0 then 2 ^ 20 else MaxBodyBytes cfg)
     in and_then (add_providers u (Providers cfg) Map.empty)
          (\<lambda>ps. Inr \<lparr>providers = ps, executor = CfgExecutor cfg, dlogger = lg, maxBodyBytes = maxb\<rparr>))"

definition classifyProviderErr :: "unicode \<Rightarrow> go_error \<Rightarrow> exec_result" where
  "classifyProviderErr u err =
    (if errors_Is err ErrBadRequest then (exec_result0 ResultBadRequest)\<lparr>Reason := Error u err\<rparr>
     else if errors_Is err ErrUnprocessable then (exec_result0 ResultUnprocessable)\<lparr>Reason := Error u err\<rparr>
     else (exec_result0 ResultInternalError)\<lparr>Reason := Error u err\<rparr>)"

definition writeResponse ::
  "ctx \<Rightarrow> provider \<Rightarrow> exec_result \<Rightarrow> writer \<Rightarrow> 'k exec_state \<Rightarrow> writer \<times> 'k exec_state" where
  "writeResponse c prov res w st =
    (let traceID = traceIDFromContext c;
         reqID = RequestIDFromContext c;
         status = HTTPStatus (Kind res);
         w = set_header ''Content-Type'' ''application/json'' w;
         w = WriteHeader status w;
         st = st\<lparr>mets := map_option (Inc JSMResponseTotal [Itoa status]) (mets st)\<rparr>;
         body = prov_BuildResponse prov res traceID reqID
     in (Write (Encode body) w, st))"

definition log_warn :: "slog_handler \<Rightarrow> ctx \<Rightarrow> string \<Rightarrow> log_attr list \<Rightarrow> 'k exec_state \<Rightarrow> 'k exec_state" where
  "log_warn lg c msg as st = st\<lparr>elog := log_at lg c LevelWarn msg as (elog st)\<rparr>"

text \<open>\<open>ServeHTTP\<close>; \<open>None\<close> when the executor has not returned yet.\<close>

definition ServeHTTP ::
  "unicode \<Rightarrow> 'k dispatcher \<Rightarrow> gotime \<Rightarrow> request \<Rightarrow> writer \<Rightarrow> 'k exec_state \<Rightarrow> (writer \<times> 'k exec_state) option" where
  "ServeHTTP u d now r w st =
    (let c = Ctx r; name = PathValue r ''provider'' in
     case providers d name of
       None \<Rightarrow>
         Some (http_Error ''unknown provider'' 404 w, log_warn (dlogger d) c ''unknown provider'' [(''provider'', LStr name)] st)
     | Some prov \<Rightarrow>
       (case ReadAll_MaxBytes (maxBodyBytes d) r of
          Inl err \<Rightarrow>
            if errors_As_MaxBytesError err then Some (http_Error ''request body too large'' 413 w, st)
            else Some (http_Error ''read body failed'' 400 w,
              log_warn (dlogger d) c ''read body failed'' [(''err'', LStr (Error u err)), (''provider'', LStr name)] st)
        | Inr body \<Rightarrow>
          (case prov_VerifySignature prov now r body of
             Some err \<Rightarrow> Some (http_Error ''invalid signature'' 401 w, st)
           | None \<Rightarrow>
             (case prov_Handle prov c body (mets st) of
                (Inl err, m) \<Rightarrow> Some (writeResponse c prov (classifyProviderErr u err) w (st\<lparr>mets := m\<rparr>))
              | (Inr act, m) \<Rightarrow>
                (case executor d c act (st\<lparr>mets := m\<rparr>) of
                   None \<Rightarrow> None
                 | Some (res, st') \<Rightarrow> Some (writeResponse c prov res w st'))))))"

lemma log_warn_frame [simp]: "cluster (log_warn lg c msg as st) = cluster st" "mets (log_warn lg c msg as st) = mets st"
  by (simp_all add: log_warn_def)

subsection \<open>Construction\<close>

lemma add_providers_Inr:
  "add_providers u ps m = Inr m' \<longleftrightarrow>
     distinct (map prov_Name ps) \<and> set (map prov_Name ps) \<inter> dom m = {} \<and>
     m' = m ++ map_of (map (\<lambda>p. (prov_Name p, p)) ps)"
proof (induction ps arbitrary: m)
  case (Cons p ps)
  let ?n = "prov_Name p" and ?M = "map_of (map (\<lambda>p. (prov_Name p, p)) ps)"
  show ?case
  proof (cases "m ?n")
    case None
    have upd: "m(?n \<mapsto> p) ++ ?M = m ++ ?M(?n \<mapsto> p)" if "?n \<notin> prov_Name ` set ps"
    proof -
      have "?n \<notin> dom ?M" using that by (simp add: dom_map_of_conv_image_fst image_image)
      then show ?thesis by (simp add: map_add_upd_left map_add_upd)
    qed
    have "add_providers u (p # ps) m = Inr m' \<longleftrightarrow>
        distinct (map prov_Name ps) \<and> set (map prov_Name ps) \<inter> dom (m(?n \<mapsto> p)) = {} \<and> m' = m(?n \<mapsto> p) ++ ?M"
      by (simp only: add_providers.simps None option.case Cons)
    also have "\<dots> \<longleftrightarrow> ?n \<notin> prov_Name ` set ps \<and> distinct (map prov_Name ps) \<and>
        set (map prov_Name ps) \<inter> dom m = {} \<and> m' = m ++ ?M(?n \<mapsto> p)"
      using upd by (cases "?n \<in> prov_Name ` set ps") auto
    also have "\<dots> \<longleftrightarrow> distinct (map prov_Name (p # ps)) \<and> set (map prov_Name (p # ps)) \<inter> dom m = {} \<and>
        m' = m ++ ?M(?n \<mapsto> p)"
      using None by auto
    finally show ?thesis unfolding list.map map_of.simps fst_conv snd_conv .
  qed auto
qed auto

lemma map_of_providers:
  "distinct (map prov_Name ps) \<Longrightarrow>
   map_of (map (\<lambda>p. (prov_Name p, p)) ps) n = Some p \<longleftrightarrow> p \<in> set ps \<and> prov_Name p = n"
  by (subst map_of_eq_Some_iff) (auto simp: comp_def)

subsection \<open>The six ways a request ends\<close>

lemma ServeHTTP_cases:
  assumes "ServeHTTP u d now r w st = Some (w', st')"
  obtains (unknown) "providers d (PathValue r ''provider'') = None"
      "w' = http_Error ''unknown provider'' 404 w"
      "st' = log_warn (dlogger d) (Ctx r) ''unknown provider'' [(''provider'', LStr (PathValue r ''provider''))] st"
  | (toolarge) prov err where "providers d (PathValue r ''provider'') = Some prov"
      "ReadAll_MaxBytes (maxBodyBytes d) r = Inl err" "errors_As_MaxBytesError err"
      "w' = http_Error ''request body too large'' 413 w" "st' = st"
  | (unreadable) prov err where "providers d (PathValue r ''provider'') = Some prov"
      "ReadAll_MaxBytes (maxBodyBytes d) r = Inl err" "\<not> errors_As_MaxBytesError err"
      "w' = http_Error ''read body failed'' 400 w"
      "st' = log_warn (dlogger d) (Ctx r) ''read body failed'' [(''err'', LStr (Error u err)), (''provider'', LStr (PathValue r ''provider''))] st"
  | (unsigned) prov body err where "providers d (PathValue r ''provider'') = Some prov"
      "ReadAll_MaxBytes (maxBodyBytes d) r = Inr body" "prov_VerifySignature prov now r body = Some err"
      "w' = http_Error ''invalid signature'' 401 w" "st' = st"
  | (rejected) prov body err m where "providers d (PathValue r ''provider'') = Some prov"
      "ReadAll_MaxBytes (maxBodyBytes d) r = Inr body" "prov_VerifySignature prov now r body = None"
      "prov_Handle prov (Ctx r) body (mets st) = (Inl err, m)"
      "(w', st') = writeResponse (Ctx r) prov (classifyProviderErr u err) w (st\<lparr>mets := m\<rparr>)"
  | (executed) prov body act m res st1 where "providers d (PathValue r ''provider'') = Some prov"
      "ReadAll_MaxBytes (maxBodyBytes d) r = Inr body" "prov_VerifySignature prov now r body = None"
      "prov_Handle prov (Ctx r) body (mets st) = (Inr act, m)"
      "executor d (Ctx r) act (st\<lparr>mets := m\<rparr>) = Some (res, st1)"
      "(w', st') = writeResponse (Ctx r) prov res w st1"
proof (cases "providers d (PathValue r ''provider'')")
  case None
  then show thesis using assms unknown by (simp add: ServeHTTP_def)
next
  case (Some prov)
  note p = Some
  show thesis
  proof (cases "ReadAll_MaxBytes (maxBodyBytes d) r")
    case (Inl e)
    then show thesis using assms p toolarge unreadable by (auto simp: ServeHTTP_def split: if_splits)
  next
    case (Inr body)
    note b = Inr
    show thesis
    proof (cases "prov_VerifySignature prov now r body")
      case (Some e)
      then show thesis using assms p b unsigned by (simp add: ServeHTTP_def)
    next
      case None
      then show thesis
        using assms p b rejected executed
        by (cases "prov_Handle prov (Ctx r) body (mets st)")
          (auto simp: ServeHTTP_def Let_def split: sum.splits option.splits)
    qed
  qed
qed

lemma writeResponse_state:
  "snd (writeResponse c prov res w st) =
     st\<lparr>mets := map_option (Inc JSMResponseTotal [Itoa (HTTPStatus (Kind res))]) (mets st)\<rparr>"
  by (simp add: writeResponse_def Let_def)

lemma writeResponse_answer:
  assumes "fresh w" "(w', st') = writeResponse c prov res w st"
  shows "answered (HTTPStatus (Kind res))
    (Encode (prov_BuildResponse prov res (traceIDFromContext c) (RequestIDFromContext c))) w'"
  using assms by (simp add: writeResponse_def Let_def WriteHeader_Write_fresh)

lemma classifyProviderErr_kind:
  "Kind (classifyProviderErr u e) =
    (if errors_Is e ErrBadRequest then ResultBadRequest
     else if errors_Is e ErrUnprocessable then ResultUnprocessable else ResultInternalError)"
  "Reason (classifyProviderErr u e) = Error u e"
  by (simp_all add: classifyProviderErr_def exec_result0_def)

subsection \<open>The contract of a provider\<close>

text \<open>
  What the dispatcher relies on in a provider's \<open>Handle\<close>: errors carry one of the two sentinels it
  classifies, an action is never nil, and the in-flight gauge is left alone (nil metrics stay nil).
\<close>

locale provider_contract =
  fixes p :: provider
  assumes handle_error: "prov_Handle p c b m = (Inl e, m') \<Longrightarrow> errors_Is e ErrBadRequest \<or> errors_Is e ErrUnprocessable"
    and handle_action: "prov_Handle p c b m = (Inr a, m') \<Longrightarrow> a \<noteq> NilAction"
    and handle_gauge: "gauge (snd (prov_Handle p c b m)) = gauge m"
begin

text \<open>A payload that the provider rejects is answered 400 or 422, never 500, and the cluster is not touched.\<close>

lemma rejected_answer:
  assumes "fresh w" "providers d (PathValue r ''provider'') = Some p"
    and "ReadAll_MaxBytes (maxBodyBytes d) r = Inr body" "prov_VerifySignature p now r body = None"
    and "prov_Handle p (Ctx r) body (mets st) = (Inl e, m)"
  shows "\<exists>w' st' b. ServeHTTP u d now r w st = Some (w', st') \<and> cluster st' = cluster st \<and>
    answered (if errors_Is e ErrBadRequest then 400 else 422) b w'"
proof -
  obtain w' st' where wr: "(w', st') = writeResponse (Ctx r) p (classifyProviderErr u e) w (st\<lparr>mets := m\<rparr>)"
    by (metis surj_pair)
  have "HTTPStatus (Kind (classifyProviderErr u e)) = (if errors_Is e ErrBadRequest then 400 else 422)"
    using handle_error [OF assms(5)] by (auto simp: classifyProviderErr_kind)
  then have "\<exists>b. answered (if errors_Is e ErrBadRequest then 400 else 422) b w'"
    using writeResponse_answer [OF assms(1) wr] by metis
  moreover have "cluster st' = cluster st"
    using arg_cong [OF wr, of snd] by (simp add: writeResponse_state)
  moreover have "ServeHTTP u d now r w st = Some (w', st')"
    using assms(2-5) wr by (simp add: ServeHTTP_def)
  ultimately show ?thesis by blast
qed

end

subsection \<open>A dispatcher over an executor that keeps its contract\<close>

locale dispatch = executor_contract "executor d" for d :: "'k dispatcher" +
  assumes execute_gauge: "executor d c a st = Some (res, st') \<Longrightarrow> gauge (mets st') = gauge (mets st)"
begin

text \<open>With providers that keep their contract, serving a request leaves the in-flight gauge alone.\<close>

lemma serve_gauge:
  assumes "ServeHTTP u d now r w st = Some (w', st')"
    and "\<And>n p. providers d n = Some p \<Longrightarrow> provider_contract p"
  shows "gauge (mets st') = gauge (mets st)"
  using assms(1)
proof (cases rule: ServeHTTP_cases)
  case (rejected prov body err m)
  then have "gauge m = gauge (mets st)" using provider_contract.handle_gauge [OF assms(2)] by (metis snd_conv)
  then show ?thesis using arg_cong [OF rejected(5), of snd] by (simp add: writeResponse_state JSMResponseTotal_def HTTPRequests_def)
next
  case (executed prov body act m res st1)
  have "gauge m = gauge (mets st)"
    using provider_contract.handle_gauge [OF assms(2) [OF executed(1)]] executed(4) by (metis snd_conv)
  then show ?thesis
    using arg_cong [OF executed(6), of snd] execute_gauge [OF executed(5)]
    by (simp add: writeResponse_state JSMResponseTotal_def HTTPRequests_def)
qed simp_all

text \<open>Only a verified request whose provider asked for an apply can change the cluster.\<close>

lemma cluster_change_authorised:
  assumes "ServeHTTP u d now r w st = Some (w', st')" "cluster st' \<noteq> cluster st"
  shows "\<exists>prov act m. providers d (PathValue r ''provider'') = Some prov \<and>
    int (length (BodyData r)) \<le> max 0 (maxBodyBytes d) \<and> BodyErr r = None \<and>
    prov_VerifySignature prov now r (BodyData r) = None \<and>
    prov_Handle prov (Ctx r) (BodyData r) (mets st) = (Inr (ApplyAction act), m)"
  using assms(1)
proof (cases rule: ServeHTTP_cases)
  case (rejected prov body err m)
  then have "cluster st' = cluster st" by (metis writeResponse_state snd_conv exec_state.select_convs(1)
      exec_state.surjective exec_state.update_convs(2))
  then show ?thesis using assms(2) by simp
next
  case (executed prov body act m res st1)
  have st': "cluster st' = cluster st1"
    using executed(6) writeResponse_state [of "Ctx r" prov res w st1]
    by (metis snd_conv exec_state.select_convs(1) exec_state.surjective exec_state.update_convs(2))
  have "\<exists>a. act = ApplyAction a"
    using executed(5) st' assms(2) by (cases act) (auto simp: execute_noop execute_nil)
  moreover have "body = BodyData r" "BodyErr r = None" "int (length (BodyData r)) \<le> max 0 (maxBodyBytes d)"
    using executed(2) by (auto simp: ReadAll_MaxBytes_def split: if_splits option.splits)
  ultimately show ?thesis using executed by blast
qed (use assms(2) in simp_all)

text \<open>The status codes, and what each of them says about the request.\<close>

lemma answer:
  assumes "fresh w" "ServeHTTP u d now r w st = Some (w', st')"
  obtains (early) status msg where "answered status (msg @ [CHR 0x0A]) w'" "cluster st' = cluster st" "mets st' = mets st"
      "(status, msg) \<in> {(404, ''unknown provider''), (413, ''request body too large''),
         (400, ''read body failed''), (401, ''invalid signature'')}"
  | (late) prov res st1 where "providers d (PathValue r ''provider'') = Some prov"
      "prov_VerifySignature prov now r (BodyData r) = None"
      "answered (HTTPStatus (Kind res))
         (Encode (prov_BuildResponse prov res (traceIDFromContext (Ctx r)) (RequestIDFromContext (Ctx r)))) w'"
      "st' = st1\<lparr>mets := map_option (Inc JSMResponseTotal [Itoa (HTTPStatus (Kind res))]) (mets st1)\<rparr>"
      "Kind res = ResultReady \<longrightarrow> (\<exists>act m. prov_Handle prov (Ctx r) (BodyData r) (mets st) = (Inr (ApplyAction act), m) \<and>
         executor d (Ctx r) (ApplyAction act) (st\<lparr>mets := m\<rparr>) = Some (res, st1))"
      "Kind res = ResultNoop \<longrightarrow> (\<exists>reason m. prov_Handle prov (Ctx r) (BodyData r) (mets st) = (Inr (NoopAction reason), m) \<and>
         Reason res = reason \<and> cluster st1 = cluster st)"
  using assms(2)
proof (cases rule: ServeHTTP_cases)
  case (rejected prov body err m)
  let ?res = "classifyProviderErr u err"
  have b: "body = BodyData r" using rejected(2) by (auto simp: ReadAll_MaxBytes_def split: if_splits option.splits)
  have "st' = snd (writeResponse (Ctx r) prov ?res w (st\<lparr>mets := m\<rparr>))" using rejected(5) by (metis snd_conv)
  moreover have "Kind ?res \<noteq> ResultReady" "Kind ?res \<noteq> ResultNoop" by (simp_all add: classifyProviderErr_kind)
  ultimately show thesis
    using rejected b late [of prov ?res "st\<lparr>mets := m\<rparr>"] writeResponse_answer [OF assms(1) rejected(5)]
    by (simp add: writeResponse_state)
next
  case (executed prov body act m res st1)
  have b: "body = BodyData r" using executed(2) by (auto simp: ReadAll_MaxBytes_def split: if_splits option.splits)
  have st': "st' = snd (writeResponse (Ctx r) prov res w st1)" using executed(6) by (metis snd_conv)
  have "\<exists>a. act = ApplyAction a" if "Kind res = ResultReady"
    using that executed(5) ready_from_apply by blast
  moreover have "(\<exists>reason. act = NoopAction reason \<and> Reason res = reason) \<and> cluster st1 = cluster st"
    if "Kind res = ResultNoop"
    using that noop_from_noop [OF executed(5)] by auto
  ultimately show thesis
    using executed b late [of prov res st1] writeResponse_answer [OF assms(1) executed(6)] st'
    by (auto simp: writeResponse_state)
next
  case unknown
  then show thesis using http_Error_fresh(1) [OF assms(1), of 404 "''unknown provider''"]
    by (intro early [of 404 "''unknown provider''"]) simp_all
next
  case (toolarge prov err)
  then show thesis using http_Error_fresh(1) [OF assms(1), of 413 "''request body too large''"]
    by (intro early [of 413 "''request body too large''"]) simp_all
next
  case (unreadable prov err)
  then show thesis using http_Error_fresh(1) [OF assms(1), of 400 "''read body failed''"]
    by (intro early [of 400 "''read body failed''"]) simp_all
next
  case (unsigned prov body err)
  then show thesis using http_Error_fresh(1) [OF assms(1), of 401 "''invalid signature''"]
    by (intro early [of 401 "''invalid signature''"]) simp_all
qed

end

interpretation production: dispatch "\<lparr>providers = ps, executor = Execute env cfg, dlogger = lg, maxBodyBytes = n\<rparr>"
  for ps :: "string \<rightharpoonup> provider" and env :: "'k exec_env" and cfg lg n
  by unfold_locales (simp, simp, auto dest: Execute_apply_kind Execute_gauge)

end
