(* ===== verification/Registry.thy ===== *)
theory Registry
  imports Dispatcher Config
begin

text \<open>
  \<^verbatim>\<open>internal/webhook/registry.go\<close>: provider factories by name.  The mutex makes each operation
  atomic; a panic is \<open>Inl\<close> of its text.  Of \<open>ProviderDeps\<close> the configuration is passed here: the
  metrics are part of the request state and the logger is left out.
\<close>

type_synonym provider_factory = "config \<Rightarrow> go_error + provider"

type_synonym registry = "string \<rightharpoonup> provider_factory"

definition NewRegistry :: registry where "NewRegistry = Map.empty"

definition Register :: "unicode \<Rightarrow> string \<Rightarrow> provider_factory \<Rightarrow> registry \<Rightarrow> string + registry" where
  "Register u name factory r =
    (case r name of
       Some _ \<Rightarrow> Inl (''webhook: provider '' @ Quote u name @ '' registered twice'')
     | None \<Rightarrow> Inr (r(name \<mapsto> factory)))"

fun build_loop :: "registry \<Rightarrow> config \<Rightarrow> string list \<Rightarrow> provider list \<Rightarrow> go_error + provider list" where
  "build_loop r deps [] out = Inr out"
| "build_loop r deps (name # rest) out =
    (case r name of
       None \<Rightarrow> Inl (Errorf [Lit ''webhook: provider '', Q name, Lit '' enabled but not registered''])
     | Some f \<Rightarrow>
         (case f deps of
            Inl err \<Rightarrow> Inl (Errorf [Lit ''webhook: provider '', Q name, Lit '' factory: '', W err])
          | Inr prov \<Rightarrow> build_loop r deps rest (out @ [prov])))"

definition Build :: "registry \<Rightarrow> config \<Rightarrow> go_error + provider list" where
  "Build r deps = build_loop r deps (EnabledProviders deps) []"

lemma build_loop_Inr:
  "build_loop r deps names out = Inr ps \<longleftrightarrow>
     (\<exists>qs. ps = out @ qs \<and> list_all2 (\<lambda>n p. \<exists>f. r n = Some f \<and> f deps = Inr p) names qs)"
proof (induction names arbitrary: out)
  case (Cons n names)
  then show ?case
    by (auto simp: list_all2_Cons1 split: option.splits sum.splits)
qed auto

text \<open>A registry in which every factory makes a provider of the name it is registered under.\<close>

locale named_registry =
  fixes reg :: registry
  assumes factory_name: "reg n = Some f \<Longrightarrow> f deps = Inr p \<Longrightarrow> prov_Name p = n"
begin

lemma build_names: "Build reg deps = Inr ps \<Longrightarrow> map prov_Name ps = EnabledProviders deps"
proof -
  have "list_all2 (\<lambda>n p. \<exists>f. reg n = Some f \<and> f deps = Inr p) ns ps \<Longrightarrow> map prov_Name ps = ns" for ns ps
    by (induction rule: list_all2_induct) (auto simp: factory_name)
  then show "Build reg deps = Inr ps \<Longrightarrow> map prov_Name ps = EnabledProviders deps"
    by (simp add: Build_def build_loop_Inr)
qed

text \<open>The names of a loaded configuration are distinct, so the dispatcher's constructor does not panic.\<close>

lemma dispatcher_ok:
  assumes "Load env = Inr cfg" "Build reg cfg = Inr ps"
  shows "\<exists>d. NewDispatcher u \<lparr>Providers = ps, CfgExecutor = exec, Logger = lg, MaxBodyBytes = CfgMaxBodyBytes cfg\<rparr> = Inr d \<and>
    maxBodyBytes d = CfgMaxBodyBytes cfg \<and> executor d = exec \<and> dom (providers d) = set (EnabledProviders cfg) \<and>
    (\<forall>n p. providers d n = Some p \<longrightarrow> prov_Name p = n \<and> p \<in> set ps)"
proof -
  obtain cfg0 where l: "load_spec env = Inr cfg0" "cfg = cfg0\<lparr>SigningSecret := Getenv env ''WEBHOOK_SIGNING_SECRET''\<rparr>"
    and v: "validate env cfg = None" using assms(1) by (auto simp: Load_Inr)
  have n: "map prov_Name ps = EnabledProviders cfg" using build_names [OF assms(2)] .
  have d: "distinct (map prov_Name ps)" using s_csv_ok [OF load_spec_fields(1) [OF l(1)]] l(2) n by simp
  let ?M = "map_of (map (\<lambda>p. (prov_Name p, p)) ps)"
  have "add_providers u ps Map.empty = Inr ?M"
    using d by (simp add: add_providers_Inr)
  then have "NewDispatcher u \<lparr>Providers = ps, CfgExecutor = exec, Logger = lg, MaxBodyBytes = CfgMaxBodyBytes cfg\<rparr> =
      Inr \<lparr>providers = ?M, executor = exec, dlogger = (case lg of None \<Rightarrow> slog_Default | Some l \<Rightarrow> l), maxBodyBytes = CfgMaxBodyBytes cfg\<rparr>"
    using v by (simp add: NewDispatcher_def validate_None)
  moreover have "dom ?M = set (EnabledProviders cfg)"
    using n by (simp add: dom_map_of_conv_image_fst image_image flip: n)
  ultimately show ?thesis using d by (auto simp: map_of_providers)
qed

end

end
