(* ===== verification/Signature.thy ===== *)
theory Signature
  imports Go_Time
begin

text \<open>
  \<^verbatim>\<open>internal/webhook/signature.go\<close>: the trust boundary.  \<open>VerifyTimestamp\<close> and \<open>VerifyHMAC\<close>
  are the two checks, \<open>Verify\<close> composes them over the canonical message
  \<open>v0:<timestamp>:<body>\<close>.  HMAC-SHA256 is the parameter \<open>mac\<close> (key, message, tag): the
  theorems hold for every such function.
\<close>

type_synonym mac = "bytes \<Rightarrow> bytes \<Rightarrow> bytes"

definition ErrMalformed :: go_error where "ErrMalformed = New ''malformed signature header''"
definition ErrInvalidSignature :: go_error where "ErrInvalidSignature = New ''invalid signature''"
definition ErrTimestampMissing :: go_error where "ErrTimestampMissing = New ''missing timestamp header''"
definition ErrTimestampMalformed :: go_error where "ErrTimestampMalformed = New ''malformed timestamp header''"
definition ErrTimestampSkewed :: go_error where
  "ErrTimestampSkewed = New ''timestamp outside accepted skew window''"

lemmas sig_errs = ErrMalformed_def ErrInvalidSignature_def ErrTimestampMissing_def
  ErrTimestampMalformed_def ErrTimestampSkewed_def

definition signaturePrefix :: string where "signaturePrefix = ''sha256=''"

definition canonicalVersion :: string where "canonicalVersion = ''v0''"

definition VerifyHMAC :: "mac \<Rightarrow> bytes \<Rightarrow> bytes \<Rightarrow> string \<Rightarrow> go_error option" where
  "VerifyHMAC mac secret canonical received =
    (let malformed = Errorf [W ErrMalformed, Lit '': missing '', Q signaturePrefix, Lit '' prefix''] in
     case CutPrefix received signaturePrefix of
       None \<Rightarrow> Some malformed
     | Some hexSig \<Rightarrow>
         if hexSig = [] then Some malformed
         else case hex_DecodeString hexSig of
           Inl err \<Rightarrow> Some (Errorf [W ErrMalformed, Lit '': hex decode: '', W err])
         | Inr want \<Rightarrow>
             let got = mac secret canonical in
             if \<not> ConstantTimeCompare got want then Some ErrInvalidSignature else None)"

definition VerifyTimestamp :: "string \<Rightarrow> gotime \<Rightarrow> duration \<Rightarrow> go_error option" where
  "VerifyTimestamp headerVal now skew =
    (if headerVal = [] then Some ErrTimestampMissing
     else case ParseInt headerVal of
       Inl err \<Rightarrow> Some (wrap2 ErrTimestampMalformed err)
     | Inr secs \<Rightarrow>
         let ts = time_Unix secs;
             delta = time_Sub now ts;
             delta = (if delta < 0 then wrap64 (- delta) else delta)
         in if skew < delta
            then Some (Errorf [W ErrTimestampSkewed, Lit '': |now-ts|='', Lit (Duration_String delta),
                               Lit '', skew='', Lit (Duration_String skew)])
            else None)"

definition canonicalMessage :: "string \<Rightarrow> bytes \<Rightarrow> bytes" where
  "canonicalMessage tsHeader body = (canonicalVersion @ '':'' @ tsHeader @ '':'') @ body"

definition Verify ::
  "mac \<Rightarrow> bytes \<Rightarrow> string \<Rightarrow> string \<Rightarrow> bytes \<Rightarrow> gotime \<Rightarrow> duration \<Rightarrow> go_error option" where
  "Verify mac secret sigHeader tsHeader body now skew =
    (case VerifyTimestamp tsHeader now skew of
       Some err \<Rightarrow> Some err
     | None \<Rightarrow> VerifyHMAC mac secret (canonicalMessage tsHeader body) sigHeader)"

text \<open>The signer of the README (\<^verbatim>\<open>README.md\<close>, signing format), written out: the header is \<open>sha256=\<close> and the hex of
  the HMAC of \<open>v0:<timestamp>:<body>\<close>.  It shares no definition with the check.\<close>

definition sign_request :: "mac \<Rightarrow> bytes \<Rightarrow> string \<Rightarrow> bytes \<Rightarrow> string" where
  "sign_request mac secret ts body =
     ''sha256='' @ hex_EncodeToString (mac secret (''v0:'' @ ts @ '':'' @ body))"

subsection \<open>The timestamp check\<close>

text \<open>How far the clock is ahead of the header's instant, in nanoseconds.\<close>

definition lag :: "gotime \<Rightarrow> int \<Rightarrow> int" where
  "lag now secs = instant now - instant (time_Unix secs)"

lemma VerifyTimestamp_None:
  assumes "in64 skew"
  shows "VerifyTimestamp h now skew = None \<longleftrightarrow>
    (\<exists>secs. ParseInt h = Inr secs \<and>
       (\<bar>lag now secs\<bar> \<le> skew \<or> lag now secs \<le> int64_min \<or> skew = int64_max))"
proof (cases "ParseInt h")
  case (Inl e)
  then show ?thesis by (simp add: VerifyTimestamp_def)
next
  case (Inr secs)
  then have "h \<noteq> []" by (auto simp: ParseInt_def)
  then show ?thesis
    using assms Inr
    by (auto simp: VerifyTimestamp_def time_Sub_def lag_def [symmetric] Let_def abs_sat64)
      (auto simp: int64_defs)
qed

lemma ParseInt_err: "ParseInt s = Inl err \<Longrightarrow> \<not> errors_Is err (New t)"
  by (auto simp: ParseInt_def Let_def split: if_splits sum.splits list.splits)

lemma VerifyTimestamp_errors:
  assumes "VerifyTimestamp h now skew = Some e"
  obtains (missing) "h = []" "{s \<in> {ErrTimestampMissing, ErrTimestampMalformed, ErrTimestampSkewed}. errors_Is e s} = {ErrTimestampMissing}"
  | (malformed) err where "h \<noteq> []" "ParseInt h = Inl err"
      "{s \<in> {ErrTimestampMissing, ErrTimestampMalformed, ErrTimestampSkewed}. errors_Is e s} = {ErrTimestampMalformed}"
  | (skewed) secs where "ParseInt h = Inr secs"
      "{s \<in> {ErrTimestampMissing, ErrTimestampMalformed, ErrTimestampSkewed}. errors_Is e s} = {ErrTimestampSkewed}"
proof (cases "h = []")
  case True
  then have "e = ErrTimestampMissing" using assms by (simp add: VerifyTimestamp_def)
  then show thesis using True missing by (auto simp: sig_errs)
next
  case False
  show thesis
  proof (cases "ParseInt h")
    case (Inl err)
    then have n: "\<not> errors_Is err (New t)" for t using ParseInt_err by blast
    have "e = wrap2 ErrTimestampMalformed err" using assms False Inl by (simp add: VerifyTimestamp_def)
    then have "{s \<in> {ErrTimestampMissing, ErrTimestampMalformed, ErrTimestampSkewed}. errors_Is e s} = {ErrTimestampMalformed}"
      using n by (auto simp: sig_errs)
    then show thesis using False Inl malformed by blast
  next
    case (Inr secs)
    then have "{s \<in> {ErrTimestampMissing, ErrTimestampMalformed, ErrTimestampSkewed}. errors_Is e s} = {ErrTimestampSkewed}"
      using assms False by (auto simp: VerifyTimestamp_def Let_def sig_errs split: if_splits)
    then show thesis using Inr skewed by blast
  qed
qed

subsection \<open>The signature check\<close>

lemma VerifyHMAC_None:
  "VerifyHMAC mac secret canonical received = None \<longleftrightarrow>
    (\<exists>hexSig. received = signaturePrefix @ hexSig \<and> hexSig \<noteq> [] \<and>
              hex_DecodeString hexSig = Inr (mac secret canonical))"
proof (cases "CutPrefix received signaturePrefix")
  case None
  then have "received \<noteq> signaturePrefix @ x" for x by auto
  with None show ?thesis by (simp add: VerifyHMAC_def Let_def)
next
  case (Some hexSig)
  then show ?thesis
    by (auto simp: VerifyHMAC_def ConstantTimeCompare_iff split: sum.splits)
qed

lemma canonicalMessage_inj:
  assumes "CHR '':'' \<notin> set t1" "CHR '':'' \<notin> set t2"
    and "canonicalMessage t1 b1 = canonicalMessage t2 b2"
  shows "t1 = t2 \<and> b1 = b2"
  using assms append_eq_conv_noteq [of "CHR '':''" t1 t2 b1 b2] by (simp add: canonicalMessage_def)

lemma Verify_None:
  "Verify mac secret sig ts body now skew = None \<longleftrightarrow>
     VerifyTimestamp ts now skew = None \<and>
     VerifyHMAC mac secret (canonicalMessage ts body) sig = None"
  by (simp add: Verify_def split: option.splits)

lemma canonicalMessage_format: "canonicalMessage ts body = ''v0:'' @ ts @ '':'' @ body"
  by (simp add: canonicalMessage_def canonicalVersion_def)

lemma Verify_signed:
  assumes "length (mac secret (''v0:'' @ Itoa secs @ '':'' @ body)) = 32"
    and "in64 secs" "in64 skew" "\<bar>lag now secs\<bar> \<le> skew"
  shows "Verify mac secret (sign_request mac secret (Itoa secs) body) (Itoa secs) body now skew = None"
proof -
  have "mac secret (''v0:'' @ Itoa secs @ '':'' @ body) \<noteq> []" using assms(1) by auto
  then show ?thesis
    using assms ParseInt_Itoa [of secs]
    by (simp add: Verify_None VerifyTimestamp_None VerifyHMAC_None sign_request_def signaturePrefix_def
        canonicalMessage_format)
qed

subsection \<open>Properties\<close>

definition ex_now :: gotime where
  "ex_now = \<lparr>t_sec = 1767225600 + unixToInternal, t_nsec = 500000000\<rparr>"

definition ex_mac :: mac where
  "ex_mac k m = take 32 (rev m @ k @ replicate 32 (CHR ''0''))"

lemma ex_lag [simp]: "in64 (s + unixToInternal) \<Longrightarrow> lag ex_now s = (1767225600 - s) * Second + 500000000"
  by (simp add: lag_def instant_def ex_now_def algebra_simps)

text \<open>C7. \<open>Verify\<close> accepts exactly the requests whose timestamp header is a decimal \<open>int64\<close> within
  the skew window (or, because \<open>-delta\<close> overflows, at least \<open>2^63\<close> nanoseconds in the future)
  and whose signature header is \<open>sha256=\<close> followed by the hex of the MAC of
  \<open>v0:<timestamp>:<body>\<close>.\<close>

theorem Verify_accepts_iff:
  assumes "in64 skew" "skew \<noteq> int64_max"
  shows "Verify mac secret sig ts body now skew = None \<longleftrightarrow>
    (\<exists>secs hexSig. ParseInt ts = Inr secs \<and>
       (\<bar>lag now secs\<bar> \<le> skew \<or> lag now secs \<le> int64_min) \<and>
       sig = ''sha256='' @ hexSig \<and> hexSig \<noteq> [] \<and>
       hex_DecodeString hexSig = Inr (mac secret (''v0:'' @ ts @ '':'' @ body)))"
  using assms
  by (auto simp: Verify_None VerifyTimestamp_None VerifyHMAC_None signaturePrefix_def canonicalMessage_format)

theorem Verify_accepts_iff_witness:
  "in64 (5 * Minute) \<and> (5 * Minute :: int) \<noteq> int64_max \<and>
   (Verify ex_mac ''k'' ''sha256=zz'' ''1767225600'' ''{}'' ex_now (5 * Minute) = None \<longleftrightarrow>
    (\<exists>secs hexSig. ParseInt ''1767225600'' = Inr secs \<and>
       (\<bar>lag ex_now secs\<bar> \<le> 5 * Minute \<or> lag ex_now secs \<le> int64_min) \<and>
       ''sha256=zz'' = ''sha256='' @ hexSig \<and> hexSig \<noteq> [] \<and>
       hex_DecodeString hexSig = Inr (ex_mac ''k'' (''v0:'' @ ''1767225600'' @ '':'' @ ''{}''))))"
proof -
  have h: "in64 (5 * Minute)" "(5 * Minute :: int) \<noteq> int64_max" by (simp_all add: int64_defs)
  show ?thesis
    using h Verify_accepts_iff [OF h, of ex_mac "''k''" "''sha256=zz''" "''1767225600''" "''{}''" ex_now]
    by blast
qed

text \<open>C20. The replay window has a hole: a timestamp whose instant is \<open>2^63\<close> nanoseconds (about 292
  years) or more after the clock passes \<open>VerifyTimestamp\<close> whatever the skew, because the
  saturated difference is the least \<open>int64\<close> and negating it leaves it negative.  Unix
  milliseconds sent where seconds are expected are such timestamps.\<close>

theorem VerifyTimestamp_far_future_accepted:
  assumes "in64 skew" "ParseInt h = Inr secs" "lag now secs \<le> int64_min"
  shows "VerifyTimestamp h now skew = None"
  using assms by (auto simp: VerifyTimestamp_None)

theorem VerifyTimestamp_far_future_accepted_witness:
  "VerifyTimestamp ''1767225600000'' ex_now (5 * Minute) = None"
proof (rule VerifyTimestamp_far_future_accepted)
  show "in64 (5 * Minute)" by (simp add: int64_defs)
  show "ParseInt ''1767225600000'' = Inr 1767225600000"
    by (simp add: ParseInt_def is_digit_def digit_val_def Let_def)
  show "lag ex_now 1767225600000 \<le> int64_min"
    by (simp add: int64_defs unixToInternal_def)
qed

text \<open>C19. Below that bound the window is the documented one: for every header whose difference to the clock
  (if it has one) fits a \<open>Duration\<close> and is not its least value, the check passes exactly when the
  header is an \<open>int64\<close> with \<open>|now - ts| <= skew\<close>, and otherwise its error is exactly one of the three
  sentinels: missing for an empty header, malformed for one that is not an \<open>int64\<close>, skewed for an instant
  outside the window.\<close>

theorem VerifyTimestamp_window:
  assumes "in64 skew"
    and "\<And>secs. ParseInt h = Inr secs \<Longrightarrow> in64 (lag now secs) \<and> lag now secs \<noteq> int64_min"
  shows "case VerifyTimestamp h now skew of
      None \<Rightarrow> (\<exists>secs. ParseInt h = Inr secs \<and> \<bar>lag now secs\<bar> \<le> skew)
    | Some e \<Rightarrow> (\<exists>k. {s \<in> {ErrTimestampMissing, ErrTimestampMalformed, ErrTimestampSkewed}. errors_Is e s} = {k} \<and>
         (h = [] \<and> k = ErrTimestampMissing \<or>
          h \<noteq> [] \<and> (\<exists>err. ParseInt h = Inl err) \<and> k = ErrTimestampMalformed \<or>
          (\<exists>secs. ParseInt h = Inr secs \<and> skew < \<bar>lag now secs\<bar>) \<and> k = ErrTimestampSkewed))"
proof (cases "VerifyTimestamp h now skew")
  case None
  then obtain secs where s: "ParseInt h = Inr secs"
    "\<bar>lag now secs\<bar> \<le> skew \<or> lag now secs \<le> int64_min \<or> skew = int64_max"
    using assms(1) by (auto simp: VerifyTimestamp_None)
  with assms(2) [OF s(1)] have "\<bar>lag now secs\<bar> \<le> skew" by (auto simp: int64_defs)
  with None s(1) show ?thesis by auto
next
  case (Some e)
  then have out: "skew < \<bar>lag now secs\<bar>" if "ParseInt h = Inr secs" for secs
    using that VerifyTimestamp_None [OF assms(1), of h now] by (auto simp: not_le [symmetric])
  show ?thesis
    using Some
  proof (cases rule: VerifyTimestamp_errors)
    case missing
    then show ?thesis using Some by auto
  next
    case (malformed err)
    then show ?thesis using Some by auto
  next
    case (skewed secs)
    then show ?thesis using Some out by auto
  qed
qed

theorem VerifyTimestamp_window_witness:
  "(\<exists>e. VerifyTimestamp ''1767225000'' ex_now (5 * Minute) = Some e \<and>
      {s \<in> {ErrTimestampMissing, ErrTimestampMalformed, ErrTimestampSkewed}. errors_Is e s} = {ErrTimestampSkewed}) \<and>
   (\<exists>e. VerifyTimestamp [] ex_now (5 * Minute) = Some e \<and>
      {s \<in> {ErrTimestampMissing, ErrTimestampMalformed, ErrTimestampSkewed}. errors_Is e s} = {ErrTimestampMissing})"
proof -
  have i: "in64 (5 * Minute)" by (simp add: int64_defs)
  have p: "ParseInt ''1767225000'' = Inr 1767225000" "ParseInt [] = Inr secs \<longleftrightarrow> False" for secs
    by (simp_all add: ParseInt_def is_digit_def digit_val_def Let_def)
  have l: "in64 (lag ex_now 1767225000) \<and> lag ex_now 1767225000 \<noteq> int64_min" "\<not> \<bar>lag ex_now 1767225000\<bar> \<le> 5 * Minute"
    by (simp_all add: int64_defs unixToInternal_def)
  show ?thesis
    using VerifyTimestamp_window [OF i, of "''1767225000''" ex_now] VerifyTimestamp_window [OF i, of "[]" ex_now] p l
    by (auto split: option.splits)
qed

text \<open>C17. A signature header binds the timestamp and the body: two requests accepted with the same
  signature (at whatever clocks) have the same timestamp text and the same body, unless the MAC
  collides on their two distinct canonical messages.\<close>

theorem Verify_binds_message:
  assumes "Verify mac secret sig ts1 body1 now1 skew1 = None"
    and "Verify mac secret sig ts2 body2 now2 skew2 = None"
    and "in64 skew1" "in64 skew2"
  shows "ts1 = ts2 \<and> body1 = body2 \<or>
    canonicalMessage ts1 body1 \<noteq> canonicalMessage ts2 body2 \<and>
    mac secret (canonicalMessage ts1 body1) = mac secret (canonicalMessage ts2 body2)"
proof -
  have "CHR '':'' \<notin> set ts1" "CHR '':'' \<notin> set ts2"
    using assms ParseInt_no_colon by (auto simp: Verify_None VerifyTimestamp_None)
  moreover have "mac secret (canonicalMessage ts1 body1) = mac secret (canonicalMessage ts2 body2)"
    using assms(1,2) by (auto simp: Verify_None VerifyHMAC_None)
  ultimately show ?thesis using canonicalMessage_inj by blast
qed

text \<open>For a MAC without collisions, a signature is good for one timestamp and body only.\<close>

definition ex_free_mac :: mac where
  "ex_free_mac k m = k @ m"

theorem Verify_binds_message_witness:
  "{(ts, body). Verify ex_free_mac ''k'' (sign_request ex_free_mac ''k'' (Itoa 1767225600) ''{}'') ts body ex_now (5 * Minute) = None} =
     {(Itoa 1767225600, ''{}'')}"
proof -
  let ?sig = "sign_request ex_free_mac ''k'' (Itoa 1767225600) ''{}''"
  have i: "in64 (5 * Minute)" by (simp add: int64_defs)
  have "ex_free_mac ''k'' m \<noteq> []" for m by (simp add: ex_free_mac_def)
  then have v: "Verify ex_free_mac ''k'' ?sig (Itoa 1767225600) ''{}'' ex_now (5 * Minute) = None"
    using ParseInt_Itoa [of 1767225600]
    unfolding Verify_None VerifyTimestamp_None [OF i] VerifyHMAC_None sign_request_def signaturePrefix_def canonicalMessage_format
    by (simp add: int64_defs unixToInternal_def)
  have "ts = Itoa 1767225600 \<and> body = ''{}''"
    if "Verify ex_free_mac ''k'' ?sig ts body ex_now (5 * Minute) = None" for ts body
    using Verify_binds_message [OF that v i i] by (auto simp: ex_free_mac_def)
  then show ?thesis using v by auto
qed

end
