(* ===== verification/Jsm.thy ===== *)
theory Jsm
  imports Jsm_Payload Registry Signature
begin

text \<open>
  \<^verbatim>\<open>internal/webhook/jsm\<close>: the Jira Service Management provider (\<^verbatim>\<open>signature.go\<close>, \<^verbatim>\<open>cr.go\<close>,
  \<^verbatim>\<open>response.go\<close>, \<^verbatim>\<open>provider.go\<close>, \<^verbatim>\<open>init.go\<close>).  The parameters are HMAC-SHA256 (\<open>mac\<close>), the
  Unicode tables and the texts of \<open>encoding/json\<close>'s errors.  A clock is a function from the wall
  clock's reading to the time it reports, so \<open>time.Now\<close> is the identity.
\<close>

subsection \<open>signature.go\<close>

record signature_config =
  SecretBytes :: bytes
  SigHeader :: string
  TSHeader :: string
  Skew :: duration
  SigNow :: "(gotime \<Rightarrow> gotime) option"

definition time_Now :: "gotime \<Rightarrow> gotime" where "time_Now wall = wall"

definition VerifySignature ::
  "mac \<Rightarrow> gotime \<Rightarrow> request \<Rightarrow> bytes \<Rightarrow> signature_config \<Rightarrow> go_error option" where
  "VerifySignature mac wall r body cfg =
    (let now = (case SigNow cfg of None \<Rightarrow> time_Now | Some f \<Rightarrow> f)
     in Verify mac (SecretBytes cfg) (Header_Get (ReqHeader r) (SigHeader cfg))
          (Header_Get (ReqHeader r) (TSHeader cfg)) body (now wall) (Skew cfg))"

subsection \<open>cr.go\<close>

definition AnnotationIssue :: string where "AnnotationIssue = ''webhookd.io/jsm-issue-key''"

definition BuildSpec :: "string \<Rightarrow> string \<Rightarrow> string \<Rightarrow> string \<Rightarrow> string \<Rightarrow> saml_spec" where
  "BuildSpec providerGroupID role project identityProviderID description =
     \<lparr>IdentityProviderID = identityProviderID, ProviderGroupID = providerGroupID,
      Description = description, RoleRef = \<lparr>RoleName = role\<rparr>, ProjectRefs = [\<lparr>ProjectName = project\<rparr>]\<rparr>"

definition BuildDescription :: "string \<Rightarrow> string" where
  "BuildDescription issueKey = ''Provisioned from JSM '' @ issueKey"

definition BuildSAMLGroupMapping :: "string \<Rightarrow> string \<Rightarrow> saml_spec \<Rightarrow> saml_group_mapping" where
  "BuildSAMLGroupMapping name namespace spec =
     \<lparr>TypeMeta = \<lparr>APIVersion = GroupVersion_String, TypeKind = ''SAMLGroupMapping''\<rparr>,
      ObjectMeta = \<lparr>Name = name, Namespace = namespace, Labels = Map.empty, Annotations = Map.empty, Generation = 0\<rparr>,
      Spec = spec,
      Status = \<lparr>StatusObservedGeneration = 0, Conditions = []\<rparr>\<rparr>"

definition CRName :: "unicode \<Rightarrow> string \<Rightarrow> string" where
  "CRName u issueKey = ''jsm-'' @ ToLower u issueKey"

text \<open>The loop over the conditions returns at the first one that is \<open>Ready=True\<close>.\<close>

fun any_ready :: "condition list \<Rightarrow> bool" where
  "any_ready [] = False"
| "any_ready (c # cs) =
    (if CondType c = ConditionTypeReady \<and> CondStatus c = ConditionTrue then True else any_ready cs)"

definition IsReady :: ready_check where
  "IsReady obj applyGen =
    (case obj of
       SAMLGroupMapping cr \<Rightarrow>
         let og = StatusObservedGeneration (Status cr) in
         if og < applyGen then (False, og)
         else if any_ready (Conditions (Status cr)) then (True, og)
         else (False, og)
     | _ \<Rightarrow> (False, 0))"

subsection \<open>response.go\<close>

record response_body =
  RespStatus :: string
  RespReason :: string
  RespCRName :: string
  RespNamespace :: string
  RespObservedGeneration :: int
  RespTraceID :: string
  RespRequestID :: string

definition jsm_Build :: "exec_result \<Rightarrow> string \<Rightarrow> string \<Rightarrow> response_body" where
  "jsm_Build res traceID requestID =
     \<lparr>RespStatus = (case Kind res of ResultNoop \<Rightarrow> ''noop'' | ResultReady \<Rightarrow> ''success'' | _ \<Rightarrow> ''failure''),
      RespReason = Reason res, RespCRName = ResCRName res, RespNamespace = ResNamespace res,
      RespObservedGeneration = ObservedGeneration res, RespTraceID = traceID, RespRequestID = requestID\<rparr>"

text \<open>The struct's members as the encoder prints them: tag names in order, \<open>omitempty\<close> honoured.\<close>

definition omitempty_str :: "string \<Rightarrow> string \<Rightarrow> (string \<times> json_field) list" where
  "omitempty_str tag s = (if s = [] then [] else [(tag, FStr s)])"

definition response_members :: "response_body \<Rightarrow> (string \<times> json_field) list" where
  "response_members b =
     [(''status'', FStr (RespStatus b))] @
     omitempty_str ''reason'' (RespReason b) @
     omitempty_str ''crName'' (RespCRName b) @
     omitempty_str ''namespace'' (RespNamespace b) @
     (if RespObservedGeneration b = 0 then [] else [(''observedGeneration'', FInt (RespObservedGeneration b))]) @
     omitempty_str ''traceId'' (RespTraceID b) @
     omitempty_str ''requestId'' (RespRequestID b)"

definition BuildResponse :: "exec_result \<Rightarrow> string \<Rightarrow> string \<Rightarrow> (string \<times> json_field) list" where
  "BuildResponse res traceID requestID = response_members (jsm_Build res traceID requestID)"

subsection \<open>provider.go\<close>

record provider_config =
  PTriggerStatus :: string
  PFieldProviderGroupID :: string
  PFieldRole :: string
  PFieldProject :: string
  PIdentityProviderID :: string
  PNamespace :: string
  PSignature :: signature_config

definition recordNoop :: "metrics option \<Rightarrow> metrics option" where
  "recordNoop = map_option (Inc JSMNoopTotal [])"

definition recordParseErr :: "string \<Rightarrow> metrics option \<Rightarrow> metrics option" where
  "recordParseErr reason = map_option (Inc JSMPayloadParseErrors [reason])"

definition decodeReason :: "go_error \<Rightarrow> string" where
  "decodeReason err =
    (if errors_Is err ErrMissingIssue \<or> errors_Is err ErrMissingIssueKey \<or> errors_Is err ErrMissingStatus
     then ''missing_field'' else ''invalid_json'')"

definition extractReason :: "go_error \<Rightarrow> string" where
  "extractReason err =
    (if errors_Is err ErrFieldMissing then ''missing_field''
     else if errors_Is err ErrFieldEmpty then ''empty_field''
     else if errors_Is err ErrFieldType then ''wrong_type''
     else ''missing_field'')"

definition classifyExtractErr :: "go_error \<Rightarrow> go_error" where
  "classifyExtractErr err =
    (if errors_Is err ErrFieldMissing \<or> errors_Is err ErrFieldEmpty then wrap2 ErrBadRequest err
     else if errors_Is err ErrFieldType then wrap2 ErrUnprocessable err
     else err)"

definition Handle ::
  "unicode \<Rightarrow> json_text \<Rightarrow> provider_config \<Rightarrow> ctx \<Rightarrow> bytes \<Rightarrow> metrics option \<Rightarrow>
   (go_error + action) \<times> metrics option" where
  "Handle u jt cfg c body m =
    (case Decode jt body of
       Inl err \<Rightarrow> (Inl (wrap2 ErrBadRequest err), recordParseErr (decodeReason err) m)
     | Inr p \<Rightarrow>
       if payload_Status p \<noteq> PTriggerStatus cfg then
         (Inr (NoopAction (''ticket '' @ IssueKey p @ '' status '' @ Quote u (payload_Status p) @
                '' does not match trigger '' @ Quote u (PTriggerStatus cfg))), recordNoop m)
       else case ExtractString jt body p (PFieldProviderGroupID cfg) of
         Inl err \<Rightarrow> (Inl (classifyExtractErr err), recordParseErr (extractReason err) m)
       | Inr providerGroupID \<Rightarrow>
         (case ExtractString jt body p (PFieldRole cfg) of
            Inl err \<Rightarrow> (Inl (classifyExtractErr err), recordParseErr (extractReason err) m)
          | Inr role \<Rightarrow>
            (case ExtractString jt body p (PFieldProject cfg) of
               Inl err \<Rightarrow> (Inl (classifyExtractErr err), recordParseErr (extractReason err) m)
             | Inr project \<Rightarrow>
               let spec = BuildSpec providerGroupID role project (PIdentityProviderID cfg) (BuildDescription (IssueKey p));
                   cr = BuildSAMLGroupMapping (CRName u (IssueKey p)) (PNamespace cfg) spec
               in (Inr (ApplyAction \<lparr>Object = SAMLGroupMapping cr, ListObject = SAMLGroupMappingList,
                     ReadyCheck = IsReady, ActAnnotations = [AnnotationIssue \<mapsto> IssueKey p],
                     ActKind = ''SAMLGroupMapping'', Source = ''jsm''\<rparr>), m))))"

text \<open>\<open>New\<close> copies the configuration and defaults the clock; the provider is its methods.\<close>

definition jsm_New :: "unicode \<Rightarrow> json_text \<Rightarrow> mac \<Rightarrow> provider_config \<Rightarrow> provider" where
  "jsm_New u jt mac cfg0 =
    (let sig = PSignature cfg0;
         cfg = (if SigNow sig = None then cfg0\<lparr>PSignature := sig\<lparr>SigNow := Some time_Now\<rparr>\<rparr> else cfg0)
     in \<lparr>prov_Name = ''jsm'',
         prov_VerifySignature = (\<lambda>wall r body. VerifySignature mac wall r body (PSignature cfg)),
         prov_Handle = Handle u jt cfg,
         prov_BuildResponse = BuildResponse\<rparr>)"

subsection \<open>init.go\<close>

definition factory :: "unicode \<Rightarrow> json_text \<Rightarrow> mac \<Rightarrow> provider_factory" where
  "factory u jt mac cfg =
     Inr (jsm_New u jt mac
       \<lparr>PTriggerStatus = TriggerStatus (JSM cfg), PFieldProviderGroupID = FieldProviderGroupID (JSM cfg),
        PFieldRole = FieldRole (JSM cfg), PFieldProject = FieldProject (JSM cfg),
        PIdentityProviderID = JsmIdentityProviderID (JSM cfg), PNamespace = CRNamespace (CR cfg),
        PSignature = \<lparr>SecretBytes = SigningSecret cfg, SigHeader = SignatureHeader cfg,
                      TSHeader = TimestampHeader cfg, Skew = TimestampSkew cfg, SigNow = None\<rparr>\<rparr>)"

text \<open>\<open>DefaultRegistry\<close> after the package's \<open>init\<close>.\<close>

definition DefaultRegistry :: "unicode \<Rightarrow> json_text \<Rightarrow> mac \<Rightarrow> string + registry" where
  "DefaultRegistry u jt mac = Register u ''jsm'' (factory u jt mac) NewRegistry"

lemma DefaultRegistry_ok: "DefaultRegistry u jt mac = Inr [''jsm'' \<mapsto> factory u jt mac]"
  by (simp add: DefaultRegistry_def Register_def NewRegistry_def)

lemma jsm_New_simps [simp]:
  "prov_Name (jsm_New u jt mac cfg) = ''jsm''"
  "prov_BuildResponse (jsm_New u jt mac cfg) = BuildResponse"
  by (simp_all add: jsm_New_def Let_def)

lemma Handle_signature_irrelevant [simp]: "Handle u jt (cfg\<lparr>PSignature := s\<rparr>) = Handle u jt cfg"
  by (intro ext) (simp add: Handle_def split: sum.split)

lemma jsm_New_Handle [simp]: "prov_Handle (jsm_New u jt mac cfg) = Handle u jt cfg"
  by (simp add: jsm_New_def Let_def)

lemma jsm_New_VerifySignature [simp]:
  "prov_VerifySignature (jsm_New u jt mac cfg) wall r body = VerifySignature mac wall r body (PSignature cfg)"
  by (auto simp: jsm_New_def Let_def VerifySignature_def)

subsection \<open>Readiness and names\<close>

lemma any_ready_iff: "any_ready cs \<longleftrightarrow> (\<exists>c \<in> set cs. CondType c = ConditionTypeReady \<and> CondStatus c = ConditionTrue)"
  by (induction cs) auto

lemma IsReady_iff:
  "IsReady obj gen = (True, og) \<longleftrightarrow>
     (\<exists>cr. obj = SAMLGroupMapping cr \<and> og = StatusObservedGeneration (Status cr) \<and> gen \<le> og \<and>
        (\<exists>c \<in> set (Conditions (Status cr)). CondType c = ConditionTypeReady \<and> CondStatus c = ConditionTrue))"
  by (auto simp: IsReady_def Let_def any_ready_iff split: client_object.splits if_splits)

interpretation jsm_ready: readiness IsReady
  by unfold_locales (auto simp: IsReady_iff)

text \<open>RFC 1123 labels, which Kubernetes requires of the name, and the shape of Jira issue keys: a project
  key of upper-case letters, digits and underscores, a dash and a number.\<close>

definition is_lower_alnum :: "char \<Rightarrow> bool" where
  "is_lower_alnum c \<longleftrightarrow> 97 \<le> code c \<and> code c \<le> 122 \<or> is_digit c"

definition dns1123_label :: "string \<Rightarrow> bool" where
  "dns1123_label s \<longleftrightarrow> s \<noteq> [] \<and> length s \<le> 63 \<and> is_lower_alnum (hd s) \<and> is_lower_alnum (last s) \<and>
     list_all (\<lambda>c. is_lower_alnum c \<or> c = CHR ''-'') s"

definition is_upper :: "char \<Rightarrow> bool" where "is_upper c \<longleftrightarrow> 65 \<le> code c \<and> code c \<le> 90"

definition jira_key :: "string \<Rightarrow> bool" where
  "jira_key s \<longleftrightarrow> (\<exists>proj num. s = proj @ CHR ''-'' # num \<and> proj \<noteq> [] \<and> num \<noteq> [] \<and>
     list_all (\<lambda>c. is_upper c \<or> is_digit c \<or> c = CHR ''_'') proj \<and> list_all is_digit num)"

lemma ascii_lower_simps:
  "is_upper c \<Longrightarrow> is_lower_alnum (ascii_lower c)" "is_digit c \<Longrightarrow> ascii_lower c = c"
  "ascii_lower (CHR ''-'') = CHR ''-''" "ascii_lower (CHR ''_'') = CHR ''_''"
  by (auto simp: is_upper_def is_lower_alnum_def ascii_lower_def is_digit_def)

lemma jira_key_chars: "jira_key s \<Longrightarrow> c \<in> set s \<Longrightarrow> is_upper c \<or> is_digit c \<or> c \<in> {CHR ''-'', CHR ''_''}"
  by (auto simp: jira_key_def list_all_iff)

lemma jira_key_ascii: "jira_key s \<Longrightarrow> is_ascii s"
  using jira_key_chars by (fastforce simp: is_ascii_def list_all_iff is_upper_def is_digit_def)

lemma CRName_jira: "jira_key s \<Longrightarrow> CRName u s = ''jsm-'' @ map ascii_lower s"
  by (simp add: CRName_def ToLower_ascii jira_key_ascii)

lemma CRName_label:
  assumes "jira_key s"
  shows "dns1123_label (CRName u s) \<longleftrightarrow> CHR ''_'' \<notin> set s \<and> length s \<le> 59"
proof -
  have digit: "is_digit c \<Longrightarrow> is_lower_alnum c" for c by (simp add: is_lower_alnum_def)
  have "\<not> is_lower_alnum (CHR ''_'')" by code_simp
  then have all: "is_lower_alnum (ascii_lower c) \<or> ascii_lower c = CHR ''-'' \<longleftrightarrow> c \<noteq> CHR ''_''" if "c \<in> set s" for c
    using jira_key_chars [OF assms that] digit by (auto simp: ascii_lower_simps)
  obtain proj num where s: "s = proj @ CHR ''-'' # num" "num \<noteq> []" "list_all is_digit num"
    using assms by (auto simp: jira_key_def)
  have "is_digit (last s)" using s by (simp add: list_all_iff)
  then have "is_lower_alnum (last (map ascii_lower s))"
    using s by (simp add: last_map ascii_lower_simps is_lower_alnum_def)
  moreover have "map ascii_lower s \<noteq> []" using s(1) by simp
  moreover have "list_all (\<lambda>c. is_lower_alnum c \<or> c = CHR ''-'') (map ascii_lower s) \<longleftrightarrow> CHR ''_'' \<notin> set s"
    using all by (auto simp: list_all_iff)
  moreover have "list_all is_lower_alnum ''jsm''" by code_simp
  ultimately show ?thesis by (auto simp: CRName_jira [OF assms] dns1123_label_def)
qed

lemma ascii_lower_inj:
  assumes "is_upper a \<or> is_digit a \<or> a \<in> {CHR ''-'', CHR ''_''}" "is_upper b \<or> is_digit b \<or> b \<in> {CHR ''-'', CHR ''_''}"
    and "ascii_lower a = ascii_lower b"
  shows "a = b"
proof -
  have c: "code (ascii_lower x) = (if is_upper x then code x + 32 else code x)" for x
    by (auto simp: ascii_lower_def is_upper_def)
  have r: "65 \<le> code x \<and> code x \<le> 90 \<or> 48 \<le> code x \<and> code x \<le> 57 \<or> code x = 45 \<or> code x = 95"
    if "is_upper x \<or> is_digit x \<or> x \<in> {CHR ''-'', CHR ''_''}" for x
    using that by (auto simp: is_upper_def is_digit_def)
  have n: "m = n" if "65 \<le> m \<and> m \<le> 90 \<or> 48 \<le> m \<and> m \<le> 57 \<or> m = 45 \<or> m = 95"
    "65 \<le> n \<and> n \<le> 90 \<or> 48 \<le> n \<and> n \<le> 57 \<or> n = 45 \<or> n = 95"
    "(if 65 \<le> m \<and> m \<le> 90 then m + 32 else m) = (if 65 \<le> n \<and> n \<le> 90 then n + 32 else n)" for m n :: nat
    using that by (auto split: if_splits)
  have "code (ascii_lower a) = code (ascii_lower b)" using assms(3) by simp
  then have "code a = code b"
    using n [OF r [OF assms(1)] r [OF assms(2)]] unfolding c is_upper_def by blast
  then show ?thesis by simp
qed

lemma CRName_inj:
  assumes "jira_key s" "jira_key t" "CRName u s = CRName u t"
  shows "s = t"
proof -
  have "map ascii_lower s = map ascii_lower t" using assms by (simp add: CRName_jira)
  moreover have "inj_on ascii_lower (set s \<union> set t)"
    using jira_key_chars [OF assms(1)] jira_key_chars [OF assms(2)]
    by (intro inj_onI) (metis UnE ascii_lower_inj)
  ultimately show ?thesis by (rule map_inj_on)
qed

subsection \<open>What Handle returns\<close>

lemma only_Is_sentinel:
  "only_Is e k \<Longrightarrow> errors_Is e ErrFieldMissing \<longleftrightarrow> k = ErrFieldMissing"
  "only_Is e k \<Longrightarrow> errors_Is e ErrFieldEmpty \<longleftrightarrow> k = ErrFieldEmpty"
  "only_Is e k \<Longrightarrow> errors_Is e ErrFieldType \<longleftrightarrow> k = ErrFieldType"
  "only_Is e k \<Longrightarrow> errors_Is e ErrMissingIssue \<longleftrightarrow> k = ErrMissingIssue"
  "only_Is e k \<Longrightarrow> errors_Is e ErrMissingIssueKey \<longleftrightarrow> k = ErrMissingIssueKey"
  "only_Is e k \<Longrightarrow> errors_Is e ErrMissingStatus \<longleftrightarrow> k = ErrMissingStatus"
  "only_Is e k \<Longrightarrow> errors_Is e ErrBadRequest \<longleftrightarrow> k = ErrBadRequest"
  "only_Is e k \<Longrightarrow> errors_Is e ErrUnprocessable \<longleftrightarrow> k = ErrUnprocessable"
  unfolding only_Is_def jsm_errs ErrBadRequest_def ErrUnprocessable_def by metis+

lemma sentinel_neq [simp]:
  "ErrFieldType \<noteq> ErrFieldMissing" "ErrFieldType \<noteq> ErrFieldEmpty" "ErrFieldEmpty \<noteq> ErrFieldMissing"
  "ErrFieldMissing \<noteq> ErrFieldType" "ErrFieldEmpty \<noteq> ErrFieldType" "ErrFieldMissing \<noteq> ErrFieldEmpty"
  "ErrFieldType \<noteq> ErrBadRequest" "ErrFieldMissing \<noteq> ErrBadRequest" "ErrFieldEmpty \<noteq> ErrBadRequest"
  "ErrFieldType \<noteq> ErrUnprocessable" "ErrFieldMissing \<noteq> ErrUnprocessable" "ErrFieldEmpty \<noteq> ErrUnprocessable"
  "ErrBadRequest \<noteq> ErrUnprocessable" "ErrUnprocessable \<noteq> ErrBadRequest"
  by (simp_all add: jsm_errs ErrBadRequest_def ErrUnprocessable_def)

lemma errors_Is_wrap_class:
  "errors_Is (wrap2 k e) ErrBadRequest \<longleftrightarrow> errors_Is k ErrBadRequest \<or> errors_Is e ErrBadRequest"
  "errors_Is (wrap2 k e) ErrUnprocessable \<longleftrightarrow> errors_Is k ErrUnprocessable \<or> errors_Is e ErrUnprocessable"
  "errors_Is ErrBadRequest ErrUnprocessable \<longleftrightarrow> False" "errors_Is ErrUnprocessable ErrBadRequest \<longleftrightarrow> False"
  by (simp_all add: ErrBadRequest_def ErrUnprocessable_def)

lemma extract_class:
  assumes "ExtractString jt body p f = Inl e"
  shows "errors_Is (classifyExtractErr e) ErrUnprocessable \<longleftrightarrow> only_Is e ErrFieldType"
    and "errors_Is (classifyExtractErr e) ErrBadRequest \<longleftrightarrow> \<not> only_Is e ErrFieldType"
    and "extractReason e \<in> {''missing_field'', ''empty_field'', ''wrong_type''}"
proof -
  have ft: "only_Is e ErrFieldType \<longleftrightarrow> k = ErrFieldType" if "only_Is e k" "k \<in> {ErrFieldMissing, ErrFieldEmpty, ErrFieldType}" for k
    using that only_Is_sentinel(3) [of e] by auto
  obtain k where k: "only_Is e k" "k \<in> {ErrFieldMissing, ErrFieldEmpty, ErrFieldType}"
    using assms by (cases rule: ExtractString_err) auto
  then show "errors_Is (classifyExtractErr e) ErrUnprocessable \<longleftrightarrow> only_Is e ErrFieldType"
    and "errors_Is (classifyExtractErr e) ErrBadRequest \<longleftrightarrow> \<not> only_Is e ErrFieldType"
    unfolding ft [OF k] by (auto simp: classifyExtractErr_def only_Is_sentinel [OF k(1)] errors_Is_wrap_class)
  show "extractReason e \<in> {''missing_field'', ''empty_field'', ''wrong_type''}"
    by (simp add: extractReason_def)
qed

text \<open>The first of the configured fields that does not extract, in the order \<open>Handle\<close> reads them.\<close>

definition first_extract_error :: "json_text \<Rightarrow> bytes \<Rightarrow> payload \<Rightarrow> provider_config \<Rightarrow> go_error option" where
  "first_extract_error jt body p cfg =
    (case ExtractString jt body p (PFieldProviderGroupID cfg) of Inl e \<Rightarrow> Some e
     | Inr _ \<Rightarrow> (case ExtractString jt body p (PFieldRole cfg) of Inl e \<Rightarrow> Some e
     | Inr _ \<Rightarrow> (case ExtractString jt body p (PFieldProject cfg) of Inl e \<Rightarrow> Some e | Inr _ \<Rightarrow> None)))"

lemma first_extract_error_Some:
  "first_extract_error jt body p cfg = Some e \<Longrightarrow> \<exists>f. ExtractString jt body p f = Inl e"
  by (auto simp: first_extract_error_def split: sum.splits)

definition applied_action :: "unicode \<Rightarrow> provider_config \<Rightarrow> string \<Rightarrow> string \<Rightarrow> string \<Rightarrow> string \<Rightarrow> apply_action" where
  "applied_action u cfg key g role project =
     \<lparr>Object = SAMLGroupMapping (BuildSAMLGroupMapping (CRName u key) (PNamespace cfg)
        (BuildSpec g role project (PIdentityProviderID cfg) (BuildDescription key))),
      ListObject = SAMLGroupMappingList, ReadyCheck = IsReady, ActAnnotations = [AnnotationIssue \<mapsto> key],
      ActKind = ''SAMLGroupMapping'', Source = ''jsm''\<rparr>"

lemma Handle_cases:
  obtains (undecodable) e where "Decode jt body = Inl e"
      "Handle u jt cfg c body m = (Inl (wrap2 ErrBadRequest e), recordParseErr (decodeReason e) m)"
  | (other_status) p s where "Decode jt body = Inr p" "payload_Status p \<noteq> PTriggerStatus cfg"
      "Handle u jt cfg c body m = (Inr (NoopAction s), recordNoop m)"
  | (bad_field) p e where "Decode jt body = Inr p" "payload_Status p = PTriggerStatus cfg"
      "first_extract_error jt body p cfg = Some e"
      "Handle u jt cfg c body m = (Inl (classifyExtractErr e), recordParseErr (extractReason e) m)"
  | (applies) p g ro pr where "Decode jt body = Inr p" "payload_Status p = PTriggerStatus cfg"
      "first_extract_error jt body p cfg = None"
      "ExtractString jt body p (PFieldProviderGroupID cfg) = Inr g"
      "ExtractString jt body p (PFieldRole cfg) = Inr ro" "ExtractString jt body p (PFieldProject cfg) = Inr pr"
      "Handle u jt cfg c body m = (Inr (ApplyAction (applied_action u cfg (IssueKey p) g ro pr)), m)"
proof (cases "Decode jt body")
  case (Inl e)
  then show thesis using undecodable by (simp add: Handle_def)
next
  case (Inr p)
  note p = Inr
  show thesis
  proof (cases "payload_Status p = PTriggerStatus cfg")
    case False
    then show thesis using other_status p by (simp add: Handle_def)
  next
    case True
    show thesis
    proof (cases "first_extract_error jt body p cfg")
      case None
      then show thesis
        using applies True p
        by (auto simp: Handle_def first_extract_error_def applied_action_def Let_def split: sum.splits)
    next
      case (Some e)
      then show thesis
        using bad_field True p by (auto simp: Handle_def first_extract_error_def split: sum.splits)
    qed
  qed
qed

lemma Handle_error_class:
  assumes "Handle u jt cfg c body m = (Inl e, m')"
  shows "errors_Is e ErrBadRequest \<longleftrightarrow> \<not> errors_Is e ErrUnprocessable"
    and "errors_Is e ErrUnprocessable \<longleftrightarrow>
      (\<exists>p x. Decode jt body = Inr p \<and> payload_Status p = PTriggerStatus cfg \<and>
         first_extract_error jt body p cfg = Some x \<and> only_Is x ErrFieldType)"
proof -
  have "(errors_Is e ErrBadRequest \<longleftrightarrow> \<not> errors_Is e ErrUnprocessable) \<and> (errors_Is e ErrUnprocessable \<longleftrightarrow>
      (\<exists>p x. Decode jt body = Inr p \<and> payload_Status p = PTriggerStatus cfg \<and>
         first_extract_error jt body p cfg = Some x \<and> only_Is x ErrFieldType))"
  proof (cases rule: Handle_cases [of jt body u cfg c m])
    case (undecodable x)
    obtain k where k: "k \<in> {ErrInvalidJSON, ErrMissingIssue, ErrMissingIssueKey, ErrMissingStatus}" "only_Is x k"
      using Decode_err_only [OF undecodable(1)] by blast
    have "k \<noteq> ErrUnprocessable" using k(1) by (auto simp: jsm_errs ErrUnprocessable_def)
    then show ?thesis
      using undecodable assms by (auto simp: errors_Is_wrap_class only_Is_sentinel [OF k(2)])
  next
    case (bad_field p x)
    then obtain f where "ExtractString jt body p f = Inl x" using first_extract_error_Some by blast
    from extract_class [OF this] show ?thesis using bad_field assms by auto
  qed (use assms in auto)
  then show "errors_Is e ErrBadRequest \<longleftrightarrow> \<not> errors_Is e ErrUnprocessable"
    and "errors_Is e ErrUnprocessable \<longleftrightarrow>
      (\<exists>p x. Decode jt body = Inr p \<and> payload_Status p = PTriggerStatus cfg \<and>
         first_extract_error jt body p cfg = Some x \<and> only_Is x ErrFieldType)" by blast+
qed

interpretation jsm_contract: provider_contract "jsm_New u jt mac cfg" for u jt mac cfg
proof unfold_locales
  fix c b m e m'
  assume "prov_Handle (jsm_New u jt mac cfg) c b m = (Inl e, m')"
  then show "errors_Is e ErrBadRequest \<or> errors_Is e ErrUnprocessable"
    using Handle_error_class(1) by auto
next
  fix c b m a m'
  assume "prov_Handle (jsm_New u jt mac cfg) c b m = (Inr a, m')"
  then show "a \<noteq> NilAction" by (cases rule: Handle_cases [of jt b u cfg c m]) auto
next
  fix c b m
  show "gauge (snd (prov_Handle (jsm_New u jt mac cfg) c b m)) = gauge m"
    by (cases rule: Handle_cases [of jt b u cfg c m])
      (simp_all add: recordNoop_def recordParseErr_def JSMNoopTotal_def JSMPayloadParseErrors_def HTTPRequests_def)
qed

interpretation jsm_registry: named_registry "[''jsm'' \<mapsto> factory u jt mac]" for u jt mac
  by unfold_locales (auto simp: factory_def split: if_splits)

subsection \<open>The encoded response\<close>

definition opt_str :: "string \<Rightarrow> json option" where
  "opt_str s = (if s = [] then None else Some (JStr (to_valid s)))"

lemma response_members_keys: "distinct (map fst (response_members b)) \<and> list_all is_ascii (map fst (response_members b))"
  by (auto simp: response_members_def omitempty_str_def is_ascii_def)

lemma map_of_response_members:
  "map_of (map (\<lambda>(k, v). (to_valid k, field_json v)) (response_members b)) =
     [''status'' \<mapsto> JStr (to_valid (RespStatus b))] ++
     (\<lambda>k. if k = ''reason'' then opt_str (RespReason b) else if k = ''crName'' then opt_str (RespCRName b)
        else if k = ''namespace'' then opt_str (RespNamespace b)
        else if k = ''observedGeneration'' then
          (if RespObservedGeneration b = 0 then None else Some (JNum (Itoa (RespObservedGeneration b))))
        else if k = ''traceId'' then opt_str (RespTraceID b)
        else if k = ''requestId'' then opt_str (RespRequestID b) else None)"
proof -
  have v: "to_valid ''status'' = ''status''" "to_valid ''reason'' = ''reason''" "to_valid ''crName'' = ''crName''"
    "to_valid ''namespace'' = ''namespace''" "to_valid ''observedGeneration'' = ''observedGeneration''"
    "to_valid ''traceId'' = ''traceId''" "to_valid ''requestId'' = ''requestId''"
    by (simp_all add: to_valid_ascii is_ascii_def)
  show ?thesis
    by (rule ext) (simp add: response_members_def omitempty_str_def opt_str_def v map_add_def)
qed

subsection \<open>Properties\<close>

definition ex_pcfg :: provider_config where
  "ex_pcfg = \<lparr>PTriggerStatus = ''Go'', PFieldProviderGroupID = ''cf1'', PFieldRole = ''cf2'', PFieldProject = ''cf3'',
     PIdentityProviderID = ''idp'', PNamespace = ''wiz'',
     PSignature = \<lparr>SecretBytes = ''k'', SigHeader = ''X-Webhook-Signature'', TSHeader = ''X-Webhook-Timestamp'',
                   Skew = 300 * Second, SigNow = None\<rparr>\<rparr>"

definition ex_jt :: json_text where "ex_jt b place = place"

definition ex_uc :: unicode where "ex_uc = \<lparr>uc_ToLower = (\<lambda>r. r), uc_IsPrint = (\<lambda>_. True)\<rparr>"

definition ex_body :: bytes where
  \<open>ex_body = ''{"issue":{"key":"SEC-1","fields":{"status":{"name":"Go"},"cf1":" g ","cf2":"r","cf3":"p"}}}''\<close>

definition ex_fields :: "(string \<times> json) list" where
  "ex_fields = [(''status'', JObj [(''name'', JStr ''Go'')]), (''cf1'', JStr '' g ''), (''cf2'', JStr ''r''), (''cf3'', JStr ''p'')]"

definition ex_members :: "(string \<times> json) list" where
  "ex_members = [(''issue'', JObj [(''key'', JStr ''SEC-1''), (''fields'', JObj ex_fields)])]"

lemma ex_parse: "json_parse ex_body = Some (JObj ex_members)"
  unfolding ex_members_def ex_fields_def by code_simp

lemma ex_shape: "jsm_shape ex_members ''SEC-1'' ''Go'' ex_fields"
  unfolding jsm_shape_def ex_members_def ex_fields_def
  by (intro exI [of _ "[(''key'', JStr ''SEC-1''), (''fields'', JObj ex_fields)]"]
      exI [of _ "[(''name'', JStr ''Go'')]"]) (simp add: raw_map_def ex_fields_def)

definition ex_bad_body :: bytes where
  \<open>ex_bad_body = ''{"issue":{"key":"SEC-1","fields":{"status":{"name":"Go"},"cf1":{"value":"g"}}}}''\<close>

definition ex_bad_fields :: "(string \<times> json) list" where
  "ex_bad_fields = [(''status'', JObj [(''name'', JStr ''Go'')]), (''cf1'', JObj [(''value'', JStr ''g'')])]"

definition ex_bad_members :: "(string \<times> json) list" where
  "ex_bad_members = [(''issue'', JObj [(''key'', JStr ''SEC-1''), (''fields'', JObj ex_bad_fields)])]"

lemma ex_bad_parse: "json_parse ex_bad_body = Some (JObj ex_bad_members)"
  unfolding ex_bad_members_def ex_bad_fields_def by code_simp

lemma ex_bad_shape: "jsm_shape ex_bad_members ''SEC-1'' ''Go'' ex_bad_fields"
  unfolding jsm_shape_def ex_bad_members_def ex_bad_fields_def
  by (intro exI [of _ "[(''key'', JStr ''SEC-1''), (''fields'', JObj ex_bad_fields)]"]
      exI [of _ "[(''name'', JStr ''Go'')]"]) (simp add: raw_map_def ex_bad_fields_def)

lemma ex_bad_Handle:
  "Handle ex_uc ex_jt ex_pcfg ex_ctx ex_bad_body None =
     (Inl (wrap2 ErrUnprocessable (Errorf [W ErrFieldType, Lit '': '', Lit ''cf1'', Lit '': '', W (Ext ''json'' ''cf1'')])), None)"
proof -
  have "ex_bad_body \<noteq> []" by (simp add: ex_bad_body_def)
  note d = Decode_shape [OF ex_bad_parse ex_bad_shape _ _ this, of ex_jt]
  show ?thesis
    using d by (simp add: Handle_def payload_Status_def ex_pcfg_def ExtractString_def raw_map_def ex_bad_fields_def
        classifyExtractErr_def recordParseErr_def ex_jt_def jsm_errs)
qed

text \<open>C14. \<open>Handle\<close> classifies every body: an error carries exactly one of \<open>ErrBadRequest\<close> and
  \<open>ErrUnprocessable\<close>, and it is \<open>ErrUnprocessable\<close> exactly when the ticket is in the trigger status and
  the first configured field that fails to extract is present with the wrong JSON type.\<close>

theorem Handle_errors_classified:
  assumes "Handle u jt cfg c body m = (Inl e, m')"
  shows "(errors_Is e ErrBadRequest \<longleftrightarrow> \<not> errors_Is e ErrUnprocessable) \<and>
    (errors_Is e ErrUnprocessable \<longleftrightarrow>
      (\<exists>p x. Decode jt body = Inr p \<and> payload_Status p = PTriggerStatus cfg \<and>
         first_extract_error jt body p cfg = Some x \<and> only_Is x ErrFieldType))"
  using Handle_error_class [OF assms] by blast

theorem Handle_errors_classified_witness:
  "\<exists>e. Handle ex_uc ex_jt ex_pcfg ex_ctx ex_bad_body None = (Inl e, None) \<and> errors_Is e ErrUnprocessable \<and>
     \<not> errors_Is e ErrBadRequest"
  using Handle_errors_classified [OF ex_bad_Handle] ex_bad_Handle by (simp add: errors_Is_wrap_class)

text \<open>A body that decodes is a no-op exactly when its ticket is not in the trigger status, and an
  apply exactly when it is and the three fields extract; \<open>Handle\<close> never returns a nil action.\<close>

theorem Handle_actions:
  "((\<exists>s. fst (Handle u jt cfg c body m) = Inr (NoopAction s)) \<longleftrightarrow>
      (\<exists>p. Decode jt body = Inr p \<and> payload_Status p \<noteq> PTriggerStatus cfg)) \<and>
   ((\<exists>a. fst (Handle u jt cfg c body m) = Inr (ApplyAction a)) \<longleftrightarrow>
      (\<exists>p. Decode jt body = Inr p \<and> payload_Status p = PTriggerStatus cfg \<and> first_extract_error jt body p cfg = None)) \<and>
   fst (Handle u jt cfg c body m) \<noteq> Inr NilAction"
  by (cases rule: Handle_cases [of jt body u cfg c m]) auto

text \<open>C13. A JSM body of the expected shape in the trigger status, with the three fields present as
  non-blank strings, becomes the apply of a \<open>SAMLGroupMapping\<close> in the configured namespace, named
  after the issue key, with the trimmed field values, the configured identity provider and the
  issue-key annotation, from the source \<open>jsm\<close>; no metric is touched.\<close>

theorem Handle_applies_ticket:
  assumes "body \<noteq> []" "json_parse body = Some (JObj kvs)" "jsm_shape kvs key (PTriggerStatus cfg) fs"
    and "key \<noteq> []" "PTriggerStatus cfg \<noteq> []"
    and "''status'' \<notin> {PFieldProviderGroupID cfg, PFieldRole cfg, PFieldProject cfg}"
    and "raw_map fs (PFieldProviderGroupID cfg) = Some (JStr g)" "TrimSpace g \<noteq> []"
    and "raw_map fs (PFieldRole cfg) = Some (JStr ro)" "TrimSpace ro \<noteq> []"
    and "raw_map fs (PFieldProject cfg) = Some (JStr pr)" "TrimSpace pr \<noteq> []"
  shows "\<exists>cr act. Handle u jt cfg c body m = (Inr (ApplyAction act), m) \<and> Object act = SAMLGroupMapping cr \<and>
    Name (ObjectMeta cr) = CRName u key \<and> Namespace (ObjectMeta cr) = PNamespace cfg \<and>
    APIVersion (TypeMeta cr) = ''wiz.webhookd.io/v1alpha1'' \<and> TypeKind (TypeMeta cr) = ''SAMLGroupMapping'' \<and>
    ListObject act = SAMLGroupMappingList \<and> ActKind act = ''SAMLGroupMapping'' \<and> Source act = ''jsm'' \<and>
    Spec cr = \<lparr>IdentityProviderID = PIdentityProviderID cfg, ProviderGroupID = TrimSpace g,
               Description = ''Provisioned from JSM '' @ key, RoleRef = \<lparr>RoleName = TrimSpace ro\<rparr>,
               ProjectRefs = [\<lparr>ProjectName = TrimSpace pr\<rparr>]\<rparr> \<and>
    ActAnnotations act = [AnnotationIssue \<mapsto> key] \<and> ReadyCheck act = IsReady"
proof -
  let ?p = "\<lparr>Issue = \<lparr>Key = key, Fields = \<lparr>IssueStatus = \<lparr>StatusName = PTriggerStatus cfg\<rparr>,
             CustomFields = (raw_map fs)(''status'' := None)\<rparr>\<rparr>\<rparr>"
  have d: "Decode jt body = Inr ?p" using Decode_shape [OF assms(2,3,4,5,1)] .
  have x: "ExtractString jt body ?p (PFieldProviderGroupID cfg) = Inr (TrimSpace g)"
    "ExtractString jt body ?p (PFieldRole cfg) = Inr (TrimSpace ro)"
    "ExtractString jt body ?p (PFieldProject cfg) = Inr (TrimSpace pr)"
    using assms(6-12) by (auto simp: ExtractString_ok)
  have "Handle u jt cfg c body m = (Inr (ApplyAction (applied_action u cfg key (TrimSpace g) (TrimSpace ro) (TrimSpace pr))), m)"
    by (simp add: Handle_def d x payload_Status_def IssueKey_def applied_action_def Let_def)
  then show ?thesis
    by (simp add: applied_action_def BuildSAMLGroupMapping_def BuildSpec_def BuildDescription_def
        GroupVersion_String_def GroupVersion_Group_def GroupVersion_Version_def)
qed

lemma ex_trims: "TrimSpace '' g '' = ''g''" "TrimSpace ''r'' = ''r''" "TrimSpace ''p'' = ''p''"
  by code_simp+

theorem Handle_applies_ticket_witness:
  "\<exists>cr act. Handle ex_uc ex_jt ex_pcfg ex_ctx ex_body None = (Inr (ApplyAction act), None) \<and>
    Object act = SAMLGroupMapping cr \<and> ProviderGroupID (Spec cr) = ''g'' \<and> Namespace (ObjectMeta cr) = ''wiz''"
proof -
  have "ex_body \<noteq> []" by (simp add: ex_body_def)
  then have "\<exists>cr act. Handle ex_uc ex_jt ex_pcfg ex_ctx ex_body None = (Inr (ApplyAction act), None) \<and> Object act = SAMLGroupMapping cr \<and>
    Name (ObjectMeta cr) = CRName ex_uc ''SEC-1'' \<and> Namespace (ObjectMeta cr) = PNamespace ex_pcfg \<and>
    APIVersion (TypeMeta cr) = ''wiz.webhookd.io/v1alpha1'' \<and> TypeKind (TypeMeta cr) = ''SAMLGroupMapping'' \<and>
    ListObject act = SAMLGroupMappingList \<and> ActKind act = ''SAMLGroupMapping'' \<and> Source act = ''jsm'' \<and>
    Spec cr = \<lparr>IdentityProviderID = PIdentityProviderID ex_pcfg, ProviderGroupID = TrimSpace '' g '',
               Description = ''Provisioned from JSM '' @ ''SEC-1'', RoleRef = \<lparr>RoleName = TrimSpace ''r''\<rparr>,
               ProjectRefs = [\<lparr>ProjectName = TrimSpace ''p''\<rparr>]\<rparr> \<and>
    ActAnnotations act = [AnnotationIssue \<mapsto> ''SEC-1''] \<and> ReadyCheck act = IsReady"
    using ex_parse ex_shape
    by (intro Handle_applies_ticket [where fs = ex_fields and kvs = ex_members])
      (simp_all add: ex_pcfg_def ex_trims, simp_all add: ex_fields_def raw_map_def)
  then show ?thesis by (auto simp: ex_trims ex_pcfg_def)
qed

text \<open>C34. Every successful decode has a non-empty issue key and status, and every failed one is exactly one
  of the four decoding sentinels; an empty body and a body that is not JSON are \<open>ErrInvalidJSON\<close>.\<close>

theorem Decode_total_classification:
  "(case Decode jt body of
      Inr p \<Rightarrow> body \<noteq> [] \<and> json_parse body \<noteq> None \<and> IssueKey p \<noteq> [] \<and> payload_Status p \<noteq> []
    | Inl e \<Rightarrow> only_Is e ErrInvalidJSON \<or> only_Is e ErrMissingIssue \<or> only_Is e ErrMissingIssueKey \<or> only_Is e ErrMissingStatus) \<and>
   (\<exists>e. Decode jt [] = Inl e \<and> only_Is e ErrInvalidJSON) \<and>
   (json_parse body = None \<longrightarrow> (\<exists>e. Decode jt body = Inl e \<and> only_Is e ErrInvalidJSON))"
proof -
  have "case Decode jt body of
      Inr p \<Rightarrow> body \<noteq> [] \<and> json_parse body \<noteq> None \<and> IssueKey p \<noteq> [] \<and> payload_Status p \<noteq> []
    | Inl e \<Rightarrow> only_Is e ErrInvalidJSON \<or> only_Is e ErrMissingIssue \<or> only_Is e ErrMissingIssueKey \<or> only_Is e ErrMissingStatus"
  proof (cases "Decode jt body")
    case (Inl e)
    then show ?thesis using Decode_err_only [OF Inl] by auto
  next
    case (Inr p)
    then have "body \<noteq> [] \<and> json_parse body \<noteq> None" by (auto simp: Decode_Inr)
    then show ?thesis using Decode_ok [OF Inr] Inr by simp
  qed
  then show ?thesis by (auto simp: Decode_def only_InvalidJSON)
qed

definition ex_broken :: bytes where "ex_broken = ''{''"

theorem Decode_total_classification_witness:
  "json_parse ex_broken = None \<and> (\<exists>e. Decode ex_jt ex_broken = Inl e \<and> only_Is e ErrInvalidJSON)"
proof -
  have "json_parse ex_broken = None" by code_simp
  then show ?thesis using Decode_total_classification [of ex_broken ex_jt] by blast
qed

lemma ex_jira: "jira_key ''SEC-1''"
proof -
  have "list_all (\<lambda>c. is_upper c \<or> is_digit c \<or> c = CHR ''_'') ''SEC''" "list_all is_digit ''1''" by code_simp+
  then have "jira_key (''SEC'' @ CHR ''-'' # ''1'')" unfolding jira_key_def by blast
  then show ?thesis by simp
qed

text \<open>C37. An underscore, which Jira allows in project keys, survives into the CR name, so the name is not a
  valid label.\<close>

theorem CRName_underscore_invalid:
  assumes "is_ascii key" "CHR ''_'' \<in> set key"
  shows "\<not> dns1123_label (CRName u key)"
proof -
  have "ascii_lower (CHR ''_'') = CHR ''_''" by code_simp
  then have "CHR ''_'' \<in> set (CRName u key)"
    using assms by (auto simp: CRName_def ToLower_ascii intro: rev_image_eqI)
  moreover have "\<not> is_lower_alnum (CHR ''_'')" by code_simp
  ultimately show ?thesis by (auto simp: dns1123_label_def list_all_iff)
qed

theorem CRName_underscore_invalid_witness: "\<not> dns1123_label (CRName ex_uc ''MY_PROJ-7'')"
  by (rule CRName_underscore_invalid) (simp_all add: is_ascii_def)

text \<open>\<open>IsReady\<close> accepts exactly a \<open>SAMLGroupMapping\<close> whose operator has observed the applied generation
  and set a \<open>Ready=True\<close> condition, and reports the observed generation.\<close>

theorem IsReady_exact:
  "IsReady obj gen = (True, og) \<longleftrightarrow>
     (\<exists>cr. obj = SAMLGroupMapping cr \<and> og = StatusObservedGeneration (Status cr) \<and> gen \<le> og \<and>
        (\<exists>cond \<in> set (Conditions (Status cr)). CondType cond = ''Ready'' \<and> CondStatus cond = ''True''))"
  unfolding IsReady_iff ConditionTypeReady_def ConditionTrue_def ..

text \<open>C35. The body the dispatcher writes parses back to an object with distinct keys: \<open>status\<close> is
  \<open>success\<close> for a ready resource, \<open>noop\<close> for a no-op and \<open>failure\<close> otherwise, and every other member
  is present exactly when it is not empty, with its value (invalid UTF-8 replaced).\<close>

theorem response_roundtrip:
  "\<exists>kvs. json_parse (Encode (BuildResponse res traceID reqID)) = Some (JObj kvs) \<and> distinct (map fst kvs) \<and>
     map_of kvs ''status'' = Some (JStr (if Kind res = ResultReady then ''success''
                                       else if Kind res = ResultNoop then ''noop'' else ''failure'')) \<and>
     map_of kvs ''reason'' = opt_str (Reason res) \<and>
     map_of kvs ''crName'' = opt_str (ResCRName res) \<and>
     map_of kvs ''namespace'' = opt_str (ResNamespace res) \<and>
     map_of kvs ''observedGeneration'' =
       (if ObservedGeneration res = 0 then None else Some (JNum (Itoa (ObservedGeneration res)))) \<and>
     map_of kvs ''traceId'' = opt_str traceID \<and> map_of kvs ''requestId'' = opt_str reqID"
proof -
  let ?b = "jsm_Build res traceID reqID"
  let ?kvs = "map (\<lambda>(k, v). (to_valid k, field_json v)) (response_members ?b)"
  have "list_all is_ascii (map fst (response_members ?b))" "distinct (map fst (response_members ?b))"
    using response_members_keys by blast+
  then have "map fst ?kvs = map fst (response_members ?b)"
    by (auto simp: list_all_iff to_valid_ascii)
  then have d: "distinct (map fst ?kvs)"
    using response_members_keys [of ?b] by metis
  have "to_valid (RespStatus ?b) = RespStatus ?b"
    by (intro to_valid_ascii) (simp add: jsm_Build_def is_ascii_def split: result_kind.split)
  moreover have "RespStatus ?b = (if Kind res = ResultReady then ''success''
      else if Kind res = ResultNoop then ''noop'' else ''failure'')"
    by (simp add: jsm_Build_def split: result_kind.split)
  ultimately have st: "to_valid (RespStatus ?b) = (if Kind res = ResultReady then ''success''
      else if Kind res = ResultNoop then ''noop'' else ''failure'')" by simp
  have f: "RespReason ?b = Reason res" "RespCRName ?b = ResCRName res" "RespNamespace ?b = ResNamespace res"
    "RespObservedGeneration ?b = ObservedGeneration res" "RespTraceID ?b = traceID" "RespRequestID ?b = reqID"
    by (simp_all add: jsm_Build_def)
  show ?thesis
  proof (intro exI [of _ ?kvs] conjI)
    show "json_parse (Encode (BuildResponse res traceID reqID)) = Some (JObj ?kvs)"
      by (simp add: json_parse_Encode BuildResponse_def)
  qed (fact d, unfold map_of_response_members st f, simp_all add: map_add_def split: option.split)
qed

text \<open>\<open>Handle\<close> counts each delivery once: a rejected body adds one to the parse-error counter, under one
  of the four documented reasons, a no-op adds one to the no-op counter, an apply adds nothing; no
  other series changes, and no Prometheus vector is given a wrong number of labels.\<close>

theorem Handle_metrics:
  "\<exists>m'. snd (Handle u jt cfg c body (Some m)) = Some m' \<and> bad m' = bad m \<and> observed m' = observed m \<and>
     inflight m' = inflight m \<and>
     (case fst (Handle u jt cfg c body (Some m)) of
        Inl _ \<Rightarrow> \<exists>reason \<in> {''invalid_json'', ''missing_field'', ''empty_field'', ''wrong_type''}.
          counts m' = (counts m)((''webhookd_jsm_payload_parse_errors_total'', [reason]) :=
             Suc (counts m (''webhookd_jsm_payload_parse_errors_total'', [reason])))
      | Inr (NoopAction _) \<Rightarrow>
          counts m' = (counts m)((''webhookd_jsm_noop_total'', []) := Suc (counts m (''webhookd_jsm_noop_total'', [])))
      | Inr _ \<Rightarrow> m' = m)"
proof -
  have pe: "counts (Inc JSMPayloadParseErrors [rs] m) = (counts m)((''webhookd_jsm_payload_parse_errors_total'', [rs]) :=
      Suc (counts m (''webhookd_jsm_payload_parse_errors_total'', [rs])))" "bad (Inc JSMPayloadParseErrors [rs] m) = bad m" for rs
    by (simp_all add: Inc_def JSMPayloadParseErrors_def)
  have np: "counts (Inc JSMNoopTotal [] m) = (counts m)((''webhookd_jsm_noop_total'', []) :=
      Suc (counts m (''webhookd_jsm_noop_total'', [])))" "bad (Inc JSMNoopTotal [] m) = bad m"
    by (simp_all add: Inc_def JSMNoopTotal_def)
  show ?thesis
  proof (cases rule: Handle_cases [of jt body u cfg c "Some m"])
    case (undecodable e)
    have "decodeReason e \<in> {''invalid_json'', ''missing_field'', ''empty_field'', ''wrong_type''}"
      by (simp add: decodeReason_def)
    then show ?thesis unfolding undecodable(2) recordParseErr_def by (auto simp: pe)
  next
    case (bad_field p e)
    have "extractReason e \<in> {''invalid_json'', ''missing_field'', ''empty_field'', ''wrong_type''}"
      by (simp add: extractReason_def)
    then show ?thesis unfolding bad_field(4) recordParseErr_def by (auto simp: pe)
  qed (simp_all add: recordNoop_def np)
qed

lemma ex_Decode: "\<exists>p. Decode ex_jt ex_body = Inr p \<and> IssueKey p = ''SEC-1''"
proof -
  have "ex_body \<noteq> []" by (simp add: ex_body_def)
  from Decode_shape [OF ex_parse ex_shape _ _ this, of ex_jt] show ?thesis by (simp add: IssueKey_def)
qed

lemma ex_Handle:
  "Handle ex_uc ex_jt ex_pcfg c ex_body m = (Inr (ApplyAction (applied_action ex_uc ex_pcfg ''SEC-1'' ''g'' ''r'' ''p'')), m)"
proof -
  have "ex_body \<noteq> []" by (simp add: ex_body_def)
  note d = Decode_shape [OF ex_parse ex_shape _ _ this, of ex_jt]
  show ?thesis
    using d by (simp add: Handle_def payload_Status_def IssueKey_def ex_pcfg_def ExtractString_def raw_map_def ex_fields_def
        ex_trims applied_action_def)
qed

end
