(* ===== verification/Wiring.thy ===== *)
theory Wiring
  imports Jsm
begin

text \<open>
  \<^verbatim>\<open>internal/k8s/client.go\<close> and the dispatcher's construction in \<^verbatim>\<open>cmd/webhookd/main.go\<close>.

  The Kubernetes libraries are a parameter, \<open>k8s_lib\<close>: how a kubeconfig file or the in-cluster
  configuration is loaded (\<open>'r\<close> is \<open>*rest.Config\<close>) and how the two clients are made from it.
\<close>

record ('r, 'k) k8s_lib =
  BuildConfigFromFlags :: "string \<Rightarrow> go_error + 'r"
  GetConfig :: "go_error + 'r"
  NewWithWatch :: "'r \<Rightarrow> go_error + 'k client"
  NewForConfig :: "'r \<Rightarrow> go_error option"

definition loadRESTConfig :: "('r, 'k) k8s_lib \<Rightarrow> string \<Rightarrow> go_error + 'r" where
  "loadRESTConfig lib kubeconfigPath =
    (if kubeconfigPath \<noteq> [] then BuildConfigFromFlags lib kubeconfigPath else GetConfig lib)"

record ('r, 'k) clients =
  CtrlClient :: "'k client"
  RESTConfig :: 'r

definition NewClients :: "('r, 'k) k8s_lib \<Rightarrow> config \<Rightarrow> go_error + ('r, 'k) clients" where
  "NewClients lib cfg =
    (if APIGroup (CR cfg) \<noteq> GroupVersion_Group then
       Inl (Errorf [Lit ''WEBHOOK_CR_API_GROUP='', Q (APIGroup (CR cfg)),
         Lit '' disagrees with imported wizapi.GroupVersion.Group='', Q GroupVersion_Group,
         Lit ''; reconcile config and rebuild before continuing''])
     else case loadRESTConfig lib (Kubeconfig cfg) of
       Inl err \<Rightarrow> Inl (Errorf [Lit ''k8s config: '', W err])
     | Inr restCfg \<Rightarrow>
         (case NewWithWatch lib restCfg of
            Inl err \<Rightarrow> Inl (Errorf [Lit ''k8s client: '', W err])
          | Inr ctrlClient \<Rightarrow>
              (case NewForConfig lib restCfg of
                 Some err \<Rightarrow> Inl (Errorf [Lit ''k8s clientset: '', W err])
               | None \<Rightarrow> Inr \<lparr>CtrlClient = ctrlClient, RESTConfig = restCfg\<rparr>)))"

text \<open>
  \<open>buildDispatcher\<close>: an error, the panic of the dispatcher's constructor (\<open>Inr (Inl text)\<close>), or the
  dispatcher.  \<open>env0\<close> is the executor's environment but for the client; \<open>wall\<close> is the text its clock
  gives; \<open>reg\<close> is the default registry.
\<close>

definition buildDispatcher ::
  "unicode \<Rightarrow> ('r, 'k) k8s_lib \<Rightarrow> registry \<Rightarrow> 'k exec_env \<Rightarrow> string \<Rightarrow> config \<Rightarrow> slog_handler \<Rightarrow>
   go_error + (string + 'k dispatcher)" where
  "buildDispatcher u lib reg env0 wall cfg lg =
    (case NewClients lib cfg of
       Inl err \<Rightarrow> Inl (Errorf [Lit ''k8s clients: '', W err])
     | Inr clients \<Rightarrow>
         let ecfg = NewExecutor wall \<lparr>FieldManager = CRFieldManager (CR cfg), SyncTimeout = CRSyncTimeout (CR cfg), Now = None\<rparr>;
             execute = Execute (env0\<lparr>ee_client := CtrlClient clients, ee_logger := Some lg\<rparr>) ecfg
         in case Build reg cfg of
              Inl err \<Rightarrow> Inl err
            | Inr ps \<Rightarrow> Inr (NewDispatcher u \<lparr>Providers = ps, CfgExecutor = execute, Logger = Some lg, MaxBodyBytes = CfgMaxBodyBytes cfg\<rparr>))"

lemma NewClients_group: "NewClients lib cfg = Inr cl \<Longrightarrow> APIGroup (CR cfg) = GroupVersion_Group"
  by (auto simp: NewClients_def split: if_splits)

lemma NewExecutor_field_manager: "FieldManager (NewExecutor wall c) \<noteq> []" "Now (NewExecutor wall c) \<noteq> None"
  "SyncTimeout (NewExecutor wall c) = SyncTimeout c"
  by (auto simp: NewExecutor_def Let_def)

lemma buildDispatcher_Inr:
  assumes "buildDispatcher u lib reg env0 wall cfg lg = Inr x"
  obtains cl ps where "NewClients lib cfg = Inr cl" "Build reg cfg = Inr ps"
    "x = NewDispatcher u \<lparr>Providers = ps,
       CfgExecutor = Execute (env0\<lparr>ee_client := CtrlClient cl, ee_logger := Some lg\<rparr>)
         (NewExecutor wall \<lparr>FieldManager = CRFieldManager (CR cfg), SyncTimeout = CRSyncTimeout (CR cfg), Now = None\<rparr>),
       Logger = Some lg, MaxBodyBytes = CfgMaxBodyBytes cfg\<rparr>"
  using assms by (auto simp: buildDispatcher_def Let_def split: sum.splits)

end
