(* ===== verification/Public.thy ===== *)
theory Public
  imports Rate_Limiting Wiring
begin

text \<open>
  The two listeners' handlers: \<open>buildPublicHandler\<close> of \<^verbatim>\<open>cmd/webhookd/main.go\<close> and \<open>NewAdminMux\<close> of
  \<^verbatim>\<open>internal/httpx/admin.go\<close>, put together from the mux, the middleware and the dispatcher.
  Parameters are \<open>otelhttp\<close> (\<open>otel\<close>, a middleware per service name), the handlers of \<open>promhttp\<close> and
  \<open>net/http/pprof\<close>, and the mux's redirect response.
\<close>

subsection \<open>The dispatcher as a handler\<close>

definition dispatch_handler ::
  "unicode \<Rightarrow> 'k dispatcher \<Rightarrow> ('l, 'r) mw_env \<Rightarrow> ('k, 'l) world handler" where
  "dispatch_handler u d env r w s =
    (case ServeHTTP u d (me_now env) r w \<lparr>cluster = wd_cluster s, mets = Some (wd_metrics s), elog = wd_log s\<rparr> of
       None \<Rightarrow> None
     | Some (w', st) \<Rightarrow>
         Some (None, r, w', s\<lparr>wd_cluster := cluster st,
           wd_metrics := (case mets st of Some m \<Rightarrow> m | None \<Rightarrow> wd_metrics s), wd_log := elog st\<rparr>))"

subsection \<open>main.go: buildPublicHandler\<close>

definition OTel :: "(string \<Rightarrow> 's middleware) \<Rightarrow> string \<Rightarrow> 's middleware" where
  "OTel otel serviceName nxt = otel serviceName nxt"

definition tombstone :: "'s handler" where
  "tombstone = respond (\<lambda>w. http_Error ''webhook dispatcher disabled'' 503 (set_header ''Retry-After'' ''30'' w))"

definition webhook_route :: "'s handler \<Rightarrow> 's route" where
  "webhook_route h = \<lparr>rt_method = ''POST'', rt_text = ''POST /webhook/{provider}'',
     rt_segs = [Literal ''webhook'', Wildcard ''provider''], rt_subtree = False, rt_handler = h\<rparr>"

definition buildPublicHandler ::
  "(string \<Rightarrow> ('k, 'l) world middleware) \<Rightarrow> (request \<Rightarrow> string \<Rightarrow> writer \<Rightarrow> writer) \<Rightarrow> ('l, 'r) mw_env \<Rightarrow>
   config \<Rightarrow> slog_handler \<Rightarrow> ('k, 'l) world handler option \<Rightarrow> ('k, 'l) world handler" where
  "buildPublicHandler otel redirect env cfg logger dispatcher =
    (let mux = mux_ServeHTTP redirect
           [webhook_route (case dispatcher of None \<Rightarrow> tombstone | Some d \<Rightarrow> d)]
     in Chain mux
          [Recover logger env, OTel otel (ServiceName cfg), RequestID env,
           RateLimit \<lparr>RPS = RateLimitRPS cfg, Burst = RateLimitBurst cfg\<rparr> env,
           SLog logger env, Metrics_mw env])"

subsection \<open>admin.go\<close>

record admin_config = AdmPProfEnabled :: bool

record 's admin_lib =
  promhttp_HandlerFor :: "'s handler"
  pprof_Index :: "'s handler"
  pprof_Cmdline :: "'s handler"
  pprof_Profile :: "'s handler"
  pprof_Symbol :: "'s handler"
  pprof_Trace :: "'s handler"

definition writeBody :: "string \<Rightarrow> writer \<Rightarrow> writer" where
  "writeBody body w = Write body w"

definition get_route :: "string \<Rightarrow> string list \<Rightarrow> bool \<Rightarrow> 's handler \<Rightarrow> 's route" where
  "get_route path segs subtree h = \<lparr>rt_method = ''GET'', rt_text = ''GET '' @ path,
     rt_segs = map Literal segs, rt_subtree = subtree, rt_handler = h\<rparr>"

definition healthz :: "'s handler" where
  "healthz = respond (\<lambda>w. writeBody ''ok'' (WriteHeader 200 w))"

definition readyz :: "bool \<Rightarrow> 's handler" where
  "readyz ready = respond (\<lambda>w.
     if \<not> ready then writeBody ''not ready'' (WriteHeader 503 w)
     else writeBody ''ready'' (WriteHeader 200 w))"

definition registerPProf :: "'s admin_lib \<Rightarrow> 's route list" where
  "registerPProf lib =
    [get_route ''/debug/pprof/'' [''debug'', ''pprof''] True (pprof_Index lib),
     get_route ''/debug/pprof/cmdline'' [''debug'', ''pprof'', ''cmdline''] False (pprof_Cmdline lib),
     get_route ''/debug/pprof/profile'' [''debug'', ''pprof'', ''profile''] False (pprof_Profile lib),
     get_route ''/debug/pprof/symbol'' [''debug'', ''pprof'', ''symbol''] False (pprof_Symbol lib),
     get_route ''/debug/pprof/trace'' [''debug'', ''pprof'', ''trace''] False (pprof_Trace lib)]"

definition NewAdminMux ::
  "('k, 'l) world admin_lib \<Rightarrow> (request \<Rightarrow> string \<Rightarrow> writer \<Rightarrow> writer) \<Rightarrow> ('l, 'r) mw_env \<Rightarrow>
   slog_handler \<Rightarrow> bool \<Rightarrow> admin_config \<Rightarrow> ('k, 'l) world handler" where
  "NewAdminMux lib redirect env logger ready cfg =
    (let mux = mux_ServeHTTP redirect
           ([get_route ''/healthz'' [''healthz''] False healthz,
             get_route ''/readyz'' [''readyz''] False (readyz ready),
             get_route ''/metrics'' [''metrics''] False (promhttp_HandlerFor lib)] @
            (if AdmPProfEnabled cfg then registerPProf lib else []))
     in Chain mux [Recover logger env, Metrics_mw env])"

subsection \<open>server.go\<close>

text \<open>\<open>BaseContext\<close> is the context every request of the server descends from.\<close>

record ('c, 'h) http_server =
  SrvAddr :: string
  SrvHandler :: 'h
  SrvReadTimeout :: duration
  SrvReadHeaderTimeout :: duration
  SrvWriteTimeout :: duration
  SrvIdleTimeout :: duration
  BaseContext :: 'c

definition NewServer :: "'c \<Rightarrow> string \<Rightarrow> 'h \<Rightarrow> config \<Rightarrow> ('c, 'h) http_server" where
  "NewServer baseCtx addr h cfg =
     \<lparr>SrvAddr = addr, SrvHandler = h, SrvReadTimeout = ReadTimeout cfg, SrvReadHeaderTimeout = ReadHeaderTimeout cfg,
      SrvWriteTimeout = WriteTimeout cfg, SrvIdleTimeout = IdleTimeout cfg, BaseContext = baseCtx\<rparr>"

subsection \<open>What is relied on outside\<close>

text \<open>\<open>otelhttp\<close> runs the handler once, with a context that carries its span, and passes panics on; the
  handler's request is a copy.  The mux's redirect only writes a response.\<close>

definition otel_transparent :: "'s middleware \<Rightarrow> bool" where
  "otel_transparent mw \<longleftrightarrow> (\<exists>f. (\<forall>r. ctx_reqid (f r) = ctx_reqid (Ctx r)) \<and>
     (\<forall>h r w s. mw h r w s = map_option (\<lambda>(p, _, w', s'). (p, r, w', s')) (h (WithContext (f r) r) w s)))"

lemma otel_transparentE:
  assumes "otel_transparent mw" "mw h r w s = Some (p, r', w', s')"
  obtains c r1 where "h (WithContext c r) w s = Some (p, r1, w', s')" "r' = r" "ctx_reqid c = ctx_reqid (Ctx r)"
proof -
  obtain f where f: "ctx_reqid (f r) = ctx_reqid (Ctx r)"
    "mw h r w s = map_option (\<lambda>(p, _, w', s'). (p, r, w', s')) (h (WithContext (f r) r) w s)"
    using assms(1) unfolding otel_transparent_def by metis
  then obtain p1 r1 w1 s1 where x: "h (WithContext (f r) r) w s = Some (p1, r1, w1, s1)"
    using assms(2) by (cases "h (WithContext (f r) r) w s") auto
  then show thesis using that [OF _ _ f(1), of r1] assms(2) f(2) by simp
qed

definition responds :: "(writer \<Rightarrow> writer) \<Rightarrow> bool" where
  "responds f \<longleftrightarrow> (\<forall>w v. carries requestIDHeader v w \<longrightarrow> carries requestIDHeader v (f w) \<and> w_sent (f w) \<noteq> None)"

definition redirect_ok :: "(request \<Rightarrow> string \<Rightarrow> writer \<Rightarrow> writer) \<Rightarrow> bool" where
  "redirect_ok redirect \<longleftrightarrow> (\<forall>r t. responds (redirect r t) \<and>
     (\<forall>w. length (w_recs (redirect r t w)) = length (w_recs w)) \<and>
     (\<forall>w. fresh w \<longrightarrow> (\<exists>status b. status \<noteq> 429 \<and> answered status b (redirect r t w))))"

lemma http_Error_sent: "w_sent (http_Error msg status w) \<noteq> None"
  by (simp add: http_Error_def Let_def Write_sent)

subsection \<open>Routing\<close>

text \<open>The provider a path names, and the route a request is counted under.\<close>

definition webhook_provider :: "string \<Rightarrow> string option" where
  "webhook_provider p =
    (case mux_segments p of [a, v] \<Rightarrow> if a = ''webhook'' \<and> v \<noteq> ''/'' then Some v else None | _ \<Rightarrow> None)"

definition route_label :: "request \<Rightarrow> string" where
  "route_label r =
    (if Method r = ''POST'' \<and> webhook_provider (mux_path r) \<noteq> None then ''POST /webhook/{provider}'' else ''__unmatched__'')"

lemma SplitSeq_snoc: "\<exists>ys. ys \<noteq> [] \<and> SplitSeq c (xs @ [c]) = ys @ [[]]"
proof (induction xs)
  case Nil
  show ?case by (rule exI [of _ "[[]]"]) simp
next
  case (Cons x xs)
  then obtain y ys where ys: "SplitSeq c (xs @ [c]) = (y # ys) @ [[]]" by (metis neq_Nil_conv)
  show ?case by (rule exI [of _ "if x = c then [] # y # ys else (x # y) # ys"]) (simp add: ys)
qed

lemma last_SplitSeq: "last (SplitSeq c (xs @ [c])) = []"
  using SplitSeq_snoc [of c xs] by auto

lemma webhook_provider_slash: "webhook_provider (p @ ''/'') = None"
proof -
  have "last (SplitSeq CHR ''/'' (tl (p @ ''/''))) = []"
    by (cases p) (simp_all add: last_SplitSeq)
  then have "last (mux_segments (p @ ''/'')) = ''/''" by (simp add: mux_segments_def Let_def)
  then show ?thesis by (auto simp: webhook_provider_def split: list.splits)
qed

lemma webhook_route_match:
  "route_match p (webhook_route h) = map_option (\<lambda>v. [(''provider'', v)]) (webhook_provider p)"
proof -
  have "route_match p (webhook_route h) = match_segs False [Literal ''webhook'', Wildcard ''provider''] (mux_segments p)"
    by (simp add: route_match_def webhook_route_def)
  then show ?thesis
    by (auto simp: webhook_provider_def split: list.splits)
qed

lemma webhook_findHandler:
  "findHandler [webhook_route h] r =
    (if mux_path r \<noteq> EscapedPath r
     then Redirected (if Method r = ''POST'' \<and> webhook_provider (mux_path r) \<noteq> None then ''POST /webhook/{provider}'' else []) (mux_path r)
     else case webhook_provider (EscapedPath r) of
       None \<Rightarrow> NoRoute
     | Some v \<Rightarrow> if Method r = ''POST'' then Found (webhook_route h) [(''provider'', v)] else NotAllowed [''POST''])"
proof -
  have t: "tree_match [webhook_route h] meth p =
      (if meth = ''POST'' then map_option (\<lambda>v. (webhook_route h, [(''provider'', v)])) (webhook_provider p) else None)" for meth p
    by (simp add: tree_match_def match_path_def webhook_route_match split: option.split) (simp add: webhook_route_def)
  have "\<not> slash_redirect [webhook_route h] meth p" for meth p
    by (simp add: slash_redirect_def t webhook_provider_slash exactMatch_def)
  moreover have "matchingMethods [webhook_route h] p = (if webhook_provider p = None then [] else [''POST''])" for p
    by (simp add: matchingMethods_def webhook_route_match webhook_provider_slash) (simp add: webhook_route_def)
  moreover have "rt_text (webhook_route h) = ''POST /webhook/{provider}''" by (simp add: webhook_route_def)
  ultimately show ?thesis by (auto simp: findHandler_def Let_def t split: option.split)
qed

lemma WithContext_route [simp]:
  "mux_path (WithContext c r) = mux_path r" "EscapedPath (WithContext c r) = EscapedPath r" "Method (WithContext c r) = Method r"
  "URLPath (WithContext c r) = URLPath r" "route_label (WithContext c r) = route_label r"
  "admission cfg env (WithContext c r) = admission cfg env r"
  by (simp_all add: mux_path_def route_label_def admission_def WithContext_def fun_eq_iff)

subsection \<open>Who may change the cluster\<close>

locale guarded_handler =
  fixes P :: "request \<Rightarrow> bool" and h :: "('k, 'l) world handler"
  assumes ctx_free: "P (WithContext c r) = P r"
    and guarded: "h r w s = Some (p, r', w', s') \<Longrightarrow> wd_cluster s' \<noteq> wd_cluster s \<Longrightarrow> P r"
begin

lemma guarded_intro:
  assumes "\<And>r w s p r' w' s'. h' r w s = Some (p, r', w', s') \<Longrightarrow> wd_cluster s' \<noteq> wd_cluster s \<Longrightarrow>
    \<exists>c w1 s1 p1 r1 w2 s2. h (WithContext c r) w1 s1 = Some (p1, r1, w2, s2) \<and>
      wd_cluster s1 = wd_cluster s \<and> wd_cluster s2 = wd_cluster s'"
  shows "guarded_handler P h'"
proof
  show "P (WithContext c r) = P r" for c r by (rule ctx_free)
  fix r w s p r' w' s'
  assume "h' r w s = Some (p, r', w', s')" "wd_cluster s' \<noteq> wd_cluster s"
  from assms [OF this] this(2) show "P r" using guarded ctx_free by metis
qed

lemma same_ctx: "WithContext (Ctx r) r = r"
  by (simp add: WithContext_def)

lemma Recover_guarded: "guarded_handler P (Recover lg env h)"
proof (rule guarded_intro)
  fix r w s p r' w' s'
  assume "Recover lg env h r w s = Some (p, r', w', s')"
  then obtain p1 r1 w2 s2 where "h r w s = Some (p1, r1, w2, s2)" "wd_cluster s2 = wd_cluster s'"
    by (auto simp: Recover_def Let_def split: option.splits)
  then show "\<exists>c w1 s1 p1 r1 w2 s2. h (WithContext c r) w1 s1 = Some (p1, r1, w2, s2) \<and>
      wd_cluster s1 = wd_cluster s \<and> wd_cluster s2 = wd_cluster s'"
    by (metis same_ctx)
qed

lemma OTel_guarded: "otel_transparent (OTel otel n) \<Longrightarrow> guarded_handler P (OTel otel n h)"
proof (rule guarded_intro)
  fix r w s p r' w' s'
  assume "otel_transparent (OTel otel n)" "OTel otel n h r w s = Some (p, r', w', s')"
  then obtain c r1 where "h (WithContext c r) w s = Some (p, r1, w', s')" by (rule otel_transparentE)
  then show "\<exists>c w1 s1 p1 r1 w2 s2. h (WithContext c r) w1 s1 = Some (p1, r1, w2, s2) \<and>
      wd_cluster s1 = wd_cluster s \<and> wd_cluster s2 = wd_cluster s'" by blast
qed

lemma RequestID_guarded: "guarded_handler P (RequestID env h)"
proof (rule guarded_intro)
  fix r w s p r' w' s'
  assume "RequestID env h r w s = Some (p, r', w', s')"
  then obtain c w1 r1 where "h (WithContext c r) w1 s = Some (p, r1, w', s')"
    by (auto simp: RequestID_def Let_def split: option.splits)
  then show "\<exists>c w1 s1 p1 r1 w2 s2. h (WithContext c r) w1 s1 = Some (p1, r1, w2, s2) \<and>
      wd_cluster s1 = wd_cluster s \<and> wd_cluster s2 = wd_cluster s'" by blast
qed

lemma SLog_guarded: "guarded_handler P (SLog lg env h)"
proof (rule guarded_intro)
  fix r w s p r' w' s'
  assume "SLog lg env h r w s = Some (p, r', w', s')"
  then obtain p1 r1 w2 s2 where "h r (newStatusRecorder w) s = Some (p1, r1, w2, s2)" "wd_cluster s2 = wd_cluster s'"
    by (auto simp: SLog_def Let_def split: option.splits)
  then show "\<exists>c w1 s1 p1 r1 w2 s2. h (WithContext c r) w1 s1 = Some (p1, r1, w2, s2) \<and>
      wd_cluster s1 = wd_cluster s \<and> wd_cluster s2 = wd_cluster s'"
    by (metis same_ctx)
qed

lemma Metrics_guarded: "guarded_handler P (Metrics_mw env h)"
proof (rule guarded_intro)
  fix r w s p r' w' s'
  assume "Metrics_mw env h r w s = Some (p, r', w', s')"
  then obtain p1 r1 w2 s2 where "h r (newStatusRecorder w) (on_metrics InflightInc s) = Some (p1, r1, w2, s2)"
    "wd_cluster s2 = wd_cluster s'"
    by (auto simp: Metrics_mw_def Let_def split: option.splits if_splits)
  then show "\<exists>c w1 s1 p1 r1 w2 s2. h (WithContext c r) w1 s1 = Some (p1, r1, w2, s2) \<and>
      wd_cluster s1 = wd_cluster s \<and> wd_cluster s2 = wd_cluster s'"
    by (metis same_ctx on_metrics_simps(2))
qed

lemma RateLimit_guarded: "guarded_handler P (RateLimit cfg env h)"
proof (rule guarded_intro)
  fix r w s p r' w' s'
  assume "RateLimit cfg env h r w s = Some (p, r', w', s')" "wd_cluster s' \<noteq> wd_cluster s"
  then obtain s1 where "h r w s1 = Some (p, r', w', s')" "wd_cluster s1 = wd_cluster s"
    by (auto simp: RateLimit_def Let_def split: prod.splits if_splits)
  then show "\<exists>c w1 s1 p1 r1 w2 s2. h (WithContext c r) w1 s1 = Some (p1, r1, w2, s2) \<and>
      wd_cluster s1 = wd_cluster s \<and> wd_cluster s2 = wd_cluster s'"
    by (metis same_ctx)
qed

end

lemma buildPublicHandler_Chain:
  "buildPublicHandler otel redirect env cfg logger dispatcher =
    Recover logger env (OTel otel (ServiceName cfg) (RequestID env
      (RateLimit \<lparr>RPS = RateLimitRPS cfg, Burst = RateLimitBurst cfg\<rparr> env (SLog logger env (Metrics_mw env
        (mux_ServeHTTP redirect [webhook_route (case dispatcher of None \<Rightarrow> tombstone | Some d \<Rightarrow> d)]))))))"
  by (simp add: buildPublicHandler_def)

lemma public_guarded:
  assumes "guarded_handler P (mux_ServeHTTP redirect [webhook_route h])" "otel_transparent (OTel otel (ServiceName cfg))"
  shows "guarded_handler P (buildPublicHandler otel redirect env cfg logger (Some h))"
  unfolding buildPublicHandler_Chain option.case
  by (intro guarded_handler.Recover_guarded guarded_handler.OTel_guarded guarded_handler.RequestID_guarded
      guarded_handler.RateLimit_guarded guarded_handler.SLog_guarded guarded_handler.Metrics_guarded assms)

subsection \<open>The JSM endpoint\<close>

definition jsm_authorised :: "mac \<Rightarrow> json_text \<Rightarrow> provider_config \<Rightarrow> int \<Rightarrow> gotime \<Rightarrow> request \<Rightarrow> bool" where
  "jsm_authorised mac jt pcfg n now r \<longleftrightarrow>
     Method r = ''POST'' \<and> mux_segments (EscapedPath r) = [''webhook'', ''jsm''] \<and>
     int (length (BodyData r)) \<le> max 0 n \<and> BodyErr r = None \<and>
     VerifySignature mac now r (BodyData r) (PSignature pcfg) = None \<and>
     (\<exists>p. Decode jt (BodyData r) = Inr p \<and> payload_Status p = PTriggerStatus pcfg)"

lemma webhook_route_Found:
  assumes "findHandler [webhook_route h] r = Found rt ms"
  obtains v where "rt = webhook_route h" "ms = [(''provider'', v)]" "Method r = ''POST''"
    "mux_segments (EscapedPath r) = [''webhook'', v]"
proof -
  note f = findHandler_Found [OF assms]
  have rt: "rt = webhook_route h" using f(1) by simp
  have "\<exists>v. mux_segments (EscapedPath r) = [''webhook'', v] \<and> ms = [(''provider'', v)]"
    using f(3) unfolding rt route_match_def webhook_route_def
    by (auto simp only: route.select_convs match_segs_single_wildcard)
  moreover have "Method r = ''POST''" using f(2) unfolding rt webhook_route_def by (auto simp only: route.select_convs)
  ultimately show thesis using that rt by blast
qed

lemma VerifySignature_request: "ReqHeader r' = ReqHeader r \<Longrightarrow> VerifySignature mac now r' = VerifySignature mac now r"
  by (intro ext) (simp add: VerifySignature_def)

interpretation jsm_mux: guarded_handler "jsm_authorised mac jt pcfg n (me_now env)"
  "mux_ServeHTTP redirect [webhook_route (dispatch_handler u
     \<lparr>providers = [''jsm'' \<mapsto> jsm_New u jt mac pcfg], executor = Execute xenv ecfg, dlogger = lg, maxBodyBytes = n\<rparr> env)]"
  for mac jt pcfg n and env :: "('l, 'r) mw_env" and redirect u and xenv :: "'k exec_env" and ecfg lg
proof
  fix c r
  show "jsm_authorised mac jt pcfg n (me_now env) (WithContext c r) = jsm_authorised mac jt pcfg n (me_now env) r"
    by (simp add: jsm_authorised_def WithContext_def VerifySignature_def)
next
  fix r w and s :: "('k, 'l) world" and p r' w' s'
  let ?d = "\<lparr>providers = [''jsm'' \<mapsto> jsm_New u jt mac pcfg], executor = Execute xenv ecfg, dlogger = lg, maxBodyBytes = n\<rparr>"
  let ?h = "dispatch_handler u ?d env"
  assume m: "mux_ServeHTTP redirect [webhook_route ?h] r w s = Some (p, r', w', s')"
    and ne: "wd_cluster s' \<noteq> wd_cluster s"
  obtain rt ms where f: "findHandler [webhook_route ?h] r = Found rt ms"
    using m ne by (cases "findHandler [webhook_route ?h] r") (auto simp: mux_ServeHTTP_def)
  then obtain v where v: "rt = webhook_route ?h" "ms = [(''provider'', v)]" "Method r = ''POST''"
    "mux_segments (EscapedPath r) = [''webhook'', v]" by (rule webhook_route_Found)
  let ?r = "set_match (rt_text rt) ms r"
  obtain w1 st where st: "ServeHTTP u ?d (me_now env) ?r w \<lparr>cluster = wd_cluster s, mets = Some (wd_metrics s), elog = wd_log s\<rparr> = Some (w1, st)"
    "cluster st \<noteq> wd_cluster s"
    using m ne f v(1) by (auto simp: mux_ServeHTTP_def webhook_route_def dispatch_handler_def split: option.splits)
  obtain act m where a: "v = ''jsm''" "int (length (BodyData r)) \<le> max 0 n" "BodyErr r = None"
    "VerifySignature mac (me_now env) ?r (BodyData r) (PSignature pcfg) = None"
    "Handle u jt pcfg (Ctx r) (BodyData r) (Some (wd_metrics s)) = (Inr (ApplyAction act), m)"
    using production.cluster_change_authorised [OF st(1)] st(2) v(2)
    by (auto simp: set_match_def split: if_splits)
  have "\<exists>p. Decode jt (BodyData r) = Inr p \<and> payload_Status p = PTriggerStatus pcfg"
    using a(5) by (cases rule: Handle_cases [of jt "BodyData r" u pcfg "Ctx r" "Some (wd_metrics s)"]) auto
  moreover have "VerifySignature mac (me_now env) r (BodyData r) (PSignature pcfg) = None"
    using a(4) VerifySignature_request [of ?r r] by simp
  ultimately show "jsm_authorised mac jt pcfg n (me_now env) r"
    using a v by (simp add: jsm_authorised_def)
qed

subsection \<open>Balance\<close>

interpretation jsm_balanced: balanced_handler "dispatch_handler u
     \<lparr>providers = [''jsm'' \<mapsto> jsm_New u jt mac pcfg], executor = Execute xenv ecfg, dlogger = lg, maxBodyBytes = n\<rparr> env"
  for u jt mac pcfg n and xenv :: "'k exec_env" and ecfg lg and env :: "('l, 'r) mw_env"
proof
  fix r w and s :: "('k, 'l) world" and p r' w' s'
  let ?d = "\<lparr>providers = [''jsm'' \<mapsto> jsm_New u jt mac pcfg], executor = Execute xenv ecfg, dlogger = lg, maxBodyBytes = n\<rparr>"
  assume "dispatch_handler u ?d env r w s = Some (p, r', w', s')"
  then obtain st where st: "ServeHTTP u ?d (me_now env) r w \<lparr>cluster = wd_cluster s, mets = Some (wd_metrics s), elog = wd_log s\<rparr> = Some (w', st)"
    "wd_metrics s' = (case mets st of Some m \<Rightarrow> m | None \<Rightarrow> wd_metrics s)"
    by (auto simp: dispatch_handler_def split: option.splits)
  have "provider_contract q" if "providers ?d k = Some q" for k q
    using that jsm_contract.provider_contract_axioms by (auto split: if_splits)
  from production.serve_gauge [OF st(1) this] have "gauge (mets st) = gauge (Some (wd_metrics s))" by simp
  then have "inflight (wd_metrics s') = inflight (wd_metrics s) \<and> bad (wd_metrics s') = bad (wd_metrics s)"
    using st(2) by (cases "mets st") simp_all
  moreover have "length (w_recs w') = length (w_recs w)"
    using st(1) by (cases rule: ServeHTTP_cases) (auto simp: writeResponse_def Let_def)
  ultimately show "length (w_recs w') = length (w_recs w) \<and> inflight (wd_metrics s') = inflight (wd_metrics s) \<and> bad (wd_metrics s') = bad (wd_metrics s)" by blast
qed

interpretation tombstone: balanced_handler "tombstone :: ('k, 'l) world handler"
  by unfold_locales (auto simp: tombstone_def respond_def)

lemma webhook_mux_balanced:
  assumes "balanced_handler h" "redirect_ok redirect"
  shows "balanced_handler (mux_ServeHTTP redirect [webhook_route h])"
proof
  fix r w s p r' w' s'
  assume m: "mux_ServeHTTP redirect [webhook_route h] r w s = Some (p, r', w', s')"
  show "length (w_recs w') = length (w_recs w) \<and> inflight (wd_metrics s') = inflight (wd_metrics s) \<and> bad (wd_metrics s') = bad (wd_metrics s)"
  proof (cases "findHandler [webhook_route h] r")
    case (Found rt ms)
    then have "rt = webhook_route h" by (rule webhook_route_Found)
    then have "h (set_match (rt_text rt) ms r) w s = Some (p, r', w', s')"
      using m Found by (simp add: mux_ServeHTTP_def webhook_route_def)
    then show ?thesis by (rule balanced_handler.balanced [OF assms(1)])
  qed (use m assms(2) in \<open>auto simp: mux_ServeHTTP_def redirect_ok_def\<close>)
qed

lemma OTel_balanced:
  assumes "balanced_handler h" "otel_transparent (OTel otel n)"
  shows "balanced_handler (OTel otel n h)"
proof
  fix r w s p r' w' s'
  assume "OTel otel n h r w s = Some (p, r', w', s')"
  with assms(2) obtain c r1 where "h (WithContext c r) w s = Some (p, r1, w', s')" by (rule otel_transparentE)
  then show "length (w_recs w') = length (w_recs w) \<and> inflight (wd_metrics s') = inflight (wd_metrics s) \<and> bad (wd_metrics s') = bad (wd_metrics s)"
    by (rule balanced_handler.balanced [OF assms(1)])
qed

lemma public_balanced:
  assumes "balanced_handler h" "redirect_ok redirect" "otel_transparent (OTel otel (ServiceName cfg))"
  shows "balanced_handler (buildPublicHandler otel redirect env cfg logger (Some h))"
  unfolding buildPublicHandler_Chain option.case
  by (intro balanced_handler.Recover_balanced OTel_balanced balanced_handler.RequestID_balanced
      balanced_handler.RateLimit_balanced balanced_handler.SLog_balanced balanced_handler.Metrics_balanced
      webhook_mux_balanced assms)

subsection \<open>Every request is answered under its request ID\<close>

lemma carries_pop [intro]: "carries k v w \<Longrightarrow> carries k v (pop_recorder w)"
  by (cases "w_recs w") (auto simp: carries_def wf_writer_def)

lemma request_id_key:
  "\<forall>k \<in> set [''Content-Type'', ''X-Content-Type-Options'', ''Retry-After'', ''Allow'', ''Content-Length'',
     ''Content-Encoding'', ''Etag'', ''Last-Modified'']. CanonicalMIMEHeaderKey k \<noteq> CanonicalMIMEHeaderKey requestIDHeader"
  by code_simp

lemmas request_id_keys [simp] = request_id_key [simplified]

lemma carries_http_Error [intro]:
  "carries requestIDHeader v w \<Longrightarrow> carries requestIDHeader v (http_Error msg status w)"
  unfolding http_Error_def Let_def
  by (intro carries_Write carries_WriteHeader carries_set_header carries_w_header)
    (auto simp: Header_Get_Del_other carries_def)

lemma carries_writeResponse:
  "carries requestIDHeader v w \<Longrightarrow> carries requestIDHeader v (fst (writeResponse c prov res w st))"
  unfolding writeResponse_def Let_def fst_conv
  by (intro carries_Write carries_WriteHeader carries_set_header) simp_all

locale answering_handler =
  fixes h :: "('k, 'l) world handler"
  assumes answers: "h r w s = Some (p, r', w', s') \<Longrightarrow> carries requestIDHeader v w \<Longrightarrow>
    carries requestIDHeader v w' \<and> (p = None \<longrightarrow> w_sent w' \<noteq> None)"
begin

lemma SLog_answers: "answering_handler (SLog lg env h)"
  by unfold_locales (auto simp: SLog_def Let_def split: option.splits dest!: answers)

lemma Metrics_answers: "answering_handler (Metrics_mw env h)"
  by unfold_locales (auto simp: Metrics_mw_def Let_def split: option.splits if_splits dest!: answers)

lemma RateLimit_answers: "answering_handler (RateLimit cfg env h)"
proof
  fix r w s p r' w' s' v
  assume "RateLimit cfg env h r w s = Some (p, r', w', s')" and c: "carries requestIDHeader v w"
  then consider s1 where "h r w s1 = Some (p, r', w', s')" | "p = Some label_panic" "w' = w"
    | n where "w' = WriteHeader 429 (set_header ''Retry-After'' n w)"
    by (auto simp: RateLimit_def Let_def split: prod.splits if_splits)
  then show "carries requestIDHeader v w' \<and> (p = None \<longrightarrow> w_sent w' \<noteq> None)"
  proof cases
    case (3 n)
    have "carries requestIDHeader v (set_header ''Retry-After'' n w)" using c by (rule carries_set_header) simp
    then show ?thesis using 3 carries_WriteHeader carries_sent by blast
  qed (use c answers in blast)+
qed

end

interpretation dispatcher_answers: answering_handler "dispatch_handler u d env"
  for u and d :: "'k dispatcher" and env :: "('l, 'r) mw_env"
proof
  fix r w and s :: "('k, 'l) world" and p r' w' s' v
  assume "dispatch_handler u d env r w s = Some (p, r', w', s')" and c: "carries requestIDHeader v w"
  then obtain st where "ServeHTTP u d (me_now env) r w \<lparr>cluster = wd_cluster s, mets = Some (wd_metrics s), elog = wd_log s\<rparr> = Some (w', st)"
    by (auto simp: dispatch_handler_def split: option.splits)
  then show "carries requestIDHeader v w' \<and> (p = None \<longrightarrow> w_sent w' \<noteq> None)"
  proof (cases rule: ServeHTTP_cases)
    case (rejected prov body err m)
    then have "w' = fst (writeResponse (Ctx r) prov (classifyProviderErr u err) w
      (\<lparr>cluster = wd_cluster s, mets = Some (wd_metrics s), elog = wd_log s\<rparr>\<lparr>mets := m\<rparr>))" by (metis fst_conv)
    then show ?thesis using carries_writeResponse [OF c] by (simp add: writeResponse_def Let_def Write_sent)
  next
    case (executed prov body act m res st1)
    then have "w' = fst (writeResponse (Ctx r) prov res w st1)" by (metis fst_conv)
    then show ?thesis using carries_writeResponse [OF c] by (simp add: writeResponse_def Let_def Write_sent)
  qed (use c http_Error_sent in auto)
qed

interpretation tombstone_answers: answering_handler "tombstone :: ('k, 'l) world handler"
proof
  fix r w and s :: "('k, 'l) world" and p r' w' s' v
  assume t: "tombstone r w s = Some (p, r', w', s')" and c: "carries requestIDHeader v w"
  have "carries requestIDHeader v (set_header ''Retry-After'' ''30'' w)" using c by (rule carries_set_header) simp
  then show "carries requestIDHeader v w' \<and> (p = None \<longrightarrow> w_sent w' \<noteq> None)"
    using t http_Error_sent by (auto simp: tombstone_def respond_def)
qed

lemma webhook_mux_answers:
  assumes "answering_handler h" "redirect_ok redirect"
  shows "answering_handler (mux_ServeHTTP redirect [webhook_route h])"
proof
  fix r w s p r' w' s' v
  assume m: "mux_ServeHTTP redirect [webhook_route h] r w s = Some (p, r', w', s')" and c: "carries requestIDHeader v w"
  show "carries requestIDHeader v w' \<and> (p = None \<longrightarrow> w_sent w' \<noteq> None)"
  proof (cases "findHandler [webhook_route h] r")
    case (Found rt ms)
    then have "rt = webhook_route h" by (rule webhook_route_Found)
    then have "h (set_match (rt_text rt) ms r) w s = Some (p, r', w', s')"
      using m Found by (simp add: mux_ServeHTTP_def webhook_route_def)
    then show ?thesis using answering_handler.answers [OF assms(1)] c by blast
  next
    case (NotAllowed allowed)
    have "carries requestIDHeader v (set_header ''Allow'' (join '', '' allowed) w)" using c by (rule carries_set_header) simp
    then show ?thesis using m NotAllowed http_Error_sent by (auto simp: mux_ServeHTTP_def)
  next
    case (Redirected pat target)
    then have "w' = redirect r target w" using m by (auto simp: mux_ServeHTTP_def)
    then show ?thesis using c assms(2) by (simp add: redirect_ok_def responds_def)
  next
    case NoRoute
    then show ?thesis using m c http_Error_sent by (auto simp: mux_ServeHTTP_def)
  qed
qed

text \<open>The request ID of a request: the inbound one, or else a generated one.\<close>

definition request_id :: "('l, 'r) mw_env \<Rightarrow> request \<Rightarrow> string" where
  "request_id env r =
    (if Header_Get (ReqHeader r) requestIDHeader \<noteq> [] then Header_Get (ReqHeader r) requestIDHeader
     else case me_NewV7 env of Inr v7 \<Rightarrow> v7 | Inl _ \<Rightarrow> me_NewV4 env)"

lemma RequestID_eq:
  "RequestID env h r w s =
    (case h (WithContext ((Ctx r)\<lparr>ctx_reqid := Some (request_id env r)\<rparr>) r) (set_header requestIDHeader (request_id env r) w) s of
       None \<Rightarrow> None | Some (p, _, w', s') \<Rightarrow> Some (p, r, w', s'))"
  by (auto simp: RequestID_def request_id_def Let_def)

text \<open>What the outer middleware makes of a request: it runs the limiter on the request under its request ID, and
  \<open>Recover\<close> catches what panics.\<close>

lemma public_run:
  assumes "otel_transparent (OTel otel (ServiceName cfg))"
  obtains c where "ctx_reqid c = Some (request_id env r)"
    "\<And>h w s. buildPublicHandler otel redirect env cfg logger (Some h) r w s =
      Recover logger env (\<lambda>_ _ _. map_option (\<lambda>(p, _, w', s'). (p, r, w', s'))
        (RateLimit \<lparr>RPS = RateLimitRPS cfg, Burst = RateLimitBurst cfg\<rparr> env
          (SLog logger env (Metrics_mw env (mux_ServeHTTP redirect [webhook_route h])))
          (WithContext c r) (set_header requestIDHeader (request_id env r) w) s)) r w s"
proof -
  obtain f where f: "\<And>h r w s. OTel otel (ServiceName cfg) h r w s =
      map_option (\<lambda>(p, _, w', s'). (p, r, w', s')) (h (WithContext (f r) r) w s)"
    using assms unfolding otel_transparent_def by blast
  have i: "request_id env (WithContext c r) = request_id env r" for c by (simp add: request_id_def WithContext_def)
  let ?c = "(f r)\<lparr>ctx_reqid := Some (request_id env r)\<rparr>"
  have w: "WithContext ((Ctx (WithContext (f r) r))\<lparr>ctx_reqid := Some (request_id env r)\<rparr>) (WithContext (f r) r) = WithContext ?c r"
    by (simp add: WithContext_def)
  have "OTel otel (ServiceName cfg) (RequestID env h) r w s = map_option (\<lambda>(p, _, w', s'). (p, r, w', s'))
      (h (WithContext ?c r) (set_header requestIDHeader (request_id env r) w) s)" for h w s
    unfolding f RequestID_eq i w by (auto split: option.split)
  then have "buildPublicHandler otel redirect env cfg logger (Some h) r w s =
      Recover logger env (\<lambda>_ _ _. map_option (\<lambda>(p, _, w', s'). (p, r, w', s'))
        (RateLimit \<lparr>RPS = RateLimitRPS cfg, Burst = RateLimitBurst cfg\<rparr> env
          (SLog logger env (Metrics_mw env (mux_ServeHTTP redirect [webhook_route h])))
          (WithContext ?c r) (set_header requestIDHeader (request_id env r) w) s)) r w s" for h w s
    by (simp add: buildPublicHandler_Chain Recover_def)
  then show thesis using that [of ?c] by simp
qed

text \<open>Only an admitted request reaches the cluster.\<close>

lemma public_admitted:
  assumes "otel_transparent (OTel otel (ServiceName cfg))"
    and "buildPublicHandler otel redirect env cfg logger (Some h) r w s = Some (p, r', w', s')"
    and "wd_cluster s' \<noteq> wd_cluster s"
  shows "fst (admission \<lparr>RPS = RateLimitRPS cfg, Burst = RateLimitBurst cfg\<rparr> env r (wd_limiters s))"
proof -
  let ?rl = "\<lparr>RPS = RateLimitRPS cfg, Burst = RateLimitBurst cfg\<rparr>"
  let ?h = "SLog logger env (Metrics_mw env (mux_ServeHTTP redirect [webhook_route h]))"
  let ?w = "set_header requestIDHeader (request_id env r) w"
  obtain c where "buildPublicHandler otel redirect env cfg logger (Some h) r w s =
      Recover logger env (\<lambda>_ _ _. map_option (\<lambda>(p, _, w', s'). (p, r, w', s')) (RateLimit ?rl env ?h (WithContext c r) ?w s)) r w s"
    using public_run [OF assms(1)] by metis
  then show ?thesis
    using assms(2,3)
    by (cases rule: RateLimit_cases [of ?rl env "WithContext c r" s ?h ?w]) (auto simp: Recover_def Let_def)
qed

lemma public_answers:
  assumes "answering_handler h" "redirect_ok redirect" "otel_transparent (OTel otel (ServiceName cfg))"
    and "fresh w" "buildPublicHandler otel redirect env cfg logger (Some h) r w s = Some (p, r', w', s')"
  shows "p = None \<and> (\<exists>status hd. w_sent w' = Some (status, hd) \<and> Header_Get hd requestIDHeader = request_id env r)"
proof -
  let ?in = "RateLimit \<lparr>RPS = RateLimitRPS cfg, Burst = RateLimitBurst cfg\<rparr> env (SLog logger env (Metrics_mw env
        (mux_ServeHTTP redirect [webhook_route h])))"
  have inner: "answering_handler ?in"
    by (intro answering_handler.RateLimit_answers answering_handler.SLog_answers answering_handler.Metrics_answers
        webhook_mux_answers assms)
  have pub: "Recover logger env (OTel otel (ServiceName cfg) (RequestID env ?in)) r w s = Some (p, r', w', s')"
    using assms(5) by (simp add: buildPublicHandler_Chain)
  then obtain p1 r1 w1 s1 where o: "OTel otel (ServiceName cfg) (RequestID env ?in) r w s = Some (p1, r1, w1, s1)"
    and p: "p = None" and w': "w' = w1 \<and> p1 = None \<or> w' = WriteHeader 500 w1"
    by (auto simp: Recover_def Let_def split: option.splits)
  obtain c r2 where "RequestID env ?in (WithContext c r) w s = Some (p1, r2, w1, s1)"
    using otel_transparentE [OF assms(3), OF o] by blast
  moreover have "request_id env (WithContext c r) = request_id env r"
    by (simp add: request_id_def WithContext_def)
  ultimately obtain r3 r4 where i: "?in r3 (set_header requestIDHeader (request_id env r) w) s = Some (p1, r4, w1, s1)"
    by (auto simp: RequestID_eq split: option.splits)
  have "carries requestIDHeader (request_id env r) (set_header requestIDHeader (request_id env r) w)"
    using assms(4) by (auto simp: carries_def set_header_def wf_writer_def fresh_def list_all_iff list_ex_iff)
  then have a: "carries requestIDHeader (request_id env r) w1" "p1 = None \<longrightarrow> w_sent w1 \<noteq> None"
    using answering_handler.answers [OF inner i] by blast+
  then have "carries requestIDHeader (request_id env r) w'" "w_sent w' \<noteq> None"
    using w' carries_WriteHeader carries_sent by metis+
  then show ?thesis using p by (auto simp: carries_def)
qed

subsection \<open>Every request that passes the limiter is counted once\<close>

lemma record_request_counts:
  "http_requests (record_request d r rc m) = (http_requests m)
     ([Method r, routeOf r, Itoa (rec_status rc)] := Suc (http_requests m [Method r, routeOf r, Itoa (rec_status rc)]))"
  by (simp add: record_request_def Let_def)
    (auto simp: http_requests_def HTTPRequests_def Inc_def fun_eq_iff)

text \<open>What the labels of a request rely on: the handler hands back a request with the same method, under the
  route it is counted under.\<close>

locale labelled_handler =
  fixes h :: "('k, 'l) world handler" and route :: "request \<Rightarrow> string"
  assumes labels: "h r w s = Some (p, r', w', s') \<Longrightarrow> Method r' = Method r \<and> routeOf r' = route r"

interpretation dispatcher_labelled: labelled_handler "dispatch_handler u d env" routeOf
  for u and d :: "'k dispatcher" and env :: "('l, 'r) mw_env"
  by unfold_locales (auto simp: dispatch_handler_def split: option.splits)

lemma webhook_mux_labelled:
  assumes "labelled_handler h routeOf"
  shows "labelled_handler (mux_ServeHTTP redirect [webhook_route h]) route_label"
proof
  fix r w s p r' w' s'
  assume m: "mux_ServeHTTP redirect [webhook_route h] r w s = Some (p, r', w', s')"
  have t: "rt_text (webhook_route h) = ''POST /webhook/{provider}''" "rt_handler (webhook_route h) = h"
    by (simp_all add: webhook_route_def)
  show "Method r' = Method r \<and> routeOf r' = route_label r"
  proof (cases "mux_path r = EscapedPath r \<and> Method r = ''POST'' \<and> webhook_provider (EscapedPath r) \<noteq> None")
    case True
    then obtain v where v: "webhook_provider (EscapedPath r) = Some v" "mux_path r = EscapedPath r" "Method r = ''POST''" by auto
    then have "h (set_match ''POST /webhook/{provider}'' [(''provider'', v)] r) w s = Some (p, r', w', s')"
      using m by (simp add: mux_ServeHTTP_def webhook_findHandler t)
    from labelled_handler.labels [OF assms this] v show ?thesis by (simp add: route_label_def routeOf_def)
  next
    case False
    then show ?thesis
      using m by (auto simp: mux_ServeHTTP_def webhook_findHandler route_label_def routeOf_def split: if_splits option.splits)
  qed
qed

lemma route_label_ok: "utf8_labels env \<Longrightarrow> me_label_ok env (route_label r)"
  by (rule ascii_label) (auto simp: route_label_def is_ascii_def)

text \<open>What the request counter relies on: the inner handler starts a response on a fresh writer unless it
  panics, never with 429, and leaves the request counter to the middleware.\<close>

locale recorded_handler = balanced_handler h + labelled_handler h route
  for h :: "('k, 'l) world handler" and route +
  assumes recorded: "h r w s = Some (p, r', w', s') \<Longrightarrow> fresh w \<Longrightarrow>
    p = None \<and> http_requests (wd_metrics s') = http_requests (wd_metrics s) \<and>
    (\<exists>status b. status \<noteq> 429 \<and> answered status b w')"
begin

lemma Metrics_counts:
  assumes "Metrics_mw env h r w s = Some (p, r', w', s')" "fresh w"
    and "utf8_labels env" "me_label_ok env (Method r)" "me_label_ok env (route r)"
  shows "p = None \<and> (\<exists>status b. status \<noteq> 429 \<and> answered status b w' \<and>
    http_requests (wd_metrics s') = (http_requests (wd_metrics s))
      ([Method r, route r, Itoa status] := Suc (http_requests (wd_metrics s) [Method r, route r, Itoa status])))"
proof -
  obtain p1 w1 s1 where i: "h r (newStatusRecorder w) (on_metrics InflightInc s) = Some (p1, r', w1, s1)"
    using assms(1) by (auto simp: Metrics_mw_def Let_def split: option.splits if_splits)
  obtain status b where h: "p1 = None"
    "http_requests (wd_metrics s1) = http_requests (wd_metrics s)" "status \<noteq> 429" "answered status b w1"
    using recorded [OF i] assms(2) by auto
  have l: "Method r' = Method r" "routeOf r' = route r" using labels [OF i] by simp_all
  have ok: "list_all (me_label_ok env) [Method r', routeOf r', Itoa (rec_status (hd (w_recs w1)))]"
    using assms(3-5) ascii_label [OF assms(3) is_ascii_Itoa] by (simp add: l)
  have res: "p = None" "w' = pop_recorder w1"
    "s' = on_metrics InflightDec (on_metrics (record_request (me_elapsed env) r' (hd (w_recs w1))) s1)"
    using assms(1) i h(1) ok unfolding Metrics_mw_def Let_def by simp_all
  have "w_recs w1 \<noteq> []" using balanced [OF i] by (auto simp: newStatusRecorder_def)
  then have "rec_status (hd (w_recs w1)) = status" "answered status b w'"
    using h(4) res(2) by (cases "w_recs w1"; simp add: answered_def)+
  moreover have "http_requests (wd_metrics s') = (http_requests (wd_metrics s))
      ([Method r, route r, Itoa status] := Suc (http_requests (wd_metrics s) [Method r, route r, Itoa status]))"
    using res(3) h(2) l calculation(1) by (simp add: record_request_counts)
  ultimately show ?thesis using res(1) h(3) by blast
qed

end

interpretation jsm_recorded: recorded_handler "dispatch_handler u
     \<lparr>providers = [''jsm'' \<mapsto> jsm_New u jt mac pcfg], executor = Execute xenv ecfg, dlogger = lg, maxBodyBytes = n\<rparr> env" routeOf
  for u jt mac pcfg n and xenv :: "'k exec_env" and ecfg lg and env :: "('l, 'r) mw_env"
proof
  fix r w and s :: "('k, 'l) world" and p r' w' s'
  let ?d = "\<lparr>providers = [''jsm'' \<mapsto> jsm_New u jt mac pcfg], executor = Execute xenv ecfg, dlogger = lg, maxBodyBytes = n\<rparr>"
  assume d: "dispatch_handler u ?d env r w s = Some (p, r', w', s')" and f: "fresh w"
  then obtain st where st: "ServeHTTP u ?d (me_now env) r w \<lparr>cluster = wd_cluster s, mets = Some (wd_metrics s), elog = wd_log s\<rparr> = Some (w', st)"
    "wd_metrics s' = (case mets st of Some m \<Rightarrow> m | None \<Rightarrow> wd_metrics s)" "p = None" "r' = r"
    by (auto simp: dispatch_handler_def split: option.splits)
  have "provider_contract q" if "providers ?d k = Some q" for k q
    using that jsm_contract.provider_contract_axioms by (auto split: if_splits)
  from production.serve_gauge [OF st(1) this] have "gauge (mets st) = gauge (Some (wd_metrics s))" by simp
  then have "http_requests (wd_metrics s') = http_requests (wd_metrics s)"
    using st(2) by (cases "mets st") simp_all
  moreover have "\<exists>status b. status \<noteq> 429 \<and> answered status b w'"
    using f st(1)
  proof (cases rule: production.answer)
    case (early status msg)
    moreover have "status \<noteq> 429" using early(4) by auto
    ultimately show ?thesis by blast
  next
    case (late prov res st1)
    moreover have "HTTPStatus (Kind res) \<noteq> 429" using HTTPStatus_range [of "Kind res"] by auto
    ultimately show ?thesis by blast
  qed
  ultimately show "p = None \<and> http_requests (wd_metrics s') = http_requests (wd_metrics s) \<and>
    (\<exists>status b. status \<noteq> 429 \<and> answered status b w')" using st by simp
qed

lemma http_Error_answers:
  "fresh w \<Longrightarrow> n \<noteq> 429 \<Longrightarrow> \<exists>status b. status \<noteq> 429 \<and> answered status b (http_Error msg n w)"
  using http_Error_fresh(1) by blast

lemma webhook_mux_recorded:
  assumes "recorded_handler h routeOf" "redirect_ok redirect"
  shows "recorded_handler (mux_ServeHTTP redirect [webhook_route h]) route_label"
proof (intro recorded_handler.intro recorded_handler_axioms.intro)
  show "balanced_handler (mux_ServeHTTP redirect [webhook_route h])"
    using assms webhook_mux_balanced recorded_handler.axioms(1) by blast
  show "labelled_handler (mux_ServeHTTP redirect [webhook_route h]) route_label"
    using assms(1) webhook_mux_labelled recorded_handler.axioms(2) by blast
  fix r w s p r' w' s'
  assume m: "mux_ServeHTTP redirect [webhook_route h] r w s = Some (p, r', w', s')" and f: "fresh w"
  show "p = None \<and> http_requests (wd_metrics s') = http_requests (wd_metrics s) \<and>
    (\<exists>status b. status \<noteq> 429 \<and> answered status b w')"
  proof (cases "findHandler [webhook_route h] r")
    case (Found rt ms)
    then have "rt = webhook_route h" by (rule webhook_route_Found)
    then have "h (set_match (rt_text rt) ms r) w s = Some (p, r', w', s')"
      using m Found by (simp add: mux_ServeHTTP_def webhook_route_def)
    from recorded_handler.recorded [OF assms(1) this f] show ?thesis by simp
  next
    case (NotAllowed allowed)
    then show ?thesis
      using m f http_Error_answers [of "set_header ''Allow'' (join '', '' allowed) w" 405 "''Method Not Allowed''"]
      by (auto simp: mux_ServeHTTP_def)
  next
    case (Redirected pat target)
    then show ?thesis using m f assms(2) by (auto simp: mux_ServeHTTP_def redirect_ok_def)
  next
    case NoRoute
    then show ?thesis using m f http_Error_answers [of w 404 "''404 page not found''"] by (auto simp: mux_ServeHTTP_def)
  qed
qed

lemma SLog_passes:
  assumes "SLog logger env h r w s = Some (p, r', w', s')"
  obtains w1 s1 where "h r (newStatusRecorder w) s = Some (p, r', w1, s1)" "w' = pop_recorder w1"
    "wd_metrics s' = wd_metrics s1"
  using assms by (auto simp: SLog_def Let_def split: option.splits)

lemma answered_pop: "answered status b w \<Longrightarrow> answered status b (pop_recorder w)"
  by (cases "w_recs w") (auto simp: answered_def)

lemma public_counts:
  assumes "recorded_handler h routeOf" "redirect_ok redirect" "otel_transparent (OTel otel (ServiceName cfg))"
    and "fresh w" "utf8_labels env" "me_label_ok env (Method r)"
    and "buildPublicHandler otel redirect env cfg logger (Some h) r w s = Some (p, r', w', s')"
  shows "\<exists>status hd. w_sent w' = Some (status, hd) \<and>
    (if fst (admission \<lparr>RPS = RateLimitRPS cfg, Burst = RateLimitBurst cfg\<rparr> env r (wd_limiters s))
     then status \<noteq> 429 \<and> http_requests (wd_metrics s') = (http_requests (wd_metrics s))
       ([Method r, route_label r, Itoa status] := Suc (http_requests (wd_metrics s) [Method r, route_label r, Itoa status]))
     else status = (if me_label_ok env (providerFromPath (URLPath r)) then 429 else 500) \<and>
       http_requests (wd_metrics s') = http_requests (wd_metrics s))"
proof -
  let ?rl = "\<lparr>RPS = RateLimitRPS cfg, Burst = RateLimitBurst cfg\<rparr>"
  let ?mux = "mux_ServeHTTP redirect [webhook_route h]"
  let ?h = "SLog logger env (Metrics_mw env ?mux)" and ?w = "set_header requestIDHeader (request_id env r) w"
  have f: "fresh ?w" using assms(4) by simp
  obtain c where "buildPublicHandler otel redirect env cfg logger (Some h) r w s =
      Recover logger env (\<lambda>_ _ _. map_option (\<lambda>(p, _, w', s'). (p, r, w', s')) (RateLimit ?rl env ?h (WithContext c r) ?w s)) r w s"
    using public_run [OF assms(3)] by metis
  note run = assms(7) [unfolded this]
  show ?thesis
  proof (cases rule: RateLimit_cases [of ?rl env "WithContext c r" s ?h ?w])
    case passed
    let ?s = "s\<lparr>wd_limiters := snd (admission ?rl env (WithContext c r) (wd_limiters s))\<rparr>"
    obtain p1 r1 w1 s1 where i: "?h (WithContext c r) ?w ?s = Some (p1, r1, w1, s1)"
      using run passed(2) by (auto simp: Recover_def split: option.splits)
    obtain w2 s2 where sl: "Metrics_mw env ?mux (WithContext c r) (newStatusRecorder ?w) ?s = Some (p1, r1, w2, s2)"
      "w1 = pop_recorder w2" "wd_metrics s1 = wd_metrics s2" using i by (rule SLog_passes)
    have "recorded_handler ?mux route_label" using assms(1,2) by (rule webhook_mux_recorded)
    from recorded_handler.Metrics_counts [OF this sl(1) _ assms(5)] f assms(6) route_label_ok [OF assms(5), of r]
    obtain status b where m: "p1 = None" "status \<noteq> 429" "answered status b w2" "http_requests (wd_metrics s2) =
        (http_requests (wd_metrics s))([Method r, route_label r, Itoa status] :=
          Suc (http_requests (wd_metrics s) [Method r, route_label r, Itoa status]))"
      by auto
    then have "w' = w1" "s' = s1" using run passed(2) i by (simp_all add: Recover_def)
    then show ?thesis using m sl(2,3) passed(1) answered_pop [of status b w2] by (auto simp: answered_def)
  next
    case panicked
    then have "w' = WriteHeader 500 ?w" "http_requests (wd_metrics s') = http_requests (wd_metrics s)"
      using run by (auto simp: Recover_def Let_def HTTPPanics_def HTTPRequests_def)
    then show ?thesis using panicked(1,2) WriteHeader_fresh [OF f, of 500] by auto
  next
    case (refused n)
    then have "w' = WriteHeader 429 (set_header ''Retry-After'' (Itoa n) ?w)"
      "http_requests (wd_metrics s') = http_requests (wd_metrics s)"
      using run by (auto simp: Recover_def HTTPRateLimited_def HTTPRequests_def)
    then show ?thesis using refused(1,2) f WriteHeader_fresh [of "set_header ''Retry-After'' (Itoa n) ?w" 429] by auto
  qed
qed

subsection \<open>Probes\<close>

definition admin_routes :: "('k, 'l) world admin_lib \<Rightarrow> bool \<Rightarrow> admin_config \<Rightarrow> ('k, 'l) world route list" where
  "admin_routes lib ready cfg =
     [get_route ''/healthz'' [''healthz''] False healthz,
      get_route ''/readyz'' [''readyz''] False (readyz ready),
      get_route ''/metrics'' [''metrics''] False (promhttp_HandlerFor lib)] @
     (if AdmPProfEnabled cfg then registerPProf lib else [])"

lemma probe_paths:
  "cleanPath ''/healthz'' = ''/healthz''" "cleanPath ''/readyz'' = ''/readyz''"
  "mux_segments ''/healthz'' = [''healthz'']" "mux_segments ''/readyz'' = [''readyz'']"
  by code_simp+

lemma probe_matches:
  "tree_match (admin_routes lib ready cfg) ''GET'' ''/healthz'' = Some (get_route ''/healthz'' [''healthz''] False healthz, [])"
  "tree_match (admin_routes lib ready cfg) ''GET'' ''/readyz'' = Some (get_route ''/readyz'' [''readyz''] False (readyz ready), [])"
  by (simp_all add: tree_match_def match_path_def route_match_def admin_routes_def registerPProf_def get_route_def probe_paths)

lemma probe_found:
  assumes "Method r = ''GET''" "EscapedPath r \<in> {''/healthz'', ''/readyz''}"
  shows "findHandler (admin_routes lib ready cfg) r =
    (if EscapedPath r = ''/readyz'' then Found (get_route ''/readyz'' [''readyz''] False (readyz ready)) []
     else Found (get_route ''/healthz'' [''healthz''] False healthz) [])"
proof -
  have "mux_path r = EscapedPath r" using assms by (auto simp: mux_path_def probe_paths)
  moreover have "\<not> slash_redirect (admin_routes lib ready cfg) ''GET'' (EscapedPath r)"
    using assms(2) by (auto simp: slash_redirect_def probe_matches exactMatch_def get_route_def)
  ultimately show ?thesis
    using assms by (auto simp: findHandler_def Let_def probe_matches)
qed

lemma NewAdminMux_eq:
  "NewAdminMux lib redirect env logger ready cfg =
     Recover logger env (Metrics_mw env (mux_ServeHTTP redirect (admin_routes lib ready cfg)))"
  by (simp add: NewAdminMux_def admin_routes_def)

text \<open>C28. The probes tell the truth: on the admin listener \<open>GET /readyz\<close> is answered 503 while the readiness
  flag is down and 200 while it is up, \<open>GET /healthz\<close> always 200, and neither touches the cluster nor panics
  (the metrics library being relied on for valid UTF-8 labels only).\<close>

theorem probes_answer:
  assumes "fresh w" "Method r = ''GET''" "EscapedPath r \<in> {''/healthz'', ''/readyz''}" "utf8_labels env"
  shows "\<exists>r' w' s'. NewAdminMux lib redirect env logger ready cfg r w s = Some (None, r', w', s') \<and>
    wd_cluster s' = wd_cluster s \<and>
    (if EscapedPath r = ''/readyz'' \<and> \<not> ready then answered 503 ''not ready'' w'
     else if EscapedPath r = ''/readyz'' then answered 200 ''ready'' w'
     else answered 200 ''ok'' w')"
proof -
  have f: "fresh (newStatusRecorder w)" using assms(1) by simp
  note a = WriteHeader_Write_fresh(1) [OF f]
  have l: "me_label_ok env ''GET''" "me_label_ok env ''GET /healthz''" "me_label_ok env ''GET /readyz''"
    by (intro ascii_label [OF assms(4)], simp add: is_ascii_def)+
  note l = l ascii_label [OF assms(4) is_ascii_Itoa]
  show ?thesis
    using probe_found [OF assms(2,3), of lib ready cfg] assms(2) l answered_pop [OF a]
    by (auto simp: NewAdminMux_eq Recover_def Metrics_mw_def Let_def mux_ServeHTTP_def get_route_def readyz_def
        healthz_def respond_def writeBody_def routeOf_def)
qed

text \<open>Handlers for the library endpoints that answer with an empty 200.\<close>

definition ex_admin_lib :: "'s admin_lib" where
  "ex_admin_lib = (let h = respond (WriteHeader 200) in
     \<lparr>promhttp_HandlerFor = h, pprof_Index = h, pprof_Cmdline = h, pprof_Profile = h, pprof_Symbol = h, pprof_Trace = h\<rparr>)"

theorem probes_answer_witness:
  "\<exists>r' w' s'. NewAdminMux ex_admin_lib (\<lambda>r t w. w) ex_mw (NewLogger LevelInfo ''json'') False \<lparr>AdmPProfEnabled = True\<rparr>
     ((ex_path_request ''/readyz'')\<lparr>Method := ''GET''\<rparr>) blank ex_world = Some (None, r', w', s') \<and> answered 503 ''not ready'' w'"
  using probes_answer [of blank "(ex_path_request ''/readyz'')\<lparr>Method := ''GET''\<rparr>" ex_mw ex_admin_lib "\<lambda>r t w. w"
      "NewLogger LevelInfo ''json''" False "\<lparr>AdmPProfEnabled = True\<rparr>" ex_world]
  by (auto simp: fresh_def blank_def ex_path_request_def ex_mw_utf8)

subsection \<open>Panics\<close>

text \<open>C27. \<open>Recover\<close> contains a panic: it counts it once and logs it, leaves cluster and limiters as the handler
  left them, answers 500 when the response had not been started, and leaves a started response alone.\<close>

theorem Recover_contains_panic:
  assumes "nxt r w s = Some (Some v, r', w', s')"
  shows "\<exists>w'' s''. Recover logger env nxt r w s = Some (None, r', w'', s'') \<and>
    counts (wd_metrics s'') = (counts (wd_metrics s'))((''webhookd_http_panics_total'', []) :=
      Suc (counts (wd_metrics s') (''webhookd_http_panics_total'', []))) \<and>
    wd_log s'' = log_at logger (Ctx r) LevelError ''http handler panic''
      [(''panic'', LStr v), (''stack'', LStr (me_stack env)), (''method'', LStr (Method r')), (''route'', LStr (routeOf r'))] (wd_log s') \<and>
    wd_cluster s'' = wd_cluster s' \<and> wd_limiters s'' = wd_limiters s' \<and> w_body w'' = w_body w' \<and>
    (fresh w' \<longrightarrow> answered 500 [] w'') \<and> (\<forall>x. w_sent w' = Some x \<longrightarrow> w_sent w'' = Some x)"
proof -
  have "answered 500 [] (WriteHeader 500 w')" if "fresh w'"
    using that by (auto simp: WriteHeader_fresh answered_def fresh_def list_all_iff)
  moreover have "w_sent (WriteHeader 500 w') = Some x" if "w_sent w' = Some x" for x
    using that by (auto simp: WriteHeader_def base_WriteHeader_def Let_def split: prod.splits)
  moreover have "w_body (WriteHeader 500 w') = w_body w'"
    by (auto simp: WriteHeader_def base_WriteHeader_def Let_def split: prod.splits option.splits)
  ultimately show ?thesis
    using assms by (auto simp: Recover_def Let_def HTTPPanics_def Inc_def)
qed

theorem Recover_contains_panic_witness:
  "\<exists>w'' s''. Recover (NewLogger LevelInfo ''json'') ex_mw probe (ex_path_request ''/webhook/jsm'') blank ex_world =
      Some (None, ex_path_request ''/webhook/jsm'', w'', s'') \<and> answered 500 [] w''"
  using Recover_contains_panic [of probe "ex_path_request ''/webhook/jsm''" blank ex_world "''reached''"
      "ex_path_request ''/webhook/jsm''" blank ex_world "NewLogger LevelInfo ''json''" ex_mw]
  by (auto simp: probe_def fresh_def blank_def)

end
