(* ===== verification/Example.thy ===== *)
theory Example
  imports Public
begin

text \<open>
  A small deployment to run the program on: a cluster that holds at most one object, a signer, a JSM
  delivery, and the listeners around them.
\<close>

subsection \<open>An example deployment\<close>

text \<open>A cluster that holds at most one object, with an operator that marks it ready at once.\<close>

fun mark_ready :: "client_object \<Rightarrow> client_object" where
  "mark_ready (SAMLGroupMapping m) =
     SAMLGroupMapping (m\<lparr>ObjectMeta := (ObjectMeta m)\<lparr>Generation := 1\<rparr>,
       Status := \<lparr>StatusObservedGeneration = 1, Conditions = [\<lparr>CondType = ''Ready'', CondStatus = ''True''\<rparr>]\<rparr>\<rparr>)"
| "mark_ready x = x"

definition ex_jclient :: "client_object option client" where
  "ex_jclient =
    \<lparr>Patch = (\<lambda>c po obj k. (None, mark_ready obj, Some (mark_ready obj))),
     Get = (\<lambda>c ns n obj k. case k of None \<Rightarrow> (Some (Ext ''NotFound'' ''not found''), obj, k) | Some x \<Rightarrow> (None, x, k)),
     Watch = (\<lambda>c l ns k. (Inr [CtxDone], k))\<rparr>"

definition ex_jenv :: "client_object option exec_env" where
  "ex_jenv = ex_env\<lparr>ee_client := ex_jclient\<rparr>"

definition ex_ts :: string where "ex_ts = Itoa 1767225600"

definition ex_request :: "bytes \<Rightarrow> request" where
  "ex_request b = \<lparr>Method = ''POST'', URLPath = ''/webhook/jsm'', EscapedPath = ''/webhook/jsm'', Pattern = ''POST /webhook/{provider}'',
     PathValue = (\<lambda>k. case map_of [(''provider'', ''jsm'')] k of Some v \<Rightarrow> v | None \<Rightarrow> []),
     ReqHeader = [''X-Webhook-Signature'' \<mapsto> [sign_request ex_mac ''k'' ex_ts b], ''X-Webhook-Timestamp'' \<mapsto> [ex_ts]],
     BodyData = b, BodyErr = None, ContentLength = int (length b), Ctx = ex_ctx\<rparr>"

definition ex_writer :: writer where
  "ex_writer = \<lparr>w_header = Map.empty, w_sent = None, w_body = [], w_recs = []\<rparr>"

definition ex_provider :: provider where "ex_provider = jsm_New ex_uc ex_jt ex_mac ex_pcfg"

definition ex_providers :: "string \<rightharpoonup> provider" where "ex_providers = [''jsm'' \<mapsto> ex_provider]"

lemma ex_fresh: "fresh ex_writer"
  by (simp add: fresh_def ex_writer_def)

lemma ex_headers:
  "Header_Get (ReqHeader (ex_request b)) ''X-Webhook-Signature'' = sign_request ex_mac ''k'' ex_ts b"
  "Header_Get (ReqHeader (ex_request b)) ''X-Webhook-Timestamp'' = ex_ts"
proof -
  have "CanonicalMIMEHeaderKey ''X-Webhook-Signature'' = ''X-Webhook-Signature''"
    "CanonicalMIMEHeaderKey ''X-Webhook-Timestamp'' = ''X-Webhook-Timestamp''" by code_simp+
  then show "Header_Get (ReqHeader (ex_request b)) ''X-Webhook-Signature'' = sign_request ex_mac ''k'' ex_ts b"
    "Header_Get (ReqHeader (ex_request b)) ''X-Webhook-Timestamp'' = ex_ts"
    by (simp_all add: Header_Get_def ex_request_def)
qed

lemma ex_signature: "prov_VerifySignature ex_provider ex_now (ex_request b) (BodyData (ex_request b)) = None"
proof -
  have "Verify ex_mac ''k'' (sign_request ex_mac ''k'' ex_ts b) ex_ts b ex_now (300 * Second) = None"
    unfolding ex_ts_def by (rule Verify_signed) (simp_all add: ex_mac_def int64_defs unixToInternal_def)
  moreover have "BodyData (ex_request b) = b" by (simp add: ex_request_def)
  ultimately show ?thesis
    by (simp add: ex_provider_def VerifySignature_def ex_pcfg_def ex_headers time_Now_def)
qed

definition ex_dispatcher :: "client_object option dispatcher" where
  "ex_dispatcher = \<lparr>providers = ex_providers, executor = Execute ex_jenv ex_cfg,
     dlogger = NewLogger LevelInfo ''json'', maxBodyBytes = 1048576\<rparr>"

definition ex_jact :: apply_action where "ex_jact = applied_action ex_uc ex_pcfg ''SEC-1'' ''g'' ''r'' ''p''"

definition ex_applied :: client_object where "ex_applied = mark_ready (stamp ex_cfg ex_ctx ex_jact)"

lemma ex_applied_meta:
  "\<exists>m. ex_applied = SAMLGroupMapping m \<and> Generation (ObjectMeta m) = 1 \<and> StatusObservedGeneration (Status m) = 1 \<and>
     Conditions (Status m) = [\<lparr>CondType = ''Ready'', CondStatus = ''True''\<rparr>]"
  by (simp add: ex_applied_def ex_jact_def stamp_def Let_def applied_action_def SetLabels_def SetAnnotations_def)

lemma ex_ready_obj: "IsReady ex_applied 1 = (True, 1)"
proof -
  obtain m where m: "ex_applied = SAMLGroupMapping m" "StatusObservedGeneration (Status m) = 1"
    "Conditions (Status m) = [\<lparr>CondType = ''Ready'', CondStatus = ''True''\<rparr>]"
    using ex_applied_meta by blast
  show ?thesis
    unfolding m(1) IsReady_def by (simp add: m(2,3) ConditionTypeReady_def ConditionTrue_def)
qed

lemma ex_jexecute:
  "\<exists>st'. Execute ex_jenv ex_cfg ex_ctx (ApplyAction ex_jact) st =
     Some (\<lparr>Kind = ResultReady, Reason = [], ResCRName = GetName ex_applied, ResNamespace = GetNamespace ex_applied,
            ObservedGeneration = 1\<rparr>, st') \<and> cluster st' = Some ex_applied"
proof -
  have a: "apply_cr ex_jenv ex_cfg ex_ctx ex_jact st = (None, ex_applied, st\<lparr>cluster := Some ex_applied\<rparr>)"
    by (simp add: apply_cr_def ex_jenv_def ex_jclient_def ex_env_def ex_applied_def Let_def)
  have g: "GetGeneration ex_applied = 1" using ex_applied_meta unfolding GetGeneration_def by (metis obj_meta.simps(1))
  have rc: "ReadyCheck ex_jact = IsReady" by (simp add: ex_jact_def applied_action_def)
  have "waitForSync_body ex_jenv ex_cfg ex_ctx ex_ctx ex_jact ex_applied (Some ex_applied) =
      (Some (\<lparr>Kind = ResultReady, Reason = [], ResCRName = GetName ex_applied, ResNamespace = GetNamespace ex_applied,
            ObservedGeneration = 1\<rparr>, []), Some ex_applied)"
    by (simp add: waitForSync_body_def ex_jenv_def ex_jclient_def Let_def g rc ex_ready_obj exec_result0_def)
  then show ?thesis
    by (simp add: Execute.simps(2) a waitForSync_def) (simp add: ex_jenv_def ex_env_def)
qed

lemma ex_body_length: "length ex_body = 91"
  by (simp add: ex_body_def)

lemma ex_serve:
  assumes "fresh w"
  shows "\<exists>w' st' h. ServeHTTP ex_uc ex_dispatcher ex_now (ex_request ex_body) w st = Some (w', st') \<and>
     cluster st' = Some ex_applied \<and> w_sent w' = Some (200, h)"
proof -
  obtain st1 where x: "Execute ex_jenv ex_cfg ex_ctx (ApplyAction ex_jact) st =
     Some (\<lparr>Kind = ResultReady, Reason = [], ResCRName = GetName ex_applied, ResNamespace = GetNamespace ex_applied,
            ObservedGeneration = 1\<rparr>, st1)" "cluster st1 = Some ex_applied"
    using ex_jexecute by blast
  have h: "prov_Handle ex_provider ex_ctx ex_body (mets st) = (Inr (ApplyAction ex_jact), mets st)"
    by (simp add: ex_provider_def ex_Handle ex_jact_def)
  have v: "prov_VerifySignature ex_provider ex_now (ex_request ex_body) ex_body = None"
    using ex_signature [of ex_body] by (simp add: ex_request_def)
  have r: "ReadAll_MaxBytes 1048576 (ex_request ex_body) = Inr ex_body"
    by (simp add: ReadAll_MaxBytes_def ex_request_def ex_body_length)
  have e: "st\<lparr>mets := mets st\<rparr> = st" by simp
  have c: "Ctx (ex_request ex_body) = ex_ctx" "PathValue (ex_request ex_body) ''provider'' = ''jsm''"
    by (simp_all add: ex_request_def)
  let ?res = "\<lparr>Kind = ResultReady, Reason = [], ResCRName = GetName ex_applied, ResNamespace = GetNamespace ex_applied,
            ObservedGeneration = 1\<rparr>"
  have "ServeHTTP ex_uc ex_dispatcher ex_now (ex_request ex_body) w st =
      Some (writeResponse ex_ctx ex_provider ?res w st1)"
    by (simp add: ServeHTTP_def ex_dispatcher_def ex_providers_def c r v h e x(1) del: exec_state.update_convs)
  then show ?thesis
    using x(2) assms by (auto simp: writeResponse_def Let_def WriteHeader_Write_fresh)
qed

subsection \<open>The public listener\<close>

definition ex_otel :: "string \<Rightarrow> 's middleware" where
  "ex_otel name h r w s = map_option (\<lambda>(p, _, w', s'). (p, r, w', s')) (h (WithContext (Ctx r) r) w s)"

definition ex_redirect :: "request \<Rightarrow> string \<Rightarrow> writer \<Rightarrow> writer" where
  "ex_redirect r t w = WriteHeader 307 (set_header ''Location'' t w)"

definition ex_pmw :: "(nat, unit) mw_env" where
  "ex_pmw = ex_mw\<lparr>me_now := ex_now, me_NewV7 := Inr ''r1''\<rparr>"

definition ex_pworld :: "(client_object option, nat) world" where
  "ex_pworld = \<lparr>wd_cluster = None, wd_metrics = ex_metrics, wd_limiters = Map.empty, wd_log = []\<rparr>"

definition ex_public :: "(client_object option, nat) world handler" where
  "ex_public = buildPublicHandler ex_otel ex_redirect ex_pmw default_config (NewLogger LevelInfo ''json'')
     (Some (dispatch_handler ex_uc ex_dispatcher ex_pmw))"

lemma ex_otel_transparent: "otel_transparent (OTel ex_otel name)"
  unfolding otel_transparent_def
  by (rule exI [of _ Ctx]) (simp add: OTel_def ex_otel_def)

lemma ex_redirect_ok: "redirect_ok ex_redirect"
proof -
  have k: "CanonicalMIMEHeaderKey ''Location'' \<noteq> CanonicalMIMEHeaderKey requestIDHeader" by code_simp
  have "responds (ex_redirect r t)" for r t
    unfolding responds_def ex_redirect_def
    using k carries_set_header carries_WriteHeader carries_sent by blast
  moreover have "answered 307 [] (ex_redirect r t w)" if "fresh w" for r t w
    using that by (auto simp: ex_redirect_def WriteHeader_fresh answered_def fresh_def list_all_iff set_header_def)
  moreover have "length (w_recs (ex_redirect r t w)) = length (w_recs w)" for r t w
    by (simp add: ex_redirect_def)
  ultimately show ?thesis unfolding redirect_ok_def by (metis numeral_eq_iff semiring_norm(89,90))
qed

lemma ex_paths:
  "providerFromPath ''/webhook/jsm'' = ''jsm''" "cleanPath ''/webhook/jsm'' = ''/webhook/jsm''"
  "mux_segments ''/webhook/jsm'' = [''webhook'', ''jsm'']"
  by code_simp+

lemma ex_found:
  "findHandler [webhook_route h] (ex_request b) = Found (webhook_route h) [(''provider'', ''jsm'')]"
proof -
  have m: "tree_match [webhook_route h] ''POST'' ''/webhook/jsm'' = Some (webhook_route h, [(''provider'', ''jsm'')])"
    by (simp add: tree_match_def match_path_def route_match_def webhook_route_def ex_paths)
  have p: "mux_path (ex_request b) = ''/webhook/jsm''" by (simp add: mux_path_def ex_request_def ex_paths)
  have "\<not> slash_redirect [webhook_route h] ''POST'' ''/webhook/jsm''"
    by (simp add: slash_redirect_def m exactMatch_def) (simp add: webhook_route_def)
  then show ?thesis using m p by (simp add: findHandler_def Let_def) (simp add: ex_request_def)
qed

lemma ex_match: "set_match ''POST /webhook/{provider}'' [(''provider'', ''jsm'')] (ex_request b) = ex_request b"
  by (simp add: set_match_def ex_request_def)

lemma ex_mux: "mux_ServeHTTP redirect [webhook_route h] (ex_request b) w s = h (ex_request b) w s"
  by (simp add: mux_ServeHTTP_def ex_found) (simp add: webhook_route_def ex_match)

lemma ex_same_ctx: "WithContext ((Ctx (ex_request b))\<lparr>ctx_reqid := Some ''r1''\<rparr>) (ex_request b) = ex_request b"
  "WithContext (Ctx (ex_request b)) (ex_request b) = ex_request b"
  by (simp_all add: WithContext_def ex_request_def ex_ctx_def)

lemma ex_request_id: "request_id ex_pmw (ex_request b) = ''r1''"
proof -
  have "CanonicalMIMEHeaderKey requestIDHeader = ''X-Request-Id''" by code_simp
  then show ?thesis by (simp add: request_id_def Header_Get_def ex_request_def ex_pmw_def)
qed

lemma ex_pmw_utf8: "utf8_labels ex_pmw"
  using ex_mw_utf8 by (simp add: utf8_labels_def ex_pmw_def)

lemma ex_labels:
  "me_label_ok ex_pmw (Method (ex_request b))" "me_label_ok ex_pmw (routeOf (ex_request b))" "me_label_ok ex_pmw (Itoa i)"
  using is_ascii_Itoa by (auto intro!: ascii_label [OF ex_pmw_utf8] simp: ex_request_def routeOf_def) (simp_all add: is_ascii_def)

lemma ex_admitted: "fst (admission \<lparr>RPS = Fin 100, Burst = 200\<rparr> ex_pmw (ex_request b) Map.empty)"
  by (simp add: admission_def admit_def ex_request_def ex_paths ex_pmw_def ex_mw_def ex_rate_def)

lemma ex_public_run:
  "\<exists>r' w' s'. ex_public (ex_request ex_body) ex_writer ex_pworld = Some (None, r', w', s') \<and>
     wd_cluster s' = Some ex_applied"
proof -
  let ?h = "dispatch_handler ex_uc ex_dispatcher ex_pmw"
  let ?mux = "mux_ServeHTTP ex_redirect [webhook_route ?h]"
  let ?w = "set_header requestIDHeader ''r1'' ex_writer"
  have mux: "\<exists>w' s'. ?mux (ex_request ex_body) w s = Some (None, ex_request ex_body, w', s') \<and> wd_cluster s' = Some ex_applied"
    if "fresh w" for w s
    using ex_serve [OF that, of "\<lparr>cluster = wd_cluster s, mets = Some (wd_metrics s), elog = wd_log s\<rparr>"]
    by (auto simp: ex_mux dispatch_handler_def ex_pmw_def)
  have metrics: "\<exists>w' s'. Metrics_mw ex_pmw ?mux (ex_request ex_body) w s = Some (None, ex_request ex_body, w', s') \<and>
      wd_cluster s' = Some ex_applied" if "fresh w" for w s
    using mux [of "newStatusRecorder w" "on_metrics InflightInc s"] that
    by (auto simp: Metrics_mw_def Let_def ex_labels)
  have slog: "\<exists>w' s'. SLog lg ex_pmw (Metrics_mw ex_pmw ?mux) (ex_request ex_body) w s = Some (None, ex_request ex_body, w', s') \<and>
      wd_cluster s' = Some ex_applied" if "fresh w" for w s lg
    using metrics [of "newStatusRecorder w" s] that by (auto simp: SLog_def Let_def)
  have limit: "RateLimit \<lparr>RPS = RateLimitRPS default_config, Burst = RateLimitBurst default_config\<rparr> ex_pmw h (ex_request ex_body) w ex_pworld =
      h (ex_request ex_body) w (ex_pworld\<lparr>wd_limiters := [''jsm'' \<mapsto> 199]\<rparr>)" for h w
    by (simp add: RateLimit_def Let_def ex_request_def ex_paths getLimiter_def ex_pworld_def ex_pmw_def ex_mw_def ex_rate_def
        default_config_def)
  have "fresh ?w" using ex_fresh by simp
  from slog [OF this, of "NewLogger LevelInfo ''json''" "ex_pworld\<lparr>wd_limiters := [''jsm'' \<mapsto> 199]\<rparr>"]
  show ?thesis
    by (auto simp: ex_public_def buildPublicHandler_Chain Recover_def OTel_def ex_otel_def RequestID_eq ex_request_id
        ex_same_ctx limit)
qed

end
