(* ===== verification/Tracing.thy ===== *)
theory Tracing
  imports Config
begin

text \<open>
  \<^verbatim>\<open>internal/observability/tracing.go\<close>: the tracer provider the process installs.  The OpenTelemetry SDK
  is a parameter: making a resource and an exporter may fail; samplers are their constructors.
\<close>

datatype sampler = AlwaysSample | NeverSample | TraceIDRatioBased float64 | ParentBased sampler

record ('res, 'exp) otel_lib =
  resource_New :: "(string \<times> string) list \<Rightarrow> go_error + 'res"
  otlptracehttp_New :: "go_error + 'exp"

record ('res, 'exp) tracer_provider =
  tp_resource :: 'res
  tp_sampler :: sampler
  tp_exporter :: "'exp option"

definition samplerFor :: "float64 \<Rightarrow> sampler" where
  "samplerFor ratio =
    (if flt_le (Fin 1) ratio then ParentBased AlwaysSample
     else if flt_le ratio (Fin 0) then ParentBased NeverSample
     else ParentBased (TraceIDRatioBased ratio))"

text \<open>\<open>WithFromEnv\<close> is part of \<open>resource_New\<close>.\<close>

definition buildResource :: "('res, 'exp) otel_lib \<Rightarrow> config \<Rightarrow> go_error + 'res" where
  "buildResource lib cfg =
    (case resource_New lib [(''service.name'', ServiceName cfg), (''service.version'', ServiceVersion cfg)] of
       Inl err \<Rightarrow> Inl (Errorf [Lit ''resource.New: '', W err])
     | Inr res \<Rightarrow> Inr res)"

definition NewTracerProvider ::
  "('res, 'exp) otel_lib \<Rightarrow> config \<Rightarrow> go_error + ('res, 'exp) tracer_provider" where
  "NewTracerProvider lib cfg =
    (case buildResource lib cfg of
       Inl err \<Rightarrow> Inl (Errorf [Lit ''build resource: '', W err])
     | Inr res \<Rightarrow>
         if \<not> TracingEnabled cfg
         then Inr \<lparr>tp_resource = res, tp_sampler = NeverSample, tp_exporter = None\<rparr>
         else case otlptracehttp_New lib of
           Inl err \<Rightarrow> Inl (Errorf [Lit ''otlp http exporter: '', W err])
         | Inr ex \<Rightarrow>
             Inr \<lparr>tp_resource = res, tp_sampler = samplerFor (TracingSampleRatio cfg), tp_exporter = Some ex\<rparr>)"

text \<open>A provider never exports when tracing is off, and a root span is dropped exactly when tracing is off or
  the ratio is at most 0 (NaN is neither below nor above anything, so it reaches the ratio sampler).\<close>

lemma NewTracerProvider_cases:
  assumes "NewTracerProvider lib cfg = Inr tp"
  shows "(tp_exporter tp = None \<longleftrightarrow> \<not> TracingEnabled cfg) \<and>
    (tp_sampler tp \<in> {NeverSample, ParentBased NeverSample} \<longleftrightarrow>
       \<not> TracingEnabled cfg \<or> flt_le (TracingSampleRatio cfg) (Fin 0))"
proof -
  have "\<not> (flt_le (Fin 1) x \<and> flt_le x (Fin 0))" for x by (cases x) (auto simp: flt_le_def)
  then show ?thesis
    using assms by (auto simp: NewTracerProvider_def samplerFor_def split: sum.splits if_splits)
qed

end
