(* ===== verification/Lifecycle.thy ===== *)
theory Lifecycle
  imports Public Tracing
begin

text \<open>
  The life of the process, \<^verbatim>\<open>cmd/webhookd/main.go\<close>: \<open>run\<close> sets up the parts, starts the two listeners as
  goroutines, raises the readiness flag and waits for a signal or the end of a listener; then it
  lowers the flag, drains both servers, flushes the tracer provider (the deferred call of \<open>run\<close>) and
  returns.

  The step relation interleaves the main goroutine, the two listener goroutines and the outside
  (a signal, a listener that fails).  \<open>errCh\<close> is the channel of capacity 2 between them.  The
  errors with which the two \<open>Shutdown\<close> calls and the flush may end (their budget ran out) are chosen by
  the outside.  Of a log line level and message are kept.
\<close>

subsection \<open>Setup\<close>

text \<open>\<open>run\<close> up to the handlers: an error, a panic (a metric registered twice, or two providers of one
  name), or the configuration and the dispatcher, if any.\<close>

definition run_setup ::
  "os_env \<Rightarrow> ('res, 'exp) otel_lib \<Rightarrow> string list \<Rightarrow> unicode \<Rightarrow> ('rc, 'k) k8s_lib \<Rightarrow> registry \<Rightarrow>
   'k exec_env \<Rightarrow> string \<Rightarrow> go_error + (string + (config \<times> metrics \<times> 'k dispatcher option))" where
  "run_setup env otel runtime_names u lib reg env0 wall =
    (case Load env of
       Inl err \<Rightarrow> Inl (Errorf [Lit ''load config: '', W err])
     | Inr cfg \<Rightarrow>
       (case NewTracerProvider otel cfg of
          Inl err \<Rightarrow> Inl (Errorf [Lit ''tracer provider: '', W err])
        | Inr tp \<Rightarrow>
          (case NewMetrics runtime_names of
             None \<Rightarrow> Inr (Inl ''duplicate metrics collector registration attempted'')
           | Some (names, m) \<Rightarrow>
             if EnabledProviders cfg \<noteq> [] then
               (case buildDispatcher u lib reg env0 wall cfg (NewLogger (LogLevel cfg) (LogFormat cfg)) of
                  Inl err \<Rightarrow> Inl (Errorf [Lit ''dispatcher: '', W err])
                | Inr (Inl panic) \<Rightarrow> Inr (Inl panic)
                | Inr (Inr d) \<Rightarrow> Inr (Inr (cfg, m, Some d)))
             else Inr (Inr (cfg, m, None)))))"

text \<open>The two servers \<open>run\<close> builds from it; \<open>base\<close> is the signal context.\<close>

definition run_servers ::
  "(string \<Rightarrow> ('k, 'l) world middleware) \<Rightarrow> (request \<Rightarrow> string \<Rightarrow> writer \<Rightarrow> writer) \<Rightarrow> ('k, 'l) world admin_lib \<Rightarrow>
   ('l, 'r) mw_env \<Rightarrow> unicode \<Rightarrow> 'c \<Rightarrow> config \<Rightarrow> 'k dispatcher option \<Rightarrow> bool \<Rightarrow>
   ('c, ('k, 'l) world handler) http_server \<times> ('c, ('k, 'l) world handler) http_server" where
  "run_servers otel redirect lib env u base cfg d ready =
    (let logger = NewLogger (LogLevel cfg) (LogFormat cfg);
         publicHandler = buildPublicHandler otel redirect env cfg logger (map_option (\<lambda>d. dispatch_handler u d env) d);
         adminHandler = NewAdminMux lib redirect env logger ready \<lparr>AdmPProfEnabled = PProfEnabled cfg\<rparr>
     in (NewServer base (Addr cfg) publicHandler cfg, NewServer base (AdminAddr cfg) adminHandler cfg))"

subsection \<open>Listeners and shutdown\<close>

definition ErrServerClosed :: go_error where "ErrServerClosed = New ''http: Server closed''"

text \<open>What the goroutine of \<open>startServer\<close> sends when \<open>ListenAndServe\<close> returns \<open>err\<close>.\<close>

definition listener_report :: "string \<Rightarrow> go_error option \<Rightarrow> go_error option" where
  "listener_report name err =
    (case err of
       Some e \<Rightarrow> if \<not> errors_Is e ErrServerClosed then Some (Errorf [Lit name, Lit '' listener: '', W e]) else None
     | None \<Rightarrow> None)"

text \<open>The final \<open>switch\<close> of \<open>waitForShutdown\<close>, and the exit code of \<open>realMain\<close>.\<close>

definition shutdown_result :: "go_error option \<Rightarrow> go_error option \<Rightarrow> go_error option \<Rightarrow> go_error option" where
  "shutdown_result listenErr pubErr admErr =
    (case pubErr of
       Some e \<Rightarrow> Some (Errorf [Lit ''public shutdown: '', W e])
     | None \<Rightarrow>
       (case admErr of
          Some e \<Rightarrow> Some (Errorf [Lit ''admin shutdown: '', W e])
        | None \<Rightarrow> listenErr))"

definition realMain :: "go_error option \<Rightarrow> int" where
  "realMain err = (case err of Some _ \<Rightarrow> 1 | None \<Rightarrow> 0)"

subsection \<open>The step relation\<close>

datatype listener = Unstarted | Serving | Ended "go_error option" | Reported

datatype main_pc =
    StartPublic | StartAdmin | RaiseReady
  | Select
  | Woken "go_error option"
  | DrainPublic "go_error option"
  | DrainAdmin "go_error option" "go_error option"
  | Drained "go_error option" "go_error option" "go_error option"
  | Flush "go_error option"
  | Exited "go_error option"

record proc =
  pc :: main_pc
  ready :: bool
  signalled :: bool
  flushed :: bool
  errCh :: "go_error option list"
  pub :: listener
  adm :: listener
  plog :: "(slog_level \<times> string) list"

definition proc0 :: proc where
  "proc0 = \<lparr>pc = StartPublic, ready = False, signalled = False, flushed = False, errCh = [],
     pub = Unstarted, adm = Unstarted, plog = []\<rparr>"

definition log_proc :: "slog_level \<Rightarrow> string \<Rightarrow> proc \<Rightarrow> proc" where
  "log_proc l msg s = s\<lparr>plog := plog s @ [(l, msg)]\<rparr>"

text \<open>\<open>Shutdown\<close> makes a serving listener return \<open>ErrServerClosed\<close>.\<close>

definition close_listener :: "listener \<Rightarrow> listener" where
  "close_listener l = (if l = Serving then Ended (Some ErrServerClosed) else l)"

text \<open>\<open>run\<close> from \<open>startServer\<close> to the \<open>listening\<close> line.\<close>

inductive start_step :: "proc \<Rightarrow> proc \<Rightarrow> bool" where
  start_public: "pc s = StartPublic \<Longrightarrow> start_step s (s\<lparr>pub := Serving, pc := StartAdmin\<rparr>)"
| start_admin: "pc s = StartAdmin \<Longrightarrow> start_step s (s\<lparr>adm := Serving, pc := RaiseReady\<rparr>)"
| raise_ready: "pc s = RaiseReady \<Longrightarrow>
    start_step s (log_proc LevelInfo ''listening'' (s\<lparr>ready := True, pc := Select\<rparr>))"

inductive drainServers :: "proc \<Rightarrow> proc \<Rightarrow> bool" where
  drain_public: "pc s = DrainPublic e \<Longrightarrow>
    drainServers s (s\<lparr>pub := close_listener (pub s), pc := DrainAdmin e pubErr\<rparr>)"
| drain_admin: "pc s = DrainAdmin e pubErr \<Longrightarrow>
    drainServers s (s\<lparr>adm := close_listener (adm s), pc := Drained e pubErr admErr\<rparr>)"

inductive waitForShutdown :: "proc \<Rightarrow> proc \<Rightarrow> bool" where
  wake_signal: "pc s = Select \<Longrightarrow> signalled s \<Longrightarrow>
    waitForShutdown s (log_proc LevelInfo ''shutdown signal received'' (s\<lparr>pc := Woken None\<rparr>))"
| wake_error: "pc s = Select \<Longrightarrow> errCh s = Some err # es \<Longrightarrow>
    waitForShutdown s (log_proc LevelError ''listener exited unexpectedly'' (s\<lparr>errCh := es, pc := Woken (Some err)\<rparr>))"
| wake_closed: "pc s = Select \<Longrightarrow> errCh s = None # es \<Longrightarrow>
    waitForShutdown s (s\<lparr>errCh := es, pc := Woken None\<rparr>)"
| lower_ready: "pc s = Woken e \<Longrightarrow> waitForShutdown s (s\<lparr>ready := False, pc := DrainPublic e\<rparr>)"
| drain: "drainServers s s' \<Longrightarrow> waitForShutdown s s'"
| fail: "pc s = Drained e pubErr admErr \<Longrightarrow> shutdown_result e pubErr admErr = Some err \<Longrightarrow>
    waitForShutdown s (s\<lparr>pc := Flush (Some err)\<rparr>)"
| complete: "pc s = Drained e pubErr admErr \<Longrightarrow> shutdown_result e pubErr admErr = None \<Longrightarrow>
    waitForShutdown s (log_proc LevelInfo ''shutdown complete'' (s\<lparr>pc := Flush None\<rparr>))"

definition shutdownTracerProvider :: "go_error option \<Rightarrow> proc \<Rightarrow> proc" where
  "shutdownTracerProvider err s =
    (let s = s\<lparr>flushed := True\<rparr>
     in case err of Some _ \<Rightarrow> log_proc LevelError ''tracer provider shutdown'' s | None \<Rightarrow> s)"

inductive main_step :: "proc \<Rightarrow> proc \<Rightarrow> bool" where
  start: "start_step s s' \<Longrightarrow> main_step s s'"
| wait: "waitForShutdown s s' \<Longrightarrow> main_step s s'"
| deferred: "pc s = Flush r \<Longrightarrow> main_step s ((shutdownTracerProvider err s)\<lparr>pc := Exited r\<rparr>)"

text \<open>The goroutine of \<open>startServer\<close>.\<close>

definition listener_log :: "go_error option \<Rightarrow> proc \<Rightarrow> proc" where
  "listener_log rep s = (case rep of Some _ \<Rightarrow> log_proc LevelError ''listener exited'' s | None \<Rightarrow> s)"

inductive listener_step :: "proc \<Rightarrow> proc \<Rightarrow> bool" where
  send_public: "pub s = Ended err \<Longrightarrow> length (errCh s) < 2 \<Longrightarrow> rep = listener_report ''public'' err \<Longrightarrow>
    listener_step s (listener_log rep (s\<lparr>errCh := errCh s @ [rep], pub := Reported\<rparr>))"
| send_admin: "adm s = Ended err \<Longrightarrow> length (errCh s) < 2 \<Longrightarrow> rep = listener_report ''admin'' err \<Longrightarrow>
    listener_step s (listener_log rep (s\<lparr>errCh := errCh s @ [rep], adm := Reported\<rparr>))"

inductive outside_step :: "proc \<Rightarrow> proc \<Rightarrow> bool" where
  signal: "outside_step s (s\<lparr>signalled := True\<rparr>)"
| public_fails: "pub s = Serving \<Longrightarrow> \<not> errors_Is err ErrServerClosed \<Longrightarrow> outside_step s (s\<lparr>pub := Ended (Some err)\<rparr>)"
| admin_fails: "adm s = Serving \<Longrightarrow> \<not> errors_Is err ErrServerClosed \<Longrightarrow> outside_step s (s\<lparr>adm := Ended (Some err)\<rparr>)"

definition step :: "proc \<Rightarrow> proc \<Rightarrow> bool" where
  "step s s' \<longleftrightarrow> main_step s s' \<or> listener_step s s' \<or> outside_step s s'"

text \<open>The two goroutine kinds of the program itself.\<close>

definition program_step :: "proc \<Rightarrow> proc \<Rightarrow> bool" where
  "program_step s s' \<longleftrightarrow> main_step s s' \<or> listener_step s s'"

lemma log_proc_simps [simp]:
  "pc (log_proc l m s) = pc s" "ready (log_proc l m s) = ready s" "signalled (log_proc l m s) = signalled s"
  "flushed (log_proc l m s) = flushed s" "errCh (log_proc l m s) = errCh s" "pub (log_proc l m s) = pub s"
  "adm (log_proc l m s) = adm s" "plog (log_proc l m s) = plog s @ [(l, m)]"
  by (simp_all add: log_proc_def)

lemma shutdownTracerProvider_simps [simp]:
  "ready (shutdownTracerProvider err s) = ready s" "signalled (shutdownTracerProvider err s) = signalled s"
  "flushed (shutdownTracerProvider err s)" "errCh (shutdownTracerProvider err s) = errCh s"
  "pub (shutdownTracerProvider err s) = pub s" "adm (shutdownTracerProvider err s) = adm s"
  "(LevelInfo, m) \<in> set (plog (shutdownTracerProvider err s)) \<longleftrightarrow> (LevelInfo, m) \<in> set (plog s)"
  by (simp_all add: shutdownTracerProvider_def Let_def split: option.split)

lemma listener_log_simps [simp]:
  "pc (listener_log r s) = pc s" "ready (listener_log r s) = ready s" "signalled (listener_log r s) = signalled s"
  "flushed (listener_log r s) = flushed s" "errCh (listener_log r s) = errCh s" "pub (listener_log r s) = pub s"
  "adm (listener_log r s) = adm s"
  "(LevelInfo, m) \<in> set (plog (listener_log r s)) \<longleftrightarrow> (LevelInfo, m) \<in> set (plog s)"
  by (simp_all add: listener_log_def split: option.split)

inductive_cases start_stepE: "start_step s s'"
inductive_cases drainServersE: "drainServers s s'"
inductive_cases waitForShutdownE: "waitForShutdown s s'"
inductive_cases main_stepE: "main_step s s'"
inductive_cases listener_stepE: "listener_step s s'"
inductive_cases outside_stepE: "outside_step s s'"

lemmas program_stepE = main_stepE start_stepE waitForShutdownE drainServersE listener_stepE
lemmas program_step_intros = main_step.intros start_step.intros waitForShutdown.intros drainServers.intros

subsection \<open>Invariants\<close>

definition past_start :: "main_pc \<Rightarrow> bool" where
  "past_start p \<longleftrightarrow> p \<notin> {StartPublic, StartAdmin}"

fun draining :: "main_pc \<Rightarrow> bool" where
  "draining (DrainPublic e) = True"
| "draining (DrainAdmin e p) = True"
| "draining (Drained e p a) = True"
| "draining (Flush e) = True"
| "draining (Exited e) = True"
| "draining _ = False"

fun is_woken :: "main_pc \<Rightarrow> bool" where
  "is_woken (Woken e) = True"
| "is_woken _ = False"

fun cause :: "main_pc \<Rightarrow> go_error option option" where
  "cause (Woken e) = Some e"
| "cause (DrainPublic e) = Some e"
| "cause (DrainAdmin e p) = Some e"
| "cause (Drained e p a) = Some e"
| "cause (Flush r) = Some r"
| "cause (Exited r) = Some r"
| "cause _ = None"

fun pc_rank :: "main_pc \<Rightarrow> nat" where
  "pc_rank StartPublic = 9"
| "pc_rank StartAdmin = 8"
| "pc_rank RaiseReady = 7"
| "pc_rank Select = 6"
| "pc_rank (Woken e) = 5"
| "pc_rank (DrainPublic e) = 4"
| "pc_rank (DrainAdmin e p) = 3"
| "pc_rank (Drained e p a) = 2"
| "pc_rank (Flush e) = 1"
| "pc_rank (Exited e) = 0"

definition slot :: "listener \<Rightarrow> nat" where
  "slot l = (if l = Reported then 0 else 1)"

text \<open>A listener that ended before the drain ended with an error of its own.\<close>

definition failed_only :: "listener \<Rightarrow> bool" where
  "failed_only l \<longleftrightarrow> (\<forall>err. l = Ended err \<longrightarrow> (\<exists>e. err = Some e \<and> \<not> errors_Is e ErrServerClosed))"

definition proc_inv :: "proc \<Rightarrow> bool" where
  "proc_inv s \<longleftrightarrow>
     (ready s \<longleftrightarrow> pc s = Select \<or> is_woken (pc s)) \<and>
     length (errCh s) + slot (pub s) + slot (adm s) \<le> 2 \<and>
     (pub s = Unstarted \<longleftrightarrow> pc s = StartPublic) \<and> (adm s = Unstarted \<longleftrightarrow> \<not> past_start (pc s)) \<and>
     (\<not> draining (pc s) \<longrightarrow> failed_only (pub s) \<and> failed_only (adm s) \<and> None \<notin> set (errCh s)) \<and>
     (cause (pc s) = Some None \<longrightarrow> signalled s) \<and>
     (pc_rank (pc s) \<le> 3 \<longrightarrow> pub s \<noteq> Serving) \<and> (pc_rank (pc s) \<le> 2 \<longrightarrow> adm s \<noteq> Serving) \<and>
     (flushed s \<longleftrightarrow> pc_rank (pc s) = 0) \<and>
     ((LevelInfo, ''shutdown complete'') \<in> set (plog s) \<longleftrightarrow> pc s \<in> {Flush None, Exited None})"

lemmas proc_inv_defs = proc_inv_def past_start_def slot_def failed_only_def close_listener_def

lemma proc_inv_start: "start_step s s' \<Longrightarrow> proc_inv s \<Longrightarrow> proc_inv s'"
  by (induction rule: start_step.induct) (auto simp: proc_inv_defs)

lemma proc_inv_drain: "drainServers s s' \<Longrightarrow> proc_inv s \<Longrightarrow> proc_inv s'"
  by (induction rule: drainServers.induct) (auto simp: proc_inv_defs)

lemma shutdown_result_None: "shutdown_result e p a = None \<longleftrightarrow> e = None \<and> p = None \<and> a = None"
  by (auto simp: shutdown_result_def split: option.splits)

lemma proc_inv_wait: "waitForShutdown s s' \<Longrightarrow> proc_inv s \<Longrightarrow> proc_inv s'"
proof (induction rule: waitForShutdown.induct)
  case (drain s s')
  then show ?case by (blast intro: proc_inv_drain)
qed (auto simp: proc_inv_defs shutdown_result_None)

lemma proc_inv_main: "main_step s s' \<Longrightarrow> proc_inv s \<Longrightarrow> proc_inv s'"
proof (induction rule: main_step.induct)
  case (deferred s r err)
  then show ?case by (auto simp: proc_inv_defs)
qed (blast intro: proc_inv_start proc_inv_wait)+

lemma proc_inv_listener: "listener_step s s' \<Longrightarrow> proc_inv s \<Longrightarrow> proc_inv s'"
proof (induction rule: listener_step.induct)
  case (send_public s err rep)
  then have "\<not> draining (pc s) \<longrightarrow> None \<noteq> rep" by (auto simp: proc_inv_def failed_only_def listener_report_def)
  then show ?case using send_public by (simp add: proc_inv_defs)
next
  case (send_admin s err rep)
  then have "\<not> draining (pc s) \<longrightarrow> None \<noteq> rep" by (auto simp: proc_inv_def failed_only_def listener_report_def)
  then show ?case using send_admin by (simp add: proc_inv_defs)
qed

lemma proc_inv_outside: "outside_step s s' \<Longrightarrow> proc_inv s \<Longrightarrow> proc_inv s'"
  by (induction rule: outside_step.induct) (auto simp: proc_inv_defs)

lemma errCh_room:
  assumes "proc_inv s" "pub s = Ended err \<or> adm s = Ended err"
  shows "length (errCh s) < 2"
proof -
  have "length (errCh s) + slot (pub s) + slot (adm s) \<le> 2" using assms(1) by (simp add: proc_inv_def)
  moreover have "1 \<le> slot (pub s) + slot (adm s)" using assms(2) by (auto simp: slot_def)
  ultimately show ?thesis by linarith
qed

lemma proc_inv_reach: "step\<^sup>*\<^sup>* proc0 s \<Longrightarrow> proc_inv s"
proof (induction rule: rtranclp_induct)
  case base
  show ?case by (simp add: proc_inv_defs proc0_def)
next
  case (step s s')
  then show ?case unfolding step_def using proc_inv_main proc_inv_listener proc_inv_outside by blast
qed

text \<open>A run to the listening state, and the signal.\<close>

definition ex_listening :: proc where
  "ex_listening = \<lparr>pc = Select, ready = True, signalled = True, flushed = False, errCh = [],
     pub = Serving, adm = Serving, plog = [(LevelInfo, ''listening'')]\<rparr>"

lemma ex_listening_reachable: "step\<^sup>*\<^sup>* proc0 ex_listening"
proof -
  let ?s1 = "proc0\<lparr>pub := Serving, pc := StartAdmin\<rparr>"
  let ?s2 = "?s1\<lparr>adm := Serving, pc := RaiseReady\<rparr>"
  let ?s3 = "log_proc LevelInfo ''listening'' (?s2\<lparr>ready := True, pc := Select\<rparr>)"
  have "step proc0 ?s1" unfolding step_def by (rule disjI1, rule start, rule start_public) (simp add: proc0_def)
  moreover have "step ?s1 ?s2" unfolding step_def by (rule disjI1, rule start, rule start_admin) simp
  moreover have "step ?s2 ?s3" unfolding step_def by (rule disjI1, rule start, rule raise_ready) simp
  moreover have "step ?s3 (?s3\<lparr>signalled := True\<rparr>)" unfolding step_def by (intro disjI2 signal)
  moreover have "?s3\<lparr>signalled := True\<rparr> = ex_listening" by (simp add: proc0_def ex_listening_def log_proc_def)
  ultimately have "step proc0 ?s1" "step ?s1 ?s2" "step ?s2 ?s3" "step ?s3 ex_listening" by simp_all
  then show ?thesis by (blast intro: converse_rtranclp_into_rtranclp)
qed

text \<open>C21. Throughout the life of the process, in every interleaving: readiness is advertised exactly from the
  moment both listeners have been started until the drain begins; a listener goroutine that has to
  report finds room in \<open>errCh\<close>, so it never blocks; exit code 0 is only reached after a signal, with
  the shutdown logged as complete; and the process exits only after the tracer provider was flushed.\<close>

theorem lifecycle_invariant:
  assumes "step\<^sup>*\<^sup>* proc0 s"
  shows "(ready s \<longrightarrow> pub s \<noteq> Unstarted \<and> adm s \<noteq> Unstarted) \<and>
    (ready s \<longleftrightarrow> pc s = Select \<or> (\<exists>e. pc s = Woken e)) \<and>
    (\<forall>err. pub s = Ended err \<or> adm s = Ended err \<longrightarrow> length (errCh s) < 2) \<and>
    (\<forall>r. pc s = Exited r \<longrightarrow> flushed s \<and>
       (realMain r = 0 \<longleftrightarrow> (LevelInfo, ''shutdown complete'') \<in> set (plog s)) \<and> (realMain r = 0 \<longrightarrow> signalled s))"
proof -
  have w: "is_woken p \<longleftrightarrow> (\<exists>e. p = Woken e)" for p by (cases p) auto
  have i: "proc_inv s" using assms by (rule proc_inv_reach)
  have "ready s \<longleftrightarrow> pc s = Select \<or> (\<exists>e. pc s = Woken e)" using i by (simp add: proc_inv_def w)
  moreover have "pub s = Unstarted \<longleftrightarrow> pc s = StartPublic" "adm s = Unstarted \<longleftrightarrow> \<not> past_start (pc s)"
    using i by (simp_all add: proc_inv_def)
  then have "ready s \<longrightarrow> pub s \<noteq> Unstarted \<and> adm s \<noteq> Unstarted"
    using calculation by (auto simp: past_start_def)
  moreover note this
  moreover have "length (errCh s) < 2" if "pub s = Ended err \<or> adm s = Ended err" for err
    using i that by (rule errCh_room)
  moreover have "flushed s \<and> (r = None \<longleftrightarrow> (LevelInfo, ''shutdown complete'') \<in> set (plog s)) \<and> (r = None \<longrightarrow> signalled s)"
    if "pc s = Exited r" for r
    using i that by (simp add: proc_inv_def)
  moreover have "realMain r = 0 \<longleftrightarrow> r = None" for r by (simp add: realMain_def split: option.split)
  ultimately show ?thesis by simp
qed

theorem lifecycle_invariant_witness:
  "ready ex_listening \<and> pub ex_listening \<noteq> Unstarted \<and> adm ex_listening \<noteq> Unstarted"
  using lifecycle_invariant [OF ex_listening_reachable] by (simp add: ex_listening_def)

subsection \<open>Progress\<close>

definition left :: "proc \<Rightarrow> nat" where
  "left s = 3 * pc_rank (pc s) + (case pub s of Reported \<Rightarrow> 0 | Ended _ \<Rightarrow> 1 | _ \<Rightarrow> 2) + (case adm s of Reported \<Rightarrow> 0 | Ended _ \<Rightarrow> 1 | _ \<Rightarrow> 2)"

lemma program_step_left: "program_step s s' \<Longrightarrow> proc_inv s \<Longrightarrow> left s' < left s"
  unfolding program_step_def
  by (elim disjE program_stepE)
    (auto simp: left_def close_listener_def proc_inv_def past_start_def split: listener.splits)

lemma proc_inv_program: "program_step s s' \<Longrightarrow> proc_inv s \<Longrightarrow> proc_inv s'"
  unfolding program_step_def using proc_inv_main proc_inv_listener by blast

lemma program_step_signalled: "program_step s s' \<Longrightarrow> signalled s' = signalled s"
  unfolding program_step_def by (elim disjE program_stepE) auto

lemma program_run:
  "(program_step ^^ n) s s' \<Longrightarrow> proc_inv s \<Longrightarrow> proc_inv s' \<and> signalled s' = signalled s \<and> n + left s' \<le> left s"
proof (induction n arbitrary: s')
  case (Suc n)
  then obtain t where t: "(program_step ^^ n) s t" "program_step t s'" by auto
  then have "proc_inv t \<and> signalled t = signalled s \<and> n + left t \<le> left s" using Suc by blast
  then show ?case
    using program_step_left [OF t(2)] proc_inv_program [OF t(2)] program_step_signalled [OF t(2)] by auto
qed simp

lemma left_bound: "left s \<le> 31"
proof -
  have "pc_rank p \<le> 9" for p by (cases p) auto
  from this [of "pc s"] show ?thesis by (simp add: left_def split: listener.splits)
qed

lemma main_not_stuck:
  assumes "signalled s" "\<And>r. pc s \<noteq> Exited r"
  shows "\<exists>s'. main_step s s'"
proof (cases "pc s")
  case (Drained e p a)
  then show ?thesis by (cases "shutdown_result e p a") (blast intro: program_step_intros)+
qed (use assms in \<open>blast intro: program_step_intros\<close>)+

lemma stuck_only_at_exit:
  assumes "proc_inv s" "signalled s" "\<And>s'. \<not> program_step s s'"
  shows "(\<exists>r. pc s = Exited r) \<and> pub s = Reported \<and> adm s = Reported"
proof -
  have e: "\<exists>r. pc s = Exited r" using main_not_stuck [OF assms(2)] assms(3) by (auto simp: program_step_def)
  have l: "\<not> listener_step s s'" for s' using assms(3) by (auto simp: program_step_def)
  have "pub s \<noteq> Ended err" for err
    using l send_public [of s err] errCh_room [OF assms(1), of err] by blast
  moreover have "adm s \<noteq> Ended err" for err
    using l send_admin [of s err] errCh_room [OF assms(1), of err] by blast
  moreover obtain r where "pc s = Exited r" using e by blast
  then have "pub s \<noteq> Serving" "pub s \<noteq> Unstarted" "adm s \<noteq> Serving" "adm s \<noteq> Unstarted"
    using assms(1) by (simp_all add: proc_inv_def past_start_def)
  ultimately show ?thesis using e listener.exhaust by metis
qed

text \<open>C22. Shutdown completes: once the signal has arrived, main and listener goroutines take at most 31 more steps
  in any interleaving, and as long as one of them can move the run is not over; when none can, main
  has exited and both listener goroutines have reported, so none is blocked for ever.\<close>

theorem shutdown_completes:
  assumes "step\<^sup>*\<^sup>* proc0 s" "signalled s"
  shows "(\<forall>n s'. (program_step ^^ n) s s' \<longrightarrow> n \<le> 31) \<and>
    (\<forall>s'. program_step\<^sup>*\<^sup>* s s' \<longrightarrow> (\<exists>s''. program_step s' s'') \<or>
       (\<exists>r. pc s' = Exited r) \<and> pub s' = Reported \<and> adm s' = Reported)"
proof -
  have inv: "proc_inv s" using assms(1) by (rule proc_inv_reach)
  have "n \<le> 31" if "(program_step ^^ n) s s'" for n s'
    using program_run [OF that inv] left_bound [of s] by linarith
  moreover have "(\<exists>s''. program_step s' s'') \<or> (\<exists>r. pc s' = Exited r) \<and> pub s' = Reported \<and> adm s' = Reported"
    if run: "program_step\<^sup>*\<^sup>* s s'" for s'
  proof -
    obtain n where "(program_step ^^ n) s s'" using run by (auto simp: rtranclp_power)
    then have "proc_inv s'" "signalled s'" using program_run [OF _ inv] assms(2) by blast+
    then show ?thesis using stuck_only_at_exit by blast
  qed
  ultimately show ?thesis by blast
qed

theorem shutdown_completes_witness:
  "\<exists>s'. program_step ex_listening s' \<and> (\<forall>n s'. (program_step ^^ n) ex_listening s' \<longrightarrow> n \<le> 31)"
proof -
  have "signalled ex_listening" by (simp add: ex_listening_def)
  note c = shutdown_completes [OF ex_listening_reachable this]
  have "\<not> (\<exists>r. pc ex_listening = Exited r)" by (simp add: ex_listening_def)
  then show ?thesis using c by blast
qed

end
