(* ===== verification/Deepcopy.thy ===== *)
theory Deepcopy
  imports Wizapi
begin

text \<open>
  \<^verbatim>\<open>internal/webhook/wizapi/zz_generated.deepcopy.go\<close> on an explicit heap, where aliasing is visible.

  The heap is a list of cells, an address an index into it, allocation appends.  A struct is a record
  whose slices and pointers are addresses (\<open>None\<close> is nil); a slice spans its whole backing array.  The
  metadata types (\<open>'m\<close>, for \<open>metav1.ObjectMeta\<close> and \<open>metav1.ListMeta\<close>) and the copies of metadata and
  conditions come from apimachinery: they are parameters (\<open>api\<close>), with the contract \<open>deep_copy\<close>.
\<close>

subsection \<open>Memory\<close>

record mem_spec =
  ms_IdentityProviderID :: string
  ms_ProviderGroupID :: string
  ms_Description :: string
  ms_RoleRef :: role_ref
  ms_ProjectRefs :: "nat option"

record mem_status =
  mst_ObservedGeneration :: int
  mst_Conditions :: "nat option"

record 'm mem_saml =
  mg_TypeMeta :: type_meta
  mg_ObjectMeta :: 'm
  mg_Spec :: mem_spec
  mg_Status :: mem_status

record 'm mem_named =
  mn_TypeMeta :: type_meta
  mn_ObjectMeta :: 'm
  mn_Spec :: named_spec
  mn_Status :: mem_status

record 'm mem_list =
  ml_TypeMeta :: type_meta
  ml_ListMeta :: 'm
  ml_Items :: "nat option"

datatype 'm cell =
    MapCell str_map
  | RefsCell "project_ref list"
  | CondsCell "condition list"
  | SamlCell "'m mem_saml"
  | NamedCell "'m mem_named"
  | ListCell "'m mem_list"
  | SpecCell mem_spec
  | StatusCell mem_status
  | SamlItems "'m mem_saml list"
  | NamedItems "'m mem_named list"

type_synonym 'm heap = "'m cell list"

definition alloc :: "'m cell \<Rightarrow> 'm heap \<Rightarrow> nat \<times> 'm heap" where
  "alloc c h = (length h, h @ [c])"

text \<open>Typed reads.\<close>

definition cell_at :: "'m heap \<Rightarrow> nat \<Rightarrow> 'm cell option" where
  "cell_at h a = (if a < length h then Some (h ! a) else None)"

definition refs_at :: "'m heap \<Rightarrow> nat \<Rightarrow> project_ref list" where
  "refs_at h a = (case cell_at h a of Some (RefsCell xs) \<Rightarrow> xs | _ \<Rightarrow> [])"

definition conds_at :: "'m heap \<Rightarrow> nat \<Rightarrow> condition list" where
  "conds_at h a = (case cell_at h a of Some (CondsCell xs) \<Rightarrow> xs | _ \<Rightarrow> [])"

definition samls_at :: "'m heap \<Rightarrow> nat \<Rightarrow> 'm mem_saml list" where
  "samls_at h a = (case cell_at h a of Some (SamlItems xs) \<Rightarrow> xs | _ \<Rightarrow> [])"

definition nameds_at :: "'m heap \<Rightarrow> nat \<Rightarrow> 'm mem_named list" where
  "nameds_at h a = (case cell_at h a of Some (NamedItems xs) \<Rightarrow> xs | _ \<Rightarrow> [])"

definition saml_at :: "'m heap \<Rightarrow> nat \<Rightarrow> 'm mem_saml option" where
  "saml_at h a = (case cell_at h a of Some (SamlCell x) \<Rightarrow> Some x | _ \<Rightarrow> None)"

definition named_at :: "'m heap \<Rightarrow> nat \<Rightarrow> 'm mem_named option" where
  "named_at h a = (case cell_at h a of Some (NamedCell x) \<Rightarrow> Some x | _ \<Rightarrow> None)"

definition list_at :: "'m heap \<Rightarrow> nat \<Rightarrow> 'm mem_list option" where
  "list_at h a = (case cell_at h a of Some (ListCell x) \<Rightarrow> Some x | _ \<Rightarrow> None)"

definition spec_at :: "'m heap \<Rightarrow> nat \<Rightarrow> mem_spec option" where
  "spec_at h a = (case cell_at h a of Some (SpecCell x) \<Rightarrow> Some x | _ \<Rightarrow> None)"

definition status_at :: "'m heap \<Rightarrow> nat \<Rightarrow> mem_status option" where
  "status_at h a = (case cell_at h a of Some (StatusCell x) \<Rightarrow> Some x | _ \<Rightarrow> None)"

record 'm api =
  meta_copy :: "'m \<Rightarrow> 'm heap \<Rightarrow> 'm \<times> 'm heap"
  listmeta_copy :: "'m \<Rightarrow> 'm heap \<Rightarrow> 'm \<times> 'm heap"
  cond_copy :: "condition \<Rightarrow> 'm heap \<Rightarrow> condition \<times> 'm heap"

text \<open>The loop \<open>for i := range in.Items { in.Items[i].DeepCopyInto(&out.Items[i]) }\<close>.\<close>

fun copy_each :: "('v \<Rightarrow> 'h \<Rightarrow> 'v \<times> 'h) \<Rightarrow> 'v list \<Rightarrow> 'h \<Rightarrow> 'v list \<times> 'h" where
  "copy_each f [] h = ([], h)"
| "copy_each f (x # xs) h = (let (x', h) = f x h; (xs', h) = copy_each f xs h in (x' # xs', h))"

text \<open>The shape of every \<open>DeepCopy\<close>: nil for nil, else a new struct filled by \<open>DeepCopyInto\<close>; and of every
  \<open>DeepCopyObject\<close>, which keeps a nil copy from becoming a non-nil interface.\<close>

definition new_copy ::
  "('m heap \<Rightarrow> nat \<Rightarrow> 'v option) \<Rightarrow> ('v \<Rightarrow> 'm cell) \<Rightarrow> ('v \<Rightarrow> 'm heap \<Rightarrow> 'v \<times> 'm heap) \<Rightarrow>
   nat option \<Rightarrow> 'm heap \<Rightarrow> nat option \<times> 'm heap" where
  "new_copy rd mk into p h =
    (case p of
       None \<Rightarrow> (None, h)
     | Some a \<Rightarrow>
         (case rd h a of
            Some i \<Rightarrow> let (out, h) = into i h; (a', h) = alloc (mk out) h in (Some a', h)
          | None \<Rightarrow> (None, h)))"

definition as_object :: "nat option \<times> 'm heap \<Rightarrow> nat option \<times> 'm heap" where
  "as_object c = (case c of (Some a, h) \<Rightarrow> (Some a, h) | (None, h) \<Rightarrow> (None, h))"

subsection \<open>SAMLGroupMapping\<close>

definition SAMLGroupMappingSpec_DeepCopyInto :: "mem_spec \<Rightarrow> 'm heap \<Rightarrow> mem_spec \<times> 'm heap" where
  "SAMLGroupMappingSpec_DeepCopyInto i h =
    (let out = i\<lparr>ms_RoleRef := ms_RoleRef i\<rparr>
     in case ms_ProjectRefs i of
          None \<Rightarrow> (out, h)
        | Some a \<Rightarrow> let (a', h) = alloc (RefsCell (refs_at h a)) h in (out\<lparr>ms_ProjectRefs := Some a'\<rparr>, h))"

definition SAMLGroupMappingStatus_DeepCopyInto :: "'m api \<Rightarrow> mem_status \<Rightarrow> 'm heap \<Rightarrow> mem_status \<times> 'm heap" where
  "SAMLGroupMappingStatus_DeepCopyInto api i h =
    (case mst_Conditions i of
       None \<Rightarrow> (i, h)
     | Some a \<Rightarrow>
         let (cs, h) = copy_each (cond_copy api) (conds_at h a) h;
             (a', h) = alloc (CondsCell cs) h
         in (i\<lparr>mst_Conditions := Some a'\<rparr>, h))"

definition SAMLGroupMapping_DeepCopyInto :: "'m api \<Rightarrow> 'm mem_saml \<Rightarrow> 'm heap \<Rightarrow> 'm mem_saml \<times> 'm heap" where
  "SAMLGroupMapping_DeepCopyInto api i h =
    (let out = i\<lparr>mg_TypeMeta := mg_TypeMeta i\<rparr>;
         (m, h) = meta_copy api (mg_ObjectMeta i) h;
         (sp, h) = SAMLGroupMappingSpec_DeepCopyInto (mg_Spec i) h;
         (st, h) = SAMLGroupMappingStatus_DeepCopyInto api (mg_Status i) h
     in (out\<lparr>mg_ObjectMeta := m, mg_Spec := sp, mg_Status := st\<rparr>, h))"

definition SAMLGroupMapping_DeepCopy :: "'m api \<Rightarrow> nat option \<Rightarrow> 'm heap \<Rightarrow> nat option \<times> 'm heap" where
  "SAMLGroupMapping_DeepCopy api = new_copy saml_at SamlCell (SAMLGroupMapping_DeepCopyInto api)"

definition SAMLGroupMapping_DeepCopyObject :: "'m api \<Rightarrow> nat option \<Rightarrow> 'm heap \<Rightarrow> nat option \<times> 'm heap" where
  "SAMLGroupMapping_DeepCopyObject api p h = as_object (SAMLGroupMapping_DeepCopy api p h)"

definition SAMLGroupMappingSpec_DeepCopy :: "'m api \<Rightarrow> nat option \<Rightarrow> 'm heap \<Rightarrow> nat option \<times> 'm heap" where
  "SAMLGroupMappingSpec_DeepCopy api = new_copy spec_at SpecCell (SAMLGroupMappingSpec_DeepCopyInto)"

definition SAMLGroupMappingStatus_DeepCopy :: "'m api \<Rightarrow> nat option \<Rightarrow> 'm heap \<Rightarrow> nat option \<times> 'm heap" where
  "SAMLGroupMappingStatus_DeepCopy api = new_copy status_at StatusCell (SAMLGroupMappingStatus_DeepCopyInto api)"

definition SAMLGroupMappingList_DeepCopyInto :: "'m api \<Rightarrow> 'm mem_list \<Rightarrow> 'm heap \<Rightarrow> 'm mem_list \<times> 'm heap" where
  "SAMLGroupMappingList_DeepCopyInto api i h =
    (let out = i\<lparr>ml_TypeMeta := ml_TypeMeta i\<rparr>;
         (m, h) = listmeta_copy api (ml_ListMeta i) h;
         out = out\<lparr>ml_ListMeta := m\<rparr>
     in case ml_Items i of
          None \<Rightarrow> (out, h)
        | Some a \<Rightarrow>
            let (xs, h) = copy_each (SAMLGroupMapping_DeepCopyInto api) (samls_at h a) h;
                (a', h) = alloc (SamlItems xs) h
            in (out\<lparr>ml_Items := Some a'\<rparr>, h))"

definition SAMLGroupMappingList_DeepCopy :: "'m api \<Rightarrow> nat option \<Rightarrow> 'm heap \<Rightarrow> nat option \<times> 'm heap" where
  "SAMLGroupMappingList_DeepCopy api = new_copy list_at ListCell (SAMLGroupMappingList_DeepCopyInto api)"

definition SAMLGroupMappingList_DeepCopyObject :: "'m api \<Rightarrow> nat option \<Rightarrow> 'm heap \<Rightarrow> nat option \<times> 'm heap" where
  "SAMLGroupMappingList_DeepCopyObject api p h = as_object (SAMLGroupMappingList_DeepCopy api p h)"

subsection \<open>Project and UserRole\<close>

definition ProjectStatus_DeepCopyInto :: "'m api \<Rightarrow> mem_status \<Rightarrow> 'm heap \<Rightarrow> mem_status \<times> 'm heap" where
  "ProjectStatus_DeepCopyInto api i h =
    (case mst_Conditions i of
       None \<Rightarrow> (i, h)
     | Some a \<Rightarrow>
         let (cs, h) = copy_each (cond_copy api) (conds_at h a) h;
             (a', h) = alloc (CondsCell cs) h
         in (i\<lparr>mst_Conditions := Some a'\<rparr>, h))"

definition Project_DeepCopyInto :: "'m api \<Rightarrow> 'm mem_named \<Rightarrow> 'm heap \<Rightarrow> 'm mem_named \<times> 'm heap" where
  "Project_DeepCopyInto api i h =
    (let out = i\<lparr>mn_TypeMeta := mn_TypeMeta i\<rparr>;
         (m, h) = meta_copy api (mn_ObjectMeta i) h;
         out = out\<lparr>mn_Spec := mn_Spec i\<rparr>;
         (st, h) = ProjectStatus_DeepCopyInto api (mn_Status i) h
     in (out\<lparr>mn_ObjectMeta := m, mn_Status := st\<rparr>, h))"

definition ProjectList_DeepCopyInto :: "'m api \<Rightarrow> 'm mem_list \<Rightarrow> 'm heap \<Rightarrow> 'm mem_list \<times> 'm heap" where
  "ProjectList_DeepCopyInto api i h =
    (let out = i\<lparr>ml_TypeMeta := ml_TypeMeta i\<rparr>;
         (m, h) = listmeta_copy api (ml_ListMeta i) h;
         out = out\<lparr>ml_ListMeta := m\<rparr>
     in case ml_Items i of
          None \<Rightarrow> (out, h)
        | Some a \<Rightarrow>
            let (xs, h) = copy_each (Project_DeepCopyInto api) (nameds_at h a) h;
                (a', h) = alloc (NamedItems xs) h
            in (out\<lparr>ml_Items := Some a'\<rparr>, h))"

definition Project_DeepCopy :: "'m api \<Rightarrow> nat option \<Rightarrow> 'm heap \<Rightarrow> nat option \<times> 'm heap" where
  "Project_DeepCopy api = new_copy named_at NamedCell (Project_DeepCopyInto api)"

definition Project_DeepCopyObject :: "'m api \<Rightarrow> nat option \<Rightarrow> 'm heap \<Rightarrow> nat option \<times> 'm heap" where
  "Project_DeepCopyObject api p h = as_object (Project_DeepCopy api p h)"

definition ProjectList_DeepCopy :: "'m api \<Rightarrow> nat option \<Rightarrow> 'm heap \<Rightarrow> nat option \<times> 'm heap" where
  "ProjectList_DeepCopy api = new_copy list_at ListCell (ProjectList_DeepCopyInto api)"

definition ProjectList_DeepCopyObject :: "'m api \<Rightarrow> nat option \<Rightarrow> 'm heap \<Rightarrow> nat option \<times> 'm heap" where
  "ProjectList_DeepCopyObject api p h = as_object (ProjectList_DeepCopy api p h)"

definition UserRoleStatus_DeepCopyInto :: "'m api \<Rightarrow> mem_status \<Rightarrow> 'm heap \<Rightarrow> mem_status \<times> 'm heap" where
  "UserRoleStatus_DeepCopyInto api i h =
    (case mst_Conditions i of
       None \<Rightarrow> (i, h)
     | Some a \<Rightarrow>
         let (cs, h) = copy_each (cond_copy api) (conds_at h a) h;
             (a', h) = alloc (CondsCell cs) h
         in (i\<lparr>mst_Conditions := Some a'\<rparr>, h))"

definition UserRole_DeepCopyInto :: "'m api \<Rightarrow> 'm mem_named \<Rightarrow> 'm heap \<Rightarrow> 'm mem_named \<times> 'm heap" where
  "UserRole_DeepCopyInto api i h =
    (let out = i\<lparr>mn_TypeMeta := mn_TypeMeta i\<rparr>;
         (m, h) = meta_copy api (mn_ObjectMeta i) h;
         out = out\<lparr>mn_Spec := mn_Spec i\<rparr>;
         (st, h) = UserRoleStatus_DeepCopyInto api (mn_Status i) h
     in (out\<lparr>mn_ObjectMeta := m, mn_Status := st\<rparr>, h))"

definition UserRoleList_DeepCopyInto :: "'m api \<Rightarrow> 'm mem_list \<Rightarrow> 'm heap \<Rightarrow> 'm mem_list \<times> 'm heap" where
  "UserRoleList_DeepCopyInto api i h =
    (let out = i\<lparr>ml_TypeMeta := ml_TypeMeta i\<rparr>;
         (m, h) = listmeta_copy api (ml_ListMeta i) h;
         out = out\<lparr>ml_ListMeta := m\<rparr>
     in case ml_Items i of
          None \<Rightarrow> (out, h)
        | Some a \<Rightarrow>
            let (xs, h) = copy_each (UserRole_DeepCopyInto api) (nameds_at h a) h;
                (a', h) = alloc (NamedItems xs) h
            in (out\<lparr>ml_Items := Some a'\<rparr>, h))"

definition UserRole_DeepCopy :: "'m api \<Rightarrow> nat option \<Rightarrow> 'm heap \<Rightarrow> nat option \<times> 'm heap" where
  "UserRole_DeepCopy api = new_copy named_at NamedCell (UserRole_DeepCopyInto api)"

definition UserRole_DeepCopyObject :: "'m api \<Rightarrow> nat option \<Rightarrow> 'm heap \<Rightarrow> nat option \<times> 'm heap" where
  "UserRole_DeepCopyObject api p h = as_object (UserRole_DeepCopy api p h)"

definition UserRoleList_DeepCopy :: "'m api \<Rightarrow> nat option \<Rightarrow> 'm heap \<Rightarrow> nat option \<times> 'm heap" where
  "UserRoleList_DeepCopy api = new_copy list_at ListCell (UserRoleList_DeepCopyInto api)"

definition UserRoleList_DeepCopyObject :: "'m api \<Rightarrow> nat option \<Rightarrow> 'm heap \<Rightarrow> nat option \<times> 'm heap" where
  "UserRoleList_DeepCopyObject api p h = as_object (UserRoleList_DeepCopy api p h)"

subsection \<open>The contract of a deep copy\<close>

text \<open>\<open>val\<close> is the value a struct stands for in a heap and \<open>addrs\<close> the cells it reaches.  A deep copy only
  allocates; the copy stands for the same value and reaches only new cells.\<close>

locale deep_copy =
  fixes copy :: "'v \<Rightarrow> 'm heap \<Rightarrow> 'v \<times> 'm heap"
    and val :: "'m heap \<Rightarrow> 'v \<Rightarrow> 'a"
    and addrs :: "'m heap \<Rightarrow> 'v \<Rightarrow> nat set"
  assumes extends: "copy x h = (x', h') \<Longrightarrow> \<exists>ext. h' = h @ ext"
    and frame: "(\<And>a. a \<in> addrs h x \<Longrightarrow> cell_at h2 a = cell_at h a) \<Longrightarrow> val h2 x = val h x \<and> addrs h2 x = addrs h x"
    and same: "copy x h = (x', h') \<Longrightarrow> addrs h x \<subseteq> {..<length h} \<Longrightarrow>
      val h' x' = val h x \<and> addrs h' x' \<subseteq> {length h..<length h'}"
begin

lemma ext: "addrs h x \<subseteq> {..<length h} \<Longrightarrow> val (h @ e) x = val h x \<and> addrs (h @ e) x = addrs h x"
  by (rule frame) (auto simp: cell_at_def nth_append)

text \<open>What other allocations after, or before, the copy do not change.\<close>

lemma copy_then:
  assumes "copy x h = (x', h1)" "addrs h x \<subseteq> {..<length h}"
  shows "val (h1 @ e) x' = val h x \<and> addrs (h1 @ e) x' \<subseteq> {length h..<length h1}"
proof -
  have s: "val h1 x' = val h x" "addrs h1 x' \<subseteq> {length h..<length h1}" using same [OF assms] by blast+
  then have "addrs h1 x' \<subseteq> {..<length h1}" by auto
  then show ?thesis using ext [of h1 x' e] s by simp
qed

lemma then_copy:
  assumes "copy x (h @ e) = (x', h')" "addrs h x \<subseteq> {..<length h}"
  shows "val h' x' = val h x \<and> addrs h' x' \<subseteq> {length h + length e..<length h'}"
proof -
  have "addrs (h @ e) x \<subseteq> {..<length (h @ e)}" "val (h @ e) x = val h x" using ext [OF assms(2), of e] assms(2) by auto
  then show ?thesis using same [OF assms(1)] by simp
qed

end

text \<open>What a caller sees of it: the copy allocates and changes no existing cell, it stands for the same
  value, later writes to the new cells leave the original as it was, and writes to the old cells
  leave the copy as it was.\<close>

definition independent :: "('v \<Rightarrow> 'm heap \<Rightarrow> 'v \<times> 'm heap) \<Rightarrow> ('m heap \<Rightarrow> 'v \<Rightarrow> 'a) \<Rightarrow> ('m heap \<Rightarrow> 'v \<Rightarrow> nat set) \<Rightarrow> bool" where
  "independent copy val addrs \<longleftrightarrow>
    (\<forall>h x x' h'. addrs h x \<subseteq> {..<length h} \<longrightarrow> copy x h = (x', h') \<longrightarrow>
       (\<exists>ext. h' = h @ ext) \<and> val h' x' = val h x \<and>
       (\<forall>h2. (\<forall>i < length h. cell_at h2 i = cell_at h' i) \<longrightarrow> val h2 x = val h x) \<and>
       (\<forall>h2. (\<forall>i \<ge> length h. cell_at h2 i = cell_at h' i) \<longrightarrow> val h2 x' = val h x))"

context deep_copy
begin

lemma original_kept:
  assumes "addrs h x \<subseteq> {..<length h}" "\<forall>i < length h. cell_at h2 i = cell_at (h @ e) i"
  shows "val h2 x = val h x"
proof -
  have "cell_at h2 a = cell_at h a" if "a \<in> addrs h x" for a
  proof -
    have "a < length h" using that assms(1) by blast
    then show ?thesis using assms(2) by (simp add: cell_at_def nth_append)
  qed
  then show ?thesis using frame [of h x h2] by blast
qed

lemma copy_kept:
  assumes "addrs h x \<subseteq> {..<length h}" "copy x h = (x', h')" "\<forall>i \<ge> length h. cell_at h2 i = cell_at h' i"
  shows "val h2 x' = val h x"
proof -
  note s = same [OF assms(2,1)]
  have "cell_at h2 a = cell_at h' a" if "a \<in> addrs h' x'" for a
  proof -
    have "a \<ge> length h" using that s by force
    then show ?thesis using assms(3) by blast
  qed
  then show ?thesis using frame [of h' x' h2] s by metis
qed

lemma is_independent: "independent copy val addrs"
  unfolding independent_def
proof (intro allI impI)
  fix h x x' h'
  assume a: "addrs h x \<subseteq> {..<length h}" and c: "copy x h = (x', h')"
  obtain e where "h' = h @ e" using extends [OF c] by blast
  then show "(\<exists>ext. h' = h @ ext) \<and> val h' x' = val h x \<and>
       (\<forall>h2. (\<forall>i < length h. cell_at h2 i = cell_at h' i) \<longrightarrow> val h2 x = val h x) \<and>
       (\<forall>h2. (\<forall>i \<ge> length h. cell_at h2 i = cell_at h' i) \<longrightarrow> val h2 x' = val h x)"
    using original_kept [OF a] copy_kept [OF a c] same [OF c a] by blast
qed

end

lemma deep_copy_pair:
  assumes "deep_copy c1 v1 a1" "deep_copy c2 v2 a2"
  shows "deep_copy (\<lambda>(x, y) h. let (x', h) = c1 x h; (y', h) = c2 y h in ((x', y'), h))
    (\<lambda>h (x, y). (v1 h x, v2 h y)) (\<lambda>h (x, y). a1 h x \<union> a2 h y)"
proof (unfold_locales, goal_cases)
  case (1 p h p' h')
  then show ?case
    by (auto split: prod.splits dest!: deep_copy.extends [OF assms(1)] deep_copy.extends [OF assms(2)])
next
  case (2 h p h2)
  obtain x y where p: "p = (x, y)" by fastforce
  show ?case using deep_copy.frame [OF assms(1), of h x h2] deep_copy.frame [OF assms(2), of h y h2] 2 p by auto
next
  case (3 p h p' h')
  obtain x y x' y' where p: "p = (x, y)" "p' = (x', y')" by fastforce
  obtain h1 where c: "c1 x h = (x', h1)" "c2 y h1 = (y', h')" using 3(1) p by (auto split: prod.splits)
  obtain e1 e2 where e: "h1 = h @ e1" "h' = h1 @ e2"
    using deep_copy.extends [OF assms(1) c(1)] deep_copy.extends [OF assms(2) c(2)] by blast
  have d: "a1 h x \<subseteq> {..<length h}" "a2 h y \<subseteq> {..<length h}" using 3(2) p by auto
  have "v1 h' x' = v1 h x" "a1 h' x' \<subseteq> {length h..<length h1}"
    using deep_copy.copy_then [OF assms(1) c(1) d(1), of e2] e(2) by blast+
  moreover have "v2 h' y' = v2 h y" "a2 h' y' \<subseteq> {length h + length e1..<length h'}"
    using deep_copy.then_copy [OF assms(2) c(2) [unfolded e(1)] d(2)] by blast+
  ultimately show ?case using p e by auto
qed

lemma copy_each_extends:
  assumes "deep_copy c v a"
  shows "copy_each c xs h = (xs', h') \<Longrightarrow> \<exists>e. h' = h @ e"
  by (induction xs arbitrary: h xs') (auto split: prod.splits dest!: deep_copy.extends [OF assms], force)

lemma deep_copy_each:
  assumes "deep_copy c v a"
  shows "deep_copy (copy_each c) (\<lambda>h xs. map (v h) xs) (\<lambda>h xs. \<Union>x\<in>set xs. a h x)"
proof (unfold_locales, goal_cases)
  case (1 xs h xs' h')
  then show ?case by (rule copy_each_extends [OF assms])
next
  case (2 h xs h2)
  have "v h2 x = v h x \<and> a h2 x = a h x" if "x \<in> set xs" for x
    using 2 that by (intro deep_copy.frame [OF assms]) auto
  then show ?case by simp
next
  case (3 xs h xs' h')
  then show ?case
  proof (induction xs arbitrary: h xs')
    case (Cons x xs)
    obtain x' h1 ys where c: "c x h = (x', h1)" "copy_each c xs h1 = (ys, h')" "xs' = x' # ys"
      using Cons.prems(1) by (auto split: prod.splits)
    obtain e1 e2 where e: "h1 = h @ e1" "h' = h1 @ e2"
      using deep_copy.extends [OF assms c(1)] copy_each_extends [OF assms c(2)] by blast
    have d: "a h x \<subseteq> {..<length h}" "(\<Union>x\<in>set xs. a h x) \<subseteq> {..<length h}" using Cons.prems(2) by auto
    have "v h' x' = v h x" "a h' x' \<subseteq> {length h..<length h1}"
      using deep_copy.copy_then [OF assms c(1) d(1), of e2] e(2) by blast+
    moreover have xs: "v h1 y = v h y" "a h1 y = a h y" if "y \<in> set xs" for y
    proof -
      have "a h y \<subseteq> {..<length h}" using d(2) that by blast
      from deep_copy.ext [OF assms this, of e1] show "v h1 y = v h y" "a h1 y = a h y" using e(1) by blast+
    qed
    moreover have "(\<Union>x\<in>set xs. a h1 x) \<subseteq> {..<length h1}" using d(2) e(1) xs(2) by force
    from Cons.IH [OF c(2) this] xs
    have "map (v h') ys = map (v h) xs" "(\<Union>x\<in>set ys. a h' x) \<subseteq> {length h1..<length h'}" by auto
    ultimately show ?case using c e by auto
  qed simp
qed

text \<open>A field of a struct: the copy replaces the field, the rest of the struct is kept.\<close>

lemma deep_copy_field:
  assumes "deep_copy c v a" "\<And>x y. g (put x y) = y" "\<And>x y. rest (put x y) = rest x"
  shows "deep_copy (\<lambda>x h. let (y, h) = c (g x) h in (put x y, h)) (\<lambda>h x. (rest x, v h (g x))) (\<lambda>h x. a h (g x))"
proof (unfold_locales, goal_cases)
  case (1 x h x' h')
  then show ?case using deep_copy.extends [OF assms(1)] by (auto split: prod.splits)
next
  case (2 h x h2)
  then show ?case using deep_copy.frame [OF assms(1), of h "g x" h2] by auto
next
  case (3 x h x' h')
  then obtain y where "c (g x) h = (y, h')" "x' = put x y" by (auto split: prod.splits)
  then show ?case using deep_copy.same [OF assms(1), of "g x" h y h'] 3(2) assms(2,3) by simp
qed

lemma deep_copy_cong:
  assumes "deep_copy c v a" "\<And>x h. c' x h = c x h" "\<And>h x. v' h x = F (v h x)" "\<And>h x. a' h x = a h x"
  shows "deep_copy c' v' a'"
  using assms(1) unfolding deep_copy_def assms(2-4) by metis

text \<open>A slice: nil, or the address of its backing array.\<close>

definition slice_copy ::
  "('m heap \<Rightarrow> nat \<Rightarrow> 'v list) \<Rightarrow> ('v list \<Rightarrow> 'm cell) \<Rightarrow> ('v \<Rightarrow> 'm heap \<Rightarrow> 'v \<times> 'm heap) \<Rightarrow>
   nat option \<Rightarrow> 'm heap \<Rightarrow> nat option \<times> 'm heap" where
  "slice_copy rd mk c p h =
    (case p of None \<Rightarrow> (None, h)
     | Some a \<Rightarrow> let (xs, h) = copy_each c (rd h a) h; (a', h) = alloc (mk xs) h in (Some a', h))"

definition slice_val :: "('m heap \<Rightarrow> nat \<Rightarrow> 'v list) \<Rightarrow> ('m heap \<Rightarrow> 'v \<Rightarrow> 'a) \<Rightarrow> 'm heap \<Rightarrow> nat option \<Rightarrow> 'a list option" where
  "slice_val rd v h p = map_option (\<lambda>a. map (v h) (rd h a)) p"

definition slice_addrs :: "('m heap \<Rightarrow> nat \<Rightarrow> 'v list) \<Rightarrow> ('m heap \<Rightarrow> 'v \<Rightarrow> nat set) \<Rightarrow> 'm heap \<Rightarrow> nat option \<Rightarrow> nat set" where
  "slice_addrs rd a h p = (case p of None \<Rightarrow> {} | Some b \<Rightarrow> insert b (\<Union>x\<in>set (rd h b). a h x))"

text \<open>An array type: reading looks at one cell and gives back what was stored.\<close>

locale array_cell =
  fixes rd :: "'m heap \<Rightarrow> nat \<Rightarrow> 'v list" and mk :: "'v list \<Rightarrow> 'm cell"
  assumes rd_cell: "cell_at h2 a = cell_at h a \<Longrightarrow> rd h2 a = rd h a"
    and rd_mk: "cell_at h a = Some (mk xs) \<Longrightarrow> rd h a = xs"
begin

lemma deep_copy_slice:
  assumes "deep_copy c v a"
  shows "deep_copy (slice_copy rd mk c) (slice_val rd v) (slice_addrs rd a)"
proof (unfold_locales, goal_cases)
  case (1 p h p' h')
  then show ?case
    using copy_each_extends [OF assms] by (fastforce simp: slice_copy_def alloc_def split: option.splits prod.splits)
next
  case (2 h p h2)
  show ?case
  proof (cases p)
    case (Some b)
    have "cell_at h2 b = cell_at h b" using 2 Some by (simp add: slice_addrs_def)
    then have r: "rd h2 b = rd h b" by (rule rd_cell)
    have "v h2 x = v h x \<and> a h2 x = a h x" if "x \<in> set (rd h b)" for x
      using 2 Some that by (intro deep_copy.frame [OF assms]) (auto simp: slice_addrs_def)
    then show ?thesis using Some r by (simp add: slice_val_def slice_addrs_def)
  qed (simp add: slice_val_def slice_addrs_def)
next
  case (3 p h p' h')
  show ?case
  proof (cases p)
    case (Some b)
    obtain xs h1 where c: "copy_each c (rd h b) h = (xs, h1)" "p' = Some (length h1)" "h' = h1 @ [mk xs]"
      using 3(1) Some by (auto simp: slice_copy_def alloc_def split: prod.splits)
    have d: "(\<Union>x\<in>set (rd h b). a h x) \<subseteq> {..<length h}" using 3(2) Some by (auto simp: slice_addrs_def)
    have "cell_at h' (length h1) = Some (mk xs)" using c(3) by (simp add: cell_at_def)
    then have r: "rd h' (length h1) = xs" by (rule rd_mk)
    obtain e where "h1 = h @ e" using copy_each_extends [OF assms c(1)] by blast
    then show ?thesis
      using deep_copy.copy_then [OF deep_copy_each [OF assms] c(1) d, of "[mk xs]"] Some c(2,3) r
      by (auto simp: slice_val_def slice_addrs_def)
  qed (use 3(1) in \<open>simp_all add: slice_copy_def slice_val_def slice_addrs_def\<close>)
qed

end

interpretation refs: array_cell refs_at RefsCell by unfold_locales (simp_all add: refs_at_def)
interpretation conds: array_cell conds_at CondsCell by unfold_locales (simp_all add: conds_at_def)
interpretation samls: array_cell samls_at SamlItems by unfold_locales (simp_all add: samls_at_def)
interpretation nameds: array_cell nameds_at NamedItems by unfold_locales (simp_all add: nameds_at_def)

text \<open>A pointer to a struct.\<close>

definition pointer_val :: "('m heap \<Rightarrow> nat \<Rightarrow> 'v option) \<Rightarrow> ('m heap \<Rightarrow> 'v \<Rightarrow> 'a) \<Rightarrow> 'm heap \<Rightarrow> nat option \<Rightarrow> 'a option" where
  "pointer_val rd v h p = Option.bind p (\<lambda>a. map_option (v h) (rd h a))"

definition pointer_addrs :: "('m heap \<Rightarrow> nat \<Rightarrow> 'v option) \<Rightarrow> ('m heap \<Rightarrow> 'v \<Rightarrow> nat set) \<Rightarrow> 'm heap \<Rightarrow> nat option \<Rightarrow> nat set" where
  "pointer_addrs rd a h p = (case p of None \<Rightarrow> {} | Some b \<Rightarrow> insert b (case rd h b of None \<Rightarrow> {} | Some x \<Rightarrow> a h x))"

locale object_cell =
  fixes rd :: "'m heap \<Rightarrow> nat \<Rightarrow> 'v option" and mk :: "'v \<Rightarrow> 'm cell"
  assumes rd_cell: "cell_at h2 a = cell_at h a \<Longrightarrow> rd h2 a = rd h a"
    and rd_mk: "cell_at h a = Some (mk x) \<Longrightarrow> rd h a = Some x"
begin

lemma deep_copy_new:
  assumes "deep_copy c v a"
  shows "deep_copy (new_copy rd mk c) (pointer_val rd v) (pointer_addrs rd a)"
proof (unfold_locales, goal_cases)
  case (1 p h p' h')
  then show ?case
    using deep_copy.extends [OF assms] by (fastforce simp: new_copy_def alloc_def split: option.splits prod.splits)
next
  case (2 h p h2)
  show ?case
  proof (cases p)
    case (Some b)
    have "cell_at h2 b = cell_at h b" using 2 Some by (simp add: pointer_addrs_def)
    then have r: "rd h2 b = rd h b" by (rule rd_cell)
    have "v h2 x = v h x \<and> a h2 x = a h x" if "rd h b = Some x" for x
      using 2 Some that by (intro deep_copy.frame [OF assms]) (auto simp: pointer_addrs_def)
    then show ?thesis using Some r by (auto simp: pointer_val_def pointer_addrs_def split: option.splits)
  qed (simp add: pointer_val_def pointer_addrs_def)
next
  case (3 p h p' h')
  show ?case
  proof (cases "Option.bind p (rd h)")
    case None
    then have "p' = None \<and> pointer_val rd v h p = None"
      using 3(1) by (auto simp: new_copy_def pointer_val_def split: option.splits)
    then show ?thesis by (simp add: pointer_val_def pointer_addrs_def)
  next
    case (Some x)
    then obtain b where b: "p = Some b" "rd h b = Some x" by (auto simp: bind_eq_Some_conv)
    obtain x' h1 where c: "c x h = (x', h1)" "p' = Some (length h1)" "h' = h1 @ [mk x']"
      using 3(1) b by (auto simp: new_copy_def alloc_def split: prod.splits)
    have d: "a h x \<subseteq> {..<length h}" using 3(2) b by (auto simp: pointer_addrs_def)
    have "cell_at h' (length h1) = Some (mk x')" using c(3) by (simp add: cell_at_def)
    then have r: "rd h' (length h1) = Some x'" by (rule rd_mk)
    obtain e where "h1 = h @ e" using deep_copy.extends [OF assms c(1)] by blast
    then show ?thesis
      using deep_copy.copy_then [OF assms c(1) d, of "[mk x']"] b c(2,3) r
      by (auto simp: pointer_val_def pointer_addrs_def)
  qed
qed

end

interpretation saml_cell: object_cell saml_at SamlCell by unfold_locales (simp_all add: saml_at_def)
interpretation named_cell: object_cell named_at NamedCell by unfold_locales (simp_all add: named_at_def)
interpretation list_cell: object_cell list_at ListCell by unfold_locales (simp_all add: list_at_def)
interpretation spec_cell: object_cell spec_at SpecCell by unfold_locales (simp_all add: spec_at_def)
interpretation status_cell: object_cell status_at StatusCell by unfold_locales (simp_all add: status_at_def)

subsection \<open>The generated copies are deep\<close>

definition spec_val :: "'m heap \<Rightarrow> mem_spec \<Rightarrow> mem_spec \<times> project_ref list option" where
  "spec_val h x = (x\<lparr>ms_ProjectRefs := None\<rparr>, slice_val refs_at (\<lambda>_ r. r) h (ms_ProjectRefs x))"

definition spec_addrs :: "'m heap \<Rightarrow> mem_spec \<Rightarrow> nat set" where
  "spec_addrs h x = slice_addrs refs_at (\<lambda>_ _. {}) h (ms_ProjectRefs x)"

definition status_val :: "'m heap \<Rightarrow> mem_status \<Rightarrow> mem_status \<times> condition list option" where
  "status_val h x = (x\<lparr>mst_Conditions := None\<rparr>, slice_val conds_at (\<lambda>_ c. c) h (mst_Conditions x))"

definition status_addrs :: "'m heap \<Rightarrow> mem_status \<Rightarrow> nat set" where
  "status_addrs h x = slice_addrs conds_at (\<lambda>_ _. {}) h (mst_Conditions x)"

definition saml_val where
  "saml_val mval h x = (mg_TypeMeta x, mval h (mg_ObjectMeta x), spec_val h (mg_Spec x), status_val h (mg_Status x))"

definition saml_addrs where
  "saml_addrs maddrs h x = maddrs h (mg_ObjectMeta x) \<union> (spec_addrs h (mg_Spec x) \<union> status_addrs h (mg_Status x))"

definition named_val where
  "named_val mval h x = ((mn_TypeMeta x, mn_Spec x), mval h (mn_ObjectMeta x), status_val h (mn_Status x))"

definition named_addrs where
  "named_addrs maddrs h x = maddrs h (mn_ObjectMeta x) \<union> status_addrs h (mn_Status x)"

definition list_val where
  "list_val lval rd v h x = (ml_TypeMeta x, lval h (ml_ListMeta x), slice_val rd v h (ml_Items x))"

definition list_addrs where
  "list_addrs laddrs rd a h x = laddrs h (ml_ListMeta x) \<union> slice_addrs rd a h (ml_Items x)"

text \<open>What apimachinery documents about its own deep copies.\<close>

definition api_ok where
  "api_ok api mval maddrs lval laddrs \<longleftrightarrow>
     deep_copy (meta_copy api) mval maddrs \<and> deep_copy (listmeta_copy api) lval laddrs \<and>
     deep_copy (cond_copy api) (\<lambda>_ c. c) (\<lambda>_ _. {})"

lemma copy_each_id: "copy_each (\<lambda>x h. (x, h)) xs h = (xs, h)"
  by (induction xs) auto

interpretation spec_copy: deep_copy SAMLGroupMappingSpec_DeepCopyInto spec_val spec_addrs
proof -
  have "deep_copy (\<lambda>(x :: project_ref) (h :: 'm heap). (x, h)) (\<lambda>_ r. r) (\<lambda>_ _. {})" by unfold_locales auto
  note sl = refs.deep_copy_slice [OF this]
  show "deep_copy (SAMLGroupMappingSpec_DeepCopyInto :: _ \<Rightarrow> 'm heap \<Rightarrow> _) spec_val spec_addrs"
    by (rule deep_copy_cong [OF deep_copy_field [OF sl, of ms_ProjectRefs "\<lambda>x y. x\<lparr>ms_ProjectRefs := y\<rparr>"
            "\<lambda>x. x\<lparr>ms_ProjectRefs := None\<rparr>"], where F = id])
      (auto simp: SAMLGroupMappingSpec_DeepCopyInto_def slice_copy_def copy_each_id spec_val_def spec_addrs_def
        split: option.splits prod.splits)
qed

lemma status_copy:
  assumes "api_ok api mval maddrs lval laddrs"
  shows "deep_copy (SAMLGroupMappingStatus_DeepCopyInto api) status_val status_addrs"
proof -
  have "deep_copy (cond_copy api) (\<lambda>_ c. c) (\<lambda>_ _. {})" using assms by (simp add: api_ok_def)
  note sl = conds.deep_copy_slice [OF this]
  show ?thesis
    by (rule deep_copy_cong [OF deep_copy_field [OF sl, of mst_Conditions "\<lambda>x y. x\<lparr>mst_Conditions := y\<rparr>"
            "\<lambda>x. x\<lparr>mst_Conditions := None\<rparr>"], where F = id])
      (auto simp: SAMLGroupMappingStatus_DeepCopyInto_def slice_copy_def status_val_def status_addrs_def Let_def
        split: option.splits prod.splits)
qed

lemma saml_copy:
  assumes "api_ok api mval maddrs lval laddrs"
  shows "deep_copy (SAMLGroupMapping_DeepCopyInto api) (saml_val mval) (saml_addrs maddrs)"
proof -
  have "deep_copy (meta_copy api) mval maddrs" using assms by (simp add: api_ok_def)
  note p = deep_copy_pair [OF this deep_copy_pair [OF spec_copy.deep_copy_axioms status_copy [OF assms]]]
  show ?thesis
    by (rule deep_copy_cong [OF deep_copy_field [OF p, of "\<lambda>x. (mg_ObjectMeta x, mg_Spec x, mg_Status x)"
            "\<lambda>x (m, sp, st). x\<lparr>mg_ObjectMeta := m, mg_Spec := sp, mg_Status := st\<rparr>" mg_TypeMeta], where F = id])
      (auto simp: SAMLGroupMapping_DeepCopyInto_def saml_val_def saml_addrs_def Let_def split: prod.splits)
qed

lemma project_copy:
  assumes "api_ok api mval maddrs lval laddrs"
  shows "deep_copy (Project_DeepCopyInto api) (named_val mval) (named_addrs maddrs)"
proof -
  have m: "deep_copy (meta_copy api) mval maddrs" using assms by (simp add: api_ok_def)
  have "ProjectStatus_DeepCopyInto api = SAMLGroupMappingStatus_DeepCopyInto api"
    by (intro ext) (simp add: ProjectStatus_DeepCopyInto_def SAMLGroupMappingStatus_DeepCopyInto_def)
  then have "deep_copy (ProjectStatus_DeepCopyInto api) status_val status_addrs" using status_copy [OF assms] by simp
  note p = deep_copy_pair [OF m this]
  show ?thesis
    by (rule deep_copy_cong [OF deep_copy_field [OF p, of "\<lambda>x. (mn_ObjectMeta x, mn_Status x)"
            "\<lambda>x (m, st). x\<lparr>mn_ObjectMeta := m, mn_Status := st\<rparr>" "\<lambda>x. (mn_TypeMeta x, mn_Spec x)"], where F = id])
      (auto simp: Project_DeepCopyInto_def named_val_def named_addrs_def Let_def split: prod.splits)
qed

lemma user_role_copies:
  "UserRole_DeepCopyInto api = Project_DeepCopyInto api" "UserRoleList_DeepCopyInto api = ProjectList_DeepCopyInto api"
proof -
  have "UserRoleStatus_DeepCopyInto api = ProjectStatus_DeepCopyInto api"
    by (intro ext) (simp add: UserRoleStatus_DeepCopyInto_def ProjectStatus_DeepCopyInto_def)
  then show r: "UserRole_DeepCopyInto api = Project_DeepCopyInto api"
    by (intro ext) (simp add: UserRole_DeepCopyInto_def Project_DeepCopyInto_def)
  show "UserRoleList_DeepCopyInto api = ProjectList_DeepCopyInto api"
    by (intro ext) (simp only: UserRoleList_DeepCopyInto_def ProjectList_DeepCopyInto_def r)
qed

lemma deep_copy_list_struct:
  assumes "deep_copy lc lval laddrs" "deep_copy sc sval saddrs"
  shows "deep_copy (\<lambda>x h. let (m, h) = lc (ml_ListMeta x) h; (p, h) = sc (ml_Items x) h
      in (x\<lparr>ml_ListMeta := m, ml_Items := p\<rparr>, h))
    (\<lambda>h x. (ml_TypeMeta x, lval h (ml_ListMeta x), sval h (ml_Items x)))
    (\<lambda>h x. laddrs h (ml_ListMeta x) \<union> saddrs h (ml_Items x))"
  by (rule deep_copy_cong [OF deep_copy_field [OF deep_copy_pair [OF assms], of "\<lambda>x. (ml_ListMeta x, ml_Items x)"
          "\<lambda>x (m, p). x\<lparr>ml_ListMeta := m, ml_Items := p\<rparr>" ml_TypeMeta], where F = id])
    (auto simp: Let_def split: prod.splits)

lemma saml_list_copy:
  assumes "api_ok api mval maddrs lval laddrs"
  shows "deep_copy (SAMLGroupMappingList_DeepCopyInto api) (list_val lval samls_at (saml_val mval))
    (list_addrs laddrs samls_at (saml_addrs maddrs))"
proof -
  have "deep_copy (listmeta_copy api) lval laddrs" using assms by (simp add: api_ok_def)
  note l = deep_copy_list_struct [OF this samls.deep_copy_slice [OF saml_copy [OF assms]]]
  show ?thesis
    by (rule deep_copy_cong [OF l, where F = id])
      (auto simp: SAMLGroupMappingList_DeepCopyInto_def slice_copy_def list_val_def list_addrs_def Let_def
        split: option.splits prod.splits)
qed

lemma project_list_copy:
  assumes "api_ok api mval maddrs lval laddrs"
  shows "deep_copy (ProjectList_DeepCopyInto api) (list_val lval nameds_at (named_val mval))
    (list_addrs laddrs nameds_at (named_addrs maddrs))"
proof -
  have "deep_copy (listmeta_copy api) lval laddrs" using assms by (simp add: api_ok_def)
  note l = deep_copy_list_struct [OF this nameds.deep_copy_slice [OF project_copy [OF assms]]]
  show ?thesis
    by (rule deep_copy_cong [OF l, where F = id])
      (auto simp: ProjectList_DeepCopyInto_def slice_copy_def list_val_def list_addrs_def Let_def
        split: option.splits prod.splits)
qed

lemma as_object_id: "as_object c = c"
  by (cases c; cases "fst c") (auto simp: as_object_def split: prod.splits option.splits)

text \<open>Every \<open>DeepCopyObject\<close> of the package keeps the contract.\<close>

lemma objects_copy:
  assumes "api_ok api mval maddrs lval laddrs"
  shows "deep_copy (SAMLGroupMapping_DeepCopyObject api) (pointer_val saml_at (saml_val mval)) (pointer_addrs saml_at (saml_addrs maddrs))"
    and "deep_copy (SAMLGroupMappingList_DeepCopyObject api)
      (pointer_val list_at (list_val lval samls_at (saml_val mval))) (pointer_addrs list_at (list_addrs laddrs samls_at (saml_addrs maddrs)))"
    and "deep_copy (Project_DeepCopyObject api) (pointer_val named_at (named_val mval)) (pointer_addrs named_at (named_addrs maddrs))"
    and "deep_copy (ProjectList_DeepCopyObject api)
      (pointer_val list_at (list_val lval nameds_at (named_val mval))) (pointer_addrs list_at (list_addrs laddrs nameds_at (named_addrs maddrs)))"
    and "deep_copy (UserRole_DeepCopyObject api) (pointer_val named_at (named_val mval)) (pointer_addrs named_at (named_addrs maddrs))"
    and "deep_copy (UserRoleList_DeepCopyObject api)
      (pointer_val list_at (list_val lval nameds_at (named_val mval))) (pointer_addrs list_at (list_addrs laddrs nameds_at (named_addrs maddrs)))"
proof -
  have obj: "SAMLGroupMapping_DeepCopyObject api = new_copy saml_at SamlCell (SAMLGroupMapping_DeepCopyInto api)"
    "SAMLGroupMappingList_DeepCopyObject api = new_copy list_at ListCell (SAMLGroupMappingList_DeepCopyInto api)"
    "Project_DeepCopyObject api = new_copy named_at NamedCell (Project_DeepCopyInto api)"
    "ProjectList_DeepCopyObject api = new_copy list_at ListCell (ProjectList_DeepCopyInto api)"
    "UserRole_DeepCopyObject api = new_copy named_at NamedCell (Project_DeepCopyInto api)"
    "UserRoleList_DeepCopyObject api = new_copy list_at ListCell (ProjectList_DeepCopyInto api)"
    by (intro ext; simp add: as_object_id user_role_copies SAMLGroupMapping_DeepCopyObject_def SAMLGroupMapping_DeepCopy_def
        SAMLGroupMappingList_DeepCopyObject_def SAMLGroupMappingList_DeepCopy_def Project_DeepCopyObject_def Project_DeepCopy_def
        ProjectList_DeepCopyObject_def ProjectList_DeepCopy_def UserRole_DeepCopyObject_def UserRole_DeepCopy_def
        UserRoleList_DeepCopyObject_def UserRoleList_DeepCopy_def)+
  note c = saml_cell.deep_copy_new [OF saml_copy [OF assms]] list_cell.deep_copy_new [OF saml_list_copy [OF assms]]
    named_cell.deep_copy_new [OF project_copy [OF assms]] list_cell.deep_copy_new [OF project_list_copy [OF assms]]
  show "deep_copy (SAMLGroupMapping_DeepCopyObject api) (pointer_val saml_at (saml_val mval)) (pointer_addrs saml_at (saml_addrs maddrs))"
    "deep_copy (SAMLGroupMappingList_DeepCopyObject api)
      (pointer_val list_at (list_val lval samls_at (saml_val mval))) (pointer_addrs list_at (list_addrs laddrs samls_at (saml_addrs maddrs)))"
    "deep_copy (Project_DeepCopyObject api) (pointer_val named_at (named_val mval)) (pointer_addrs named_at (named_addrs maddrs))"
    "deep_copy (ProjectList_DeepCopyObject api)
      (pointer_val list_at (list_val lval nameds_at (named_val mval))) (pointer_addrs list_at (list_addrs laddrs nameds_at (named_addrs maddrs)))"
    "deep_copy (UserRole_DeepCopyObject api) (pointer_val named_at (named_val mval)) (pointer_addrs named_at (named_addrs maddrs))"
    "deep_copy (UserRoleList_DeepCopyObject api)
      (pointer_val list_at (list_val lval nameds_at (named_val mval))) (pointer_addrs list_at (list_addrs laddrs nameds_at (named_addrs maddrs)))"
    unfolding obj by (fact c)+
qed

text \<open>C26. Every \<open>DeepCopyObject\<close> of the package makes an independent copy: it allocates and changes no existing
  cell, the copy stands for the same object, later writes to the new cells leave the original as it
  was, and writes to the old cells leave the copy as it was.  (What apimachinery documents of the
  deep copies of metadata and conditions is assumed.)\<close>

theorem DeepCopyObject_independent:
  assumes "api_ok api mval maddrs lval laddrs"
  shows "independent (SAMLGroupMapping_DeepCopyObject api) (pointer_val saml_at (saml_val mval)) (pointer_addrs saml_at (saml_addrs maddrs)) \<and>
    independent (SAMLGroupMappingList_DeepCopyObject api)
      (pointer_val list_at (list_val lval samls_at (saml_val mval))) (pointer_addrs list_at (list_addrs laddrs samls_at (saml_addrs maddrs))) \<and>
    independent (Project_DeepCopyObject api) (pointer_val named_at (named_val mval)) (pointer_addrs named_at (named_addrs maddrs)) \<and>
    independent (ProjectList_DeepCopyObject api)
      (pointer_val list_at (list_val lval nameds_at (named_val mval))) (pointer_addrs list_at (list_addrs laddrs nameds_at (named_addrs maddrs))) \<and>
    independent (UserRole_DeepCopyObject api) (pointer_val named_at (named_val mval)) (pointer_addrs named_at (named_addrs maddrs)) \<and>
    independent (UserRoleList_DeepCopyObject api)
      (pointer_val list_at (list_val lval nameds_at (named_val mval))) (pointer_addrs list_at (list_addrs laddrs nameds_at (named_addrs maddrs)))"
  using assms by (intro conjI deep_copy.is_independent objects_copy)

text \<open>A mapping with one project, with metadata that has no references.\<close>

definition ex_api :: "unit api" where
  "ex_api = \<lparr>meta_copy = (\<lambda>x h. (x, h)), listmeta_copy = (\<lambda>x h. (x, h)), cond_copy = (\<lambda>x h. (x, h))\<rparr>"

definition ex_saml :: "nat \<Rightarrow> unit mem_saml" where
  "ex_saml r = \<lparr>mg_TypeMeta = \<lparr>APIVersion = ''v1'', TypeKind = ''SAMLGroupMapping''\<rparr>, mg_ObjectMeta = (),
     mg_Spec = \<lparr>ms_IdentityProviderID = ''idp'', ms_ProviderGroupID = ''g'', ms_Description = [],
       ms_RoleRef = \<lparr>RoleName = ''r''\<rparr>, ms_ProjectRefs = Some r\<rparr>,
     mg_Status = \<lparr>mst_ObservedGeneration = 1, mst_Conditions = None\<rparr>\<rparr>"

definition ex_heap :: "unit heap" where
  "ex_heap = [RefsCell [\<lparr>ProjectName = ''p''\<rparr>], SamlCell (ex_saml 0)]"

lemma ex_api_ok: "api_ok ex_api (\<lambda>_ _. ()) (\<lambda>_ _. {}) (\<lambda>_ _. ()) (\<lambda>_ _. {})"
  unfolding api_ok_def by (intro conjI; unfold_locales) (auto simp: ex_api_def)

theorem DeepCopyObject_independent_witness:
  "(\<exists>ext. ex_heap @ [RefsCell [\<lparr>ProjectName = ''p''\<rparr>], SamlCell (ex_saml 2)] = ex_heap @ ext) \<and>
   pointer_val saml_at (saml_val (\<lambda>_ _. ())) (ex_heap @ [RefsCell [\<lparr>ProjectName = ''p''\<rparr>], SamlCell (ex_saml 2)]) (Some 3) =
   pointer_val saml_at (saml_val (\<lambda>_ _. ())) ex_heap (Some 1)"
proof -
  have "pointer_addrs saml_at (saml_addrs (\<lambda>_ _. {})) ex_heap (Some 1) \<subseteq> {..<length ex_heap}"
    by (auto simp: pointer_addrs_def saml_at_def cell_at_def ex_heap_def ex_saml_def saml_addrs_def spec_addrs_def
        status_addrs_def slice_addrs_def)
  moreover have "SAMLGroupMapping_DeepCopyObject ex_api (Some 1) ex_heap =
      (Some 3, ex_heap @ [RefsCell [\<lparr>ProjectName = ''p''\<rparr>], SamlCell (ex_saml 2)])"
    by (simp add: SAMLGroupMapping_DeepCopyObject_def SAMLGroupMapping_DeepCopy_def as_object_def new_copy_def
        saml_at_def cell_at_def ex_heap_def ex_saml_def SAMLGroupMapping_DeepCopyInto_def ex_api_def alloc_def refs_at_def
        SAMLGroupMappingSpec_DeepCopyInto_def SAMLGroupMappingStatus_DeepCopyInto_def)
  ultimately show ?thesis using DeepCopyObject_independent [OF ex_api_ok, THEN conjunct1, unfolded independent_def] by blast
qed

end
