(* ===== verification/Scheme.thy ===== *)
theory Scheme
  imports Jsm
begin

text \<open>
  The scheme that tells the Kubernetes client which Go type an API kind is: \<open>addKnownTypes\<close> of
  \<^verbatim>\<open>wizapi/groupversion_info.go\<close> and the \<open>init\<close> of \<^verbatim>\<open>internal/k8s/scheme.go\<close>.  The scheme itself and the
  registration of the core types belong to apimachinery and client-go: they are a parameter,
  \<open>scheme_lib\<close>, with \<open>known\<close> the lookup and \<open>scheme_ok\<close> what their documentation says.  A registration
  that panics returns \<open>Inl\<close>.
\<close>

text \<open>A Go type is its package and its name; the name is the kind it is registered under.\<close>

type_synonym go_type = "string \<times> string"

type_synonym gvk = "(string \<times> string) \<times> string"

record 's scheme_lib =
  NewScheme :: 's
  AddKnownTypes :: "string \<times> string \<Rightarrow> go_type list \<Rightarrow> 's \<Rightarrow> string + 's"
  AddToGroupVersion :: "string \<times> string \<Rightarrow> 's \<Rightarrow> string + 's"
  clientgo_AddToScheme :: "'s \<Rightarrow> go_error + 's"
  known :: "'s \<Rightarrow> gvk \<rightharpoonup> go_type"

definition GroupVersion :: "string \<times> string" where
  "GroupVersion = (GroupVersion_Group, GroupVersion_Version)"

definition wiz_types :: "go_type list" where
  "wiz_types = map (Pair ''wizapi'')
     [''SAMLGroupMapping'', ''SAMLGroupMappingList'', ''Project'', ''ProjectList'', ''UserRole'', ''UserRoleList'']"

text \<open>\<open>Inl\<close> is a panic.\<close>

definition addKnownTypes :: "'s scheme_lib \<Rightarrow> 's \<Rightarrow> string + 's" where
  "addKnownTypes lib scheme =
     and_then (AddKnownTypes lib GroupVersion wiz_types scheme) (AddToGroupVersion lib GroupVersion)"

definition scheme_init :: "unicode \<Rightarrow> 's scheme_lib \<Rightarrow> string + 's" where
  "scheme_init u lib =
    (case clientgo_AddToScheme lib (NewScheme lib) of
       Inl err \<Rightarrow> Inl (Error u err)
     | Inr s \<Rightarrow> addKnownTypes lib s)"

text \<open>\<open>AddKnownTypes\<close> succeeds for a non-empty version, types of distinct kinds and kinds that are free or taken
  by the same type, and then knows them; a registration that succeeds only adds.  (It panics on an
  empty version and when a kind is taken by another type.)\<close>

definition scheme_ok :: "'s scheme_lib \<Rightarrow> bool" where
  "scheme_ok lib \<longleftrightarrow>
     (\<forall>s gv ts. snd gv \<noteq> [] \<and> distinct (map snd ts) \<and> (\<forall>t \<in> set ts. known lib s (gv, snd t) \<in> {None, Some t}) \<longrightarrow>
        (\<exists>s'. AddKnownTypes lib gv ts s = Inr s' \<and> known lib s \<subseteq>\<^sub>m known lib s' \<and>
           (\<forall>t \<in> set ts. known lib s' (gv, snd t) = Some t))) \<and>
     (\<forall>s s' gv. AddToGroupVersion lib gv s = Inr s' \<longrightarrow> known lib s \<subseteq>\<^sub>m known lib s')"

lemma addKnownTypes_registers:
  assumes "scheme_ok lib" "\<And>k. known lib s0 (GroupVersion, k) = None"
    and "\<And>s. AddKnownTypes lib GroupVersion wiz_types s0 = Inr s \<Longrightarrow> \<exists>s'. AddToGroupVersion lib GroupVersion s = Inr s'"
  obtains s where "addKnownTypes lib s0 = Inr s" "known lib s0 \<subseteq>\<^sub>m known lib s"
    "\<And>t. t \<in> set wiz_types \<Longrightarrow> known lib s (GroupVersion, snd t) = Some t"
proof -
  note ok = assms(1) [unfolded scheme_ok_def]
  have free: "\<forall>t \<in> set wiz_types. known lib s0 (GroupVersion, snd t) \<in> {None, Some t}" using assms(2) by simp
  have "snd GroupVersion \<noteq> []" "distinct (map snd wiz_types)"
    by (simp_all add: GroupVersion_def GroupVersion_Version_def wiz_types_def)
  then obtain s1 where s1: "AddKnownTypes lib GroupVersion wiz_types s0 = Inr s1" "known lib s0 \<subseteq>\<^sub>m known lib s1"
    "\<forall>t \<in> set wiz_types. known lib s1 (GroupVersion, snd t) = Some t"
    using ok free by meson
  obtain s where s: "AddToGroupVersion lib GroupVersion s1 = Inr s" using assms(3) [OF s1(1)] by blast
  then have le: "known lib s1 \<subseteq>\<^sub>m known lib s" using ok [THEN conjunct2] by meson
  show thesis
  proof
    show "addKnownTypes lib s0 = Inr s" by (simp add: addKnownTypes_def s1(1) s)
    show "known lib s0 \<subseteq>\<^sub>m known lib s" using s1(2) le by (rule map_le_trans)
    show "known lib s (GroupVersion, snd t) = Some t" if "t \<in> set wiz_types" for t
    proof -
      have "known lib s1 (GroupVersion, snd t) = Some t" using s1(3) that by blast
      then show ?thesis using le unfolding map_le_def by (metis domI)
    qed
  qed
qed

text \<open>C30. The process starts with a scheme that knows what it applies: as long as the core types leave the API
  group alone and the common meta types (\<open>ListOptions\<close>, \<open>WatchEvent\<close>) can be registered beside them, the
  initialisation does not panic and keeps every core type, and each object a JSM ticket becomes carries
  an \<open>apiVersion\<close> and \<open>kind\<close> registered for its Go type, with the list type the watch asks for registered
  beside it.\<close>

theorem scheme_knows_applied_objects:
  assumes "scheme_ok lib" "clientgo_AddToScheme lib (NewScheme lib) = Inr s0"
    and "\<And>k. known lib s0 (GroupVersion, k) = None"
    and "\<And>s. AddKnownTypes lib GroupVersion wiz_types s0 = Inr s \<Longrightarrow> \<exists>s'. AddToGroupVersion lib GroupVersion s = Inr s'"
  shows "\<exists>s. scheme_init u lib = Inr s \<and> known lib s0 \<subseteq>\<^sub>m known lib s \<and>
    (\<forall>jt cfg c body m act m'. Handle u jt cfg c body m = (Inr (ApplyAction act), m') \<longrightarrow>
       (\<exists>cr. Object act = SAMLGroupMapping cr \<and> ListObject act = SAMLGroupMappingList \<and>
          APIVersion (TypeMeta cr) = fst GroupVersion @ ''/'' @ snd GroupVersion \<and>
          known lib s (GroupVersion, TypeKind (TypeMeta cr)) = Some (''wizapi'', ''SAMLGroupMapping'') \<and>
          known lib s (GroupVersion, TypeKind (TypeMeta cr) @ ''List'') = Some (''wizapi'', ''SAMLGroupMappingList'')))"
proof -
  obtain s where s: "addKnownTypes lib s0 = Inr s" "known lib s0 \<subseteq>\<^sub>m known lib s"
    "\<And>t. t \<in> set wiz_types \<Longrightarrow> known lib s (GroupVersion, snd t) = Some t"
    using addKnownTypes_registers [OF assms(1,3,4)] by blast
  have k: "known lib s (GroupVersion, ''SAMLGroupMapping'') = Some (''wizapi'', ''SAMLGroupMapping'')"
    "known lib s (GroupVersion, ''SAMLGroupMappingList'') = Some (''wizapi'', ''SAMLGroupMappingList'')"
    using s(3) [of "(''wizapi'', ''SAMLGroupMapping'')"] s(3) [of "(''wizapi'', ''SAMLGroupMappingList'')"]
    by (simp_all add: wiz_types_def)
  have "\<exists>cr. Object act = SAMLGroupMapping cr \<and> ListObject act = SAMLGroupMappingList \<and>
      TypeMeta cr = \<lparr>APIVersion = GroupVersion_String, TypeKind = ''SAMLGroupMapping''\<rparr>"
    if "Handle u jt cfg c body m = (Inr (ApplyAction act), m')" for jt cfg c body m act m'
    using that by (cases rule: Handle_cases [of jt body u cfg c m]) (auto simp: applied_action_def BuildSAMLGroupMapping_def)
  then have "\<exists>cr. Object act = SAMLGroupMapping cr \<and> ListObject act = SAMLGroupMappingList \<and>
      APIVersion (TypeMeta cr) = fst GroupVersion @ ''/'' @ snd GroupVersion \<and>
      known lib s (GroupVersion, TypeKind (TypeMeta cr)) = Some (''wizapi'', ''SAMLGroupMapping'') \<and>
      known lib s (GroupVersion, TypeKind (TypeMeta cr) @ ''List'') = Some (''wizapi'', ''SAMLGroupMappingList'')"
    if "Handle u jt cfg c body m = (Inr (ApplyAction act), m')" for jt cfg c body m act m'
    using that k by (fastforce simp: GroupVersion_String_def GroupVersion_def)
  moreover have "scheme_init u lib = Inr s" using s(1) assms(2) by (simp add: scheme_init_def)
  ultimately show ?thesis using s(2) by blast
qed

text \<open>A scheme that is the map itself and panics where the library does.\<close>

definition ex_AddKnownTypes :: "string \<times> string \<Rightarrow> go_type list \<Rightarrow> (gvk \<rightharpoonup> go_type) \<Rightarrow> string + (gvk \<rightharpoonup> go_type)" where
  "ex_AddKnownTypes gv ts s =
    (if snd gv = [] then Inl ''version is required on all types''
     else fold (\<lambda>t r. and_then r (\<lambda>s. if s (gv, snd t) \<in> {None, Some t} then Inr (s((gv, snd t) \<mapsto> t))
                               else Inl ''double registration of different types'')) ts (Inr s))"

definition ex_scheme_lib :: "(gvk \<rightharpoonup> go_type) scheme_lib" where
  "ex_scheme_lib = \<lparr>NewScheme = Map.empty, AddKnownTypes = ex_AddKnownTypes,
     AddToGroupVersion = (\<lambda>gv. ex_AddKnownTypes gv [(''metav1'', ''WatchEvent''), (''metav1'', ''ListOptions'')]),
     clientgo_AddToScheme = (\<lambda>s. Inr (s(((''apps'', ''v1''), ''Deployment'') \<mapsto> (''apps'', ''Deployment'')))),
     known = (\<lambda>s. s)\<rparr>"

lemma ex_AddKnownTypes_Cons:
  "ex_AddKnownTypes gv (t # ts) s =
    (if snd gv = [] then Inl ''version is required on all types''
     else if s (gv, snd t) \<in> {None, Some t} then ex_AddKnownTypes gv ts (s((gv, snd t) \<mapsto> t))
     else Inl ''double registration of different types'')"
proof -
  have "fold (\<lambda>t r. and_then r (\<lambda>s. if s (gv, snd t) \<in> {None, Some t} then Inr (s((gv, snd t) \<mapsto> t))
      else Inl ''double registration of different types'')) ts (Inl e) = Inl e" for e by (induction ts) simp_all
  then show ?thesis by (simp add: ex_AddKnownTypes_def)
qed

lemma ex_AddKnownTypes_adds: "ex_AddKnownTypes gv ts s = Inr s' \<Longrightarrow> s \<subseteq>\<^sub>m s'"
proof (induction ts arbitrary: s)
  case Nil
  then show ?case by (simp add: ex_AddKnownTypes_def split: if_splits)
next
  case (Cons t ts)
  then have f: "s (gv, snd t) = None \<or> s (gv, snd t) = Some t" "ex_AddKnownTypes gv ts (s((gv, snd t) \<mapsto> t)) = Inr s'"
    by (simp_all add: ex_AddKnownTypes_Cons split: if_splits)
  have "s((gv, snd t) \<mapsto> t) \<subseteq>\<^sub>m s'" using Cons.IH [OF f(2)] .
  moreover have "s \<subseteq>\<^sub>m s((gv, snd t) \<mapsto> t)" using f(1) by (fastforce simp: map_le_def)
  ultimately show ?case using map_le_trans by blast
qed

lemma ex_AddKnownTypes_frame:
  "ex_AddKnownTypes gv ts s = Inr s' \<Longrightarrow> k \<notin> snd ` set ts \<Longrightarrow> s' (gv, k) = s (gv, k)"
proof (induction ts arbitrary: s)
  case Nil
  then show ?case by (simp add: ex_AddKnownTypes_def split: if_splits)
next
  case (Cons t ts)
  then have "ex_AddKnownTypes gv ts (s((gv, snd t) \<mapsto> t)) = Inr s'"
    by (simp add: ex_AddKnownTypes_Cons split: if_splits)
  from Cons.IH [OF this] Cons.prems(2) show ?case by auto
qed

lemma ex_AddKnownTypes_knows:
  assumes "snd gv \<noteq> []" "distinct (map snd ts)" "\<forall>t \<in> set ts. s (gv, snd t) \<in> {None, Some t}"
  shows "\<exists>s'. ex_AddKnownTypes gv ts s = Inr s' \<and> (\<forall>t \<in> set ts. s' (gv, snd t) = Some t)"
  using assms
proof (induction ts arbitrary: s)
  case Nil
  then show ?case by (simp add: ex_AddKnownTypes_def)
next
  case (Cons t ts)
  let ?s = "s((gv, snd t) \<mapsto> t)"
  have "\<forall>t' \<in> set ts. snd t' \<noteq> snd t" using Cons.prems(2) by (auto simp: image_iff)
  then have "\<forall>t' \<in> set ts. ?s (gv, snd t') \<in> {None, Some t'}" using Cons.prems by simp
  moreover have "distinct (map snd ts)" using Cons.prems(2) by simp
  ultimately obtain s' where s': "ex_AddKnownTypes gv ts ?s = Inr s'" "\<forall>t \<in> set ts. s' (gv, snd t) = Some t"
    using Cons.IH [OF Cons.prems(1)] by blast
  then have "s' (gv, snd t) = Some t" using ex_AddKnownTypes_adds [OF s'(1)] by (auto simp: map_le_def)
  then show ?case using s' Cons.prems by (simp add: ex_AddKnownTypes_Cons)
qed

lemma ex_scheme_lib_simps [simp]:
  "known ex_scheme_lib s = s" "AddKnownTypes ex_scheme_lib = ex_AddKnownTypes"
  "AddToGroupVersion ex_scheme_lib gv s = ex_AddKnownTypes gv [(''metav1'', ''WatchEvent''), (''metav1'', ''ListOptions'')] s"
  by (simp_all add: ex_scheme_lib_def)

lemma ex_scheme_lib_ok: "scheme_ok ex_scheme_lib"
  unfolding scheme_ok_def ex_scheme_lib_simps
proof (intro conjI allI impI)
  fix s :: "gvk \<rightharpoonup> go_type" and gv ts
  assume "snd gv \<noteq> [] \<and> distinct (map snd ts) \<and> (\<forall>t \<in> set ts. s (gv, snd t) \<in> {None, Some t})"
  then obtain s' where "ex_AddKnownTypes gv ts s = Inr s'" "\<forall>t \<in> set ts. s' (gv, snd t) = Some t"
    using ex_AddKnownTypes_knows by meson
  then show "\<exists>s'. ex_AddKnownTypes gv ts s = Inr s' \<and> s \<subseteq>\<^sub>m s' \<and> (\<forall>t \<in> set ts. s' (gv, snd t) = Some t)"
    using ex_AddKnownTypes_adds by blast
qed (rule ex_AddKnownTypes_adds)

theorem scheme_knows_applied_objects_witness:
  "\<exists>s. scheme_init ex_uc ex_scheme_lib = Inr s \<and>
     known ex_scheme_lib s ((''apps'', ''v1''), ''Deployment'') = Some (''apps'', ''Deployment'')"
proof -
  let ?s0 = "[((''apps'', ''v1''), ''Deployment'') \<mapsto> (''apps'', ''Deployment'')]"
  have i: "clientgo_AddToScheme ex_scheme_lib (NewScheme ex_scheme_lib) = Inr ?s0" by (simp add: ex_scheme_lib_def)
  have n: "known ex_scheme_lib ?s0 (GroupVersion, k) = None" for k
    by (simp add: GroupVersion_def GroupVersion_Version_def)
  have m: "\<exists>s'. AddToGroupVersion ex_scheme_lib GroupVersion s = Inr s'"
    if "AddKnownTypes ex_scheme_lib GroupVersion wiz_types ?s0 = Inr s" for s
  proof -
    have a: "ex_AddKnownTypes GroupVersion wiz_types ?s0 = Inr s" using that by simp
    have k: "''WatchEvent'' \<notin> snd ` set wiz_types" "''ListOptions'' \<notin> snd ` set wiz_types" by (simp_all add: wiz_types_def)
    have "s (GroupVersion, ''WatchEvent'') = None" "s (GroupVersion, ''ListOptions'') = None"
      using ex_AddKnownTypes_frame [OF a k(1)] ex_AddKnownTypes_frame [OF a k(2)] n unfolding ex_scheme_lib_simps by metis+
    moreover have "snd GroupVersion \<noteq> []" by (simp add: GroupVersion_def GroupVersion_Version_def)
    ultimately show ?thesis
      using ex_AddKnownTypes_knows [of GroupVersion "[(''metav1'', ''WatchEvent''), (''metav1'', ''ListOptions'')]" s]
      unfolding ex_scheme_lib_simps by fastforce
  qed
  obtain s where "scheme_init ex_uc ex_scheme_lib = Inr s" "?s0 \<subseteq>\<^sub>m s"
    using scheme_knows_applied_objects [OF ex_scheme_lib_ok i n m, of ex_uc] by auto
  then show ?thesis by (auto simp: map_le_def)
qed

end
