(* ===== verification/Mock.thy ===== *)
theory Mock
  imports Jsm
begin

text \<open>
  \<^verbatim>\<open>internal/webhook/providertest/mock.go\<close>: the provider the package offers to tests of the dispatcher.  A nil
  function of the struct is \<open>None\<close>; the default response is a map, which the encoder prints with its
  keys sorted.
\<close>

record mock =
  NameValue :: string
  VerifyFunc :: "(request \<Rightarrow> bytes \<Rightarrow> go_error option) option"
  HandleFunc :: "(ctx \<Rightarrow> bytes \<Rightarrow> go_error + action) option"
  ResponseFunc :: "(exec_result \<Rightarrow> string \<Rightarrow> string \<Rightarrow> (string \<times> json_field) list) option"

definition mock_Name :: "mock \<Rightarrow> string" where
  "mock_Name m = (if NameValue m = [] then ''mock'' else NameValue m)"

definition mock_VerifySignature :: "mock \<Rightarrow> request \<Rightarrow> bytes \<Rightarrow> go_error option" where
  "mock_VerifySignature m r body = (case VerifyFunc m of None \<Rightarrow> None | Some f \<Rightarrow> f r body)"

definition mock_Handle :: "mock \<Rightarrow> ctx \<Rightarrow> bytes \<Rightarrow> go_error + action" where
  "mock_Handle m c body = (case HandleFunc m of None \<Rightarrow> Inr (NoopAction ''mock'') | Some f \<Rightarrow> f c body)"

definition mock_BuildResponse :: "mock \<Rightarrow> exec_result \<Rightarrow> string \<Rightarrow> string \<Rightarrow> (string \<times> json_field) list" where
  "mock_BuildResponse m res traceID requestID =
    (case ResponseFunc m of
       Some f \<Rightarrow> f res traceID requestID
     | None \<Rightarrow>
         [(''crName'', FStr (ResCRName res)), (''kind'', FStr (ResultKind_String (Kind res))),
          (''namespace'', FStr (ResNamespace res)), (''reason'', FStr (Reason res)),
          (''requestId'', FStr requestID), (''traceId'', FStr traceID)])"

text \<open>The mock as a \<open>webhook.Provider\<close>; it holds no metrics.\<close>

definition mock_provider :: "mock \<Rightarrow> provider" where
  "mock_provider m = \<lparr>prov_Name = mock_Name m,
     prov_VerifySignature = (\<lambda>_. mock_VerifySignature m),
     prov_Handle = (\<lambda>c body ms. (mock_Handle m c body, ms)),
     prov_BuildResponse = mock_BuildResponse m\<rparr>"

definition mock0 :: mock where
  "mock0 = \<lparr>NameValue = [], VerifyFunc = None, HandleFunc = None, ResponseFunc = None\<rparr>"

text \<open>The zero mock keeps the dispatcher's contract, whatever its name and response.\<close>

interpretation zero_mock: provider_contract "mock_provider (mock0\<lparr>NameValue := n, ResponseFunc := f\<rparr>)" for n f
  by unfold_locales (auto simp: mock_provider_def mock_Handle_def mock0_def)

text \<open>Beside JSM, under a name of its own, the zero mock is served: it and JSM make a dispatcher.\<close>

lemma mock_beside_jsm:
  assumes "mock_Name m \<noteq> ''jsm''"
  shows "\<exists>d. NewDispatcher u \<lparr>Providers = [jsm_New u jt mac cfg, mock_provider m], CfgExecutor = ex, Logger = lg, MaxBodyBytes = n\<rparr> = Inr d \<and>
    providers d (mock_Name m) = Some (mock_provider m) \<and> providers d ''jsm'' = Some (jsm_New u jt mac cfg)"
  using assms by (simp add: NewDispatcher_def mock_provider_def)

lemma zero_mock_noop:
  assumes "providers d (PathValue r ''provider'') = Some (mock_provider mock0)" "ReadAll_MaxBytes (maxBodyBytes d) r = Inr body"
    and "executor d = Execute env ecfg"
  shows "ServeHTTP u d now r w st =
    Some (writeResponse (Ctx r) (mock_provider mock0) ((exec_result0 ResultNoop)\<lparr>Reason := ''mock''\<rparr>) w st)"
  using assms by (simp add: ServeHTTP_def mock_provider_def mock_VerifySignature_def mock_Handle_def mock0_def Let_def)

end
