(* ===== verification/Service_Spec.thy ===== *)
theory Service_Spec
  imports Jsm
begin

text \<open>
  What the service promises, without its machinery: an abstract specification of the JSM endpoint on the
  cluster alone, and the proof that dispatcher, provider and executor implement it.  Metrics, log,
  response writer, the watch loop and the error values are not part of it.

  A request gets a verdict: it is refused with a status and a text, it is understood but not
  provisioned, or it is a ticket to provision.  Only a ticket reaches the cluster.
\<close>

subsection \<open>The specification\<close>

text \<open>The wait ends at the first decisive thing that happens.\<close>

fun decisive :: "ready_check \<Rightarrow> int \<Rightarrow> string \<Rightarrow> tick \<Rightarrow> bool" where
  "decisive rc gen name CtxDone = True"
| "decisive rc gen name Closed = True"
| "decisive rc gen name (Event ty NonClientObj) = False"
| "decisive rc gen name (Event ty (ClientObj obj)) = (GetName obj = name \<and> fst (rc obj gen))"

fun ending :: "executor_config \<Rightarrow> ready_check \<Rightarrow> int \<Rightarrow> exec_result \<Rightarrow> tick \<Rightarrow> exec_result" where
  "ending cfg rc gen base CtxDone = base\<lparr>Kind := ResultTimeout,
     Reason := ''operator did not mark Ready=True within '' @ Duration_String (SyncTimeout cfg)\<rparr>"
| "ending cfg rc gen base Closed = base\<lparr>Kind := ResultTransientFailure, Reason := ''watch channel closed before sync''\<rparr>"
| "ending cfg rc gen base (Event ty (ClientObj obj)) = base\<lparr>Kind := ResultReady, ObservedGeneration := snd (rc obj gen)\<rparr>"
| "ending cfg rc gen base (Event ty NonClientObj) = base"

definition sync_spec ::
  "'k exec_env \<Rightarrow> executor_config \<Rightarrow> ctx \<Rightarrow> apply_action \<Rightarrow> client_object \<Rightarrow> 'k \<Rightarrow> (exec_result \<times> 'k) option" where
  "sync_spec env cfg c act applied k =
    (let gen = GetGeneration applied; ns = GetNamespace applied; name = GetName applied;
         base = (exec_result0 ResultNoop)\<lparr>ResCRName := name, ResNamespace := ns\<rparr>;
         (err, cur, k) = Get (ee_client env) c ns name applied k
     in if err = None \<and> fst (ReadyCheck act cur gen)
        then Some (base\<lparr>Kind := ResultReady, ObservedGeneration := snd (ReadyCheck act cur gen)\<rparr>, k)
        else case Watch (ee_client env) c (ListObject act) ns k of
          (Inl e, k) \<Rightarrow>
            Some (base\<lparr>Kind := ResultTransientFailure, Reason := ''watch: '' @ Error (ee_unicode env) e\<rparr>, k)
        | (Inr ticks, k) \<Rightarrow>
            map_option (\<lambda>t. (ending cfg (ReadyCheck act) gen base t, k)) (find (decisive (ReadyCheck act) gen name) ticks))"

definition provision_spec ::
  "'k exec_env \<Rightarrow> executor_config \<Rightarrow> ctx \<Rightarrow> apply_action \<Rightarrow> 'k \<Rightarrow> (exec_result \<times> 'k) option" where
  "provision_spec env cfg c act k =
    (let ca = ee_span env c ''k8s.apply'';
         fail = (\<lambda>step e obj. classifyK8sErr (ee_unicode env) (ee_preds env) (Errorf [Lit step, W e]) (GetNamespace obj) (GetName obj))
     in case Patch (ee_client env) ca \<lparr>FieldOwner = FieldManager cfg, ForceOwnership = True\<rparr> (stamp cfg ca act) k of
          (Some e, obj, k) \<Rightarrow> Some (fail ''ssa patch: '' e obj, k)
        | (None, obj, k) \<Rightarrow>
            (case Get (ee_client env) ca (GetNamespace obj) (GetName obj) obj k of
               (Some e, obj, k) \<Rightarrow> Some (fail ''post-apply get: '' e obj, k)
             | (None, applied, k) \<Rightarrow> sync_spec env cfg (ee_span env c ''k8s.watch_cr'') act applied k))"

text \<open>The verdict on a request, a pure function of request, clock and configuration.\<close>

record ticket =
  tk_key :: string
  tk_group :: string
  tk_role :: string
  tk_project :: string

datatype verdict = is_Refused: Refused int string | Answered exec_result | Provision ticket

definition fields_verdict :: "unicode \<Rightarrow> json_text \<Rightarrow> provider_config \<Rightarrow> bytes \<Rightarrow> payload \<Rightarrow> verdict" where
  "fields_verdict u jt pcfg body p =
    (let field = (\<lambda>f. ExtractString jt body p (f pcfg));
         fault = (\<lambda>e. Answered (classifyProviderErr u (classifyExtractErr e)))
     in case (field PFieldProviderGroupID, field PFieldRole, field PFieldProject) of
          (Inl e, _, _) \<Rightarrow> fault e
        | (Inr g, Inl e, _) \<Rightarrow> fault e
        | (Inr g, Inr ro, Inl e) \<Rightarrow> fault e
        | (Inr g, Inr ro, Inr pr) \<Rightarrow> Provision \<lparr>tk_key = IssueKey p, tk_group = g, tk_role = ro, tk_project = pr\<rparr>)"

definition payload_verdict :: "unicode \<Rightarrow> json_text \<Rightarrow> provider_config \<Rightarrow> bytes \<Rightarrow> verdict" where
  "payload_verdict u jt pcfg body =
    (case Decode jt body of
       Inl e \<Rightarrow> Answered (classifyProviderErr u (wrap2 ErrBadRequest e))
     | Inr p \<Rightarrow>
         if payload_Status p = PTriggerStatus pcfg then fields_verdict u jt pcfg body p
         else Answered ((exec_result0 ResultNoop)\<lparr>Reason :=
           ''ticket '' @ IssueKey p @ '' status '' @ Quote u (payload_Status p) @
           '' does not match trigger '' @ Quote u (PTriggerStatus pcfg)\<rparr>))"

definition verdict :: "unicode \<Rightarrow> mac \<Rightarrow> json_text \<Rightarrow> provider_config \<Rightarrow> int \<Rightarrow> gotime \<Rightarrow> request \<Rightarrow> verdict" where
  "verdict u mac jt pcfg limit now r =
    (if PathValue r ''provider'' \<noteq> ''jsm'' then Refused 404 ''unknown provider''
     else if max 0 limit < int (length (BodyData r)) then Refused 413 ''request body too large''
     else case BodyErr r of
       Some e \<Rightarrow> if errors_As_MaxBytesError e then Refused 413 ''request body too large'' else Refused 400 ''read body failed''
     | None \<Rightarrow>
         if VerifySignature mac now r (BodyData r) (PSignature pcfg) \<noteq> None then Refused 401 ''invalid signature''
         else payload_verdict u jt pcfg (BodyData r))"

text \<open>The answer (status and body) and the cluster afterwards.\<close>

definition endpoint_spec ::
  "unicode \<Rightarrow> mac \<Rightarrow> json_text \<Rightarrow> provider_config \<Rightarrow> 'k exec_env \<Rightarrow> executor_config \<Rightarrow> int \<Rightarrow> gotime \<Rightarrow>
   request \<Rightarrow> 'k \<Rightarrow> (int \<times> bytes \<times> 'k) option" where
  "endpoint_spec u mac jt pcfg env ecfg limit now r k =
    (let say = (\<lambda>res k. (HTTPStatus (Kind res),
           Encode (BuildResponse res (traceIDFromContext (Ctx r)) (RequestIDFromContext (Ctx r))), k))
     in case verdict u mac jt pcfg limit now r of
          Refused status msg \<Rightarrow> Some (status, msg @ [CHR 0x0A], k)
        | Answered res \<Rightarrow> Some (say res k)
        | Provision t \<Rightarrow>
            map_option (\<lambda>(res, k). say res k)
              (provision_spec env ecfg (Ctx r)
                 (applied_action u pcfg (tk_key t) (tk_group t) (tk_role t) (tk_project t)) k))"

subsection \<open>The executor implements it\<close>

lemma watch_loop_find:
  "map_option fst (watch_loop cfg warn rc gen name base ticks) =
     map_option (ending cfg rc gen base) (find (decisive rc gen name) ticks)"
  by (induction cfg warn rc gen name base ticks rule: watch_loop.induct) (auto split: prod.splits)

lemma watch_loop_find_with:
  "map_option (\<lambda>x. (fst x, k)) (watch_loop cfg warn rc gen name base ticks) =
     map_option (\<lambda>t. (ending cfg rc gen base t, k)) (find (decisive rc gen name) ticks)"
  using arg_cong [OF watch_loop_find, of "map_option (\<lambda>r. (r, k))" cfg warn rc gen name base ticks]
  by (simp add: option.map_comp comp_def)

lemma waitForSync_body_refines:
  "(case waitForSync_body env cfg parent c act applied k of (x, k') \<Rightarrow> map_option (\<lambda>r. (fst r, k')) x) =
     sync_spec env cfg c act applied k"
proof -
  obtain err cur k1 where g: "Get (ee_client env) c (GetNamespace applied) (GetName applied) applied k = (err, cur, k1)"
    by (metis prod_cases3)
  obtain b og where rc: "ReadyCheck act cur (GetGeneration applied) = (b, og)" by fastforce
  show ?thesis
    by (cases "Watch (ee_client env) c (ListObject act) (GetNamespace applied) k1"; cases err; cases b)
      (simp_all add: waitForSync_body_def sync_spec_def Let_def g rc watch_loop_find_with split: sum.split)
qed

lemma waitForSync_refines:
  "map_option (\<lambda>(res, st'). (res, cluster st')) (waitForSync env cfg parent act applied st) =
     sync_spec env cfg (ee_span env parent ''k8s.watch_cr'') act applied (cluster st)"
  unfolding waitForSync_body_refines [of env cfg parent _ act applied "cluster st", symmetric]
  by (simp add: waitForSync_def split: prod.split option.split)

lemma Execute_refines:
  "map_option (\<lambda>(res, st'). (res, cluster st')) (Execute env cfg c (ApplyAction act) st) =
     provision_spec env cfg c act (cluster st)"
  by (simp add: Execute.simps(2) apply_cr_def provision_spec_def Let_def waitForSync_refines split: prod.split option.split)

subsection \<open>The dispatcher implements it\<close>

text \<open>What the client sees of a writer.\<close>

definition seen :: "writer \<Rightarrow> int \<times> bytes" where
  "seen w = (case w_sent w of Some (status, _) \<Rightarrow> (status, w_body w) | None \<Rightarrow> (0, []))"

lemma seen_answered: "answered status b w \<Longrightarrow> seen w = (status, b)"
  by (auto simp: answered_def seen_def)

definition client_view :: "writer \<times> 'k exec_state \<Rightarrow> int \<times> bytes \<times> 'k" where
  "client_view x = (let (status, b) = seen (fst x) in (status, b, cluster (snd x)))"

lemma client_view_http_Error: "fresh w \<Longrightarrow> client_view (http_Error msg status w, st) = (status, msg @ [CHR 0x0A], cluster st)"
  by (simp add: client_view_def seen_answered [OF http_Error_fresh(1)])

lemma client_view_writeResponse:
  assumes "fresh w"
  shows "client_view (writeResponse c prov res w st) = (HTTPStatus (Kind res),
    Encode (prov_BuildResponse prov res (traceIDFromContext c) (RequestIDFromContext c)), cluster st)"
proof -
  obtain w' st' where wr: "(w', st') = writeResponse c prov res w st" by (metis surj_pair)
  have "cluster st' = cluster st" using arg_cong [OF wr, of snd] by (simp add: writeResponse_state)
  then show ?thesis using seen_answered [OF writeResponse_answer [OF assms wr]] wr [symmetric] by (simp add: client_view_def)
qed

lemma Handle_verdict:
  "case payload_verdict u jt pcfg body of
     Answered res \<Rightarrow>
       (\<exists>e m'. Handle u jt pcfg c body m = (Inl e, m') \<and> res = classifyProviderErr u e) \<or>
       (\<exists>reason m'. Handle u jt pcfg c body m = (Inr (NoopAction reason), m') \<and> res = (exec_result0 ResultNoop)\<lparr>Reason := reason\<rparr>)
   | Provision t \<Rightarrow>
       Handle u jt pcfg c body m =
         (Inr (ApplyAction (applied_action u pcfg (tk_key t) (tk_group t) (tk_role t) (tk_project t))), m)
   | Refused status msg \<Rightarrow> False"
  by (auto simp: payload_verdict_def fields_verdict_def Handle_def applied_action_def Let_def split: sum.split)

lemma Execute_view:
  assumes "fresh w"
  shows "map_option client_view (case Execute env cfg c (ApplyAction act) st of
      None \<Rightarrow> None | Some (res, st') \<Rightarrow> Some (writeResponse c' prov res w st')) =
    map_option (\<lambda>(res, k). (HTTPStatus (Kind res),
        Encode (prov_BuildResponse prov res (traceIDFromContext c') (RequestIDFromContext c')), k))
      (provision_spec env cfg c act (cluster st))"
proof (cases "Execute env cfg c (ApplyAction act) st")
  case None
  then show ?thesis by (simp add: Execute_refines [symmetric])
next
  case (Some x)
  then show ?thesis by (cases x) (simp add: Execute_refines [symmetric] client_view_writeResponse [OF assms])
qed

text \<open>The dispatcher's first checks refuse a request exactly as the verdict does.\<close>

lemma ServeHTTP_checks:
  assumes "verdict u mac jt pcfg n now r = Refused status msg"
  shows "\<exists>st'. cluster st' = cluster st \<and>
    ServeHTTP u \<lparr>providers = [''jsm'' \<mapsto> jsm_New u jt mac pcfg], executor = ex, dlogger = lg, maxBodyBytes = n\<rparr> now r w st =
      Some (http_Error msg status w, st')"
proof -
  have "payload_verdict u jt pcfg (BodyData r) \<noteq> Refused status msg"
    using Handle_verdict [of u jt pcfg _ "BodyData r"] by (auto split: verdict.splits)
  then show ?thesis
    using assms by (auto simp: verdict_def ServeHTTP_def ReadAll_MaxBytes_def errors_As_MaxBytesError_def Let_def
        split: if_splits option.splits)
qed

lemma verdict_payload:
  assumes "\<not> is_Refused (verdict u mac jt pcfg n now r)"
  shows "verdict u mac jt pcfg n now r = payload_verdict u jt pcfg (BodyData r) \<and>
    PathValue r ''provider'' = ''jsm'' \<and> ReadAll_MaxBytes n r = Inr (BodyData r) \<and>
    VerifySignature mac now r (BodyData r) (PSignature pcfg) = None"
  using assms by (auto simp: verdict_def ReadAll_MaxBytes_def split: if_splits option.splits)

lemma ServeHTTP_refines:
  assumes "fresh w"
  shows "map_option client_view (ServeHTTP u \<lparr>providers = [''jsm'' \<mapsto> jsm_New u jt mac pcfg],
      executor = Execute env ecfg, dlogger = lg, maxBodyBytes = n\<rparr> now r w st) =
    endpoint_spec u mac jt pcfg env ecfg n now r (cluster st)"
proof (cases "is_Refused (verdict u mac jt pcfg n now r)")
  case True
  then obtain status msg where v: "verdict u mac jt pcfg n now r = Refused status msg" by (auto simp: is_Refused_def)
  from ServeHTTP_checks [OF v, of st "Execute env ecfg" lg w] show ?thesis
    using v by (auto simp: endpoint_spec_def client_view_http_Error [OF assms])
next
  case False
  let ?p = "jsm_New u jt mac pcfg" and ?c = "Ctx r"
  have v: "verdict u mac jt pcfg n now r = payload_verdict u jt pcfg (BodyData r)"
    "PathValue r ''provider'' = ''jsm''" "ReadAll_MaxBytes n r = Inr (BodyData r)"
    "VerifySignature mac now r (BodyData r) (PSignature pcfg) = None"
    using verdict_payload [OF False] by blast+
  note serve = ServeHTTP_def v(2-4) Let_def
  note h = Handle_verdict [of u jt pcfg ?c "BodyData r" "mets st"]
  show ?thesis
  proof (cases "payload_verdict u jt pcfg (BodyData r)")
    case (Refused status msg)
    then show ?thesis using False v(1) by simp
  next
    case (Answered res)
    then consider e m' where "Handle u jt pcfg ?c (BodyData r) (mets st) = (Inl e, m')" "res = classifyProviderErr u e"
      | reason m' where "Handle u jt pcfg ?c (BodyData r) (mets st) = (Inr (NoopAction reason), m')"
        "res = (exec_result0 ResultNoop)\<lparr>Reason := reason\<rparr>"
      using h by auto
    then show ?thesis
      by cases (simp_all add: serve endpoint_spec_def v(1) Answered client_view_writeResponse [OF assms])
  next
    case (Provision t)
    let ?act = "applied_action u pcfg (tk_key t) (tk_group t) (tk_role t) (tk_project t)"
    have "Handle u jt pcfg ?c (BodyData r) (mets st) = (Inr (ApplyAction ?act), mets st)" using h Provision by simp
    then show ?thesis
      using Execute_view [OF assms, where env = env and cfg = ecfg and c = ?c and act = ?act and st = st and c' = ?c and prov = ?p]
      by (simp add: serve endpoint_spec_def v(1) Provision)
  qed
qed

subsection \<open>Tickets and their resources\<close>

lemma Handle_apply:
  assumes "Handle u jt cfg c body m = (Inr (ApplyAction act), m1)" "Decode jt body = Inr p"
  shows "\<exists>g ro pr. ExtractString jt body p (PFieldProviderGroupID cfg) = Inr g \<and> ExtractString jt body p (PFieldRole cfg) = Inr ro \<and>
    ExtractString jt body p (PFieldProject cfg) = Inr pr \<and> act = applied_action u cfg (IssueKey p) g ro pr"
  using assms by (cases rule: Handle_cases [of jt body u cfg c m]) auto

lemma applied_action_target:
  "GetName (Object (applied_action u cfg key g ro pr)) = CRName u key"
  "GetNamespace (Object (applied_action u cfg key g ro pr)) = PNamespace cfg"
  by (simp_all add: applied_action_def accessor_defs BuildSAMLGroupMapping_def)

text \<open>C36. A ticket owns its resource: for tickets with a Jira issue key (a project key of upper-case letters, digits
  and underscores, a dash, a number), the object a ticket is applied to lies in the configured
  namespace; deliveries address the same object exactly when they are for the same ticket, whatever else
  differs between them; redelivering a body asks for the same object with the same content, labels
  and annotations; and the object's name is a valid RFC 1123 label exactly when the key has no underscore
  and at most 59 characters.\<close>

theorem tickets_own_their_resource:
  assumes "Handle u jt cfg c body m = (Inr (ApplyAction act), m1)" "Decode jt body = Inr p"
    and "Handle u jt cfg c' body' m' = (Inr (ApplyAction act'), m1')" "Decode jt body' = Inr p'"
    and "jira_key (IssueKey p)" "jira_key (IssueKey p')"
  shows "GetNamespace (Object act) = PNamespace cfg \<and>
    ((GetNamespace (Object act), GetName (Object act)) = (GetNamespace (Object act'), GetName (Object act')) \<longleftrightarrow>
       IssueKey p = IssueKey p') \<and>
    (body = body' \<longrightarrow> act = act') \<and>
    (dns1123_label (GetName (Object act)) \<longleftrightarrow> CHR ''_'' \<notin> set (IssueKey p) \<and> length (IssueKey p) \<le> 59)"
proof -
  obtain g ro pr where a: "act = applied_action u cfg (IssueKey p) g ro pr"
    "ExtractString jt body p (PFieldProviderGroupID cfg) = Inr g" "ExtractString jt body p (PFieldRole cfg) = Inr ro"
    "ExtractString jt body p (PFieldProject cfg) = Inr pr" using Handle_apply [OF assms(1,2)] by blast
  obtain g' ro' pr' where b: "act' = applied_action u cfg (IssueKey p') g' ro' pr'"
    "ExtractString jt body' p' (PFieldProviderGroupID cfg) = Inr g'" "ExtractString jt body' p' (PFieldRole cfg) = Inr ro'"
    "ExtractString jt body' p' (PFieldProject cfg) = Inr pr'" using Handle_apply [OF assms(3,4)] by blast
  have "act = act'" if "body = body'" using that a b assms(2,4) by auto
  moreover have "CRName u (IssueKey p) = CRName u (IssueKey p') \<longleftrightarrow> IssueKey p = IssueKey p'"
    using CRName_inj [OF assms(5,6), of u] by auto
  ultimately show ?thesis using CRName_label [OF assms(5), of u] by (simp add: a(1) b(1) applied_action_target)
qed

theorem tickets_own_their_resource_witness:
  "\<exists>act. Handle ex_uc ex_jt ex_pcfg ex_ctx ex_body None = (Inr (ApplyAction act), None) \<and> dns1123_label (GetName (Object act)) \<and>
     GetNamespace (Object act) = ''wiz''"
proof -
  obtain p where p: "Decode ex_jt ex_body = Inr p" "IssueKey p = ''SEC-1''" using ex_Decode by blast
  have k: "jira_key (IssueKey p)" using p(2) ex_jira by simp
  from tickets_own_their_resource [OF ex_Handle p(1) ex_Handle p(1) k k] show ?thesis
    using ex_Handle p(2) by (auto simp: ex_pcfg_def)
qed

end
