(* ===== verification/Public_Spec.thy ===== *)
theory Public_Spec
  imports Public Service_Spec
begin

text \<open>
  The specification of the public listener: rate limiting, routing and the endpoint of \<open>Service_Spec\<close>, on
  the cluster and the token buckets alone, and the proof that the whole handler of
  \<open>buildPublicHandler\<close> implements it.
\<close>

subsection \<open>The specification\<close>

text \<open>An admitted request reaches the endpoint, or is turned away by the mux.\<close>

definition routed ::
  "unicode \<Rightarrow> mac \<Rightarrow> json_text \<Rightarrow> provider_config \<Rightarrow> 'k exec_env \<Rightarrow> executor_config \<Rightarrow> int \<Rightarrow> gotime \<Rightarrow> request \<Rightarrow> 'k \<Rightarrow>
   (int \<times> bytes \<times> 'k) option" where
  "routed u mac jt pcfg xenv ecfg limit now r k =
    (case webhook_provider (EscapedPath r) of
       None \<Rightarrow> Some (404, ''404 page not found'' @ [CHR 0x0A], k)
     | Some v \<Rightarrow>
         if Method r \<noteq> ''POST'' then Some (405, ''Method Not Allowed'' @ [CHR 0x0A], k)
         else endpoint_spec u mac jt pcfg xenv ecfg limit now
                (set_match ''POST /webhook/{provider}'' [(''provider'', v)] r) k)"

text \<open>A request is admitted and routed, or refused; when the refusal cannot be counted because the provider's
  name is not a label, it ends as 500.\<close>

definition public_spec ::
  "unicode \<Rightarrow> mac \<Rightarrow> json_text \<Rightarrow> provider_config \<Rightarrow> 'k exec_env \<Rightarrow> executor_config \<Rightarrow> int \<Rightarrow> rate_limit_config \<Rightarrow>
   ('l, 'r) mw_env \<Rightarrow> request \<Rightarrow> 'k \<Rightarrow> (string \<rightharpoonup> 'l) \<Rightarrow> ((int \<times> bytes \<times> 'k) \<times> (string \<rightharpoonup> 'l)) option" where
  "public_spec u mac jt pcfg xenv ecfg limit rl env r k lims =
    (let (ok, lims) = admission rl env r lims in
     map_option (\<lambda>x. (x, lims))
      (if ok then routed u mac jt pcfg xenv ecfg limit (me_now env) r k
       else Some (if me_label_ok env (providerFromPath (URLPath r)) then 429 else 500, [], k)))"

subsection \<open>What a handler shows of itself\<close>

definition view :: "('k, 'l) world handler \<Rightarrow> request \<Rightarrow> writer \<Rightarrow> ('k, 'l) world \<Rightarrow>
    (string option \<times> (int \<times> bytes \<times> 'k) \<times> (string \<rightharpoonup> 'l)) option" where
  "view h r w s = map_option (\<lambda>(p, _, w', s'). (p, (fst (seen w'), snd (seen w'), wd_cluster s'), wd_limiters s')) (h r w s)"

lemma seen_pop [simp]: "seen (pop_recorder w) = seen w"
  by (simp add: seen_def split: option.split prod.split)

lemma view_Metrics:
  assumes "labelled_handler h route" "utf8_labels env" "me_label_ok env (Method r)" "me_label_ok env (route r)"
  shows "view (Metrics_mw env h) r w s = view h r (newStatusRecorder w) (on_metrics InflightInc s)"
proof (cases "h r (newStatusRecorder w) (on_metrics InflightInc s)")
  case None
  then show ?thesis by (simp add: view_def Metrics_mw_def)
next
  case (Some x)
  obtain p r' w' s' where x: "x = (p, r', w', s')" by (metis prod_cases4)
  have "list_all (me_label_ok env) [Method r', routeOf r', Itoa i]" for i
    using labelled_handler.labels [OF assms(1) Some [unfolded x]] assms(2-4) ascii_label [OF assms(2) is_ascii_Itoa] by simp
  then show ?thesis using Some x by (cases p) (simp_all add: view_def Metrics_mw_def Let_def)
qed

lemma view_SLog: "view (SLog lg env h) r w s = view h r (newStatusRecorder w) s"
  by (auto simp: view_def SLog_def Let_def split: option.splits)

lemma view_dispatch:
  assumes "fresh w"
  shows "view (dispatch_handler u \<lparr>providers = [''jsm'' \<mapsto> jsm_New u jt mac pcfg],
      executor = Execute xenv ecfg, dlogger = lg, maxBodyBytes = n\<rparr> env) r w s =
    map_option (\<lambda>x. (None, x, wd_limiters s)) (endpoint_spec u mac jt pcfg xenv ecfg n (me_now env) r (wd_cluster s))"
proof -
  let ?st = "\<lparr>cluster = wd_cluster s, mets = Some (wd_metrics s), elog = wd_log s\<rparr>"
  have "endpoint_spec u mac jt pcfg xenv ecfg n (me_now env) r (wd_cluster s) =
    map_option client_view (ServeHTTP u \<lparr>providers = [''jsm'' \<mapsto> jsm_New u jt mac pcfg],
      executor = Execute xenv ecfg, dlogger = lg, maxBodyBytes = n\<rparr> (me_now env) r w ?st)"
    using ServeHTTP_refines [OF assms, of u jt mac pcfg xenv ecfg lg n "me_now env" r ?st] by simp
  then show ?thesis
    by (auto simp: view_def dispatch_handler_def client_view_def split: option.splits prod.splits)
qed

lemma seen_http_Error: "fresh w \<Longrightarrow> seen (http_Error msg status w) = (status, msg @ [CHR 0x0A])"
  by (rule seen_answered [OF http_Error_fresh(1)])

lemma view_mux:
  assumes "fresh w" "mux_path r = EscapedPath r"
  shows "view (mux_ServeHTTP redirect [webhook_route (dispatch_handler u \<lparr>providers = [''jsm'' \<mapsto> jsm_New u jt mac pcfg],
      executor = Execute xenv ecfg, dlogger = lg, maxBodyBytes = n\<rparr> env)]) r w s =
    map_option (\<lambda>x. (None, x, wd_limiters s)) (routed u mac jt pcfg xenv ecfg n (me_now env) r (wd_cluster s))"
    (is "view (mux_ServeHTTP redirect [webhook_route ?h]) r w s = _")
proof (cases "webhook_provider (EscapedPath r)")
  case None
  then show ?thesis
    using assms by (simp add: view_def mux_ServeHTTP_def webhook_findHandler seen_http_Error routed_def)
next
  case (Some v)
  note p = Some
  show ?thesis
  proof (cases "Method r = ''POST''")
    case True
    have "mux_ServeHTTP redirect [webhook_route ?h] r w s =
        ?h (set_match ''POST /webhook/{provider}'' [(''provider'', v)] r) w s"
      using p True assms(2) by (simp add: mux_ServeHTTP_def webhook_findHandler) (simp add: webhook_route_def)
    then have "view (mux_ServeHTTP redirect [webhook_route ?h]) r w s =
        view ?h (set_match ''POST /webhook/{provider}'' [(''provider'', v)] r) w s" by (simp add: view_def)
    then show ?thesis using p True by (simp add: view_dispatch [OF assms(1)] routed_def)
  next
    case False
    then show ?thesis
      using p assms by (simp add: view_def mux_ServeHTTP_def webhook_findHandler seen_http_Error routed_def)
  qed
qed

text \<open>The limiter's panic is the only one, and \<open>Recover\<close> answers it with 500.\<close>

lemma view_RateLimit_Recover:
  assumes "fresh w" and "\<And>s. view h r w s = map_option (\<lambda>x. (None, x, wd_limiters s)) (g (wd_cluster s))"
  shows "view (Recover logger env (\<lambda>_ _ _. map_option (\<lambda>(p, _, w', s'). (p, r0, w', s')) (RateLimit cfg env h r w s))) r1 w1 s1 =
    (let (ok, lims) = admission cfg env r (wd_limiters s)
     in map_option (\<lambda>x. (None, x, lims)) (if ok then g (wd_cluster s)
          else Some (if me_label_ok env (providerFromPath (URLPath r)) then 429 else 500, [], wd_cluster s)))"
proof -
  have f: "seen (WriteHeader n w) = (n, [])" "seen (WriteHeader n (set_header k v w)) = (n, [])" for n k v
    using assms(1) by (simp_all add: WriteHeader_fresh seen_def) (simp_all add: fresh_def set_header_def)
  show ?thesis
  proof (cases rule: RateLimit_cases [of cfg env r s h w])
    case passed
    let ?s = "s\<lparr>wd_limiters := snd (admission cfg env r (wd_limiters s))\<rparr>"
    have v: "view h r w ?s = map_option (\<lambda>x. (None, x, snd (admission cfg env r (wd_limiters s)))) (g (wd_cluster s))"
      using assms(2) [of ?s] by simp
    show ?thesis
    proof (cases "h r w ?s")
      case None
      then show ?thesis using v passed by (auto simp: view_def Recover_def split: prod.split)
    next
      case (Some y)
      obtain p r' w' s' where y: "y = (p, r', w', s')" by (metis prod_cases4)
      then have "p = None" using v Some by (cases "g (wd_cluster s)") (simp_all add: view_def)
      then show ?thesis using v passed Some y by (auto simp: view_def Recover_def split: prod.split)
    qed
  next
    case panicked
    then show ?thesis by (auto simp: view_def Recover_def Let_def f split: prod.split)
  next
    case (refused n)
    then show ?thesis by (auto simp: view_def Recover_def f split: prod.split)
  qed
qed

lemma public_refines:
  assumes "fresh w" "utf8_labels env" "me_label_ok env (Method r)" "mux_path r = EscapedPath r"
    and "otel_transparent (OTel otel (ServiceName cfg))"
  shows "\<exists>c. ctx_reqid c = Some (request_id env r) \<and>
    view (buildPublicHandler otel redirect env cfg logger (Some (dispatch_handler u
      \<lparr>providers = [''jsm'' \<mapsto> jsm_New u jt mac pcfg], executor = Execute xenv ecfg, dlogger = lg, maxBodyBytes = n\<rparr> env))) r w s =
    map_option (Pair None)
      (public_spec u mac jt pcfg xenv ecfg n \<lparr>RPS = RateLimitRPS cfg, Burst = RateLimitBurst cfg\<rparr> env (WithContext c r)
        (wd_cluster s) (wd_limiters s))"
proof -
  let ?d = "dispatch_handler u
      \<lparr>providers = [''jsm'' \<mapsto> jsm_New u jt mac pcfg], executor = Execute xenv ecfg, dlogger = lg, maxBodyBytes = n\<rparr> env"
  let ?mux = "mux_ServeHTTP redirect [webhook_route ?d]" and ?rl = "\<lparr>RPS = RateLimitRPS cfg, Burst = RateLimitBurst cfg\<rparr>"
  let ?h = "SLog logger env (Metrics_mw env ?mux)" and ?w = "set_header requestIDHeader (request_id env r) w"
  obtain c where c: "ctx_reqid c = Some (request_id env r)"
    "buildPublicHandler otel redirect env cfg logger (Some ?d) r w s =
      Recover logger env (\<lambda>_ _ _. map_option (\<lambda>(p, _, w', s'). (p, r, w', s')) (RateLimit ?rl env ?h (WithContext c r) ?w s)) r w s"
    using public_run [OF assms(5)] by metis
  have lab: "labelled_handler ?mux route_label" by (rule webhook_mux_labelled) (rule dispatcher_labelled.labelled_handler_axioms)
  have ok: "me_label_ok env (Method (WithContext c r))" "me_label_ok env (route_label (WithContext c r))"
    using assms(3) route_label_ok [OF assms(2)] by simp_all
  have inner: "view ?h (WithContext c r) ?w s =
      map_option (\<lambda>x. (None, x, wd_limiters s)) (routed u mac jt pcfg xenv ecfg n (me_now env) (WithContext c r) (wd_cluster s))" for s
    using assms(1,4) by (simp add: view_SLog view_Metrics [OF lab assms(2) ok] view_mux)
  have f: "fresh ?w" using assms(1) by simp
  have "view (buildPublicHandler otel redirect env cfg logger (Some ?d)) r w s =
      view (Recover logger env (\<lambda>_ _ _. map_option (\<lambda>(p, _, w', s'). (p, r, w', s')) (RateLimit ?rl env ?h (WithContext c r) ?w s))) r w s"
    by (simp add: view_def c(2))
  also have "\<dots> = map_option (Pair None) (public_spec u mac jt pcfg xenv ecfg n ?rl env (WithContext c r) (wd_cluster s) (wd_limiters s))"
    unfolding view_RateLimit_Recover [OF f inner] public_spec_def by (simp add: option.map_comp comp_def split: prod.split)
  finally show ?thesis using c(1) by blast
qed

end
