(* ===== verification/Spec2Isabelle.thy ===== *)
theory Spec2Isabelle
  imports Example Lifecycle Deepcopy Scheme Mock Public_Spec
begin

text \<open>
  \<^bold>\<open>A verification of webhookd.\<close>

  webhookd receives signed webhooks on \<open>POST /webhook/{provider}\<close>.  A request passes the
  middleware of \<^verbatim>\<open>src/internal/httpx\<close> and the mux and reaches the dispatcher
  (\<^verbatim>\<open>src/internal/webhook/dispatcher.go\<close>), which reads the body under a size limit, lets the provider
  named by the path verify the signature and turn the body into an action, lets the executor
  (\<^verbatim>\<open>executor.go\<close>) carry the action out against Kubernetes and writes the result as JSON.  The one
  provider of the repository is Jira Service Management (\<^verbatim>\<open>src/internal/webhook/jsm\<close>).  A second
  listener serves probes, metrics and profiles (\<^verbatim>\<open>httpx/admin.go\<close>).  Settings come from the environment
  (\<^verbatim>\<open>src/internal/config\<close>), logs, traces and metrics from \<^verbatim>\<open>src/internal/observability\<close>, and
  \<^verbatim>\<open>src/cmd/webhookd/main.go\<close> puts the parts together, starts them and shuts them down.

  \<^bold>\<open>Theories.\<close>
  \<^item> \<open>Prelude\<close>: bytes, \<open>int64\<close> range, wrap-around and saturation, Go errors with wrapping and
    \<open>errors.Is\<close>, the error monad.
  \<^item> \<open>Go_Text\<close>, \<open>Go_Time\<close>, \<open>Json\<close>, \<open>Http\<close>, \<open>Mux\<close>: what the program uses of the standard library (strings,
    strconv, hex, quoting; durations, instants and floating-point rounding for \<open>ParseDuration\<close>;
    encoding/json; headers, requests and the response writer; \<open>ServeMux\<close> with path cleaning,
    wildcards, methods and redirects).  \<open>Http\<close> also holds the \<open>statusRecorder\<close> of
    \<^verbatim>\<open>httpx/middleware.go\<close>.
  \<^item> \<open>Signature\<close>: \<^verbatim>\<open>webhook/signature.go\<close>.  The HMAC is a parameter.
  \<^item> \<open>Wizapi\<close>, \<open>Webhook_Types\<close>: \<^verbatim>\<open>wizapi/types.go\<close>, \<^verbatim>\<open>result.go\<close>, \<^verbatim>\<open>action.go\<close>.
  \<^item> \<open>Deepcopy\<close>: \<^verbatim>\<open>wizapi/zz_generated.deepcopy.go\<close> over a heap of cells; the locale \<open>deep_copy\<close> is the
    contract, closed under pairs, fields, slices and pointers.
  \<^item> \<open>Scheme\<close>: \<^verbatim>\<open>wizapi/groupversion_info.go\<close> and \<^verbatim>\<open>k8s/scheme.go\<close> over the scheme library.
  \<^item> \<open>Metrics\<close>: \<^verbatim>\<open>observability/metrics.go\<close>; a counter is a number per label tuple, a histogram the
    list of its samples.  \<open>Logging\<close>, \<open>Tracing\<close>: \<^verbatim>\<open>logging.go\<close> and \<^verbatim>\<open>tracing.go\<close>.
  \<^item> \<open>Executor\<close>: \<^verbatim>\<open>executor.go\<close>.  The Kubernetes client is a record of functions on an abstract
    cluster state; the outcomes of the \<open>select\<close> in the watch loop are a list of \<open>tick\<close>s.
  \<^item> \<open>Dispatcher\<close>, \<open>Registry\<close>: \<^verbatim>\<open>dispatcher.go\<close>, \<^verbatim>\<open>provider.go\<close>, \<^verbatim>\<open>registry.go\<close>; the locales
    \<open>provider_contract\<close>, \<open>dispatch\<close> and \<open>named_registry\<close> hold what the dispatcher relies on.
    \<open>Mock\<close>: \<^verbatim>\<open>providertest/mock.go\<close>, a second provider that keeps the contract.
  \<^item> \<open>Config\<close>: \<^verbatim>\<open>config.go\<close>, with the sticky-error loader as a state monad.
  \<^item> \<open>Jsm_Payload\<close>, \<open>Jsm\<close>: \<^verbatim>\<open>webhook/jsm\<close>.
  \<^item> \<open>Httpx\<close>, \<open>Rate_Limiting\<close>: \<^verbatim>\<open>httpx/middleware.go\<close> and \<^verbatim>\<open>ratelimit.go\<close>.  A handler takes request, writer
    and world and returns the panic value, if any, with what it left of them.  \<open>Rate_Limiting\<close> also
    has the concurrent calls of \<open>getLimiter\<close> as a step relation on the shared map.
  \<^item> \<open>Wiring\<close>: \<^verbatim>\<open>k8s/client.go\<close> and \<open>buildDispatcher\<close> of \<^verbatim>\<open>main.go\<close>.  \<open>Public\<close>: \<open>buildPublicHandler\<close>,
    \<^verbatim>\<open>httpx/admin.go\<close> and \<^verbatim>\<open>server.go\<close>; the locales \<open>balanced_handler\<close>, \<open>guarded_handler\<close>,
    \<open>answering_handler\<close> and \<open>recorded_handler\<close> carry a property of the dispatcher through the middleware.
  \<^item> \<open>Lifecycle\<close>: the rest of \<^verbatim>\<open>main.go\<close>: setup, start, wait, drain, flush and exit, as an interleaving
    of the main and the listener goroutines with signals and failures from outside.
  \<^item> \<open>Service_Spec\<close>, \<open>Public_Spec\<close>: the abstract specification of the JSM endpoint (a verdict on the request
    and the provisioning it leads to) and of the public listener (admission, routing, endpoint), on
    the cluster and the token buckets alone, with the proofs that the code implements them.
  \<^item> \<open>Example\<close>: a concrete deployment on which the properties are instantiated.
  \<^item> \<open>Spec2Isabelle\<close> (this theory): the properties that span components.

  \<^bold>\<open>What is shown.\<close>  The endpoint and the public listener refine their abstract specifications: answer,
  status, body, cluster and buckets are a function of the request, the clock, the configuration and
  the cluster.  The signature check accepts exactly the documented requests (and, through an
  overflow, far-future timestamps); a signature binds timestamp and body.  The cluster changes
  only for authenticated requests whose provider asked for an apply, through the dispatcher and
  through the whole public handler; a 200 means a no-op or a resource seen ready at the applied
  generation; every payload and API error gets its documented class; every request whose
  executor returns is answered once, and counted once unless it is rate-limited.  The executor
  returns whenever its deadline is delivered, reports readiness only on evidence and never misses it.
  Providers are limited independently and share one limiter each under concurrency.  \<open>Load\<close> equals a
  reference that stops at the first bad setting, and what it accepts never makes the wiring panic.
  Readiness follows the life of the process and shutdown completes in a bounded number of steps.
  Response bodies parse back to the result they encode.  Deep copies share no memory.

  \<^bold>\<open>Fuel and termination.\<close>  The JSON parser runs on fuel \<open>2 * length + 1\<close>, which \<open>Json\<close> proves
  sufficient: more fuel never changes the result.  The watch loop returns \<open>None\<close> when the list of
  outcomes ends without a deadline, a close or a ready object; \<open>Execute_returns\<close> shows this does not
  happen once the deadline is among them.  The bound of \<open>shutdown_completes\<close> is the largest value of
  a measure that every step of the program decreases.

  \<^bold>\<open>Parameters.\<close>  The HMAC, the Unicode tables, float parsing, the Kubernetes client and its scheme,
  the copies of apimachinery types, the token buckets, \<open>otelhttp\<close> and the tracing SDK, \<open>promhttp\<close>, \<open>pprof\<close>,
  UUIDs and the clock.

  \<^bold>\<open>Not modelled.\<close>  Span attributes, which no result depends on; the rendering of log lines and redirect pages; the mutex of the registry, which is
  only written by \<open>init\<close> functions; what net/http does with the timeouts of a server and with the request
  target \<open>*\<close>; the wrap-around of \<open>time.Time.Sub\<close> for instants near \<open>2^63\<close> seconds; the end of the listener
  goroutines at \<open>os.Exit\<close> (\<open>Lifecycle\<close> follows them to their report).
\<close>

subsection \<open>From the request to the cluster and back\<close>

text \<open>C3. Nothing reaches the cluster without authentication: if serving a request changes the cluster,
  then the path names a registered provider, the body was read completely within the size limit,
  the provider's signature check accepted exactly that body, and the provider asked for an apply.\<close>

theorem cluster_change_is_authorised:
  assumes "ServeHTTP u \<lparr>providers = ps, executor = Execute env ecfg, dlogger = lg, maxBodyBytes = n\<rparr> now r w st = Some (w', st')"
    and "cluster st' \<noteq> cluster st"
  shows "\<exists>prov act m. ps (PathValue r ''provider'') = Some prov \<and> int (length (BodyData r)) \<le> max 0 n \<and> BodyErr r = None \<and>
    prov_VerifySignature prov now r (BodyData r) = None \<and>
    prov_Handle prov (Ctx r) (BodyData r) (mets st) = (Inr (ApplyAction act), m)"
  using production.cluster_change_authorised [OF assms] by simp

theorem cluster_change_is_authorised_witness:
  "\<exists>prov act m. ex_providers (PathValue (ex_request ex_body) ''provider'') = Some prov \<and>
    prov_VerifySignature prov ex_now (ex_request ex_body) (BodyData (ex_request ex_body)) = None \<and>
    prov_Handle prov (Ctx (ex_request ex_body)) (BodyData (ex_request ex_body)) (mets ex_state) = (Inr (ApplyAction act), m)"
proof -
  obtain w' st' where "ServeHTTP ex_uc ex_dispatcher ex_now (ex_request ex_body) ex_writer ex_state = Some (w', st')"
    "cluster st' \<noteq> cluster ex_state" using ex_serve [OF ex_fresh, of ex_state] by (auto simp: ex_state_def)
  from cluster_change_is_authorised [OF this [unfolded ex_dispatcher_def]] show ?thesis by blast
qed

text \<open>C4. What a 200 from the JSM endpoint means: the request was signed with the configured secret inside the
  skew window, its body decoded to a ticket, and either the ticket is not in the trigger status and
  the cluster is untouched, or the resource was applied and an object of that name was seen that is
  a \<open>SAMLGroupMapping\<close> with \<open>Ready=True\<close> at or past the applied generation.\<close>

theorem jsm_200_means_done:
  assumes "fresh w" "ps (PathValue r ''provider'') = Some (jsm_New u jt mac pcfg)" "SigNow (PSignature pcfg) = None"
    and "ServeHTTP u \<lparr>providers = ps, executor = Execute env ecfg, dlogger = lg, maxBodyBytes = n\<rparr> now r w st = Some (w', st')"
    and "w_sent w' = Some (200, h)"
  shows "Verify mac (SecretBytes (PSignature pcfg)) (Header_Get (ReqHeader r) (SigHeader (PSignature pcfg)))
      (Header_Get (ReqHeader r) (TSHeader (PSignature pcfg))) (BodyData r) now (Skew (PSignature pcfg)) = None \<and>
    (\<exists>p. Decode jt (BodyData r) = Inr p \<and>
      (payload_Status p \<noteq> PTriggerStatus pcfg \<and> cluster st' = cluster st \<or>
       payload_Status p = PTriggerStatus pcfg \<and>
       (\<exists>act applied st1 obj og. Handle u jt pcfg (Ctx r) (BodyData r) (mets st) = (Inr (ApplyAction act), mets st) \<and>
          apply_cr env ecfg (Ctx r) act st = (None, applied, st1) \<and>
          seen_by_wait env (ee_span env (Ctx r) ''k8s.watch_cr'') act applied (cluster st1) obj \<and>
          IsReady obj (GetGeneration applied) = (True, og) \<and> GetGeneration applied \<le> og)))"
  using assms(1,4)
proof (cases rule: production.answer)
  case (early status msg)
  then show ?thesis using assms(5) by (auto simp: answered_def)
next
  case (late prov res st1)
  then have prov: "prov = jsm_New u jt mac pcfg" using assms(2) by simp
  have k: "Kind res = ResultReady \<or> Kind res = ResultNoop"
    using late(3) assms(5) HTTPStatus_200 by (auto simp: answered_def)
  have v: "Verify mac (SecretBytes (PSignature pcfg)) (Header_Get (ReqHeader r) (SigHeader (PSignature pcfg)))
      (Header_Get (ReqHeader r) (TSHeader (PSignature pcfg))) (BodyData r) now (Skew (PSignature pcfg)) = None"
    using late(2) prov assms(3) by (simp add: VerifySignature_def time_Now_def)
  show ?thesis
  proof (cases "Kind res = ResultReady")
    case True
    then obtain act m where a: "Handle u jt pcfg (Ctx r) (BodyData r) (mets st) = (Inr (ApplyAction act), m)"
      "Execute env ecfg (Ctx r) (ApplyAction act) (st\<lparr>mets := m\<rparr>) = Some (res, st1)"
      using late(5) prov by auto
    obtain p where p: "Decode jt (BodyData r) = Inr p" "payload_Status p = PTriggerStatus pcfg" and m: "m = mets st"
      and rc: "ReadyCheck act = IsReady"
      using a(1) by (cases rule: Handle_cases [of jt "BodyData r" u pcfg "Ctx r" "mets st"])
        (auto simp: applied_action_def)
    have "Execute env ecfg (Ctx r) (ApplyAction act) st = Some (res, st1)" using a(2) m by simp
    then obtain applied st2 obj where o: "apply_cr env ecfg (Ctx r) act st = (None, applied, st2)"
      "seen_by_wait env (ee_span env (Ctx r) ''k8s.watch_cr'') act applied (cluster st2) obj"
      "IsReady obj (GetGeneration applied) = (True, ObservedGeneration res)"
    proof (cases rule: Execute_ApplyE)
      case (failed err obj st1)
      then show thesis using True by simp
    next
      case (applied applied st1 k lines)
      then show thesis using that waitForSync_body_ready [OF applied(2) True] rc by auto
    qed
    then show ?thesis using v p a(1) m jsm_ready.ready_generation by blast
  next
    case False
    then obtain reason m where a: "Handle u jt pcfg (Ctx r) (BodyData r) (mets st) = (Inr (NoopAction reason), m)"
      "cluster st1 = cluster st"
      using late(6) k prov by auto
    obtain p where "Decode jt (BodyData r) = Inr p" "payload_Status p \<noteq> PTriggerStatus pcfg"
      using a(1) by (cases rule: Handle_cases [of jt "BodyData r" u pcfg "Ctx r" "mets st"]) auto
    moreover have "cluster st' = cluster st" using late(4) a(2) by simp
    ultimately show ?thesis using v by blast
  qed
qed

theorem jsm_200_means_done_witness:
  "Verify ex_mac ''k'' (sign_request ex_mac ''k'' ex_ts ex_body) ex_ts ex_body ex_now (300 * Second) = None \<and>
   (\<exists>p. Decode ex_jt ex_body = Inr p)"
proof -
  obtain w' st' h where "ServeHTTP ex_uc ex_dispatcher ex_now (ex_request ex_body) ex_writer ex_state = Some (w', st')"
    and h: "w_sent w' = Some (200, h)" using ex_serve [OF ex_fresh] by blast
  moreover have "ex_providers (PathValue (ex_request ex_body) ''provider'') = Some (jsm_New ex_uc ex_jt ex_mac ex_pcfg)"
    by (simp add: ex_providers_def ex_request_def ex_provider_def)
  moreover have "SigNow (PSignature ex_pcfg) = None" by (simp add: ex_pcfg_def)
  ultimately show ?thesis
    using jsm_200_means_done [OF ex_fresh _ _ _ h, of ex_providers "ex_request ex_body" ex_uc ex_jt ex_mac ex_pcfg ex_jenv ex_cfg "NewLogger LevelInfo ''json''" 1048576 ex_now ex_state st']
    by (auto simp: ex_dispatcher_def ex_headers ex_pcfg_def) (simp_all add: ex_request_def)
qed

text \<open>C18. A request signed as the README documents is authenticated: when the two configured headers carry a Unix
  second inside the skew window and \<open>sha256=\<close> with the hex of the HMAC of \<open>v0:<timestamp>:<body>\<close> under
  the configured secret, and the body is complete and within the limit, then the dispatcher answers
  with the provider's response for the result of processing the body, never with 401, 404 or 413 (tags
  of HMAC-SHA256 have 32 bytes).\<close>

theorem signed_request_authenticated:
  assumes "fresh w" "ps (PathValue r ''provider'') = Some (jsm_New u jt mac pcfg)" "SigNow (PSignature pcfg) = None"
    and "Header_Get (ReqHeader r) (TSHeader (PSignature pcfg)) = Itoa secs"
    and "Header_Get (ReqHeader r) (SigHeader (PSignature pcfg)) =
      ''sha256='' @ hex_EncodeToString (mac (SecretBytes (PSignature pcfg)) (''v0:'' @ Itoa secs @ '':'' @ BodyData r))"
    and "length (mac (SecretBytes (PSignature pcfg)) (''v0:'' @ Itoa secs @ '':'' @ BodyData r)) = 32"
    and "in64 secs" "in64 (Skew (PSignature pcfg))" "\<bar>lag now secs\<bar> \<le> Skew (PSignature pcfg)"
    and "int (length (BodyData r)) \<le> n" "BodyErr r = None"
    and "ServeHTTP u \<lparr>providers = ps, executor = Execute env ecfg, dlogger = lg, maxBodyBytes = n\<rparr> now r w st = Some (w', st')"
  shows "\<exists>res. answered (HTTPStatus (Kind res))
      (Encode (BuildResponse res (traceIDFromContext (Ctx r)) (RequestIDFromContext (Ctx r)))) w' \<and>
    HTTPStatus (Kind res) \<notin> {401, 404, 413}"
proof -
  have "Verify mac (SecretBytes (PSignature pcfg)) (Header_Get (ReqHeader r) (SigHeader (PSignature pcfg)))
      (Header_Get (ReqHeader r) (TSHeader (PSignature pcfg))) (BodyData r) now (Skew (PSignature pcfg)) = None"
    unfolding assms(4,5) by (rule Verify_signed [where mac = mac, OF assms(6-9), unfolded sign_request_def])
  then have v: "prov_VerifySignature (jsm_New u jt mac pcfg) now r (BodyData r) = None"
    using assms(3) by (simp add: VerifySignature_def time_Now_def)
  have b: "ReadAll_MaxBytes n r = Inr (BodyData r)" using assms(10,11) by (simp add: ReadAll_MaxBytes_def)
  have ns: "HTTPStatus k \<notin> {401, 404, 413}" for k using HTTPStatus_range [of k] by auto
  show ?thesis
    using assms(12)
  proof (cases rule: ServeHTTP_cases)
    case (rejected prov body err m)
    then show ?thesis using writeResponse_answer [OF assms(1) rejected(5)] ns assms(2) by auto
  next
    case (executed prov body act m res st1)
    then show ?thesis using writeResponse_answer [OF assms(1) executed(6)] ns assms(2) by auto
  qed (use assms(2) b v in auto)
qed

theorem signed_request_authenticated_witness:
  "\<exists>w' st' res. ServeHTTP ex_uc ex_dispatcher ex_now (ex_request ex_body) ex_writer ex_state = Some (w', st') \<and>
     answered (HTTPStatus (Kind res)) (Encode (BuildResponse res [] ''r1'')) w' \<and> HTTPStatus (Kind res) \<notin> {401, 404, 413}"
proof -
  let ?r = "ex_request ex_body"
  obtain w' st' where run: "ServeHTTP ex_uc ex_dispatcher ex_now ?r ex_writer ex_state = Some (w', st')"
    using ex_serve [OF ex_fresh] by blast
  have p: "ex_providers (PathValue ?r ''provider'') = Some (jsm_New ex_uc ex_jt ex_mac ex_pcfg)"
    by (simp add: ex_providers_def ex_request_def ex_provider_def)
  have h: "Header_Get (ReqHeader ?r) (TSHeader (PSignature ex_pcfg)) = Itoa 1767225600"
    "Header_Get (ReqHeader ?r) (SigHeader (PSignature ex_pcfg)) =
      ''sha256='' @ hex_EncodeToString (ex_mac (SecretBytes (PSignature ex_pcfg)) (''v0:'' @ Itoa 1767225600 @ '':'' @ BodyData ?r))"
    using ex_headers [of ex_body] by (simp_all add: ex_pcfg_def ex_ts_def sign_request_def ex_request_def)
  have l: "length (ex_mac (SecretBytes (PSignature ex_pcfg)) (''v0:'' @ Itoa 1767225600 @ '':'' @ BodyData ?r)) = 32"
    by (simp add: ex_mac_def)
  have t: "in64 1767225600" "in64 (Skew (PSignature ex_pcfg))" "\<bar>lag ex_now 1767225600\<bar> \<le> Skew (PSignature ex_pcfg)"
    "SigNow (PSignature ex_pcfg) = None" by (simp_all add: ex_pcfg_def int64_defs unixToInternal_def)
  have b: "int (length (BodyData ?r)) \<le> 1048576" "BodyErr ?r = None"
    by (simp_all add: ex_request_def ex_body_length)
  have c: "traceIDFromContext (Ctx ?r) = []" "RequestIDFromContext (Ctx ?r) = ''r1''"
    by (simp_all add: ex_request_def ex_ctx_def traceIDFromContext_def RequestIDFromContext_def)
  show ?thesis
    using signed_request_authenticated [OF ex_fresh p t(4) h l t(1-3) b run [unfolded ex_dispatcher_def], unfolded c] run by blast
qed

text \<open>C15. A signed payload that the JSM provider rejects is answered 400, or 422 when a field has the wrong
  type, never 500, and leaves the cluster as it was.\<close>

theorem rejected_payload_is_client_error:
  assumes "fresh w" "ps (PathValue r ''provider'') = Some (jsm_New u jt mac pcfg)"
    and "ReadAll_MaxBytes n r = Inr body" "VerifySignature mac now r body (PSignature pcfg) = None"
    and "Handle u jt pcfg (Ctx r) body (mets st) = (Inl e, m)"
  shows "\<exists>w' st' b. ServeHTTP u \<lparr>providers = ps, executor = Execute env ecfg, dlogger = lg, maxBodyBytes = n\<rparr> now r w st = Some (w', st') \<and>
    cluster st' = cluster st \<and> answered (if errors_Is e ErrUnprocessable then 422 else 400) b w'"
proof -
  have "errors_Is e ErrBadRequest \<longleftrightarrow> \<not> errors_Is e ErrUnprocessable"
    using Handle_error_class(1) [OF assms(5)] .
  then have "(if errors_Is e ErrUnprocessable then 422 else 400) = (if errors_Is e ErrBadRequest then 400 else 422 :: int)"
    by simp
  then show ?thesis
    using jsm_contract.rejected_answer [OF assms(1), of "\<lparr>providers = ps, executor = Execute env ecfg, dlogger = lg, maxBodyBytes = n\<rparr>"
        r u jt mac pcfg body now st e m] assms(2-5) by (simp only: jsm_New_simps jsm_New_Handle jsm_New_VerifySignature dispatcher.simps)
qed

theorem rejected_payload_is_client_error_witness:
  "\<exists>w' st' b. ServeHTTP ex_uc ex_dispatcher ex_now (ex_request ex_bad_body) ex_writer (ex_state\<lparr>mets := None\<rparr>) = Some (w', st') \<and>
    cluster st' = None \<and> answered 422 b w'"
proof -
  let ?r = "ex_request ex_bad_body" and ?st = "ex_state\<lparr>mets := None\<rparr>"
  have p: "ex_providers (PathValue ?r ''provider'') = Some (jsm_New ex_uc ex_jt ex_mac ex_pcfg)"
    by (simp add: ex_providers_def ex_request_def ex_provider_def)
  have r: "ReadAll_MaxBytes 1048576 ?r = Inr ex_bad_body"
    by (simp add: ReadAll_MaxBytes_def ex_request_def ex_bad_body_def)
  have v: "VerifySignature ex_mac ex_now ?r ex_bad_body (PSignature ex_pcfg) = None"
    using ex_signature [of ex_bad_body] by (simp add: ex_provider_def ex_request_def)
  have h: "Handle ex_uc ex_jt ex_pcfg (Ctx ?r) ex_bad_body (mets ?st) =
     (Inl (wrap2 ErrUnprocessable (Errorf [W ErrFieldType, Lit '': '', Lit ''cf1'', Lit '': '', W (Ext ''json'' ''cf1'')])), None)"
    using ex_bad_Handle by (simp add: ex_request_def)
  show ?thesis
    using rejected_payload_is_client_error [where ps = ex_providers and r = ?r and st = ?st and env = ex_jenv and ecfg = ex_cfg,
        OF ex_fresh p r v h]
    by (simp add: ex_dispatcher_def errors_Is_wrap_class ex_state_def)
qed

text \<open>C38. The response counter does not see every completed request: a request that is answered 401, 404 or
  413 leaves cluster and metrics as they were, although the comment on
  \<open>DispatcherConfig.Metrics\<close> promises a count on every completed request.\<close>

theorem early_answers_not_counted:
  assumes "fresh w"
    and "ServeHTTP u \<lparr>providers = ps, executor = Execute env ecfg, dlogger = lg, maxBodyBytes = n\<rparr> now r w st = Some (w', st')"
    and "w_sent w' = Some (status, h)" "status \<in> {401, 404, 413}"
  shows "cluster st' = cluster st \<and> mets st' = mets st"
  using assms(1,2)
proof (cases rule: production.answer)
  case (late prov res st1)
  then have "status = HTTPStatus (Kind res)" using assms(3) by (simp add: answered_def)
  then show ?thesis using assms(4) HTTPStatus_range [of "Kind res"] by auto
qed simp

theorem early_answers_not_counted_witness:
  "\<exists>w' st'. ServeHTTP ex_uc \<lparr>providers = Map.empty, executor = Execute ex_jenv ex_cfg, dlogger = NewLogger LevelInfo ''json'', maxBodyBytes = 10\<rparr>
     ex_now (ex_request ex_body) ex_writer ex_state = Some (w', st') \<and> mets st' = mets ex_state"
proof -
  let ?w = "http_Error ''unknown provider'' 404 ex_writer"
  have s: "ServeHTTP ex_uc \<lparr>providers = Map.empty, executor = Execute ex_jenv ex_cfg, dlogger = NewLogger LevelInfo ''json'', maxBodyBytes = 10\<rparr>
     ex_now (ex_request ex_body) ex_writer ex_state = Some (?w, log_warn (NewLogger LevelInfo ''json'') ex_ctx ''unknown provider'' [(''provider'', LStr ''jsm'')] ex_state)"
    by (simp add: ServeHTTP_def ex_request_def)
  obtain h where "w_sent ?w = Some (404, h)"
    using http_Error_fresh(1) [OF ex_fresh, of 404 "''unknown provider''"] by (auto simp: answered_def)
  from early_answers_not_counted [OF ex_fresh s this] show ?thesis using s by auto
qed

subsection \<open>The public listener\<close>

text \<open>C5. End to end, through mux and middleware: a request to the public listener that changes the cluster was
  admitted by the token bucket of its provider, is a \<open>POST\<close> to \<open>/webhook/jsm\<close> whose body is complete and
  within the limit, carries a valid signature and timestamp for exactly that body under the configured
  secret, and is a ticket in the trigger status.\<close>

theorem public_cluster_change:
  assumes "otel_transparent (OTel otel (ServiceName cfg))"
    and "buildPublicHandler otel redirect env cfg logger (Some (dispatch_handler u
       \<lparr>providers = [''jsm'' \<mapsto> jsm_New u jt mac pcfg], executor = Execute xenv ecfg, dlogger = lg, maxBodyBytes = n\<rparr> env)) r w s =
       Some (p, r', w', s')"
    and "wd_cluster s' \<noteq> wd_cluster s"
  shows "fst (admission \<lparr>RPS = RateLimitRPS cfg, Burst = RateLimitBurst cfg\<rparr> env r (wd_limiters s)) \<and>
     Method r = ''POST'' \<and> mux_segments (EscapedPath r) = [''webhook'', ''jsm''] \<and>
     int (length (BodyData r)) \<le> max 0 n \<and> BodyErr r = None \<and>
     VerifySignature mac (me_now env) r (BodyData r) (PSignature pcfg) = None \<and>
     (\<exists>p. Decode jt (BodyData r) = Inr p \<and> payload_Status p = PTriggerStatus pcfg)"
  using guarded_handler.guarded [OF public_guarded [OF jsm_mux.guarded_handler_axioms assms(1)] assms(2,3)]
    public_admitted [OF assms] by (simp add: jsm_authorised_def)

theorem public_cluster_change_witness:
  "fst (admission \<lparr>RPS = Fin 100, Burst = 200\<rparr> ex_pmw (ex_request ex_body) Map.empty) \<and>
   VerifySignature ex_mac ex_now (ex_request ex_body) (BodyData (ex_request ex_body)) (PSignature ex_pcfg) = None \<and>
   (\<exists>p. Decode ex_jt (BodyData (ex_request ex_body)) = Inr p \<and> payload_Status p = PTriggerStatus ex_pcfg)"
proof -
  obtain r' w' s' where run: "buildPublicHandler ex_otel ex_redirect ex_pmw default_config (NewLogger LevelInfo ''json'')
      (Some (dispatch_handler ex_uc \<lparr>providers = [''jsm'' \<mapsto> jsm_New ex_uc ex_jt ex_mac ex_pcfg],
        executor = Execute ex_jenv ex_cfg, dlogger = NewLogger LevelInfo ''json'', maxBodyBytes = 1048576\<rparr> ex_pmw)) (ex_request ex_body) ex_writer ex_pworld =
      Some (None, r', w', s')" "wd_cluster s' \<noteq> wd_cluster ex_pworld"
    using ex_public_run by (auto simp: ex_public_def ex_dispatcher_def ex_providers_def ex_provider_def ex_pworld_def)
  have "me_now ex_pmw = ex_now" "wd_limiters ex_pworld = Map.empty" "RateLimitRPS default_config = Fin 100"
    "RateLimitBurst default_config = 200" by (simp_all add: ex_pmw_def ex_pworld_def default_config_def)
  then show ?thesis using public_cluster_change [OF ex_otel_transparent run] by simp
qed

text \<open>C6. Every request that the public listener finishes is answered, even when the inner handler panics (the
  handler is only assumed to balance recorders and gauge, and to start a response or panic): the
  response has been started and carries the request ID, the inbound one or a generated one, in
  \<open>X-Request-ID\<close>; no panic escapes, no recorder stays on the writer, and the in-flight gauge is back
  at its old value.\<close>

theorem public_always_answers:
  assumes "balanced_handler h" "answering_handler h" "redirect_ok redirect" "otel_transparent (OTel otel (ServiceName cfg))"
    and "fresh w" "buildPublicHandler otel redirect env cfg logger (Some h) r w s = Some (p, r', w', s')"
  shows "p = None \<and> length (w_recs w') = length (w_recs w) \<and>
    inflight (wd_metrics s') = inflight (wd_metrics s) \<and>
    (\<exists>status hd. w_sent w' = Some (status, hd) \<and>
       Header_Get hd ''X-Request-ID'' =
         (if Header_Get (ReqHeader r) ''X-Request-ID'' \<noteq> [] then Header_Get (ReqHeader r) ''X-Request-ID''
          else case me_NewV7 env of Inr v7 \<Rightarrow> v7 | Inl _ \<Rightarrow> me_NewV4 env))"
  using public_answers [OF assms(2-6), unfolded request_id_def requestIDHeader_def]
    balanced_handler.balanced [OF public_balanced [OF assms(1,3,4)] assms(6)] by blast

theorem public_always_answers_witness:
  "\<exists>r' w' s' status hd. ex_public (ex_request ex_body) ex_writer ex_pworld = Some (None, r', w', s') \<and>
     w_sent w' = Some (status, hd) \<and> Header_Get hd ''X-Request-ID'' = ''r1''"
proof -
  obtain r' w' s' where run: "ex_public (ex_request ex_body) ex_writer ex_pworld = Some (None, r', w', s')"
    using ex_public_run by blast
  have "CanonicalMIMEHeaderKey ''X-Request-ID'' = ''X-Request-Id''" by code_simp
  then have "Header_Get (ReqHeader (ex_request ex_body)) ''X-Request-ID'' = []" "me_NewV7 ex_pmw = Inr ''r1''"
    by (simp_all add: Header_Get_def ex_request_def ex_pmw_def)
  then show ?thesis
    using public_always_answers [OF jsm_balanced.balanced_handler_axioms dispatcher_answers.answering_handler_axioms
        ex_redirect_ok ex_otel_transparent ex_fresh
        run [unfolded ex_public_def ex_dispatcher_def ex_providers_def ex_provider_def]] run
    by auto
qed

text \<open>C25. Every request that its token bucket admits is counted exactly once in \<open>webhookd_http_requests_total\<close>,
  under its method, the route it matched (\<open>__unmatched__\<close> for none) and the status that was sent, which is
  never 429; a request that is not admitted is answered 429 (500 when its path segment is no label) and
  not counted there.  Of the metrics library it is only assumed that it accepts valid UTF-8, and
  that the request's method is such a label.\<close>

theorem public_requests_counted:
  assumes "redirect_ok redirect" "otel_transparent (OTel otel (ServiceName cfg))" "fresh w"
    and "utf8_labels env" "me_label_ok env (Method r)"
    and "buildPublicHandler otel redirect env cfg logger (Some (dispatch_handler u
       \<lparr>providers = [''jsm'' \<mapsto> jsm_New u jt mac pcfg], executor = Execute xenv ecfg, dlogger = lg, maxBodyBytes = n\<rparr> env)) r w s =
       Some (p, r', w', s')"
  shows "\<exists>status hd. w_sent w' = Some (status, hd) \<and>
    (if fst (admission \<lparr>RPS = RateLimitRPS cfg, Burst = RateLimitBurst cfg\<rparr> env r (wd_limiters s))
     then status \<noteq> 429 \<and> http_requests (wd_metrics s') = (http_requests (wd_metrics s))
       ([Method r, route_label r, Itoa status] := Suc (http_requests (wd_metrics s) [Method r, route_label r, Itoa status]))
     else status = (if me_label_ok env (providerFromPath (URLPath r)) then 429 else 500) \<and>
       http_requests (wd_metrics s') = http_requests (wd_metrics s))"
  by (rule public_counts [OF jsm_recorded.recorded_handler_axioms assms])

theorem public_requests_counted_witness:
  "\<exists>r' w' s' status hd. ex_public (ex_request ex_body) ex_writer ex_pworld = Some (None, r', w', s') \<and>
    w_sent w' = Some (status, hd) \<and>
    http_requests (wd_metrics s') [''POST'', ''POST /webhook/{provider}'', Itoa status] =
      Suc (http_requests ex_metrics [''POST'', ''POST /webhook/{provider}'', Itoa status])"
proof -
  obtain r' w' s' where run: "ex_public (ex_request ex_body) ex_writer ex_pworld = Some (None, r', w', s')"
    using ex_public_run by blast
  have e: "wd_limiters ex_pworld = Map.empty" "wd_metrics ex_pworld = ex_metrics" "RateLimitRPS default_config = Fin 100"
    "RateLimitBurst default_config = 200" "Method (ex_request ex_body) = ''POST''"
    by (simp_all add: ex_pworld_def default_config_def ex_request_def)
  have p: "webhook_provider ''/webhook/jsm'' = Some ''jsm''" by code_simp
  have "route_label (ex_request ex_body) = ''POST /webhook/{provider}''"
    by (simp add: route_label_def mux_path_def ex_request_def ex_paths p)
  then obtain status hd where "w_sent w' = Some (status, hd)" "http_requests (wd_metrics s') =
      (http_requests ex_metrics)([''POST'', ''POST /webhook/{provider}'', Itoa status] :=
        Suc (http_requests ex_metrics [''POST'', ''POST /webhook/{provider}'', Itoa status]))"
    using public_requests_counted [OF ex_redirect_ok ex_otel_transparent ex_fresh ex_pmw_utf8 ex_labels(1)
        run [unfolded ex_public_def ex_dispatcher_def ex_providers_def ex_provider_def]] ex_admitted [of ex_body] e by auto
  then show ?thesis using run by (auto intro!: exI [of _ status])
qed

subsection \<open>The service meets its specification\<close>

text \<open>C2. The JSM endpoint implements its abstract specification, for every request, state and environment: whether it
  answers at all, the status and the body it answers with, and the cluster it leaves behind are those of
  \<open>endpoint_spec\<close>, which knows the request, the clock, the configuration and the cluster only; in
  particular metrics and log never influence an answer.\<close>

theorem endpoint_meets_specification:
  assumes "fresh w"
  shows "map_option client_view (ServeHTTP u \<lparr>providers = [''jsm'' \<mapsto> jsm_New u jt mac pcfg],
      executor = Execute env ecfg, dlogger = lg, maxBodyBytes = n\<rparr> now r w st) =
    endpoint_spec u mac jt pcfg env ecfg n now r (cluster st)"
  by (rule ServeHTTP_refines [OF assms])

theorem endpoint_meets_specification_witness:
  "\<exists>b. endpoint_spec ex_uc ex_mac ex_jt ex_pcfg ex_jenv ex_cfg 1048576 ex_now (ex_request ex_body) None =
     Some (200, b, Some ex_applied)"
proof -
  obtain w' st' h where s: "ServeHTTP ex_uc ex_dispatcher ex_now (ex_request ex_body) ex_writer ex_state = Some (w', st')"
    "cluster st' = Some ex_applied" "w_sent w' = Some (200, h)" using ex_serve [OF ex_fresh] by blast
  have d: "ex_dispatcher = \<lparr>providers = [''jsm'' \<mapsto> jsm_New ex_uc ex_jt ex_mac ex_pcfg], executor = Execute ex_jenv ex_cfg,
      dlogger = NewLogger LevelInfo ''json'', maxBodyBytes = 1048576\<rparr>"
    by (simp add: ex_dispatcher_def ex_providers_def ex_provider_def)
  have "cluster ex_state = None" by (simp add: ex_state_def)
  then have "endpoint_spec ex_uc ex_mac ex_jt ex_pcfg ex_jenv ex_cfg 1048576 ex_now (ex_request ex_body) None = Some (client_view (w', st'))"
    using endpoint_meets_specification [OF ex_fresh, of ex_uc ex_jt ex_mac ex_pcfg ex_jenv ex_cfg "NewLogger LevelInfo ''json''" 1048576
        ex_now "ex_request ex_body" ex_state, folded d] s(1) by simp
  then show ?thesis using s(2,3) by (simp add: client_view_def seen_def)
qed

text \<open>C1. The public listener as a whole implements its abstract specification: for every request whose path the mux
  does not redirect, the panic (none), the status and body the client sees, the cluster and the
  token buckets afterwards are those of \<open>public_spec\<close> for the request with its request ID on the
  context: 429 when its bucket is empty (500 when the refusal's provider is no label, so that the count
  panics), 404 and 405 by path and method, else the endpoint's answer.  Of the metrics library it is
  only assumed that it accepts valid UTF-8 labels, and that the request's method is a label
  (net/http only passes tokens on).\<close>

theorem public_meets_specification:
  assumes "fresh w" "utf8_labels env" "me_label_ok env (Method r)" "mux_path r = EscapedPath r"
    and "otel_transparent (OTel otel (ServiceName cfg))"
  shows "\<exists>c. ctx_reqid c = Some (request_id env r) \<and>
    view (buildPublicHandler otel redirect env cfg logger (Some (dispatch_handler u
      \<lparr>providers = [''jsm'' \<mapsto> jsm_New u jt mac pcfg], executor = Execute xenv ecfg, dlogger = lg, maxBodyBytes = n\<rparr> env))) r w s =
    map_option (Pair None)
      (public_spec u mac jt pcfg xenv ecfg n \<lparr>RPS = RateLimitRPS cfg, Burst = RateLimitBurst cfg\<rparr> env (WithContext c r)
        (wd_cluster s) (wd_limiters s))"
  by (rule public_refines [OF assms])

theorem public_meets_specification_witness:
  "\<exists>c x. ctx_reqid c = Some ''r1'' \<and>
     public_spec ex_uc ex_mac ex_jt ex_pcfg ex_jenv ex_cfg 1048576 \<lparr>RPS = Fin 100, Burst = 200\<rparr> ex_pmw
       (WithContext c (ex_request ex_body)) None Map.empty = Some x \<and> snd (snd (fst x)) = Some ex_applied"
proof -
  obtain r' w' s' where run: "ex_public (ex_request ex_body) ex_writer ex_pworld = Some (None, r', w', s')"
    "wd_cluster s' = Some ex_applied" using ex_public_run by blast
  have p: "mux_path (ex_request ex_body) = EscapedPath (ex_request ex_body)" by (simp add: mux_path_def ex_request_def ex_paths)
  obtain c where c: "ctx_reqid c = Some ''r1''" "view ex_public (ex_request ex_body) ex_writer ex_pworld =
      map_option (Pair None) (public_spec ex_uc ex_mac ex_jt ex_pcfg ex_jenv ex_cfg 1048576 \<lparr>RPS = Fin 100, Burst = 200\<rparr> ex_pmw
        (WithContext c (ex_request ex_body)) None Map.empty)"
    using public_meets_specification [OF ex_fresh ex_pmw_utf8 ex_labels(1) p ex_otel_transparent, where redirect = ex_redirect and cfg = default_config
        and logger = "NewLogger LevelInfo ''json''" and u = ex_uc and jt = ex_jt and mac = ex_mac and pcfg = ex_pcfg and xenv = ex_jenv
        and ecfg = ex_cfg and lg = "NewLogger LevelInfo ''json''" and n = 1048576 and s = ex_pworld]
    by (auto simp: ex_public_def ex_dispatcher_def ex_providers_def ex_provider_def ex_request_id ex_pworld_def)
      (auto simp: default_config_def)
  let ?x = "public_spec ex_uc ex_mac ex_jt ex_pcfg ex_jenv ex_cfg 1048576 \<lparr>RPS = Fin 100, Burst = 200\<rparr> ex_pmw
      (WithContext c (ex_request ex_body)) None Map.empty"
  have "map_option (Pair None) ?x = Some (None, (fst (seen w'), snd (seen w'), Some ex_applied), wd_limiters s')"
    using c(2) [symmetric] run by (simp add: view_def)
  then obtain x where "?x = Some x" "snd (snd (fst x)) = Some ex_applied" by auto
  then show ?thesis using c(1) by blast
qed

subsection \<open>Startup\<close>

definition ex_lib :: "(unit, client_object option) k8s_lib" where
  "ex_lib = \<lparr>BuildConfigFromFlags = (\<lambda>_. Inr ()), GetConfig = Inr (), NewWithWatch = (\<lambda>_. Inr ex_jclient),
     NewForConfig = (\<lambda>_. None)\<rparr>"

definition ex_registry :: registry where "ex_registry = [''jsm'' \<mapsto> factory ex_uc ex_jt ex_mac]"

text \<open>C16. A configuration that \<open>Load\<close> accepts never makes the dispatcher's constructor panic: when
  \<open>buildDispatcher\<close> gets past its errors, the dispatcher serves exactly the enabled providers, with
  the configured body limit, and the JSM provider verifies with the configured secret, headers and
  skew; the API group of the configuration is the one the types were compiled for.\<close>

theorem startup_never_panics:
  assumes "Load env = Inr cfg"
    and "buildDispatcher u lib [''jsm'' \<mapsto> factory u jt mac] env0 wall cfg lg = Inr x"
  shows "\<exists>d. x = Inr d \<and> dom (providers d) = set (EnabledProviders cfg) \<and> maxBodyBytes d = CfgMaxBodyBytes cfg \<and>
    APIGroup (CR cfg) = ''wiz.webhookd.io'' \<and>
    (\<forall>n p. providers d n = Some p \<longrightarrow> n = ''jsm'' \<and>
       (\<forall>now r body. prov_VerifySignature p now r body =
          Verify mac (SigningSecret cfg) (Header_Get (ReqHeader r) (SignatureHeader cfg))
            (Header_Get (ReqHeader r) (TimestampHeader cfg)) body now (TimestampSkew cfg)))"
  using assms(2)
proof (cases rule: buildDispatcher_Inr)
  case (1 cl ps)
  then obtain d where d: "x = Inr d" "maxBodyBytes d = CfgMaxBodyBytes cfg" "dom (providers d) = set (EnabledProviders cfg)"
    "\<forall>n p. providers d n = Some p \<longrightarrow> prov_Name p = n \<and> p \<in> set ps"
    using jsm_registry.dispatcher_ok [OF assms(1) 1(2)] by metis
  have made: "factory u jt mac cfg = Inr p" if "p \<in> set ps" for p
    using that 1(2) by (auto simp: Build_def build_loop_Inr list_all2_conv_all_nth in_set_conv_nth split: if_splits)
  have "n = ''jsm'' \<and> (\<forall>now r body. prov_VerifySignature p now r body =
          Verify mac (SigningSecret cfg) (Header_Get (ReqHeader r) (SignatureHeader cfg))
            (Header_Get (ReqHeader r) (TimestampHeader cfg)) body now (TimestampSkew cfg))"
    if "providers d n = Some p" for n p
  proof -
    have "prov_Name p = n" "factory u jt mac cfg = Inr p" using made [of p] d(4) that by blast+
    then show ?thesis by (auto simp: factory_def VerifySignature_def time_Now_def)
  qed
  then show ?thesis
    using d NewClients_group [OF 1(1)] by (simp add: GroupVersion_Group_def)
qed

lemma ex_build: "\<exists>x. buildDispatcher ex_uc ex_lib ex_registry ex_jenv ''now'' default_config (NewLogger LevelInfo ''json'') = Inr x"
  by (simp add: buildDispatcher_def NewClients_def loadRESTConfig_def ex_lib_def ex_registry_def Let_def Build_def
      factory_def default_config_def GroupVersion_Group_def)

theorem startup_never_panics_witness:
  "\<exists>d. buildDispatcher ex_uc ex_lib ex_registry ex_jenv ''now'' default_config (NewLogger LevelInfo ''json'') = Inr (Inr d) \<and>
     dom (providers d) = {''jsm''}"
proof -
  obtain x where x: "buildDispatcher ex_uc ex_lib [''jsm'' \<mapsto> factory ex_uc ex_jt ex_mac] ex_jenv ''now'' default_config (NewLogger LevelInfo ''json'') = Inr x"
    using ex_build by (auto simp: ex_registry_def)
  from startup_never_panics [OF ex_Load x] show ?thesis
    using x by (auto simp: ex_registry_def default_config_def)
qed

end
